(* ===== verification/Prelude.thy ===== *)
theory Prelude
  imports
    "HOL-Library.Word"
    "HOL-Library.Finite_Map"
    "HOL-Library.Char_ord"
    "HOL-Library.List_Lexorder"
    "HOL-Library.Signed_Division"
begin

text \<open>
  Shared vocabulary of the development: Go's \<open>int64\<close> as 64-bit words, Go strings as
  byte lists, Go maps as finite maps, the decimal formatting of \<open>strconv\<close>, the trimming
  of \<open>strings\<close>, and the lemma collections the component theories use.
\<close>

section \<open>Machine integers\<close>

text \<open>
  A Go \<open>int64\<close> is a 64-bit word: addition, subtraction and multiplication wrap as Go's do,
  and the comparison operators of the source are the signed ones. Block heights are plain
  \<open>int\<close>: they grow by one per block and stay far below the wrap-around.
\<close>

type_synonym i64 = "64 word"

abbreviation slt :: "i64 \<Rightarrow> i64 \<Rightarrow> bool" where
  "slt a b \<equiv> sint a < sint b"

abbreviation sle :: "i64 \<Rightarrow> i64 \<Rightarrow> bool" where
  "sle a b \<equiv> sint a \<le> sint b"

text \<open>Go's integer division truncates towards zero.\<close>

definition quot64 :: "i64 \<Rightarrow> i64 \<Rightarrow> i64" where
  "quot64 a b = word_of_int (sint a sdiv sint b)"

lemma sint64_range: "- (2 ^ 63) \<le> sint (x :: i64)" "sint (x :: i64) < 2 ^ 63"
  using sint_ge [of x] sint_lt [of x] by simp_all

lemma sint64_of_int:
  "- (2 ^ 63) \<le> i \<Longrightarrow> i < 2 ^ 63 \<Longrightarrow> sint (word_of_int i :: i64) = i"
  by (simp add: sint_sbintrunc' signed_take_bit_int_eq_self)

lemma sint64_add:
  fixes a b :: i64
  assumes "- (2 ^ 63) \<le> sint a + sint b" and "sint a + sint b < 2 ^ 63"
  shows "sint (a + b) = sint a + sint b"
proof -
  have "a + b = word_of_int (sint a + sint b)" by simp
  then show ?thesis using assms by (simp only: sint64_of_int)
qed

lemma sint64_diff:
  fixes a b :: i64
  assumes "- (2 ^ 63) \<le> sint a - sint b" and "sint a - sint b < 2 ^ 63"
  shows "sint (a - b) = sint a - sint b"
proof -
  have "a - b = word_of_int (sint a - sint b)" by simp
  then show ?thesis using assms by (simp only: sint64_of_int)
qed

lemma sint64_mult:
  fixes a b :: i64
  assumes "- (2 ^ 63) \<le> sint a * sint b" and "sint a * sint b < 2 ^ 63"
  shows "sint (a * b) = sint a * sint b"
proof -
  have "a * b = word_of_int (sint a * sint b)" by simp
  then show ?thesis using assms by (simp only: sint64_of_int)
qed

lemma div_le_dividend_int: "0 \<le> a \<Longrightarrow> 0 < b \<Longrightarrow> a div b \<le> (a :: int)"
  using zdiv_mono2 [of a 1 b] by simp

lemma sint_quot64_pos:
  fixes a b :: i64
  assumes "0 \<le> sint a" and "0 < sint b"
  shows "sint (quot64 a b) = sint a div sint b"
proof -
  have q: "sint a sdiv sint b = sint a div sint b"
    using assms by (simp add: signed_divide_int_def sgn_if)
  have "0 \<le> sint a div sint b" using assms by (simp add: pos_imp_zdiv_nonneg_iff)
  moreover have "sint a div sint b \<le> sint a" using assms by (simp add: div_le_dividend_int)
  ultimately show ?thesis using sint64_range [of a] q by (simp add: quot64_def sint64_of_int)
qed

lemma sint64_eqI: "sint a = sint b \<Longrightarrow> a = (b :: i64)"
  by (rule signed_word_eqI) simp

section \<open>Lemma collections\<close>

named_theorems ledger_simps \<open>equations of the account stores and of the reference ledger\<close>
named_theorems frame_simps \<open>fields that an operation of the chain leaves alone\<close>

section \<open>Finite maps with a default\<close>

definition fmget :: "'v \<Rightarrow> ('k, 'v) fmap \<Rightarrow> 'k \<Rightarrow> 'v" where
  "fmget d m k = (case fmlookup m k of None \<Rightarrow> d | Some v \<Rightarrow> v)"

lemma fmget_empty [simp]: "fmget d fmempty k = d"
  by (simp add: fmget_def)

lemma fmget_upd [simp]: "fmget d (fmupd k v m) k' = (if k = k' then v else fmget d m k')"
  by (simp add: fmget_def)

lemma fmget_Some [simp]: "fmlookup m k = Some v \<Longrightarrow> fmget d m k = v"
  by (simp add: fmget_def)

lemma fmget_None [simp]: "fmlookup m k = None \<Longrightarrow> fmget d m k = d"
  by (simp add: fmget_def)

lemma fmlookup_Some_fmdom: "fmlookup m k = Some v \<Longrightarrow> k |\<in>| fmdom m"
  by (rule fmdomI)

lemma fcard_fmdrop_less: "fmlookup m k = Some v \<Longrightarrow> fcard (fmdom (fmdrop k m)) < fcard (fmdom m)"
  using fcard_fminus1_less [OF fmdomI, of m k v] by (simp only: fmdom_drop)

lemma fmdrop_SomeD: "fmlookup (fmdrop a m) k = Some b \<Longrightarrow> fmlookup m k = Some b \<and> k \<noteq> a"
  by (simp split: if_splits)

section \<open>Decimal formatting (strconv.FormatInt, base 10)\<close>

definition digit_char :: "nat \<Rightarrow> char" where
  "digit_char d = char_of (48 + d)"

definition is_digit :: "char \<Rightarrow> bool" where
  "is_digit c \<longleftrightarrow> 48 \<le> (of_char c :: nat) \<and> (of_char c :: nat) \<le> 57"

fun fmt_nat :: "nat \<Rightarrow> string" where
  "fmt_nat n = (if n < 10 then [digit_char n] else fmt_nat (n div 10) @ [digit_char (n mod 10)])"

declare fmt_nat.simps [simp del]

definition fmt_int :: "int \<Rightarrow> string" where
  "fmt_int i = (if i < 0 then CHR ''-'' # fmt_nat (nat (- i)) else fmt_nat (nat i))"

text \<open>The reader of decimal digits: \<open>None\<close> on an empty string or a foreign character.\<close>

fun digits_val :: "nat \<Rightarrow> string \<Rightarrow> nat option" where
  "digits_val acc [] = Some acc"
| "digits_val acc (c # cs) =
     (if is_digit c then digits_val (acc * 10 + (of_char c - 48)) cs else None)"

definition parse_nat :: "string \<Rightarrow> nat option" where
  "parse_nat s = (if s = [] then None else digits_val 0 s)"

lemma of_char_digit_char [simp]: "d < 10 \<Longrightarrow> (of_char (digit_char d) :: nat) = 48 + d"
  by (simp add: digit_char_def)

lemma is_digit_digit_char [simp]: "d < 10 \<Longrightarrow> is_digit (digit_char d)"
  by (simp add: is_digit_def)

lemma digits_val_append:
  "digits_val acc (xs @ ys) =
     (case digits_val acc xs of None \<Rightarrow> None | Some v \<Rightarrow> digits_val v ys)"
  by (induction xs arbitrary: acc) auto

lemma fmt_nat_nonempty [simp]: "fmt_nat n \<noteq> []"
  by (subst fmt_nat.simps) simp

lemma fmt_nat_digits: "\<forall>c \<in> set (fmt_nat n). is_digit c"
proof (induction n rule: fmt_nat.induct)
  case (1 n)
  then show ?case by (subst fmt_nat.simps) auto
qed

lemma digits_val_fmt_nat: "digits_val 0 (fmt_nat n) = Some n"
proof (induction n rule: fmt_nat.induct)
  case (1 n)
  then show ?case by (subst fmt_nat.simps) (auto simp: digits_val_append)
qed

lemma parse_fmt_nat: "parse_nat (fmt_nat n) = Some n"
  by (simp add: parse_nat_def digits_val_fmt_nat)

lemma fmt_nat_inject [simp]: "fmt_nat m = fmt_nat n \<longleftrightarrow> m = n"
  by (metis parse_fmt_nat option.inject)

lemma fmt_nat_hd: "is_digit (hd (fmt_nat n))"
  using fmt_nat_digits [of n] fmt_nat_nonempty [of n] by (meson hd_in_set)

lemma fmt_nat_no_minus: "fmt_nat n \<noteq> CHR ''-'' # cs"
proof
  assume "fmt_nat n = CHR ''-'' # cs"
  then have "is_digit (CHR ''-'')" using fmt_nat_hd [of n] by simp
  then show False by (simp add: is_digit_def)
qed

lemma fmt_int_inject [simp]: "fmt_int i = fmt_int j \<longleftrightarrow> i = j"
  using fmt_nat_no_minus [of "nat i"] fmt_nat_no_minus [of "nat j"]
  by (auto simp: fmt_int_def dest: sym)

lemma fmt_int_chars: "c \<in> set (fmt_int i) \<Longrightarrow> is_digit c \<or> c = CHR ''-''"
  using fmt_nat_digits by (auto simp: fmt_int_def split: if_splits)

lemma fmt_int_nonempty [simp]: "fmt_int i \<noteq> []"
  by (simp add: fmt_int_def)

text \<open>
  A decimal number followed by a character that is no part of a number can be split off:
  the encodings of the program always end a number with a separator.
\<close>

lemma takeWhile_until:
  "\<forall>c \<in> set xs. P c \<Longrightarrow> \<not> P d \<Longrightarrow> takeWhile P (xs @ d # ys) = xs"
  by (induction xs) auto

lemma split_at_separator:
  assumes "xs @ d # ys = xs' @ d # ys'"
    and "\<forall>c \<in> set xs. P c" and "\<forall>c \<in> set xs'. P c" and "\<not> P d"
  shows "xs = xs' \<and> ys = ys'"
proof -
  have "takeWhile P (xs @ d # ys) = xs" using assms(2,4) by (rule takeWhile_until)
  moreover have "takeWhile P (xs' @ d # ys') = xs'" using assms(3,4) by (rule takeWhile_until)
  ultimately have "xs = xs'" using assms(1) by simp
  with assms(1) show ?thesis by simp
qed

definition num_char :: "char \<Rightarrow> bool" where
  "num_char c \<longleftrightarrow> is_digit c \<or> c = CHR ''-''"

lemma fmt_int_separated:
  assumes "fmt_int i @ d # ys = fmt_int j @ d # ys'" and "\<not> num_char d"
  shows "i = j \<and> ys = ys'"
proof -
  have "\<forall>c \<in> set (fmt_int k). num_char c" for k
    using fmt_int_chars by (auto simp: num_char_def)
  then show ?thesis using split_at_separator [OF assms(1), of num_char] assms(2) by auto
qed

section \<open>Strings (package strings, ASCII white space)\<close>

definition is_space :: "char \<Rightarrow> bool" where
  "is_space c \<longleftrightarrow> c = CHR '' '' \<or> (9 \<le> (of_char c :: nat) \<and> (of_char c :: nat) \<le> 13)"

definition trim_space :: "string \<Rightarrow> string" where
  "trim_space s = rev (dropWhile is_space (rev (dropWhile is_space s)))"

lemma trim_space_Nil [simp]: "trim_space [] = []"
  by (simp add: trim_space_def)

lemma dropWhile_id: "xs = [] \<or> \<not> P (hd xs) \<Longrightarrow> dropWhile P xs = xs"
  by (cases xs) auto

lemma hd_dropWhile_rev:
  "ys \<noteq> [] \<Longrightarrow> \<not> P (hd ys) \<Longrightarrow> rev (dropWhile P (rev ys)) \<noteq> [] \<and>
     hd (rev (dropWhile P (rev ys))) = hd ys"
proof (induction ys rule: rev_induct)
  case Nil
  then show ?case by simp
next
  case (snoc y ys)
  then show ?case by (cases ys) auto
qed

lemma trim_space_idem [simp]: "trim_space (trim_space s) = trim_space s"
proof -
  let ?d = "dropWhile is_space s"
  let ?t = "rev (dropWhile is_space (rev ?d))"
  have "?t = [] \<or> \<not> is_space (hd ?t)"
  proof (cases "?d = []")
    case False
    then have "\<not> is_space (hd ?d)" by (rule hd_dropWhile)
    with False show ?thesis using hd_dropWhile_rev [of ?d is_space] by metis
  next
    case True
    then show ?thesis by (simp only: rev.simps dropWhile.simps simp_thms)
  qed
  then have 1: "dropWhile is_space ?t = ?t" by (rule dropWhile_id)
  have "dropWhile is_space (rev ?t) = rev ?t"
    using hd_dropWhile [of is_space "rev ?d"] by (intro dropWhile_id) auto
  with 1 show ?thesis by (simp add: trim_space_def)
qed

definition has_prefix :: "string \<Rightarrow> string \<Rightarrow> bool" where
  "has_prefix p s \<longleftrightarrow> take (length p) s = p"

end
