(* ===== verification/Codec.thy ===== *)
theory Codec
  imports Prelude
begin

text \<open>
  The byte encodings the program hashes, signs and stores: the standard library's
  hexadecimal codec (\<open>encoding/hex\<close>) and the string and object encoding of
  \<open>encoding/json\<close> as \<open>json.Marshal\<close> produces them, the gossip layer's own decimal
  printer \<open>itoa64\<close>, and the locale of a prefix-free encoding with its instances.
\<close>

section \<open>The interface of a self-delimiting encoding\<close>

text \<open>
  A writer \<open>enc\<close> whose output can be read back from the front of a longer string: the
  reader returns the value and the rest. Every such encoding is injective, also as the
  leading part of a longer message, which is what makes a hash or a signature over the
  message commit to the value.
\<close>

locale self_delimiting =
  fixes enc :: "'a \<Rightarrow> string"
    and dec :: "string \<Rightarrow> ('a \<times> string) option"
    and valid :: "'a \<Rightarrow> bool"
  assumes dec_enc: "valid x \<Longrightarrow> dec (enc x @ rest) = Some (x, rest)"
begin

lemma enc_prefix_free:
  assumes "valid x" and "valid y" and "enc x @ r = enc y @ s"
  shows "x = y \<and> r = s"
  by (metis assms dec_enc option.inject prod.inject)

lemma enc_inj: "valid x \<Longrightarrow> valid y \<Longrightarrow> enc x = enc y \<Longrightarrow> x = y"
  by (metis enc_prefix_free)

text \<open>Sequences of values are decoded one by one.\<close>

lemma enc_list_prefix_free:
  "\<forall>x \<in> set xs. valid x \<Longrightarrow> \<forall>y \<in> set ys. valid y \<Longrightarrow> length xs = length ys \<Longrightarrow>
     concat (map enc xs) @ r = concat (map enc ys) @ s \<Longrightarrow> xs = ys \<and> r = s"
proof (induction xs arbitrary: ys)
  case Nil
  then show ?case by simp
next
  case (Cons x xs)
  then obtain y ys' where ys: "ys = y # ys'" by (cases ys) auto
  with Cons.prems have "enc x @ (concat (map enc xs) @ r) = enc y @ (concat (map enc ys') @ s)"
    by simp
  moreover have "valid x" and "valid y" using Cons.prems ys by simp_all
  ultimately have "x = y" and "concat (map enc xs) @ r = concat (map enc ys') @ s"
    using enc_prefix_free [of x y] by blast+
  with Cons.prems ys Cons.IH [of ys'] show ?case by simp
qed

end

section \<open>Hexadecimal (encoding/hex)\<close>

definition hex_digit :: "nat \<Rightarrow> char" where
  "hex_digit d = (if d < 10 then char_of (48 + d) else char_of (87 + d))"

definition hex_val :: "char \<Rightarrow> nat option" where
  "hex_val c = (let n = (of_char c :: nat) in
     if 48 \<le> n \<and> n \<le> 57 then Some (n - 48)
     else if 97 \<le> n \<and> n \<le> 102 then Some (n - 87)
     else if 65 \<le> n \<and> n \<le> 70 then Some (n - 55)
     else None)"

definition hex_byte :: "char \<Rightarrow> string" where
  "hex_byte c = [hex_digit (of_char c div 16), hex_digit (of_char c mod 16)]"

definition hex_encode :: "string \<Rightarrow> string" where
  "hex_encode s = concat (map hex_byte s)"

text \<open>\<open>hex.DecodeString\<close>: an odd length or a character that is no hex digit is an error.\<close>

fun hex_decode :: "string \<Rightarrow> string option" where
  "hex_decode [] = Some []"
| "hex_decode [c] = None"
| "hex_decode (c # d # cs) =
     (case (hex_val c, hex_val d) of
        (Some x, Some y) \<Rightarrow> map_option (Cons (char_of (16 * x + y))) (hex_decode cs)
      | _ \<Rightarrow> None)"

definition dec_hex_byte :: "string \<Rightarrow> (char \<times> string) option" where
  "dec_hex_byte s = (case s of
     c # d # cs \<Rightarrow> (case (hex_val c, hex_val d) of
        (Some x, Some y) \<Rightarrow> Some (char_of (16 * x + y), cs) | _ \<Rightarrow> None)
   | _ \<Rightarrow> None)"

lemma hex_val_digit [simp]: "d < 16 \<Longrightarrow> hex_val (hex_digit d) = Some d"
  by (auto simp: hex_val_def hex_digit_def Let_def)

lemma of_char_less_256 [simp]: "(of_char c :: nat) < 256"
  using of_char_mod_256 [of c] by (metis mod_less_divisor zero_less_numeral)

lemma of_char_div_16 [simp]: "(of_char c :: nat) div 16 < 16"
  using of_char_less_256 [of c] by (simp add: less_mult_imp_div_less)

lemma char_of_hex_parts [simp]:
  "char_of (16 * ((of_char c :: nat) div 16) + of_char c mod 16) = c"
  by (simp only: mult_div_mod_eq char_of_char)

interpretation hexb: self_delimiting hex_byte dec_hex_byte "\<lambda>_. True"
  by unfold_locales (simp add: hex_byte_def dec_hex_byte_def)

lemma hex_decode_encode: "hex_decode (hex_encode s) = Some s"
  by (induction s) (simp_all add: hex_encode_def hex_byte_def)

lemma length_hex_encode [simp]: "length (hex_encode s) = 2 * length s"
  by (induction s) (simp_all add: hex_encode_def hex_byte_def)

lemma hex_encode_inject [simp]: "hex_encode s = hex_encode t \<longleftrightarrow> s = t"
  by (metis hex_decode_encode option.inject)

lemma hex_encode_append [simp]: "hex_encode (s @ t) = hex_encode s @ hex_encode t"
  by (simp add: hex_encode_def)

lemma hex_encode_Nil_iff [simp]: "hex_encode s = [] \<longleftrightarrow> s = []"
  by (cases s) (simp_all add: hex_encode_def hex_byte_def)

lemma take_hex_encode: "take (2 * n) (hex_encode s) = hex_encode (take n s)"
proof (induction s arbitrary: n)
  case Nil
  then show ?case by (simp add: hex_encode_def)
next
  case (Cons c s)
  then show ?case by (cases n) (simp_all add: hex_encode_def hex_byte_def)
qed

text \<open>
  Decoding ignores the case of the digits, so one byte string has several spellings.
  \<open>hex_upper\<close> is the all-upper-case spelling.
\<close>

definition upper_hex_digit :: "char \<Rightarrow> char" where
  "upper_hex_digit c = (let n = (of_char c :: nat) in
     if 97 \<le> n \<and> n \<le> 102 then char_of (n - 32) else c)"

definition hex_upper :: "string \<Rightarrow> string" where
  "hex_upper s = map upper_hex_digit s"

lemma hex_val_upper [simp]: "hex_val (upper_hex_digit c) = hex_val c"
  by (auto simp: hex_val_def upper_hex_digit_def Let_def)

lemma hex_decode_upper: "hex_decode (hex_upper s) = hex_decode s"
  by (induction s rule: hex_decode.induct) (auto simp: hex_upper_def split: option.splits)

lemma hex_upper_Nil_iff [simp]: "hex_upper s = [] \<longleftrightarrow> s = []"
  by (simp add: hex_upper_def)

lemma length_hex_upper [simp]: "length (hex_upper s) = length s"
  by (simp add: hex_upper_def)

section \<open>JSON strings (encoding/json, HTML escaping on)\<close>

text \<open>
  \<open>utf8_len s\<close> is the length of the well-formed UTF-8 sequence at the front of \<open>s\<close>, 0 if
  there is none (\<open>utf8.DecodeRuneInString\<close> then reports \<open>RuneError\<close> of width 1).
\<close>

definition cont_byte :: "nat \<Rightarrow> nat \<Rightarrow> char \<Rightarrow> bool" where
  "cont_byte lo hi c \<longleftrightarrow> lo \<le> (of_char c :: nat) \<and> (of_char c :: nat) \<le> hi"

fun utf8_len :: "string \<Rightarrow> nat" where
  "utf8_len [] = 0"
| "utf8_len (c # cs) = (let n = (of_char c :: nat) in
     if n < 128 then 1
     else if 194 \<le> n \<and> n \<le> 223 then
       (case cs of a # _ \<Rightarrow> if cont_byte 128 191 a then 2 else 0 | _ \<Rightarrow> 0)
     else if 224 \<le> n \<and> n \<le> 239 then
       (case cs of a # b # _ \<Rightarrow>
          if cont_byte (if n = 224 then 160 else 128) (if n = 237 then 159 else 191) a
             \<and> cont_byte 128 191 b then 3 else 0 | _ \<Rightarrow> 0)
     else if 240 \<le> n \<and> n \<le> 244 then
       (case cs of a # b # d # _ \<Rightarrow>
          if cont_byte (if n = 240 then 144 else 128) (if n = 244 then 143 else 191) a
             \<and> cont_byte 128 191 b \<and> cont_byte 128 191 d then 4 else 0 | _ \<Rightarrow> 0)
     else 0)"

definition html_safe :: "nat \<Rightarrow> bool" where
  "html_safe n \<longleftrightarrow> 32 \<le> n \<and> n < 128 \<and> n \<noteq> 34 \<and> n \<noteq> 92 \<and> n \<noteq> 60 \<and> n \<noteq> 62 \<and> n \<noteq> 38"

definition esc_ascii :: "char \<Rightarrow> string" where
  "esc_ascii c = (let n = (of_char c :: nat) in
     if html_safe n then [c]
     else if n = 92 \<or> n = 34 then [CHR 0x5C, c]
     else if n = 8 then [CHR 0x5C, CHR ''b'']
     else if n = 12 then [CHR 0x5C, CHR ''f'']
     else if n = 10 then [CHR 0x5C, CHR ''n'']
     else if n = 13 then [CHR 0x5C, CHR ''r'']
     else if n = 9 then [CHR 0x5C, CHR ''t'']
     else [CHR 0x5C, CHR ''u'', CHR ''0'', CHR ''0'', hex_digit (n div 16), hex_digit (n mod 16)])"

function json_escape :: "string \<Rightarrow> string" where
  "json_escape s = (case s of
     [] \<Rightarrow> []
   | c # cs \<Rightarrow>
       if (of_char c :: nat) < 128 then esc_ascii c @ json_escape cs
       else (let k = utf8_len s in
         if k = 0 then CHR 0x5C # ''ufffd'' @ json_escape cs
         else if take 3 s = [CHR 0xE2, CHR 0x80, CHR 0xA8] then CHR 0x5C # ''u2028'' @ json_escape (drop 3 s)
         else if take 3 s = [CHR 0xE2, CHR 0x80, CHR 0xA9] then CHR 0x5C # ''u2029'' @ json_escape (drop 3 s)
         else take k s @ json_escape (drop k s)))"
  by pat_completeness auto
termination
  by (relation "measure length") auto

declare json_escape.simps [simp del]

definition json_string :: "string \<Rightarrow> string" where
  "json_string s = CHR 0x22 # json_escape s @ [CHR 0x22]"

text \<open>An object: the fields in order, each a name and its encoded value.\<close>

definition json_field :: "string \<times> string \<Rightarrow> string" where
  "json_field kv = json_string (fst kv) @ '':'' @ snd kv"

fun json_commas :: "string list \<Rightarrow> string" where
  "json_commas [] = []"
| "json_commas [x] = x"
| "json_commas (x # xs) = x @ '','' @ json_commas xs"

definition json_object :: "(string \<times> string) list \<Rightarrow> string" where
  "json_object kvs = ''{'' @ json_commas (map json_field kvs) @ ''}''"

definition json_array :: "string list \<Rightarrow> string" where
  "json_array xs = ''['' @ json_commas xs @ '']''"

definition json_int :: "int \<Rightarrow> string" where
  "json_int i = fmt_int i"

section \<open>Reading an escaped character back\<close>

definition unesc_char :: "string \<Rightarrow> (char \<times> string) option" where
  "unesc_char s = (case s of
     [] \<Rightarrow> None
   | c # cs \<Rightarrow>
       if c \<noteq> CHR 0x5C then Some (c, cs)
       else (case cs of
          [] \<Rightarrow> None
        | d # ds \<Rightarrow>
            if d = CHR ''b'' then Some (char_of (8::nat), ds)
            else if d = CHR ''f'' then Some (char_of (12::nat), ds)
            else if d = CHR ''n'' then Some (char_of (10::nat), ds)
            else if d = CHR ''r'' then Some (char_of (13::nat), ds)
            else if d = CHR ''t'' then Some (char_of (9::nat), ds)
            else if d = CHR ''u'' then
              (case drop 2 ds of
                 x # y # es \<Rightarrow> (case (hex_val x, hex_val y) of
                    (Some a, Some b) \<Rightarrow> Some (char_of (16 * a + b), es) | _ \<Rightarrow> None)
               | _ \<Rightarrow> None)
            else Some (d, ds)))"

lemma unesc_hex_escape:
  "n < 128 \<Longrightarrow> unesc_char ([CHR 0x5C, CHR ''u'', CHR ''0'', CHR ''0'', hex_digit (n div 16),
     hex_digit (n mod 16)] @ rest) = Some (char_of n, rest)"
  by (simp add: unesc_char_def)

lemma char_of_backslash [simp]: "(char_of (92 :: nat) :: char) = CHR 0x5C"
  and char_of_quote [simp]: "(char_of (34 :: nat) :: char) = CHR 0x22"
  by (simp_all add: char_of_def bit_0)

lemma unesc_esc_ascii:
  assumes "(of_char c :: nat) < 128"
  shows "unesc_char (esc_ascii c @ rest) = Some (c, rest)"
proof -
  define n where "n = (of_char c :: nat)"
  have c: "c = char_of n" by (simp add: n_def)
  consider "html_safe n" | "n = 92" | "n = 34" | "n = 8" | "n = 12" | "n = 10" | "n = 13" | "n = 9"
    | "\<not> html_safe n" "n \<notin> {92, 34, 8, 12, 10, 13, 9}" by auto
  then show ?thesis
  proof cases
    case 1
    then have "c \<noteq> CHR 0x5C" by (auto simp: html_safe_def n_def)
    with 1 show ?thesis by (simp add: esc_ascii_def unesc_char_def n_def)
  next
    case 9
    then have "esc_ascii c = [CHR 0x5C, CHR ''u'', CHR ''0'', CHR ''0'', hex_digit (n div 16), hex_digit (n mod 16)]"
      by (simp add: esc_ascii_def n_def Let_def)
    then show ?thesis using unesc_hex_escape [of n rest] assms by (simp add: n_def)
  qed (simp_all add: esc_ascii_def unesc_char_def html_safe_def c)
qed

interpretation esc: self_delimiting esc_ascii unesc_char "\<lambda>c. (of_char c :: nat) < 128"
  by unfold_locales (rule unesc_esc_ascii)

lemma json_escape_Nil [simp]: "json_escape [] = []"
  by (simp add: json_escape.simps)

lemma esc_ascii_nonempty [simp]: "esc_ascii c \<noteq> []"
  by (simp add: esc_ascii_def Let_def)

section \<open>The gossip layer's decimal printer\<close>

text \<open>
  \<open>itoa64\<close> of \<open>internal/mesh/gossip.go\<close>: the sign is split off, then the digits are written
  from the right. The loop runs while the (signed) value is positive.
\<close>

function itoa64_loop :: "i64 \<Rightarrow> string \<Rightarrow> string" where
  "itoa64_loop v buf =
     (if slt 0 v then itoa64_loop (quot64 v 10) (digit_char (nat (sint v smod 10)) # buf) else buf)"
  by pat_completeness auto
termination
proof (relation "measure (\<lambda>(v, buf). nat (sint v))")
  fix v :: i64 and buf :: string
  assume "slt 0 v"
  then have pos: "0 < sint v" by simp
  then have "sint (quot64 v 10) = sint v div 10"
    by (simp add: sint_quot64_pos)
  with pos show "((quot64 v 10, digit_char (nat (sint v smod 10)) # buf), v, buf)
      \<in> measure (\<lambda>(v, buf). nat (sint v))"
    by simp
qed simp

definition itoa64 :: "i64 \<Rightarrow> string" where
  "itoa64 v0 =
     (if v0 = 0 then ''0''
      else let neg = slt v0 0;
               v = (if neg then - v0 else v0);
               buf = itoa64_loop v []
           in if neg then CHR ''-'' # buf else buf)"

declare itoa64_loop.simps [simp del]

lemma itoa64_loop_pos:
  "slt 0 v \<Longrightarrow> itoa64_loop v buf = fmt_nat (nat (sint v)) @ buf"
proof (induction v buf rule: itoa64_loop.induct)
  case (1 v buf)
  let ?q = "quot64 v 10" and ?d = "digit_char (nat (sint v smod 10))"
  have q: "sint ?q = sint v div 10" using "1.prems" by (simp add: sint_quot64_pos)
  have d: "sint v smod 10 = sint v mod 10" using "1.prems" by (simp add: signed_modulo_int_def)
  have n: "nat (sint v) div 10 = nat (sint ?q)" "nat (sint v) mod 10 = nat (sint v smod 10)"
    using "1.prems" q d by (simp_all add: nat_div_distrib nat_mod_distrib)
  have step: "itoa64_loop v buf = itoa64_loop ?q (?d # buf)"
    using "1.prems" by (subst itoa64_loop.simps) simp
  show ?case
  proof (cases "slt 0 ?q")
    case True
    then have "\<not> nat (sint v) < 10" using q by simp
    then have "fmt_nat (nat (sint v)) = fmt_nat (nat (sint ?q)) @ [?d]"
      by (subst fmt_nat.simps) (simp add: n)
    then show ?thesis using step "1.IH" [OF "1.prems" True] by simp
  next
    case False
    then have "itoa64_loop ?q (?d # buf) = ?d # buf" by (subst itoa64_loop.simps) simp
    moreover have small: "nat (sint v) < 10" using False q by simp
    moreover have "nat (sint v smod 10) = nat (sint v)" using small n(2) by simp
    ultimately show ?thesis using step by (simp add: fmt_nat.simps [of "nat (sint v)"])
  qed
qed

lemma sint64_uminus: "sint v \<noteq> - (2 ^ 63) \<Longrightarrow> sint (- v :: i64) = - sint v"
  using sint64_diff [of 0 v] sint64_range [of v] by simp

text \<open>
  The printer agrees with \<open>strconv.FormatInt\<close> except on the least \<open>int64\<close>: there \<open>-v\<close> wraps to
  itself, the digit loop does not start, and only the sign is written.
\<close>

lemma itoa64_eq: "itoa64 v = (if sint v = - (2 ^ 63) then ''-'' else fmt_int (sint v))"
proof -
  consider (zero) "v = 0" | (pos) "slt 0 v" | (min) "sint v = - (2 ^ 63)"
    | (neg) "slt v 0" "sint v \<noteq> - (2 ^ 63)"
    by (metis linorder_cases sint64_eqI sint_0)
  then show ?thesis
  proof cases
    case zero
    then show ?thesis by (simp add: itoa64_def fmt_int_def fmt_nat.simps digit_char_def char_of_def bit_0)
  next
    case pos
    then have "v \<noteq> 0" by auto
    with pos show ?thesis by (simp add: itoa64_def fmt_int_def itoa64_loop_pos)
  next
    case min
    then have "v = - (2 ^ 63)" by (intro sint64_eqI) simp
    then show ?thesis by (simp add: itoa64_def itoa64_loop.simps)
  next
    case neg
    then have "sint (- v) = - sint v" by (simp add: sint64_uminus)
    moreover have "v \<noteq> 0" using neg by auto
    ultimately show ?thesis using neg by (simp add: itoa64_def fmt_int_def itoa64_loop_pos)
  qed
qed

end
