(* ===== verification/Runes.thy ===== *)
theory Runes
  imports Codec
begin

text \<open>
  What a JSON string keeps of the bytes it encodes (\<open>encoding/json\<close>, \<open>unicode/utf8\<close>): the text as
  Go's range loop reads it, a list of well-formed UTF-8 sequences in which a byte that belongs to
  none is \<open>None\<close>. The encoding of a string is read back to exactly this list.
\<close>

section \<open>Runes\<close>

function utf8_runes :: "string \<Rightarrow> string option list" where
  "utf8_runes s = (case s of [] \<Rightarrow> []
     | c # cs \<Rightarrow> if utf8_len s = 0 then None # utf8_runes cs
         else Some (take (utf8_len s) s) # utf8_runes (drop (utf8_len s) s))"
  by pat_completeness auto
termination
  by (relation "measure length") auto

declare utf8_runes.simps [simp del]

lemma utf8_runes_Nil [simp]: "utf8_runes [] = []"
  by (simp add: utf8_runes.simps)

text \<open>A text all of whose bytes belong to a well-formed sequence.\<close>

definition valid_utf8 :: "string \<Rightarrow> bool" where
  "valid_utf8 s \<longleftrightarrow> None \<notin> set (utf8_runes s)"

lemma valid_utf8_runes: "valid_utf8 s \<Longrightarrow> concat (map the (utf8_runes s)) = s"
proof (induction s rule: utf8_runes.induct)
  case (1 s)
  show ?case
  proof (cases s)
    case (Cons c cs)
    have u: "utf8_runes s = (if utf8_len s = 0 then None # utf8_runes cs
        else Some (take (utf8_len s) s) # utf8_runes (drop (utf8_len s) s))"
      using Cons by (subst utf8_runes.simps) simp
    then have k: "utf8_len s \<noteq> 0" using 1(3) by (auto simp: valid_utf8_def split: if_splits)
    then have "valid_utf8 (drop (utf8_len s) s)" using 1(3) u by (simp add: valid_utf8_def)
    then show ?thesis using 1(2) [OF Cons k] u k by simp
  qed simp
qed

lemma valid_utf8_inject: "valid_utf8 s \<Longrightarrow> valid_utf8 t \<Longrightarrow> utf8_runes s = utf8_runes t \<longleftrightarrow> s = t"
  by (metis valid_utf8_runes)

lemma utf8_runes_Nil_iff [simp]: "utf8_runes s = [] \<longleftrightarrow> s = []"
  by (cases s) (simp_all add: utf8_runes.simps)

lemma valid_utf8_ascii: "\<forall>c \<in> set s. (of_char c :: nat) < 128 \<Longrightarrow> valid_utf8 s"
proof (induction s)
  case (Cons c s)
  then have "utf8_runes (c # s) = Some [c] # utf8_runes s" by (subst utf8_runes.simps) simp
  then show ?case using Cons by (simp add: valid_utf8_def)
qed (simp add: valid_utf8_def)

section \<open>The encoding of a rune\<close>

text \<open>\<open>utf8_len\<close> looks at the sequence it measures only.\<close>

definition rune_ok :: "string option \<Rightarrow> bool" where
  "rune_ok r = (case r of None \<Rightarrow> True | Some p \<Rightarrow> p \<noteq> [] \<and> utf8_len p = length p)"

lemma utf8_len_le: "utf8_len s \<le> length s"
  by (cases s) (auto simp: Let_def split: list.split)

lemma utf8_len_take:
  assumes "utf8_len s \<noteq> 0"
  shows "utf8_len (take (utf8_len s) s @ r) = utf8_len s"
proof (cases s)
  case (Cons c cs)
  consider "cs = []" | a where "cs = [a]" | a b where "cs = [a, b]" | a b d ds where "cs = a # b # d # ds"
    by (metis list.exhaust)
  then show ?thesis
    using assms unfolding Cons by cases (auto simp: Let_def split: if_splits)
qed (use assms in simp)

lemma utf8_len_ascii: "utf8_len (c # cs) = 1 \<longleftrightarrow> (of_char c :: nat) < 128"
  by (auto simp: Let_def split: list.splits if_splits)

lemma runes_ok: "\<forall>r \<in> set (utf8_runes s). rune_ok r"
proof (induction s rule: utf8_runes.induct)
  case (1 s)
  show ?case
  proof (cases s)
    case (Cons c cs)
    let ?k = "utf8_len s"
    have u: "utf8_runes s = (if ?k = 0 then None # utf8_runes cs else Some (take ?k s) # utf8_runes (drop ?k s))"
      using Cons by (subst utf8_runes.simps) simp
    show ?thesis
    proof (cases "?k = 0")
      case True
      then show ?thesis using 1(1) [OF Cons] u by (simp add: rune_ok_def)
    next
      case False
      then have "rune_ok (Some (take ?k s))"
        using utf8_len_take [OF False, of "[]"] utf8_len_le [of s] Cons by (simp add: rune_ok_def min_absorb2)
      then show ?thesis using 1(2) [OF Cons False] u False by simp
    qed
  qed simp
qed

definition rune_esc :: "string option \<Rightarrow> string" where
  "rune_esc r = (case r of None \<Rightarrow> CHR 0x5C # ''ufffd''
     | Some p \<Rightarrow> if length p = 1 then esc_ascii (hd p)
         else if p = [CHR 0xE2, CHR 0x80, CHR 0xA8] then CHR 0x5C # ''u2028''
         else if p = [CHR 0xE2, CHR 0x80, CHR 0xA9] then CHR 0x5C # ''u2029''
         else p)"

lemma rune_esc_simps:
  "rune_esc None = CHR 0x5C # ''ufffd''"
  "rune_esc (Some p) = (if length p = 1 then esc_ascii (hd p)
     else if p = [CHR 0xE2, CHR 0x80, CHR 0xA8] then CHR 0x5C # ''u2028''
     else if p = [CHR 0xE2, CHR 0x80, CHR 0xA9] then CHR 0x5C # ''u2029''
     else p)"
  by (simp_all add: rune_esc_def)

lemma utf8_len_sep: "utf8_len (CHR 0xE2 # CHR 0x80 # CHR 0xA8 # s) = 3" "utf8_len (CHR 0xE2 # CHR 0x80 # CHR 0xA9 # s) = 3"
  by (simp_all add: cont_byte_def)

lemma take3_sep:
  assumes "take 3 s = [CHR 0xE2, CHR 0x80, x]" and "x = CHR 0xA8 \<or> x = CHR 0xA9"
  shows "utf8_len s = 3"
proof -
  have "s = take 3 s @ drop 3 s" by simp
  then have "s = CHR 0xE2 # CHR 0x80 # x # drop 3 s" using assms(1) by simp
  then show ?thesis using assms(2) utf8_len_sep by metis
qed

lemma json_escape_runes: "json_escape s = concat (map rune_esc (utf8_runes s))"
proof (induction s rule: utf8_runes.induct)
  case (1 s)
  show ?case
  proof (cases s)
    case (Cons c cs)
    let ?k = "utf8_len s"
    have u: "utf8_runes s = (if ?k = 0 then None # utf8_runes cs else Some (take ?k s) # utf8_runes (drop ?k s))"
      using Cons by (subst utf8_runes.simps) simp
    have j: "json_escape s = (if (of_char c :: nat) < 128 then esc_ascii c @ json_escape cs
        else if ?k = 0 then CHR 0x5C # ''ufffd'' @ json_escape cs
        else if take 3 s = [CHR 0xE2, CHR 0x80, CHR 0xA8] then CHR 0x5C # ''u2028'' @ json_escape (drop 3 s)
        else if take 3 s = [CHR 0xE2, CHR 0x80, CHR 0xA9] then CHR 0x5C # ''u2029'' @ json_escape (drop 3 s)
        else take ?k s @ json_escape (drop ?k s))"
      using Cons by (subst json_escape.simps) (simp only: list.case Let_def)
    consider (ascii) "(of_char c :: nat) < 128" | (bad) "\<not> (of_char c :: nat) < 128" "?k = 0"
      | (multi) "\<not> (of_char c :: nat) < 128" "?k \<noteq> 0" by blast
    then show ?thesis
    proof cases
      case ascii
      then have "?k = 1" using utf8_len_ascii Cons by metis
      then show ?thesis using ascii 1(2) [OF Cons] u j Cons by (simp add: rune_esc_simps)
    next
      case bad
      then show ?thesis using 1(1) [OF Cons] u j by (simp add: rune_esc_simps)
    next
      case multi
      have len: "length (take ?k s) = ?k" "?k \<noteq> 1"
        using utf8_len_le [of s] multi(1) utf8_len_ascii Cons by (simp, metis)
      have e: "json_escape (drop ?k s) = concat (map rune_esc (utf8_runes (drop ?k s)))"
        by (rule 1(2) [OF Cons multi(2)])
      show ?thesis
      proof (cases "take 3 s = [CHR 0xE2, CHR 0x80, CHR 0xA8] \<or> take 3 s = [CHR 0xE2, CHR 0x80, CHR 0xA9]")
        case True
        then have "?k = 3" using take3_sep by blast
        then show ?thesis using True multi u j e len by (auto simp: rune_esc_simps)
      next
        case False
        have "take ?k s \<noteq> [CHR 0xE2, CHR 0x80, CHR 0xA8]" "take ?k s \<noteq> [CHR 0xE2, CHR 0x80, CHR 0xA9]"
        proof -
          have "take ?k s = [CHR 0xE2, CHR 0x80, x] \<Longrightarrow> ?k = 3" for x using len(1) by simp
          then show "take ?k s \<noteq> [CHR 0xE2, CHR 0x80, CHR 0xA8]" "take ?k s \<noteq> [CHR 0xE2, CHR 0x80, CHR 0xA9]"
            using False by metis+
        qed
        then show ?thesis using False multi u j e len by (simp add: rune_esc_simps)
      qed
    qed
  qed simp
qed

section \<open>Reading a JSON string back\<close>

definition dec_rune :: "string \<Rightarrow> (string option \<times> string) option" where
  "dec_rune s = (case s of [] \<Rightarrow> None
     | c # cs \<Rightarrow>
         if 128 \<le> (of_char c :: nat)
         then (if utf8_len s = 0 then None else Some (Some (take (utf8_len s) s), drop (utf8_len s) s))
         else if take 6 s = CHR 0x5C # ''ufffd'' then Some (None, drop 6 s)
         else if take 6 s = CHR 0x5C # ''u2028'' then Some (Some [CHR 0xE2, CHR 0x80, CHR 0xA8], drop 6 s)
         else if take 6 s = CHR 0x5C # ''u2029'' then Some (Some [CHR 0xE2, CHR 0x80, CHR 0xA9], drop 6 s)
         else map_option (map_prod (\<lambda>d. Some [d]) id) (unesc_char s))"

lemma esc_ascii_start: "(of_char c :: nat) < 128 \<Longrightarrow> \<exists>d ds. esc_ascii c = d # ds \<and> (of_char d :: nat) < 128 \<and> d \<noteq> CHR 0x22"
  by (auto simp: esc_ascii_def Let_def html_safe_def)

lemma esc_ascii_not_u:
  assumes "(of_char c :: nat) < 128" and "x \<noteq> CHR ''0''"
  shows "take 6 (esc_ascii c @ r) \<noteq> CHR 0x5C # CHR ''u'' # x # xs"
  using assms by (auto simp: esc_ascii_def Let_def html_safe_def)

lemma dec_rune_esc:
  assumes "rune_ok r"
  shows "dec_rune (rune_esc r @ rest) = Some (r, rest)"
proof (cases r)
  case None
  then show ?thesis by (simp add: rune_esc_simps dec_rune_def)
next
  case (Some p)
  then obtain c cs where p: "p = c # cs" and len: "utf8_len p = length p"
    using assms by (cases p) (auto simp: rune_ok_def)
  show ?thesis
  proof (cases "length p = 1")
    case True
    then have c: "(of_char c :: nat) < 128" "p = [c]" using len p utf8_len_ascii [of c cs] by simp_all
    obtain d ds where d: "esc_ascii c = d # ds" "(of_char d :: nat) < 128" using esc_ascii_start [OF c(1)] by blast
    show ?thesis
      using Some c d unesc_esc_ascii [OF c(1), of rest] esc_ascii_not_u [OF c(1)]
      by (simp add: rune_esc_simps dec_rune_def)
  next
    case False
    have c: "128 \<le> (of_char c :: nat)" using False len p utf8_len_ascii [of c cs] by (metis not_le)
    have l: "utf8_len (p @ rest) = length p"
      using utf8_len_take [of p rest] len p by simp
    show ?thesis
      using Some False c l p by (auto simp: rune_esc_simps dec_rune_def)
  qed
qed

interpretation rune: self_delimiting rune_esc dec_rune rune_ok
  by unfold_locales (rule dec_rune_esc)

text \<open>The whole string: runes up to the closing quote, at most as many as there are bytes.\<close>

fun dec_runes :: "nat \<Rightarrow> string \<Rightarrow> (string option list \<times> string) option" where
  "dec_runes 0 s = None"
| "dec_runes (Suc fuel) s =
     (if s \<noteq> [] \<and> hd s = CHR 0x22 then Some ([], tl s)
      else (case dec_rune s of None \<Rightarrow> None
        | Some (r, rest) \<Rightarrow> map_option (map_prod (Cons r) id) (dec_runes fuel rest)))"

definition quoted :: "string option list \<Rightarrow> string" where
  "quoted rs = CHR 0x22 # concat (map rune_esc rs) @ [CHR 0x22]"

definition dec_quoted :: "string \<Rightarrow> (string option list \<times> string) option" where
  "dec_quoted s = (case s of [] \<Rightarrow> None
     | c # cs \<Rightarrow> if c = CHR 0x22 then dec_runes (length s) cs else None)"

lemma json_string_quoted: "json_string s = quoted (utf8_runes s)"
  by (simp add: json_string_def quoted_def json_escape_runes)

lemma rune_esc_hd:
  assumes "rune_ok r"
  obtains d ds where "rune_esc r = d # ds" and "d \<noteq> CHR 0x22"
proof (cases r)
  case (Some p)
  then obtain c cs where p: "p = c # cs" and len: "utf8_len p = length p"
    using assms by (cases p) (auto simp: rune_ok_def)
  show thesis
  proof (cases "length p = 1")
    case True
    then have "(of_char c :: nat) < 128" using len p utf8_len_ascii [of c cs] by simp
    from esc_ascii_start [OF this] show thesis using that True Some p by (auto simp: rune_esc_simps)
  next
    case False
    have "128 \<le> (of_char c :: nat)" using False len p utf8_len_ascii [of c cs] by (metis not_le)
    then have "c \<noteq> CHR 0x22" by auto
    then show thesis using that Some p False by (cases "rune_esc r") (auto simp: rune_esc_simps split: if_splits)
  qed
qed (use that in \<open>simp add: rune_esc_simps\<close>)

lemma dec_runes_esc:
  "\<forall>r \<in> set rs. rune_ok r \<Longrightarrow> length rs < fuel \<Longrightarrow>
     dec_runes fuel (concat (map rune_esc rs) @ CHR 0x22 # rest) = Some (rs, rest)"
proof (induction rs arbitrary: fuel)
  case Nil
  then show ?case by (cases fuel) simp_all
next
  case (Cons r rs)
  then obtain f where f: "fuel = Suc f" "length rs < f" by (cases fuel) auto
  obtain d ds where d: "rune_esc r = d # ds" "d \<noteq> CHR 0x22" using rune_esc_hd Cons.prems(1) by (metis list.set_intros(1))
  show ?case
    using Cons.IH [OF _ f(2)] Cons.prems(1) f(1) d
      dec_rune_esc [of r "concat (map rune_esc rs) @ CHR 0x22 # rest"] by simp
qed

lemma dec_quoted: 
  assumes "\<forall>r \<in> set rs. rune_ok r"
  shows "dec_quoted (quoted rs @ rest) = Some (rs, rest)"
proof -
  have "length rs \<le> length (concat (map rune_esc rs))" using assms
  proof (induction rs)
    case (Cons r rs)
    obtain d ds where "rune_esc r = d # ds" using rune_esc_hd Cons.prems by (metis list.set_intros(1))
    then show ?case using Cons by simp
  qed simp
  then show ?thesis using dec_runes_esc [OF assms] by (simp add: dec_quoted_def quoted_def del: dec_runes.simps)
qed

interpretation jstr: self_delimiting quoted dec_quoted "\<lambda>rs. \<forall>r \<in> set rs. rune_ok r"
  by unfold_locales (rule dec_quoted)

lemma json_string_prefix:
  "json_string s @ r = json_string t @ r' \<Longrightarrow> utf8_runes s = utf8_runes t \<and> r = r'"
  unfolding json_string_quoted by (rule jstr.enc_prefix_free [OF runes_ok runes_ok])

lemma json_string_eq_iff: "json_string s = json_string t \<longleftrightarrow> utf8_runes s = utf8_runes t"
  using json_string_prefix [of s "[]" t "[]"] by (auto simp: json_string_quoted)

end
