(* ===== verification/Types.thy ===== *)
theory Types
  imports Prelude
begin

text \<open>
  The data of the node: transactions, accounts, blocks, votes, snapshots, wallets and key
  files, with the Go structs' fields in their order (JSON names in the comments), and the
  environment the node runs in: the cryptographic primitives, the JSON reader and writer of
  whole structs, the clock, and the file system with its failures.
\<close>

section \<open>Chain data\<close>

text \<open>\<open>type Tx\<close> of \<open>internal/mesh/chain_core.go\<close>.\<close>

record tx =
  txFrom :: string
  txTo :: string
  txAmount :: i64
  txNonce :: i64
  txFee :: i64
  txPubKey :: string
  txSignature :: string

text \<open>\<open>type Account\<close>; an account that is not in the map counts as the zero account.\<close>

record account =
  Balance :: i64
  Nonce :: i64

definition zero_account :: account where
  "zero_account = \<lparr>Balance = 0, Nonce = 0\<rparr>"

lemma zero_account_simps [simp]: "Balance zero_account = 0" "Nonce zero_account = 0"
  by (simp_all add: zero_account_def)

lemma account_zero_iff: "a = zero_account \<longleftrightarrow> Balance a = 0 \<and> Nonce a = 0"
  by (cases a) (simp add: zero_account_def)

text \<open>
  \<open>type Block\<close>. A time is the number of nanoseconds since the Unix epoch; the zero
  \<open>time.Time\<close> is the first instant of year 1. \<open>bTxs\<close> distinguishes the nil slice
  (\<open>None\<close>, JSON \<open>null\<close>) from an empty one, because the two are hashed differently.
\<close>

record block =
  bProducer :: string
  bProducerAddr :: string
  bReward :: i64
  bProducerPubKey :: string
  bSignature :: string
  bBalancesRoot :: string
  bIsFinalized :: bool
  bValidatorID :: string
  bHeight :: int
  bPrevHash :: string
  bHash :: string
  bTimeUTC :: int
  bTxs :: "tx list option"

definition block_txs :: "block \<Rightarrow> tx list" where
  "block_txs b = (case bTxs b of None \<Rightarrow> [] | Some txs \<Rightarrow> txs)"

definition time_zero :: int where
  "time_zero = - 62135596800 * 10 ^ 9"

text \<open>\<open>type Vote\<close> of \<open>internal/mesh/validator_votes.go\<close>.\<close>

record vote =
  vHeight :: int
  vBlockHash :: string
  vValidatorID :: string
  vSignature :: string

text \<open>\<open>type SignedStateAnnouncement\<close> of \<open>internal/mesh/signed_state_types.go\<close>.\<close>

record announcement =
  annNodeID :: string
  annHeight :: int
  annStateHash :: string
  annSig :: string

text \<open>\<open>type ChainSnapshot\<close> of \<open>internal/mesh/chain_snapshot.go\<close>.\<close>

record chain_snapshot =
  snapHeight :: int
  snapHash :: string
  snapAccounts :: "(string, account) fmap"
  snapAccountsHash :: string
  snapSnapshotHash :: string

text \<open>\<open>type validatorKeyFile\<close> and \<open>type Wallet\<close>.\<close>

record key_file =
  kfPubHex :: string
  kfPrivHex :: string

record wallet =
  wAddress :: string
  wPubHex :: string
  wPrivHex :: string

text \<open>
  Of package \<open>consensus\<close>: \<open>type FinalityState\<close>, \<open>type ValidatorKey\<close> and \<open>type Vote\<close>; heights there are
  \<open>uint64\<close>.
\<close>

type_synonym u64 = "64 word"

record finality_state =
  FinalizedHeight :: u64
  FinalizedHash :: string
  UpdatedAt :: string

record consensus_key =
  ckID :: string
  ckPubKeyHex :: string
  ckPrivKeyHex :: string

record consensus_vote =
  cvHeight :: u64
  cvRound :: "32 word"
  cvBlockHash :: string
  cvValidatorID :: string
  cvSig :: string

section \<open>The environment\<close>

text \<open>
  A file is named by its directory and its base name. An operation on it may fail; which one
  fails on which file is the environment's choice, as is the number of bytes a failing write
  leaves behind.
\<close>

type_synonym path = "string \<times> string"
type_synonym files = "(path, string) fmap"

datatype fs_op = MkdirAll | OpenFile | WriteFile | SyncFile | CloseFile | RenameFile
  | SyncDir | ReadFile | ReadDir | StatFile | RemoveFile

record env =
  sha256 :: "string \<Rightarrow> string"
  ed_verify :: "string \<Rightarrow> string \<Rightarrow> string \<Rightarrow> bool"
  ed_sign :: "string \<Rightarrow> string \<Rightarrow> string"
  ed_public :: "string \<Rightarrow> string"
  gen_key :: "(string \<times> string) option"
  marshalBlock :: "block \<Rightarrow> string"
  unmarshalBlock :: "string \<Rightarrow> block option"
  marshalSnapshot :: "chain_snapshot \<Rightarrow> string"
  unmarshalSnapshot :: "string \<Rightarrow> chain_snapshot option"
  marshalKey :: "key_file \<Rightarrow> string"
  unmarshalKey :: "string \<Rightarrow> key_file option"
  marshalWallet :: "wallet \<Rightarrow> string"
  unmarshalWallet :: "string \<Rightarrow> wallet option"
  unmarshalAddress :: "string \<Rightarrow> string option"
  marshalFinality :: "finality_state \<Rightarrow> string"
  unmarshalFinality :: "string \<Rightarrow> finality_state option"
  marshalConsensusKey :: "consensus_key \<Rightarrow> string"
  unmarshalConsensusKey :: "string \<Rightarrow> consensus_key option"
  fmt_time :: "int \<Rightarrow> string"
  now :: int
  allow_corrupt :: bool
  io_fails :: "fs_op \<Rightarrow> path \<Rightarrow> bool"
  io_short :: "path \<Rightarrow> nat"

text \<open>
  What the code relies on of \<open>crypto/sha256\<close> and \<open>crypto/ed25519\<close>: the sizes of digests,
  keys and signatures, and that a signature made with a private key verifies under its
  public key. A private key is 64 bytes, a public key 32, a signature 64.
\<close>

definition crypto_ok :: "env \<Rightarrow> bool" where
  "crypto_ok e \<longleftrightarrow>
     (\<forall>m. length (sha256 e m) = 32) \<and>
     (\<forall>priv. length priv = 64 \<longrightarrow> length (ed_public e priv) = 32) \<and>
     (\<forall>priv m. length priv = 64 \<longrightarrow>
        length (ed_sign e priv m) = 64 \<and> ed_verify e (ed_public e priv) m (ed_sign e priv m))"

lemma crypto_okD:
  assumes "crypto_ok e"
  shows "length (sha256 e m) = 32"
    and "length priv = 64 \<Longrightarrow> length (ed_public e priv) = 32"
    and "length priv = 64 \<Longrightarrow> length (ed_sign e priv m) = 64"
    and "length priv = 64 \<Longrightarrow> ed_verify e (ed_public e priv) m (ed_sign e priv m)"
  using assms by (auto simp: crypto_ok_def)

text \<open>Both \<open>ed25519.Verify\<close> and \<open>ed25519.Sign\<close> panic (\<open>None\<close>) on a key of the wrong size.\<close>

definition ed25519_Verify :: "env \<Rightarrow> string \<Rightarrow> string \<Rightarrow> string \<Rightarrow> bool option" where
  "ed25519_Verify e pub m sig = (if length pub = 32 then Some (ed_verify e pub m sig) else None)"

definition ed25519_Sign :: "env \<Rightarrow> string \<Rightarrow> string \<Rightarrow> string option" where
  "ed25519_Sign e priv m = (if length priv = 64 then Some (ed_sign e priv m) else None)"

section \<open>File operations (package os)\<close>

datatype io_error = NotExist | IOFailure fs_op

definition os_ReadFile :: "env \<Rightarrow> files \<Rightarrow> path \<Rightarrow> io_error + string" where
  "os_ReadFile e fs p =
     (if io_fails e ReadFile p then Inl (IOFailure ReadFile)
      else case fmlookup fs p of None \<Rightarrow> Inl NotExist | Some s \<Rightarrow> Inr s)"

definition os_Stat :: "env \<Rightarrow> files \<Rightarrow> path \<Rightarrow> io_error option" where
  "os_Stat e fs p =
     (if io_fails e StatFile p then Some (IOFailure StatFile)
      else if p |\<in>| fmdom fs then None else Some NotExist)"

definition os_Remove :: "env \<Rightarrow> files \<Rightarrow> path \<Rightarrow> files" where
  "os_Remove e fs p = (if io_fails e RemoveFile p then fs else fmdrop p fs)"

definition os_Rename :: "env \<Rightarrow> files \<Rightarrow> path \<Rightarrow> path \<Rightarrow> io_error option \<times> files" where
  "os_Rename e fs p q =
     (if io_fails e RenameFile q then (Some (IOFailure RenameFile), fs)
      else case fmlookup fs p of
          None \<Rightarrow> (Some NotExist, fs)
        | Some s \<Rightarrow> (None, fmupd q s (fmdrop p fs)))"

text \<open>The names in a directory; \<open>os.ReadDir\<close> returns them sorted.\<close>

definition dir_names :: "files \<Rightarrow> string \<Rightarrow> string list" where
  "dir_names fs dir = sorted_list_of_fset (snd |`| ffilter (\<lambda>p. fst p = dir) (fmdom fs))"

lemma set_dir_names [simp]: "set (dir_names fs dir) = {n. (dir, n) |\<in>| fmdom fs}"
  by (force simp: dir_names_def)

lemma dir_names_sorted [simp]: "sorted (dir_names fs dir)" "distinct (dir_names fs dir)"
  by (simp_all add: dir_names_def sorted_list_of_fset.rep_eq)

end
