(* ===== verification/TxSigning.thy ===== *)
theory TxSigning
  imports Runes Types
begin

text \<open>
  Signed transactions (\<open>internal/mesh/tx_signing.go\<close>) and wallet addresses
  (\<open>internal/crypto/wallet.go\<close>): the canonical bytes that are signed, the binding of the
  sender's address to its public key, signing and verification, and the transaction id and
  the sender/nonce key the mempool uses (\<open>chain_core.go\<close>).
\<close>

section \<open>Canonical bytes and addresses\<close>

datatype tx_error =
    BadPubKeyHex | BadPubKeySize | MissingFromTo | BadAmount | BadNonce | MissingPubKeySig
  | FromPubKeyMismatch | BadSigHex | BadSigSize | BadSignature
  | BadTxInputs | BadPubKey | BadPrivKey

definition txCanonJSON :: "tx \<Rightarrow> string" where
  "txCanonJSON t = json_object
     [(''from'', json_string (txFrom t)), (''to'', json_string (txTo t)),
      (''amount'', json_int (sint (txAmount t))), (''nonce'', json_int (sint (txNonce t)))]"

definition txSignBytes :: "env \<Rightarrow> tx \<Rightarrow> string" where
  "txSignBytes e t = sha256 e (txCanonJSON t)"

definition addrFromPubHex :: "env \<Rightarrow> string \<Rightarrow> tx_error + string" where
  "addrFromPubHex e pubHex =
     (case hex_decode pubHex of
        None \<Rightarrow> Inl BadPubKeyHex
      | Some pubRaw \<Rightarrow>
          if length pubRaw \<noteq> 32 then Inl BadPubKeySize
          else Inr (take 40 (hex_encode (sha256 e pubRaw))))"

text \<open>\<open>AddressFromPubHex\<close> of the wallet package: no size check, first 20 digest bytes.\<close>

definition AddressFromPubHex :: "env \<Rightarrow> string \<Rightarrow> string option" where
  "AddressFromPubHex e pubHex =
     (case hex_decode pubHex of
        None \<Rightarrow> None
      | Some pub \<Rightarrow> Some (hex_encode (take 20 (sha256 e pub))))"

section \<open>Verification and signing\<close>

text \<open>An error value \<open>None\<close> is Go's nil error.\<close>

definition VerifyTx :: "env \<Rightarrow> tx \<Rightarrow> tx_error option" where
  "VerifyTx e t =
     (if txFrom t = [] \<or> txTo t = [] then Some MissingFromTo
      else if sle (txAmount t) 0 then Some BadAmount
      else if slt (txNonce t) 0 then Some BadNonce
      else if txPubKey t = [] \<or> txSignature t = [] then Some MissingPubKeySig
      else case addrFromPubHex e (txPubKey t) of
          Inl err \<Rightarrow> Some err
        | Inr wantAddr \<Rightarrow>
            if txFrom t \<noteq> wantAddr then Some FromPubKeyMismatch
            else (case hex_decode (txSignature t) of
                None \<Rightarrow> Some BadSigHex
              | Some sigRaw \<Rightarrow>
                  if length sigRaw \<noteq> 64 then Some BadSigSize
                  else if \<not> ed_verify e (case hex_decode (txPubKey t) of None \<Rightarrow> [] | Some p \<Rightarrow> p)
                              (txSignBytes e t) sigRaw
                  then Some BadSignature
                  else None))"

definition SignTx ::
  "env \<Rightarrow> string \<Rightarrow> string \<Rightarrow> i64 \<Rightarrow> i64 \<Rightarrow> i64 \<Rightarrow> string \<Rightarrow> string \<Rightarrow> tx_error + tx" where
  "SignTx e fromAddr to amount nonce fee pubHex privHex =
     (if to = [] \<or> sle amount 0 \<or> slt nonce 0 then Inl BadTxInputs
      else case hex_decode pubHex of
          None \<Rightarrow> Inl BadPubKey
        | Some pubRaw \<Rightarrow>
            if length pubRaw \<noteq> 32 then Inl BadPubKey
            else (case hex_decode privHex of
                None \<Rightarrow> Inl BadPrivKey
              | Some privRaw \<Rightarrow>
                  if length privRaw \<noteq> 64 then Inl BadPrivKey
                  else (case addrFromPubHex e pubHex of
                      Inl err \<Rightarrow> Inl err
                    | Inr want \<Rightarrow>
                        if fromAddr \<noteq> want then Inl FromPubKeyMismatch
                        else let t = \<lparr>txFrom = fromAddr, txTo = to, txAmount = amount,
                                      txNonce = nonce, txFee = fee, txPubKey = pubHex,
                                      txSignature = []\<rparr>
                             in Inr (t\<lparr>txSignature := hex_encode (ed_sign e privRaw (txSignBytes e t))\<rparr>))))"

definition VerifyTxSignature :: "env \<Rightarrow> tx \<Rightarrow> bool" where
  "VerifyTxSignature e t \<longleftrightarrow> VerifyTx e t = None"

definition fmtInt :: "i64 \<Rightarrow> string" where
  "fmtInt v = fmt_int (sint v)"

lemma fmtInt_inject [simp]: "fmtInt v = fmtInt w \<longleftrightarrow> v = w"
  by (auto simp: fmtInt_def intro: sint64_eqI)

section \<open>Transaction identity (chain_core.go)\<close>

definition txJSON :: "tx \<Rightarrow> string" where
  "txJSON t = json_object
     ([(''from'', json_string (txFrom t)), (''to'', json_string (txTo t)),
       (''amount'', json_int (sint (txAmount t))), (''nonce'', json_int (sint (txNonce t))),
       (''fee'', json_int (sint (txFee t)))]
      @ (if txPubKey t = [] then [] else [(''pubkey'', json_string (txPubKey t))])
      @ (if txSignature t = [] then [] else [(''sig'', json_string (txSignature t))]))"

definition txID :: "env \<Rightarrow> tx \<Rightarrow> string" where
  "txID e t = hex_encode (sha256 e (txJSON t))"

definition senderNonceKey :: "tx \<Rightarrow> string" where
  "senderNonceKey t = txFrom t @ '':'' @ fmtInt (txNonce t)"

text \<open>\<open>fieldTooLarge\<close> is the size guard the mempool and the block check share.\<close>

definition fieldTooLarge :: "tx \<Rightarrow> bool" where
  "fieldTooLarge t \<longleftrightarrow> 256 < length (txFrom t) \<or> 256 < length (txTo t)
     \<or> 256 * 4 < length (txPubKey t) \<or> 256 * 4 < length (txSignature t)"

section \<open>Lemmas\<close>

lemma addrFromPubHex_Inr:
  "addrFromPubHex e p = Inr a \<longleftrightarrow>
     (\<exists>raw. hex_decode p = Some raw \<and> length raw = 32 \<and> a = take 40 (hex_encode (sha256 e raw)))"
  by (auto simp: addrFromPubHex_def split: option.splits if_splits)

lemma addrFromPubHex_length:
  "crypto_ok e \<Longrightarrow> addrFromPubHex e p = Inr a \<Longrightarrow> length a = 40"
  by (auto simp: addrFromPubHex_Inr crypto_okD(1))

lemma VerifyTx_None_iff:
  "VerifyTx e t = None \<longleftrightarrow>
     txFrom t \<noteq> [] \<and> txTo t \<noteq> [] \<and> slt 0 (txAmount t) \<and> sle 0 (txNonce t) \<and>
     txPubKey t \<noteq> [] \<and> txSignature t \<noteq> [] \<and>
     addrFromPubHex e (txPubKey t) = Inr (txFrom t) \<and>
     (\<exists>pub sig. hex_decode (txPubKey t) = Some pub \<and> length pub = 32 \<and>
        hex_decode (txSignature t) = Some sig \<and> length sig = 64 \<and>
        ed_verify e pub (txSignBytes e t) sig)"
proof (cases "addrFromPubHex e (txPubKey t)")
  case (Inl err)
  then show ?thesis by (simp add: VerifyTx_def)
next
  case (Inr a)
  then obtain raw where raw: "hex_decode (txPubKey t) = Some raw" "length raw = 32"
    by (auto simp: addrFromPubHex_Inr)
  show ?thesis
  proof (cases "hex_decode (txSignature t)")
    case None
    with Inr raw show ?thesis by (simp add: VerifyTx_def)
  next
    case (Some sig)
    with Inr raw show ?thesis by (auto simp: VerifyTx_def not_le not_less)
  qed
qed

lemma VerifyTx_fields:
  assumes "VerifyTxSignature e t"
  shows "txFrom t \<noteq> []" "txTo t \<noteq> []" "slt 0 (txAmount t)" "sle 0 (txNonce t)"
  using assms by (auto simp: VerifyTxSignature_def VerifyTx_None_iff)

lemma txCanonJSON_cong:
  "txFrom t = txFrom u \<Longrightarrow> txTo t = txTo u \<Longrightarrow> txAmount t = txAmount u \<Longrightarrow> txNonce t = txNonce u \<Longrightarrow>
     txCanonJSON t = txCanonJSON u"
  by (simp add: txCanonJSON_def)

lemma txSignBytes_fee [simp]: "txSignBytes e (t\<lparr>txFee := f\<rparr>) = txSignBytes e t"
  and txSignBytes_sig [simp]: "txSignBytes e (t\<lparr>txSignature := s\<rparr>) = txSignBytes e t"
  and txSignBytes_pub [simp]: "txSignBytes e (t\<lparr>txPubKey := p\<rparr>) = txSignBytes e t"
  by (simp_all add: txSignBytes_def txCanonJSON_def)

section \<open>Properties\<close>

lemma senderNonceKey_split:
  assumes "f @ CHR '':'' # n = g @ CHR '':'' # m"
    and "CHR '':'' \<notin> set n" and "CHR '':'' \<notin> set m"
  shows "f = g \<and> n = m"
proof -
  have "rev n @ CHR '':'' # rev f = rev m @ CHR '':'' # rev g"
    using arg_cong [OF assms(1), of rev] by simp
  then have "rev n = rev m \<and> rev f = rev g"
    using assms(2,3) by (intro split_at_separator [where P = "\<lambda>c. c \<noteq> CHR '':''"]) auto
  then show ?thesis by simp
qed

lemma colon_notin_fmtInt: "CHR '':'' \<notin> set (fmtInt v)"
  using fmt_int_chars [of "CHR '':''" "sint v"] by (auto simp: fmtInt_def is_digit_def)

lemma senderNonceKey_inj:
  "senderNonceKey t = senderNonceKey u \<longleftrightarrow> txFrom t = txFrom u \<and> txNonce t = txNonce u"
  using senderNonceKey_split [of "txFrom t" "fmtInt (txNonce t)" "txFrom u" "fmtInt (txNonce u)"]
    colon_notin_fmtInt by (auto simp: senderNonceKey_def)

text \<open>
  The mempool's key of a pending transaction is the same for two transactions
  exactly when their sender and their nonce are.
\<close>

theorem senderNonceKey_eq_iff:
  "senderNonceKey t = senderNonceKey u \<longleftrightarrow> txFrom t = txFrom u \<and> txNonce t = txNonce u"
  by (rule senderNonceKey_inj)

lemma txCanonJSON_unfold:
  "txCanonJSON t = ''{'' @ json_string ''from'' @ '':'' @ json_string (txFrom t)
     @ '','' @ json_string ''to'' @ '':'' @ json_string (txTo t)
     @ '','' @ json_string ''amount'' @ '':'' @ fmt_int (sint (txAmount t))
     @ CHR '','' # json_string ''nonce'' @ '':'' @ fmt_int (sint (txNonce t)) @ CHR ''}'' # []"
  by (simp add: txCanonJSON_def json_object_def json_field_def json_int_def)

lemma txCanonJSON_fields:
  assumes "txCanonJSON t = txCanonJSON u"
  shows "utf8_runes (txFrom t) = utf8_runes (txFrom u)" "utf8_runes (txTo t) = utf8_runes (txTo u)"
    "txAmount t = txAmount u" "txNonce t = txNonce u"
proof -
  let ?n = "\<lambda>x. json_string ''nonce'' @ '':'' @ fmt_int (sint (txNonce x)) @ CHR ''}'' # []"
  let ?a = "\<lambda>x. fmt_int (sint (txAmount x)) @ CHR '','' # ?n x"
  let ?t = "\<lambda>x. '','' @ json_string ''to'' @ '':'' @ json_string (txTo x)
     @ '','' @ json_string ''amount'' @ '':'' @ ?a x"
  have "json_string (txFrom t) @ ?t t = json_string (txFrom u) @ ?t u"
    using assms by (simp add: txCanonJSON_unfold)
  from json_string_prefix [OF this]
  have from_eq: "utf8_runes (txFrom t) = utf8_runes (txFrom u)" and "?t t = ?t u" by blast+
  then have "json_string (txTo t) @ '','' @ json_string ''amount'' @ '':'' @ ?a t
     = json_string (txTo u) @ '','' @ json_string ''amount'' @ '':'' @ ?a u"
    by simp
  from json_string_prefix [OF this]
  have to_eq: "utf8_runes (txTo t) = utf8_runes (txTo u)"
    and "'','' @ json_string ''amount'' @ '':'' @ ?a t = '','' @ json_string ''amount'' @ '':'' @ ?a u"
    by blast+
  then have "?a t = ?a u" by simp
  then have am: "sint (txAmount t) = sint (txAmount u)" and "?n t = ?n u"
    by (auto dest: fmt_int_separated simp: num_char_def is_digit_def)
  then have "fmt_int (sint (txNonce t)) @ CHR ''}'' # [] = fmt_int (sint (txNonce u)) @ CHR ''}'' # []"
    by simp
  then have "sint (txNonce t) = sint (txNonce u)" by simp
  with am from_eq to_eq show "utf8_runes (txFrom t) = utf8_runes (txFrom u)" "utf8_runes (txTo t) = utf8_runes (txTo u)"
    "txAmount t = txAmount u" "txNonce t = txNonce u" by (auto intro: sint64_eqI)
qed

lemma txCanonJSON_runes:
  "txCanonJSON t = txCanonJSON u \<longleftrightarrow>
     utf8_runes (txFrom t) = utf8_runes (txFrom u) \<and> utf8_runes (txTo t) = utf8_runes (txTo u) \<and>
     txAmount t = txAmount u \<and> txNonce t = txNonce u"
proof
  assume "utf8_runes (txFrom t) = utf8_runes (txFrom u) \<and> utf8_runes (txTo t) = utf8_runes (txTo u) \<and>
     txAmount t = txAmount u \<and> txNonce t = txNonce u"
  then have "json_string (txFrom t) = json_string (txFrom u)" "json_string (txTo t) = json_string (txTo u)"
    "txAmount t = txAmount u" "txNonce t = txNonce u"
    by (simp_all only: json_string_eq_iff)
  then show "txCanonJSON t = txCanonJSON u" by (simp only: txCanonJSON_def)
qed (use txCanonJSON_fields in blast)

text \<open>
  C22 (roundtrip): two transactions have the same canonical bytes exactly when they agree in amount and
  nonce and their senders and recipients read the same as text - the same sequence of UTF-8
  characters, where all bytes that are not UTF-8 count as equal. Nothing else (the fee, the key) is
  in the bytes, and no two of these four fields can be confused with one another.
\<close>

theorem canonical_bytes_determine_fields:
  "txCanonJSON t = txCanonJSON u \<longleftrightarrow>
     utf8_runes (txFrom t) = utf8_runes (txFrom u) \<and> utf8_runes (txTo t) = utf8_runes (txTo u) \<and>
     txAmount t = txAmount u \<and> txNonce t = txNonce u"
  by (rule txCanonJSON_runes)

text \<open>For valid UTF-8 the text is the string; outside of it two recipients can share their bytes.\<close>

theorem valid_text_is_determined:
  assumes "valid_utf8 (txFrom t)" "valid_utf8 (txTo t)" "valid_utf8 (txFrom u)" "valid_utf8 (txTo u)"
  shows "txCanonJSON t = txCanonJSON u \<longleftrightarrow>
     txFrom t = txFrom u \<and> txTo t = txTo u \<and> txAmount t = txAmount u \<and> txNonce t = txNonce u"
  using assms by (simp add: txCanonJSON_runes valid_utf8_inject)

lemma invalid_recipients_share_bytes:
  "txCanonJSON (t\<lparr>txTo := [CHR 0xFF]\<rparr>) = txCanonJSON (t\<lparr>txTo := [CHR 0xFE]\<rparr>)"
  by (simp add: txCanonJSON_runes utf8_runes.simps)



lemma SignTx_Inr:
  assumes "SignTx e fromAddr to amount nonce fee pubHex privHex = Inr t"
  shows "\<exists>priv. hex_decode privHex = Some priv \<and> length priv = 64 \<and> to \<noteq> [] \<and> slt 0 amount \<and>
    sle 0 nonce \<and> addrFromPubHex e pubHex = Inr fromAddr \<and>
    (let u = \<lparr>txFrom = fromAddr, txTo = to, txAmount = amount, txNonce = nonce, txFee = fee,
              txPubKey = pubHex, txSignature = []\<rparr>
     in t = u\<lparr>txSignature := hex_encode (ed_sign e priv (txSignBytes e u))\<rparr>)"
  using assms
  by (auto simp: SignTx_def Let_def not_le not_less split: if_splits option.splits sum.splits)

lemma SignTx_verifies:
  assumes ok: "crypto_ok e"
    and sign: "SignTx e fromAddr to amount nonce fee pubHex privHex = Inr t"
    and priv: "hex_decode privHex = Some priv"
    and pub: "hex_decode pubHex = Some (ed_public e priv)"
  shows "VerifyTx e t = None \<and> txFrom t = fromAddr \<and> txTo t = to \<and> txAmount t = amount
    \<and> txNonce t = nonce \<and> txFee t = fee"
proof -
  define u where "u = \<lparr>txFrom = fromAddr, txTo = to, txAmount = amount, txNonce = nonce,
    txFee = fee, txPubKey = pubHex, txSignature = []\<rparr>"
  let ?sig = "ed_sign e priv (txSignBytes e u)"
  from SignTx_Inr [OF sign] priv have t: "t = u\<lparr>txSignature := hex_encode ?sig\<rparr>"
    and len: "length priv = 64" and f: "to \<noteq> []" "slt 0 amount" "sle 0 nonce"
    and addr: "addrFromPubHex e pubHex = Inr fromAddr"
    by (auto simp: Let_def u_def)
  have "fromAddr \<noteq> []" using addrFromPubHex_length [OF ok addr] by auto
  moreover have "length (ed_public e priv) = 32" and siglen: "length ?sig = 64"
    using crypto_okD(2,3) [OF ok len] by auto
  moreover from siglen have "?sig \<noteq> []" by auto
  moreover have "pubHex \<noteq> []" using pub \<open>length (ed_public e priv) = 32\<close> by auto
  moreover have "ed_verify e (ed_public e priv) (txSignBytes e t) ?sig"
    using crypto_okD(4) [OF ok len] by (simp add: t)
  ultimately have "VerifyTx e t = None"
    using f addr pub by (simp add: VerifyTx_None_iff t u_def hex_decode_encode)
  then show ?thesis by (simp add: t u_def)
qed

text \<open>
  A transaction built by \<open>SignTx\<close> from a matching key pair carries the given
  fields and passes \<open>VerifyTx\<close>.
\<close>

theorem SignTx_VerifyTx:
  assumes "crypto_ok e"
    and "SignTx e fromAddr to amount nonce fee pubHex privHex = Inr t"
    and "hex_decode privHex = Some priv" and "hex_decode pubHex = Some (ed_public e priv)"
  shows "VerifyTx e t = None \<and> txFrom t = fromAddr \<and> txTo t = to \<and> txAmount t = amount
    \<and> txNonce t = nonce \<and> txFee t = fee"
  by (rule SignTx_verifies [OF assms])

lemma addrFromPubHex_wallet:
  "addrFromPubHex e p =
     (case hex_decode p of
        None \<Rightarrow> Inl BadPubKeyHex
      | Some raw \<Rightarrow> if length raw \<noteq> 32 then Inl BadPubKeySize
                    else (case AddressFromPubHex e p of None \<Rightarrow> Inl BadPubKeyHex | Some a \<Rightarrow> Inr a))"
  using take_hex_encode [of 20]
  by (simp add: addrFromPubHex_def AddressFromPubHex_def split: option.splits)

end
