(* ===== verification/Ledger.thy ===== *)
theory Ledger
  imports TxSigning
begin

text \<open>
  The economics of a block (fees and the reward schedule, \<open>chain_core.go\<close>) and the abstract
  ledger: a total function from addresses to accounts with the transfer of one transaction.
  The chain executes transactions over three concrete stores (the snapshot cache of block
  application, the scratch copy of the state-root computation and the shadow accounts of
  mempool compaction); \<open>tx_store\<close> is the interface they share and the reason they agree.
\<close>

section \<open>Fee policy and rewards\<close>

definition BaseFee :: i64 where "BaseFee = 1"
definition FeeCongestionStep :: nat where "FeeCongestionStep = 256"
definition FeeStepIncrement :: i64 where "FeeStepIncrement = 1"
definition maxProposalFutureSkew :: int where "maxProposalFutureSkew = 2 * 60 * 10 ^ 9"
definition maxProposalBufferDistance :: int where "maxProposalBufferDistance = 2"
definition MaxMempoolTxs :: nat where "MaxMempoolTxs = 256"
definition MaxBlockTxs :: nat where "MaxBlockTxs = 64"

lemmas fee_constants = BaseFee_def FeeCongestionStep_def FeeStepIncrement_def

text \<open>\<open>requiredFeeLocked\<close>, as a function of the mempool's length.\<close>

definition requiredFee :: "nat \<Rightarrow> i64" where
  "requiredFee n =
     (let steps = (if 0 < FeeCongestionStep then n div FeeCongestionStep else 0)
      in BaseFee + of_nat steps * FeeStepIncrement)"

definition blockRewardForHeight :: "int \<Rightarrow> i64" where
  "blockRewardForHeight h =
     (if h \<le> 0 then 0
      else let initialReward = 50; halvingInterval = 100000; minReward = 1;
               era = (h - 1) div halvingInterval
           in if 62 \<le> era then minReward
              else let reward = signed_drop_bit (nat era) initialReward
                   in if slt reward minReward then minReward else reward)"

definition FeeSplitForkHeight :: int where "FeeSplitForkHeight = 1279"
definition ProducerFeeBPS :: i64 where "ProducerFeeBPS = 9000"

definition feeSplitActive :: "int \<Rightarrow> bool" where
  "feeSplitActive h \<longleftrightarrow> FeeSplitForkHeight \<le> h"

definition splitFees :: "i64 \<Rightarrow> i64 \<times> i64" where
  "splitFees fees =
     (if sle fees 0 then (0, 0)
      else let producer = quot64 (fees * ProducerFeeBPS) 10000;
               treasury = fees - producer
           in (producer, treasury))"

definition TreasuryAddr :: string where "TreasuryAddr = ''TREASURY_BLACKCHAIN''"

text \<open>The reward a block must carry, given the fees of its transactions.\<close>

definition expectedReward :: "int \<Rightarrow> i64 \<Rightarrow> i64" where
  "expectedReward h totalFees =
     (if feeSplitActive h then blockRewardForHeight h + fst (splitFees totalFees)
      else blockRewardForHeight h + totalFees)"

lemma requiredFee_below_step: "n < 256 \<Longrightarrow> requiredFee n = 1"
  by (simp add: requiredFee_def fee_constants)

lemma requiredFee_full: "requiredFee 256 = 2"
  by (simp add: requiredFee_def fee_constants)

section \<open>The abstract ledger\<close>

type_synonym ledger = "string \<Rightarrow> account"

text \<open>One transaction debits the sender by amount and fee and credits the recipient.\<close>

definition debit :: "tx \<Rightarrow> account \<Rightarrow> account" where
  "debit t a = a\<lparr>Balance := Balance a - (txAmount t + txFee t), Nonce := Nonce a + 1\<rparr>"

definition credit :: "i64 \<Rightarrow> account \<Rightarrow> account" where
  "credit v a = a\<lparr>Balance := Balance a + v\<rparr>"

definition transfer :: "tx \<Rightarrow> ledger \<Rightarrow> ledger" where
  "transfer t L = L(txFrom t := debit t (L (txFrom t)), txTo t := credit (txAmount t) (L (txTo t)))"

lemma debit_simps [simp]:
  "Balance (debit t a) = Balance a - (txAmount t + txFee t)" "Nonce (debit t a) = Nonce a + 1"
  by (simp_all add: debit_def)

lemma credit_simps [simp]: "Balance (credit v a) = Balance a + v" "Nonce (credit v a) = Nonce a"
  by (simp_all add: credit_def)

lemma credit_0 [simp]: "credit 0 a = a"
  by (simp add: credit_def)

lemma credit_credit [simp]: "credit v (credit w a) = credit (v + w) a"
  by (simp add: credit_def ac_simps)

text \<open>When a transaction may run: the checks of block application, in its order.\<close>

datatype exec_error = MissingFromOrTo | FromEqTo | AmountNotPositive | NegativeFee
  | BadNonceSequencing | InsufficientBalance

definition tx_shape :: "tx \<Rightarrow> exec_error option" where
  "tx_shape t =
     (if txFrom t = [] \<or> txTo t = [] then Some MissingFromOrTo
      else if txFrom t = txTo t then Some FromEqTo
      else if sle (txAmount t) 0 then Some AmountNotPositive
      else None)"

definition tx_funded :: "tx \<Rightarrow> account \<Rightarrow> exec_error option" where
  "tx_funded t f =
     (if slt (txFee t) 0 then Some NegativeFee
      else if txNonce t \<noteq> Nonce f then Some BadNonceSequencing
      else if slt (Balance f) (txAmount t + txFee t) then Some InsufficientBalance
      else None)"

fun ledger_run :: "tx list \<Rightarrow> ledger \<Rightarrow> exec_error + ledger" where
  "ledger_run [] L = Inr L"
| "ledger_run (t # ts) L =
     (case tx_shape t of Some err \<Rightarrow> Inl err
      | None \<Rightarrow> (case tx_funded t (L (txFrom t)) of Some err \<Rightarrow> Inl err
          | None \<Rightarrow> ledger_run ts (transfer t L)))"

lemma tx_shape_None:
  "tx_shape t = None \<longleftrightarrow> txFrom t \<noteq> [] \<and> txTo t \<noteq> [] \<and> txFrom t \<noteq> txTo t \<and> slt 0 (txAmount t)"
  by (auto simp: tx_shape_def not_le)

lemma tx_funded_None:
  "tx_funded t f = None \<longleftrightarrow>
     sle 0 (txFee t) \<and> txNonce t = Nonce f \<and> sle (txAmount t + txFee t) (Balance f)"
  by (auto simp: tx_funded_def not_less)

lemma ledger_run_append:
  "ledger_run (ts @ us) L = (case ledger_run ts L of Inl err \<Rightarrow> Inl err | Inr L' \<Rightarrow> ledger_run us L')"
  by (induction ts arbitrary: L) (auto split: option.splits)

lemma ledger_run_shapes: "ledger_run ts L = Inr L' \<Longrightarrow> t \<in> set ts \<Longrightarrow> tx_shape t = None"
  by (induction ts arbitrary: L) (auto split: option.splits)

lemma ledger_run_fold: "ledger_run ts L = Inr L' \<Longrightarrow> L' = fold transfer ts L"
  by (induction ts arbitrary: L) (auto split: option.splits)

section \<open>The interface of an account store\<close>

text \<open>
  A store is read through \<open>touch\<close>, which may record that an address was looked at, and
  written through \<open>put\<close>. What a store holds is its \<open>view\<close>: touching does not change it, and
  reading yields it.
\<close>

locale tx_store =
  fixes view :: "'s \<Rightarrow> ledger"
    and touch :: "'s \<Rightarrow> string \<Rightarrow> 's \<times> account"
    and put :: "'s \<Rightarrow> string \<Rightarrow> account \<Rightarrow> 's"
  assumes touch_view: "view (fst (touch s a)) = view s"
    and touch_value: "snd (touch s a) = view s a"
    and put_view: "view (put s a v) = (view s)(a := v)"
begin

lemmas store_simps = touch_view touch_value put_view

text \<open>Both accounts are read before either is written: block application and the root.\<close>

lemma transfer_read_read_write_write:
  assumes "txFrom t \<noteq> txTo t"
    and "touch s (txFrom t) = (s1, f)" and "touch s1 (txTo t) = (s2, r)"
  shows "view (put (put s2 (txFrom t) (debit t f)) (txTo t) (credit (txAmount t) r))
    = transfer t (view s)"
proof -
  have "view s1 = view s" and f: "f = view s (txFrom t)"
    using touch_view [of s "txFrom t"] touch_value [of s "txFrom t"] assms(2) by simp_all
  moreover have "view s2 = view s1" and "r = view s1 (txTo t)"
    using touch_view [of s1 "txTo t"] touch_value [of s1 "txTo t"] assms(3) by simp_all
  ultimately show ?thesis by (simp add: put_view transfer_def)
qed

text \<open>The sender is written before the recipient is read: mempool compaction.\<close>

lemma transfer_read_write_read_write:
  assumes "txFrom t \<noteq> txTo t"
    and "touch s (txFrom t) = (s1, f)"
    and "touch (put s1 (txFrom t) (debit t f)) (txTo t) = (s2, r)"
  shows "view (put s2 (txTo t) (credit (txAmount t) r)) = transfer t (view s)"
proof -
  let ?p = "put s1 (txFrom t) (debit t f)"
  have "view s1 = view s" and f: "f = view s (txFrom t)"
    using touch_view [of s "txFrom t"] touch_value [of s "txFrom t"] assms(2) by simp_all
  then have p: "view ?p = (view s)(txFrom t := debit t f)" by (simp add: put_view)
  have "view s2 = view ?p" and "r = view ?p (txTo t)"
    using touch_view [of ?p "txTo t"] touch_value [of ?p "txTo t"] assms(3) by simp_all
  with p f assms(1) show ?thesis by (simp add: put_view transfer_def)
qed

lemma touch_put_credit:
  assumes "touch s a = (s1, f)"
  shows "view (put s1 a (credit v f)) = (view s)(a := credit v (view s a))"
  using touch_view [of s a] touch_value [of s a] assms by (simp add: put_view)

end

end
