(* ===== verification/Status.thy ===== *)
theory Status
  imports Prelude
begin

text \<open>
  The operator's view of the daemon (\<open>internal/mesh/daemon_bridge.go\<close>): the startup phase,
  the failure counters and the recorders that bump them, and the state that is reported from
  them. Reported states are ordered by how far the daemon's life has gone.
\<close>

section \<open>State\<close>

record status =
  startupPhase :: string
  startupReady :: bool
  shutdownInitiated :: bool
  replayFailureCount :: int
  lastReplayError :: string
  syncErrorCount :: int
  lastSyncError :: string
  lastSyncLocalHeight :: int
  lastSyncBestHeight :: int
  peerFailureCount :: int
  lastPeerFailure :: string
  peerSuppressionCount :: int
  lastPeerSuppression :: string
  proposalFailureCount :: int
  lastProposalFailure :: string
  recoveryEventCount :: int
  lastRecoveryEvent :: string
  rejectedPeerMutationCount :: int
  lastRejectedPeerMutation :: string

definition new_status :: status where
  "new_status = \<lparr>startupPhase = [], startupReady = False, shutdownInitiated = False,
     replayFailureCount = 0, lastReplayError = [], syncErrorCount = 0, lastSyncError = [],
     lastSyncLocalHeight = 0, lastSyncBestHeight = 0, peerFailureCount = 0, lastPeerFailure = [],
     peerSuppressionCount = 0, lastPeerSuppression = [], proposalFailureCount = 0,
     lastProposalFailure = [], recoveryEventCount = 0, lastRecoveryEvent = [],
     rejectedPeerMutationCount = 0, lastRejectedPeerMutation = []\<rparr>"

section \<open>Recorders\<close>

definition markStartupReady :: "status \<Rightarrow> status" where
  "markStartupReady s = s\<lparr>startupPhase := ''ready'', startupReady := True\<rparr>"

definition setStartupPhase :: "string \<Rightarrow> status \<Rightarrow> status" where
  "setStartupPhase phase0 s =
     (let phase = trim_space phase0
      in if phase = [] then s
         else if startupPhase s = phase then s
         else s\<lparr>startupPhase := phase\<rparr>)"

text \<open>An error argument is its text; \<open>None\<close> is the nil error, which is not recorded.\<close>

definition recordReplayFailure :: "string option \<Rightarrow> status \<Rightarrow> status" where
  "recordReplayFailure err s = (case err of None \<Rightarrow> s
     | Some m \<Rightarrow> s\<lparr>replayFailureCount := replayFailureCount s + 1, lastReplayError := m\<rparr>)"

definition recordSyncHeights :: "int \<Rightarrow> int \<Rightarrow> status \<Rightarrow> status" where
  "recordSyncHeights localH bestH s = s\<lparr>lastSyncLocalHeight := localH, lastSyncBestHeight := bestH\<rparr>"

definition recordSyncError :: "string option \<Rightarrow> status \<Rightarrow> status" where
  "recordSyncError err s = (case err of None \<Rightarrow> s
     | Some m \<Rightarrow> s\<lparr>syncErrorCount := syncErrorCount s + 1, lastSyncError := m\<rparr>)"

definition recordPeerFailure :: "string \<Rightarrow> string \<Rightarrow> status \<Rightarrow> status" where
  "recordPeerFailure addr reason s =
     (if trim_space reason = [] then s
      else let msg0 = trim_space reason;
               msg = (if trim_space addr \<noteq> [] then ''peer='' @ trim_space addr @ '' '' @ msg0 else msg0)
           in s\<lparr>peerFailureCount := peerFailureCount s + 1, lastPeerFailure := msg\<rparr>)"

text \<open>The time is given in its RFC 3339 rendering.\<close>

definition recordPeerSuppression :: "string \<Rightarrow> string \<Rightarrow> string \<Rightarrow> status \<Rightarrow> status" where
  "recordPeerSuppression addr until reason s =
     (let msg0 = trim_space reason;
          msg = (if trim_space addr \<noteq> []
                 then ''peer='' @ trim_space addr @ '' until='' @ until @ '' '' @ msg0 else msg0)
      in s\<lparr>peerSuppressionCount := peerSuppressionCount s + 1, lastPeerSuppression := trim_space msg\<rparr>)"

definition recordProposalFailure :: "string option \<Rightarrow> status \<Rightarrow> status" where
  "recordProposalFailure err s = (case err of None \<Rightarrow> s
     | Some m \<Rightarrow> s\<lparr>proposalFailureCount := proposalFailureCount s + 1, lastProposalFailure := m\<rparr>)"

definition recordRecoveryEvent :: "string \<Rightarrow> string \<Rightarrow> status \<Rightarrow> status" where
  "recordRecoveryEvent kind detail s =
     (let msg0 = trim_space kind;
          msg = (if trim_space detail \<noteq> [] then msg0 @ '': '' @ trim_space detail else msg0)
      in s\<lparr>recoveryEventCount := recoveryEventCount s + 1, lastRecoveryEvent := msg\<rparr>)"

definition recordRejectedPeerMutation :: "string \<Rightarrow> status \<Rightarrow> status" where
  "recordRejectedPeerMutation reason s =
     s\<lparr>rejectedPeerMutationCount := rejectedPeerMutationCount s + 1, lastRejectedPeerMutation := reason\<rparr>"

text \<open>The first step of \<open>Shutdown\<close>.\<close>

definition markShutdown :: "status \<Rightarrow> status" where
  "markShutdown s = s\<lparr>shutdownInitiated := True\<rparr>"

section \<open>The reported state\<close>

text \<open>\<open>runtimeStateSnapshot\<close>: the state, its reasons (nil is \<open>[]\<close>), live, ready.\<close>

datatype daemon_state = Starting | Healthy | Degraded | Halted

definition state_name :: "daemon_state \<Rightarrow> string" where
  "state_name d = (case d of Starting \<Rightarrow> ''startup'' | Healthy \<Rightarrow> ''healthy''
     | Degraded \<Rightarrow> ''degraded'' | Halted \<Rightarrow> ''halted'')"

definition degraded_reasons :: "status \<Rightarrow> string list" where
  "degraded_reasons s =
     (if 0 < replayFailureCount s then [''replay_failures_present''] else [])
     @ (if 0 < syncErrorCount s then [''sync_errors_present''] else [])
     @ (if 0 < peerFailureCount s then [''peer_failures_present''] else [])
     @ (if 0 < peerSuppressionCount s then [''peer_suppressions_present''] else [])
     @ (if 0 < proposalFailureCount s then [''proposal_failures_present''] else [])"

definition runtimeStateSnapshot :: "status \<Rightarrow> daemon_state \<times> string list \<times> bool \<times> bool" where
  "runtimeStateSnapshot s =
     (if shutdownInitiated s then (Halted, [''shutdown_initiated''], False, False)
      else if \<not> startupReady s then (Starting, [''startup_phase='' @ startupPhase s], True, False)
      else let reasons = degraded_reasons s
           in if reasons \<noteq> [] then (Degraded, reasons, True, True)
              else (Healthy, [], True, True))"

definition reported_state :: "status \<Rightarrow> daemon_state" where
  "reported_state s = fst (runtimeStateSnapshot s)"

text \<open>The lag shown to the operator (\<open>operatorStatusSnapshot\<close>).\<close>

definition syncLag :: "status \<Rightarrow> int" where
  "syncLag s = (if lastSyncLocalHeight s < lastSyncBestHeight s
                then lastSyncBestHeight s - lastSyncLocalHeight s else 0)"

section \<open>The order of the states\<close>

instantiation daemon_state :: linorder
begin

definition state_rank :: "daemon_state \<Rightarrow> nat" where
  "state_rank d = (case d of Starting \<Rightarrow> 0 | Healthy \<Rightarrow> 1 | Degraded \<Rightarrow> 2 | Halted \<Rightarrow> 3)"

definition less_eq_daemon_state :: "daemon_state \<Rightarrow> daemon_state \<Rightarrow> bool" where
  "less_eq_daemon_state a b \<longleftrightarrow> state_rank a \<le> state_rank b"

definition less_daemon_state :: "daemon_state \<Rightarrow> daemon_state \<Rightarrow> bool" where
  "less_daemon_state a b \<longleftrightarrow> state_rank a < state_rank b"

instance
proof
  fix x y z :: daemon_state
  show "x < y \<longleftrightarrow> x \<le> y \<and> \<not> y \<le> x"
    by (auto simp: less_daemon_state_def less_eq_daemon_state_def)
  show "x \<le> x" by (simp add: less_eq_daemon_state_def)
  show "x \<le> y \<Longrightarrow> y \<le> z \<Longrightarrow> x \<le> z" by (simp add: less_eq_daemon_state_def)
  show "x \<le> y \<Longrightarrow> y \<le> x \<Longrightarrow> x = y"
    by (cases x; cases y) (simp_all add: less_eq_daemon_state_def state_rank_def)
  show "x \<le> y \<or> y \<le> x" by (auto simp: less_eq_daemon_state_def)
qed

end

lemma state_order [simp]:
  "Starting \<le> d" "d \<le> Halted" "Healthy \<le> Degraded"
  by (cases d; simp add: less_eq_daemon_state_def state_rank_def)+

section \<open>Events\<close>

datatype status_event =
    MarkReady | Phase string | ReplayFailure "string option" | SyncHeights int int
  | SyncError "string option" | PeerFailure string string | PeerSuppression string string string
  | ProposalFailure "string option" | RecoveryEvent string string | RejectedMutation string
  | ShutdownRequested

fun status_step :: "status \<Rightarrow> status_event \<Rightarrow> status" where
  "status_step s MarkReady = markStartupReady s"
| "status_step s (Phase p) = setStartupPhase p s"
| "status_step s (ReplayFailure e) = recordReplayFailure e s"
| "status_step s (SyncHeights a b) = recordSyncHeights a b s"
| "status_step s (SyncError e) = recordSyncError e s"
| "status_step s (PeerFailure a r) = recordPeerFailure a r s"
| "status_step s (PeerSuppression a u r) = recordPeerSuppression a u r s"
| "status_step s (ProposalFailure e) = recordProposalFailure e s"
| "status_step s (RecoveryEvent k d) = recordRecoveryEvent k d s"
| "status_step s (RejectedMutation r) = recordRejectedPeerMutation r s"
| "status_step s ShutdownRequested = markShutdown s"

definition counters_nonneg :: "status \<Rightarrow> bool" where
  "counters_nonneg s \<longleftrightarrow> 0 \<le> replayFailureCount s \<and> 0 \<le> syncErrorCount s \<and> 0 \<le> peerFailureCount s
     \<and> 0 \<le> peerSuppressionCount s \<and> 0 \<le> proposalFailureCount s"

lemmas recorder_defs = markStartupReady_def setStartupPhase_def recordReplayFailure_def
  recordSyncHeights_def recordSyncError_def recordPeerFailure_def recordPeerSuppression_def
  recordProposalFailure_def recordRecoveryEvent_def recordRejectedPeerMutation_def markShutdown_def

lemma status_step_nonneg: "counters_nonneg s \<Longrightarrow> counters_nonneg (status_step s e)"
  by (cases e) (auto simp: recorder_defs counters_nonneg_def Let_def split: option.split)

lemma status_step_reasons:
  "degraded_reasons s \<noteq> [] \<Longrightarrow> degraded_reasons (status_step s e) \<noteq> []"
  by (cases e) (auto simp: recorder_defs degraded_reasons_def Let_def split: option.split if_splits)

lemma status_step_flags:
  "startupReady s \<Longrightarrow> startupReady (status_step s e)"
  "shutdownInitiated s \<Longrightarrow> shutdownInitiated (status_step s e)"
  by (cases e; auto simp: recorder_defs Let_def split: option.split)+

lemma reported_state_cases:
  "reported_state s = (if shutdownInitiated s then Halted else if \<not> startupReady s then Starting
     else if degraded_reasons s \<noteq> [] then Degraded else Healthy)"
  by (simp add: reported_state_def runtimeStateSnapshot_def Let_def)

lemma status_step_mono: "reported_state s \<le> reported_state (status_step s e)"
  using status_step_reasons [of s e] status_step_flags [of s e]
  by (auto simp: reported_state_cases)

section \<open>Properties\<close>

text \<open>
  Along any sequence of recorded events the reported state only moves
  forward in the order startup, healthy, degraded, halted: a node that was ever degraded is
  never reported healthy again, and a halted one stays halted.
\<close>

theorem daemon_state_never_goes_back:
  "reported_state s \<le> reported_state (foldl status_step s es)"
proof (induction es arbitrary: s)
  case Nil
  then show ?case by simp
next
  case (Cons e es)
  have "reported_state s \<le> reported_state (status_step s e)" by (rule status_step_mono)
  also have "\<dots> \<le> reported_state (foldl status_step (status_step s e) es)" by (rule Cons.IH)
  finally show ?case by simp
qed

text \<open>
  Readiness as the probes \<open>/healthz\<close> and \<open>/readyz\<close> read it: a node is
  ready exactly when its startup has finished and no shutdown was requested, it is live as
  long as no shutdown was requested, and degradation changes neither.
\<close>

theorem runtime_readiness:
  "runtimeStateSnapshot s = (d, reasons, live, ready) \<Longrightarrow>
     live = (\<not> shutdownInitiated s) \<and> ready = (startupReady s \<and> \<not> shutdownInitiated s)
     \<and> (d = Degraded \<longleftrightarrow> ready \<and> reasons \<noteq> []) \<and> (d = Healthy \<longleftrightarrow> ready \<and> reasons = [])"
  by (auto simp: runtimeStateSnapshot_def Let_def split: if_splits)

theorem runtime_readiness_witness:
  "runtimeStateSnapshot (recordSyncError (Some ''timeout'') (markStartupReady new_status))
     = (Degraded, [''sync_errors_present''], True, True)
   \<and> True = (\<not> shutdownInitiated (recordSyncError (Some ''timeout'') (markStartupReady new_status)))"
proof -
  let ?s = "recordSyncError (Some ''timeout'') (markStartupReady new_status)"
  have h: "runtimeStateSnapshot ?s = (Degraded, [''sync_errors_present''], True, True)"
    by (simp add: runtimeStateSnapshot_def degraded_reasons_def recordSyncError_def
        markStartupReady_def new_status_def)
  show ?thesis using h runtime_readiness [OF h] by blast
qed

end
