(* ===== verification/State.thy ===== *)
theory State
  imports Ledger Status
begin

text \<open>
  The state of \<open>ProductionChain\<close> (\<open>internal/mesh/chain_core.go\<close>) with the daemon it is bound
  to and the files of its data directory, the account maps, and the three digests over them:
  the Merkle root of the balances (\<open>merkle_balances.go\<close>), the state hash that nodes announce
  (\<open>state_hash.go\<close>) and the hashes of a snapshot (\<open>chain_snapshot.go\<close>).
\<close>

section \<open>The chain\<close>

text \<open>What the chain reads and writes of the daemon (\<open>meshDaemon\<close>).\<close>

record daemon =
  dWalletAddr :: string
  dNodeID :: string
  dPeerState :: "(string, announcement) fmap"
  dStatus :: status

type_synonym accounts = "(string, account) fmap"

text \<open>
  The maps of \<open>ProductionChain\<close>; they are never nil, since the only chains that hold state are
  made by \<open>newProductionChain\<close>. \<open>chDisk\<close> stands for the data directory.
\<close>

record chain =
  chValidatorPubHex :: string
  chValidatorPrivHex :: string
  chDaemon :: "daemon option"
  chDataDir :: string
  chPersistDir :: string
  chHeight :: int
  chTip :: string
  chBlocks :: "(int, block) fmap"
  chAccounts :: accounts
  chMempool :: "tx list"
  chMempoolIDs :: "string fset"
  chMempoolSenderNonce :: "(string, string) fmap"
  chPending :: "(int, block) fmap"
  chVoteCounts :: "(int, int) fmap"
  chVotes :: "(int, (string, vote) fmap) fmap"
  chFinalizedHeight :: int
  chValidatorSet :: "string fset"
  chDisk :: files

definition newProductionChain :: chain where
  "newProductionChain = \<lparr>chValidatorPubHex = [], chValidatorPrivHex = [], chDaemon = None,
     chDataDir = [], chPersistDir = [], chHeight = 0, chTip = [], chBlocks = fmempty,
     chAccounts = fmempty, chMempool = [], chMempoolIDs = {||}, chMempoolSenderNonce = fmempty,
     chPending = fmempty, chVoteCounts = fmempty, chVotes = fmempty, chFinalizedHeight = 0,
     chValidatorSet = {||}, chDisk = fmempty\<rparr>"

section \<open>Accounts\<close>

definition getAccount :: "accounts \<Rightarrow> ledger" where
  "getAccount m addr = (case fmlookup m addr of None \<Rightarrow> zero_account | Some a \<Rightarrow> a)"

definition getOrCreateAccount :: "accounts \<Rightarrow> string \<Rightarrow> accounts \<times> account" where
  "getOrCreateAccount m addr =
     (case fmlookup m addr of None \<Rightarrow> (fmupd addr zero_account m, zero_account) | Some a \<Rightarrow> (m, a))"

lemma getAccount_empty [simp]: "getAccount fmempty = (\<lambda>_. zero_account)"
  by (simp add: getAccount_def fun_eq_iff)

lemma getAccount_upd [ledger_simps]: "getAccount (fmupd a v m) = (getAccount m)(a := v)"
  by (auto simp: getAccount_def)

lemma getAccount_create [ledger_simps]:
  "getAccount (fst (getOrCreateAccount m a)) = getAccount m"
  "snd (getOrCreateAccount m a) = getAccount m a"
  by (auto simp: getOrCreateAccount_def getAccount_def fun_eq_iff split: option.splits)

text \<open>The scratch copy of the root computation: \<open>get\<close> makes the entry, writes go through it.\<close>

interpretation scratch: tx_store getAccount getOrCreateAccount "\<lambda>m a v. fmupd a v m"
  by unfold_locales (simp_all add: ledger_simps)

lemma getAccount_nonzero_dom: "getAccount m a \<noteq> zero_account \<Longrightarrow> a |\<in>| fmdom m"
  by (auto simp: getAccount_def split: option.splits intro: fmdomI)

lemma finite_nonzero: "finite {a. getAccount m a \<noteq> zero_account}"
proof (rule finite_subset)
  show "{a. getAccount m a \<noteq> zero_account} \<subseteq> fset (fmdom m)"
    using getAccount_nonzero_dom by blast
qed simp

section \<open>The Merkle root of the balances\<close>

text \<open>The listed accounts: those with a balance or a nonce, in the order of their addresses.\<close>

definition nonzero_accounts :: "accounts \<Rightarrow> (string \<times> i64 \<times> i64) list" where
  "nonzero_accounts m =
     filter (\<lambda>(addr, bal, nonce). \<not> (bal = 0 \<and> nonce = 0))
       (map (\<lambda>addr. (addr, Balance (getAccount m addr), Nonce (getAccount m addr)))
         (sorted_list_of_fset (fmdom m)))"

definition merkle_leaf :: "env \<Rightarrow> string \<times> i64 \<times> i64 \<Rightarrow> string" where
  "merkle_leaf e p = (case p of (addr, bal, nonce) \<Rightarrow>
     sha256 e (addr @ [CHR 0x0A] @ fmtInt bal @ [CHR 0x0A] @ fmtInt nonce))"

text \<open>One level of the tree; an odd last node is paired with itself.\<close>

fun merkle_level :: "env \<Rightarrow> string list \<Rightarrow> string list" where
  "merkle_level e [] = []"
| "merkle_level e [l] = [sha256 e (l @ l)]"
| "merkle_level e (l # r # ls) = sha256 e (l @ r) # merkle_level e ls"

lemma length_merkle_level [simp]: "length (merkle_level e ls) = (length ls + 1) div 2"
  by (induction e ls rule: merkle_level.induct) auto

function merkle_tree :: "env \<Rightarrow> string list \<Rightarrow> string list" where
  "merkle_tree e ls = (if 1 < length ls then merkle_tree e (merkle_level e ls) else ls)"
  by pat_completeness auto
termination
  by (relation "measure (\<lambda>(e, ls). length ls)") auto

declare merkle_tree.simps [simp del]

definition merkleBalancesRoot :: "env \<Rightarrow> accounts \<Rightarrow> string" where
  "merkleBalancesRoot e m =
     (let lst = nonzero_accounts m
      in if lst = [] then hex_encode (sha256 e [])
         else hex_encode (hd (merkle_tree e (map (merkle_leaf e) lst))))"

section \<open>State hash and snapshot hashes\<close>

definition acct_line :: "accounts \<Rightarrow> string \<Rightarrow> string" where
  "acct_line m addr = ''acct '' @ addr @ '' bal='' @ fmtInt (Balance (getAccount m addr))
     @ '' nonce='' @ fmtInt (Nonce (getAccount m addr)) @ [CHR 0x0A]"

definition StateHashLocked :: "env \<Rightarrow> chain \<Rightarrow> string" where
  "StateHashLocked e c = hex_encode (sha256 e
     (''height='' @ fmt_int (chHeight c) @ [CHR 0x0A] @ ''tip='' @ chTip c @ [CHR 0x0A]
      @ concat (map (acct_line (chAccounts c)) (sorted_list_of_fset (fmdom (chAccounts c))))))"

definition simpleSign :: "env \<Rightarrow> string \<Rightarrow> string" where
  "simpleSign e s = hex_encode (sha256 e (''blackchain|'' @ s))"

text \<open>\<open>SignedStateHash\<close>: height, state hash and its tag.\<close>

definition SignedStateHash :: "env \<Rightarrow> chain \<Rightarrow> int \<times> string \<times> string" where
  "SignedStateHash e c = (let h = StateHashLocked e c in (chHeight c, h, simpleSign e h))"

definition accounts_json :: "accounts \<Rightarrow> string" where
  "accounts_json m = json_array (map (\<lambda>addr. json_object
       [(''Addr'', json_string addr), (''Bal'', json_int (sint (Balance (getAccount m addr)))),
        (''Nonce'', json_int (sint (Nonce (getAccount m addr))))])
     (sorted_list_of_fset (fmdom m)))"

definition computeAccountsHash :: "env \<Rightarrow> accounts \<Rightarrow> string" where
  "computeAccountsHash e m = hex_encode (sha256 e (accounts_json m))"

definition computeSnapshotHash :: "env \<Rightarrow> int \<Rightarrow> string \<Rightarrow> string \<Rightarrow> string" where
  "computeSnapshotHash e h tip accountsHash =
     hex_encode (sha256 e (fmt_int h @ ''|'' @ tip @ ''|'' @ accountsHash))"

text \<open>
  \<open>hasQuorum\<close>: a majority of the announcements seen agrees with height and hash; with no
  announcement seen it is taken to hold.
\<close>

definition hasQuorum :: "daemon \<Rightarrow> int \<Rightarrow> string \<Rightarrow> bool" where
  "hasQuorum d h hash =
     (let total_n = fcard (fmdom (dPeerState d));
          agree = fcard (fmdom (fmfilter (\<lambda>k. case fmlookup (dPeerState d) k of None \<Rightarrow> False
             | Some ann \<Rightarrow> annHeight ann = h \<and> annStateHash ann = hash) (dPeerState d)))
      in if total_n = 0 then True else total_n div 2 + 1 \<le> agree)"

section \<open>Lemmas\<close>

text \<open>The listed accounts depend on the balances and nonces only, not on how they are stored.\<close>

lemma nonzero_accounts_eq:
  "nonzero_accounts m =
     map (\<lambda>addr. (addr, Balance (getAccount m addr), Nonce (getAccount m addr)))
       (sorted_list_of_set {a. getAccount m a \<noteq> zero_account})"
proof -
  let ?nz = "\<lambda>a. getAccount m a \<noteq> zero_account"
  let ?l = "filter ?nz (sorted_list_of_fset (fmdom m))"
  have "sorted_list_of_set {a. ?nz a} = ?l"
  proof (rule sorted_distinct_set_unique)
    show "set (sorted_list_of_set {a. ?nz a}) = set ?l"
      using getAccount_nonzero_dom by (auto simp: finite_nonzero)
  qed (simp_all add: finite_nonzero sorted_list_of_fset.rep_eq sorted_wrt_filter)
  moreover have "nonzero_accounts m =
      map (\<lambda>addr. (addr, Balance (getAccount m addr), Nonce (getAccount m addr))) ?l"
    by (simp add: nonzero_accounts_def filter_map o_def account_zero_iff)
  ultimately show ?thesis by simp
qed

lemma merkle_root_cong:
  "getAccount m = getAccount m' \<Longrightarrow> merkleBalancesRoot e m = merkleBalancesRoot e m'"
  by (simp add: merkleBalancesRoot_def nonzero_accounts_eq)

lemma merkle_tree_single: "ls \<noteq> [] \<Longrightarrow> length (merkle_tree e ls) = 1"
proof (induction e ls rule: merkle_tree.induct)
  case (1 e ls)
  show ?case
  proof (cases "1 < length ls")
    case True
    then have "merkle_level e ls \<noteq> []" by (auto simp flip: length_greater_0_conv)
    with True "1.IH" show ?thesis by (subst merkle_tree.simps) simp
  next
    case False
    with "1.prems" show ?thesis by (subst merkle_tree.simps) (cases ls; auto)
  qed
qed

lemma merkle_tree_digests:
  "\<forall>l \<in> set ls. length l = n \<Longrightarrow> \<forall>m. length (sha256 e m) = n \<Longrightarrow>
     \<forall>l \<in> set (merkle_tree e ls). length l = n"
proof (induction e ls rule: merkle_tree.induct)
  case (1 e ls)
  have "\<forall>l \<in> set (merkle_level e ls). length l = n"
    using "1.prems"(2) by (induction e ls rule: merkle_level.induct) auto
  with "1" show ?case by (subst merkle_tree.simps) auto
qed

end
