(* ===== verification/Mempool.thy ===== *)
theory Mempool
  imports State "HOL-Library.Sublist"
begin

text \<open>
  The mempool of \<open>internal/mesh/chain_core.go\<close>: validation of a transaction against the current
  accounts, admission, the two indexes, and compaction, which replays the pending transactions
  over shadow accounts and drops what no longer runs.
\<close>

section \<open>Operations\<close>

datatype mempool_error =
    TxBadSignature | TxMissingFromTo | TxFromEqTo | TxAmountNotPositive | TxNonceNegative
  | TxFieldTooLarge | TxFeeNegative | TxFeeTooLow i64 i64 | TxInsufficientBalance
  | TxBadNonce i64 i64 | MempoolFull | DuplicateTx | ConflictingSenderNonce

definition requiredFeeLocked :: "chain \<Rightarrow> i64" where
  "requiredFeeLocked c = requiredFee (length (chMempool c))"

definition validateTx :: "env \<Rightarrow> chain \<Rightarrow> tx \<Rightarrow> mempool_error option" where
  "validateTx e c t =
     (if \<not> VerifyTxSignature e t then Some TxBadSignature
      else if txFrom t = [] \<or> txTo t = [] then Some TxMissingFromTo
      else if txFrom t = txTo t then Some TxFromEqTo
      else if sle (txAmount t) 0 then Some TxAmountNotPositive
      else if slt (txNonce t) 0 then Some TxNonceNegative
      else if fieldTooLarge t then Some TxFieldTooLarge
      else if slt (txFee t) 0 then Some TxFeeNegative
      else let reqFee = requiredFeeLocked c
           in if slt (txFee t) reqFee then Some (TxFeeTooLow (txFee t) reqFee)
           else let from = getAccount (chAccounts c) (txFrom t)
                in if slt (Balance from) (txAmount t + txFee t) then Some TxInsufficientBalance
                   else if txNonce t \<noteq> Nonce from then Some (TxBadNonce (txNonce t) (Nonce from))
                   else None)"

definition resetMempoolLocked :: "chain \<Rightarrow> chain" where
  "resetMempoolLocked c =
     c\<lparr>chMempool := [], chMempoolIDs := {||}, chMempoolSenderNonce := fmempty\<rparr>"

definition index_tx :: "env \<Rightarrow> tx \<Rightarrow> string fset \<times> (string, string) fmap \<Rightarrow> string fset \<times> (string, string) fmap" where
  "index_tx e t ix = (finsert (txID e t) (fst ix), fmupd (senderNonceKey t) (txID e t) (snd ix))"

definition mempool_index :: "env \<Rightarrow> tx list \<Rightarrow> string fset \<times> (string, string) fmap" where
  "mempool_index e ts = fold (index_tx e) ts ({||}, fmempty)"

definition rebuildMempoolIndexLocked :: "env \<Rightarrow> chain \<Rightarrow> chain" where
  "rebuildMempoolIndexLocked e c =
     (let ix = mempool_index e (chMempool c)
      in c\<lparr>chMempoolIDs := fst ix, chMempoolSenderNonce := snd ix\<rparr>)"

definition addTxToMempoolLocked :: "env \<Rightarrow> chain \<Rightarrow> tx \<Rightarrow> chain \<times> mempool_error option" where
  "addTxToMempoolLocked e c t =
     (case validateTx e c t of Some err \<Rightarrow> (c, Some err)
      | None \<Rightarrow>
         if MaxMempoolTxs \<le> length (chMempool c) then (c, Some MempoolFull)
         else let id = txID e t; sn = senderNonceKey t
              in if id |\<in>| chMempoolIDs c then (c, Some DuplicateTx)
                 else if (case fmlookup (chMempoolSenderNonce c) sn of
                            None \<Rightarrow> False | Some existing \<Rightarrow> existing \<noteq> id)
                 then (c, Some ConflictingSenderNonce)
                 else (c\<lparr>chMempool := chMempool c @ [t],
                         chMempoolIDs := finsert id (chMempoolIDs c),
                         chMempoolSenderNonce := fmupd sn id (chMempoolSenderNonce c)\<rparr>, None))"

text \<open>Compaction: the kept transactions, the ids and keys seen, the shadows, the drop count.\<close>

record compaction =
  cKept :: "tx list"
  cPendingIDs :: "string fset"
  cPendingSenderNonce :: "string fset"
  cShadows :: accounts
  cDropped :: nat

definition getShadow :: "accounts \<Rightarrow> accounts \<Rightarrow> string \<Rightarrow> accounts \<times> account" where
  "getShadow accts sh addr =
     (case fmlookup sh addr of
        Some s \<Rightarrow> (sh, s)
      | None \<Rightarrow> let s = getAccount accts addr in (fmupd addr s sh, s))"

definition compact_drop :: "compaction \<Rightarrow> compaction" where
  "compact_drop k = k\<lparr>cDropped := Suc (cDropped k)\<rparr>"

definition compact_step :: "env \<Rightarrow> chain \<Rightarrow> tx \<Rightarrow> compaction \<Rightarrow> compaction" where
  "compact_step e c t k =
     (if validateTx e c t \<noteq> None then compact_drop k
      else let id = txID e t
      in if id |\<in>| cPendingIDs k then compact_drop k
      else let sn = senderNonceKey t
      in if sn |\<in>| cPendingSenderNonce k then compact_drop k
      else let (sh1, from) = getShadow (chAccounts c) (cShadows k) (txFrom t)
      in if txNonce t \<noteq> Nonce from then compact_drop (k\<lparr>cShadows := sh1\<rparr>)
      else if slt (Balance from) (txAmount t + txFee t) then compact_drop (k\<lparr>cShadows := sh1\<rparr>)
      else let sh2 = fmupd (txFrom t) (debit t from) sh1;
               sh4 = (if txTo t \<noteq> []
                      then let (sh3, to) = getShadow (chAccounts c) sh2 (txTo t)
                           in fmupd (txTo t) (credit (txAmount t) to) sh3
                      else sh2)
           in k\<lparr>cKept := cKept k @ [t], cPendingIDs := finsert id (cPendingIDs k),
                cPendingSenderNonce := finsert sn (cPendingSenderNonce k), cShadows := sh4\<rparr>)"

definition compact_init :: compaction where
  "compact_init = \<lparr>cKept = [], cPendingIDs = {||}, cPendingSenderNonce = {||}, cShadows = fmempty,
     cDropped = 0\<rparr>"

definition compact_run :: "env \<Rightarrow> chain \<Rightarrow> tx list \<Rightarrow> compaction" where
  "compact_run e c ts = fold (compact_step e c) ts compact_init"

definition compactMempoolLocked :: "env \<Rightarrow> chain \<Rightarrow> chain \<times> nat" where
  "compactMempoolLocked e c =
     (if chMempool c = [] then (resetMempoolLocked c, 0)
      else let k = compact_run e c (chMempool c)
           in (rebuildMempoolIndexLocked e (c\<lparr>chMempool := cKept k\<rparr>), cDropped k))"

section \<open>Frame\<close>

lemma mempool_ops_frame [frame_simps]:
  "chHeight (fst (compactMempoolLocked e c)) = chHeight c"
  "chTip (fst (compactMempoolLocked e c)) = chTip c"
  "chBlocks (fst (compactMempoolLocked e c)) = chBlocks c"
  "chAccounts (fst (compactMempoolLocked e c)) = chAccounts c"
  "chPending (fst (compactMempoolLocked e c)) = chPending c"
  "chFinalizedHeight (fst (compactMempoolLocked e c)) = chFinalizedHeight c"
  "chValidatorSet (fst (compactMempoolLocked e c)) = chValidatorSet c"
  "chDisk (fst (compactMempoolLocked e c)) = chDisk c"
  "chDaemon (fst (compactMempoolLocked e c)) = chDaemon c"
  "chVotes (fst (compactMempoolLocked e c)) = chVotes c"
  "chVoteCounts (fst (compactMempoolLocked e c)) = chVoteCounts c"
  "chValidatorPubHex (fst (compactMempoolLocked e c)) = chValidatorPubHex c"
  "chValidatorPrivHex (fst (compactMempoolLocked e c)) = chValidatorPrivHex c"
  "chDataDir (fst (compactMempoolLocked e c)) = chDataDir c"
  "chPersistDir (fst (compactMempoolLocked e c)) = chPersistDir c"
  by (simp_all add: compactMempoolLocked_def resetMempoolLocked_def rebuildMempoolIndexLocked_def Let_def)

section \<open>Validation\<close>

lemma validateTx_None:
  assumes "validateTx e c t = None"
  shows "VerifyTxSignature e t" "tx_shape t = None" "\<not> fieldTooLarge t"
    "sle (requiredFeeLocked c) (txFee t)"
    "tx_funded t (getAccount (chAccounts c) (txFrom t)) = None"
  using assms
  by (auto simp: validateTx_def tx_shape_None tx_funded_None Let_def not_less not_le split: if_splits)

section \<open>The index\<close>

lemma mempool_index_snoc: "mempool_index e (ts @ [t]) = index_tx e t (mempool_index e ts)"
  by (simp add: mempool_index_def)

lemma mempool_index_ids: "fst (mempool_index e ts) = fset_of_list (map (txID e) ts)"
  by (induction ts rule: rev_induct) (auto simp: mempool_index_snoc index_tx_def mempool_index_def)

lemma mempool_index_lookup:
  "fmlookup (snd (mempool_index e ts)) k = Some v \<Longrightarrow> \<exists>t \<in> set ts. senderNonceKey t = k \<and> txID e t = v"
  by (induction ts rule: rev_induct)
    (auto simp: mempool_index_snoc index_tx_def mempool_index_def split: if_splits)

lemma mempool_index_key:
  "t \<in> set ts \<Longrightarrow> fmlookup (snd (mempool_index e ts)) (senderNonceKey t) \<noteq> None"
  by (induction ts rule: rev_induct) (auto simp: mempool_index_snoc index_tx_def)

text \<open>
  The mempool's invariant: bounded, indexed, correctly signed and well shaped, and with no two
  entries for the same sender and nonce.
\<close>

definition mempool_wf :: "env \<Rightarrow> chain \<Rightarrow> bool" where
  "mempool_wf e c \<longleftrightarrow>
     length (chMempool c) \<le> MaxMempoolTxs \<and>
     (chMempoolIDs c, chMempoolSenderNonce c) = mempool_index e (chMempool c) \<and>
     distinct (map senderNonceKey (chMempool c)) \<and>
     (\<forall>t \<in> set (chMempool c). VerifyTxSignature e t \<and> tx_shape t = None \<and> \<not> fieldTooLarge t)"

text \<open>A transaction is either admitted or the state is left as it was.\<close>

lemma addTx_cases:
  obtains (refused) err where "addTxToMempoolLocked e c t = (c, Some err)"
  | (admitted) "addTxToMempoolLocked e c t = (c\<lparr>chMempool := chMempool c @ [t],
      chMempoolIDs := finsert (txID e t) (chMempoolIDs c),
      chMempoolSenderNonce := fmupd (senderNonceKey t) (txID e t) (chMempoolSenderNonce c)\<rparr>, None)"
proof -
  let ?new = "c\<lparr>chMempool := chMempool c @ [t], chMempoolIDs := finsert (txID e t) (chMempoolIDs c),
    chMempoolSenderNonce := fmupd (senderNonceKey t) (txID e t) (chMempoolSenderNonce c)\<rparr>"
  have "(\<exists>err. addTxToMempoolLocked e c t = (c, Some err)) \<or> addTxToMempoolLocked e c t = (?new, None)"
    unfolding addTxToMempoolLocked_def Let_def by (cases "validateTx e c t") (simp_all only: option.case split: if_split, blast+)
  then show thesis using that by blast
qed

lemma addTx_None:
  assumes "addTxToMempoolLocked e c t = (c', None)"
  shows "validateTx e c t = None" "length (chMempool c) < MaxMempoolTxs"
    "txID e t |\<notin>| chMempoolIDs c" "chMempool c' = chMempool c @ [t]"
    "(chMempoolIDs c', chMempoolSenderNonce c')
       = index_tx e t (chMempoolIDs c, chMempoolSenderNonce c)"
    "fmlookup (chMempoolSenderNonce c) (senderNonceKey t) \<in> {None, Some (txID e t)}"
  using assms
  by (auto simp: addTxToMempoolLocked_def index_tx_def Let_def split: option.splits if_splits)

lemma addTx_wf_aux:
  assumes "mempool_wf e c" and add: "addTxToMempoolLocked e c t = (c', None)"
  shows "mempool_wf e c'"
proof -
  note a = addTx_None [OF add]
  have ix: "(chMempoolIDs c, chMempoolSenderNonce c) = mempool_index e (chMempool c)"
    using assms(1) by (simp add: mempool_wf_def)
  then have ids: "chMempoolIDs c = fset_of_list (map (txID e) (chMempool c))"
    and sn: "chMempoolSenderNonce c = snd (mempool_index e (chMempool c))"
    using mempool_index_ids [of e "chMempool c"] by (metis fst_conv, metis snd_conv)
  have "senderNonceKey t \<notin> set (map senderNonceKey (chMempool c))"
  proof
    assume "senderNonceKey t \<in> set (map senderNonceKey (chMempool c))"
    then obtain u where "u \<in> set (chMempool c)" "senderNonceKey u = senderNonceKey t" by auto
    then have "fmlookup (chMempoolSenderNonce c) (senderNonceKey t) \<noteq> None"
      using mempool_index_key [of u "chMempool c" e] by (simp add: sn)
    then have "fmlookup (snd (mempool_index e (chMempool c))) (senderNonceKey t) = Some (txID e t)"
      using a(6) by (auto simp: sn)
    then obtain w where "w \<in> set (chMempool c)" "txID e w = txID e t"
      using mempool_index_lookup by blast
    then have "txID e t |\<in>| chMempoolIDs c" by (auto simp: ids fset_of_list.rep_eq intro!: image_eqI [of _ _ w])
    with a(3) show False by simp
  qed
  then show ?thesis
    using assms(1) a validateTx_None [OF a(1)]
    by (auto simp: mempool_wf_def mempool_index_snoc ix)
qed

section \<open>Compaction\<close>

definition shadow_view :: "accounts \<Rightarrow> accounts \<Rightarrow> ledger" where
  "shadow_view accts sh addr = (case fmlookup sh addr of Some s \<Rightarrow> s | None \<Rightarrow> getAccount accts addr)"

lemma shadow_view_empty [simp]: "shadow_view accts fmempty = getAccount accts"
  by (simp add: shadow_view_def fun_eq_iff)

interpretation shadow: tx_store "shadow_view accts" "getShadow accts" "\<lambda>m a v. fmupd a v m" for accts
  by unfold_locales (auto simp: shadow_view_def getShadow_def Let_def fun_eq_iff split: option.splits)

text \<open>What the loop keeps true: the shadows are the kept transactions' effect on the accounts.\<close>

definition compact_inv :: "env \<Rightarrow> chain \<Rightarrow> tx list \<Rightarrow> compaction \<Rightarrow> bool" where
  "compact_inv e c seen k \<longleftrightarrow>
     subseq (cKept k) seen \<and>
     length (cKept k) + cDropped k = length seen \<and>
     ledger_run (cKept k) (getAccount (chAccounts c)) = Inr (shadow_view (chAccounts c) (cShadows k)) \<and>
     fset (cPendingSenderNonce k) = senderNonceKey ` set (cKept k) \<and>
     distinct (map senderNonceKey (cKept k)) \<and>
     (\<forall>t \<in> set (cKept k). validateTx e c t = None)"

lemma compact_inv_init: "compact_inv e c [] compact_init"
  by (simp add: compact_inv_def compact_init_def)

lemma compact_inv_drop:
  "compact_inv e c seen k \<Longrightarrow> shadow_view (chAccounts c) sh = shadow_view (chAccounts c) (cShadows k) \<Longrightarrow>
     compact_inv e c (seen @ [t]) (compact_drop (k\<lparr>cShadows := sh\<rparr>))"
  by (auto simp: compact_inv_def compact_drop_def intro: list_emb_prefix)

lemma compact_inv_drop_same:
  "compact_inv e c seen k \<Longrightarrow> compact_inv e c (seen @ [t]) (compact_drop k)"
  using compact_inv_drop [of e c seen k "cShadows k" t] by simp

lemma compact_inv_step:
  assumes inv: "compact_inv e c seen k"
  shows "compact_inv e c (seen @ [t]) (compact_step e c t k)"
proof -
  let ?acc = "chAccounts c"
  obtain sh1 sf where g1: "getShadow ?acc (cShadows k) (txFrom t) = (sh1, sf)" by fastforce
  have sh1: "shadow_view ?acc sh1 = shadow_view ?acc (cShadows k)"
    and sf: "sf = shadow_view ?acc (cShadows k) (txFrom t)"
    using shadow.touch_view [of ?acc "cShadows k" "txFrom t"]
      shadow.touch_value [of ?acc "cShadows k" "txFrom t"] g1 by simp_all
  obtain sh3 rt where
    g2: "getShadow ?acc (fmupd (txFrom t) (debit t sf) sh1) (txTo t) = (sh3, rt)" by fastforce
  note drop1 = compact_inv_drop [OF inv sh1, of t]
  show ?thesis
  proof (cases "validateTx e c t = None \<and> txID e t |\<notin>| cPendingIDs k \<and>
      senderNonceKey t |\<notin>| cPendingSenderNonce k \<and> txNonce t = Nonce sf \<and>
      \<not> slt (Balance sf) (txAmount t + txFee t)")
    case False
    then show ?thesis
      using compact_inv_drop_same [OF inv, of t] drop1 by (auto simp: compact_step_def g1 Let_def)
  next
    case True
    note v = validateTx_None [OF conjunct1 [OF True]]
    have shape: "txTo t \<noteq> []" "txFrom t \<noteq> txTo t" using v(2) by (auto simp: tx_shape_None)
    let ?sh = "fmupd (txTo t) (credit (txAmount t) rt) sh3"
    have step: "compact_step e c t k = k\<lparr>cKept := cKept k @ [t],
        cPendingIDs := finsert (txID e t) (cPendingIDs k),
        cPendingSenderNonce := finsert (senderNonceKey t) (cPendingSenderNonce k), cShadows := ?sh\<rparr>"
      using True shape by (simp add: compact_step_def g1 g2 Let_def)
    have view: "shadow_view ?acc ?sh = transfer t (shadow_view ?acc (cShadows k))"
      by (rule shadow.transfer_read_write_read_write [OF shape(2) g1 g2])
    have funded: "tx_funded t sf = None"
      using True v(5) by (auto simp: tx_funded_None not_less)
    have key: "senderNonceKey t \<notin> senderNonceKey ` set (cKept k)"
      using True inv by (auto simp: compact_inv_def)
    have "ledger_run (cKept k @ [t]) (getAccount ?acc) = Inr (shadow_view ?acc ?sh)"
      using inv funded v(2) by (simp add: compact_inv_def ledger_run_append sf view)
    moreover have "subseq (cKept k @ [t]) (seen @ [t])"
      using inv by (simp add: compact_inv_def)
    ultimately show ?thesis using inv key True by (auto simp: compact_inv_def step)
  qed
qed

lemma compact_inv_run: "compact_inv e c ts (compact_run e c ts)"
proof (induction ts rule: rev_induct)
  case Nil
  then show ?case by (simp add: compact_run_def compact_inv_init)
next
  case (snoc t ts)
  have "compact_run e c (ts @ [t]) = compact_step e c t (compact_run e c ts)"
    by (simp add: compact_run_def)
  then show ?case using compact_inv_step [OF snoc] by simp
qed

lemma compact_mempool_eq:
  "chMempool (fst (compactMempoolLocked e c)) = cKept (compact_run e c (chMempool c))"
  "snd (compactMempoolLocked e c) = cDropped (compact_run e c (chMempool c))"
  by (simp_all add: compactMempoolLocked_def resetMempoolLocked_def rebuildMempoolIndexLocked_def
      Let_def compact_run_def compact_init_def)

lemma compact_index:
  "(chMempoolIDs (fst (compactMempoolLocked e c)), chMempoolSenderNonce (fst (compactMempoolLocked e c)))
     = mempool_index e (chMempool (fst (compactMempoolLocked e c)))"
  by (simp add: compactMempoolLocked_def resetMempoolLocked_def rebuildMempoolIndexLocked_def
      Let_def mempool_index_def)

lemma compact_wf_aux:
  assumes "length (chMempool c) \<le> MaxMempoolTxs"
  shows "mempool_wf e (fst (compactMempoolLocked e c))"
proof -
  let ?k = "compact_run e c (chMempool c)"
  have inv: "compact_inv e c (chMempool c) ?k" by (rule compact_inv_run)
  then have "length (cKept ?k) \<le> length (chMempool c)"
    by (auto simp: compact_inv_def intro: list_emb_length)
  with assms inv show ?thesis
    using validateTx_None compact_index [of e c]
    by (auto simp: mempool_wf_def compact_mempool_eq compact_inv_def)
qed

text \<open>Validation already asks for the account's own nonce, so a sender gets one slot.\<close>

lemma validated_same_nonce:
  "validateTx e c t = None \<Longrightarrow> validateTx e c u = None \<Longrightarrow> txFrom t = txFrom u \<Longrightarrow>
     senderNonceKey t = senderNonceKey u"
  using validateTx_None(5) [of e c t] validateTx_None(5) [of e c u]
  by (simp add: senderNonceKey_inj tx_funded_None)

lemma kept_one_per_sender: "compact_inv e c seen k \<Longrightarrow> distinct (map txFrom (cKept k))"
proof -
  assume inv: "compact_inv e c seen k"
  then have "distinct (cKept k)" and keys: "inj_on senderNonceKey (set (cKept k))"
    by (simp_all add: compact_inv_def distinct_map)
  moreover have "inj_on txFrom (set (cKept k))"
  proof (rule inj_onI)
    fix t u
    assume "t \<in> set (cKept k)" "u \<in> set (cKept k)" "txFrom t = txFrom u"
    with inv have "senderNonceKey t = senderNonceKey u"
      by (auto simp: compact_inv_def intro: validated_same_nonce)
    with keys \<open>t \<in> _\<close> \<open>u \<in> _\<close> show "t = u" by (simp add: inj_on_eq_iff)
  qed
  ultimately show ?thesis by (simp add: distinct_map)
qed

section \<open>Properties\<close>

text \<open>
  Admission keeps the mempool bounded, indexed, correctly signed and free of
  two entries for one sender and nonce, whether the transaction is accepted or refused.
\<close>

theorem addTxToMempoolLocked_wf:
  assumes "mempool_wf e c"
  shows "mempool_wf e (fst (addTxToMempoolLocked e c t))"
proof (cases rule: addTx_cases [of e c t])
  case (refused err)
  then show ?thesis using assms by simp
next
  case admitted
  then show ?thesis using addTx_wf_aux [OF assms admitted] by simp
qed

text \<open>
  C21 (refinement): compaction keeps a subsequence of the pending transactions that runs to
  completion, in order, on the current accounts, and it reports exactly how many it dropped.
\<close>

theorem compaction_keeps_executable:
  assumes "compactMempoolLocked e c = (c', dropped)"
  shows "subseq (chMempool c') (chMempool c) \<and>
    length (chMempool c') + dropped = length (chMempool c) \<and>
    (\<exists>L. ledger_run (chMempool c') (getAccount (chAccounts c')) = Inr L) \<and>
    (\<forall>t \<in> set (chMempool c'). validateTx e c t = None)"
  using compact_inv_run [of e c "chMempool c"] compact_mempool_eq [of e c] mempool_ops_frame(4) [of e c]
    assms by (auto simp: compact_inv_def)

text \<open>
  After compaction no sender has two pending transactions: the validation inside
  the loop asks for the nonce of the stored account, so the second of a run of consecutive
  nonces is always dropped, although the shadow account has already advanced to it.
\<close>

theorem compaction_one_per_sender:
  "distinct (map txFrom (chMempool (fst (compactMempoolLocked e c))))"
  using kept_one_per_sender [OF compact_inv_run [of e c "chMempool c"]]
  by (simp add: compact_mempool_eq)

text \<open>
  The congestion surcharge is never asked for on admission: a transaction is
  admitted only while the required fee is the base fee.
\<close>

theorem admission_pays_base_fee_only:
  assumes "addTxToMempoolLocked e c t = (c', None)"
  shows "requiredFeeLocked c = BaseFee \<and> sle BaseFee (txFee t) \<and> length (chMempool c') \<le> MaxMempoolTxs"
proof -
  note a = addTx_None [OF assms]
  have "requiredFeeLocked c = BaseFee"
    using a(2) by (simp add: requiredFeeLocked_def requiredFee_below_step MaxMempoolTxs_def BaseFee_def)
  with a validateTx_None(4) [OF a(1)] show ?thesis by simp
qed

lemma validateTx_fee_too_low: "slt (txFee t) (requiredFeeLocked c) \<Longrightarrow> validateTx e c t \<noteq> None"
  using validateTx_None(4) [of e c t] by fastforce

lemma compact_all_refused:
  "\<forall>t \<in> set ts. validateTx e c t \<noteq> None \<Longrightarrow>
     fold (compact_step e c) ts k = k\<lparr>cDropped := cDropped k + length ts\<rparr>"
  by (induction ts arbitrary: k) (auto simp: compact_step_def compact_drop_def)

text \<open>
  A mempool filled to its limit with transactions that pay the base fee is
  emptied by the next compaction, because the full mempool itself doubles the required fee.
\<close>

theorem full_mempool_is_flushed:
  assumes "length (chMempool c) = MaxMempoolTxs" and "\<forall>t \<in> set (chMempool c). txFee t = BaseFee"
  shows "chMempool (fst (compactMempoolLocked e c)) = [] \<and>
    snd (compactMempoolLocked e c) = MaxMempoolTxs"
proof -
  have "requiredFeeLocked c = 2"
    using assms(1) by (simp add: requiredFeeLocked_def MaxMempoolTxs_def requiredFee_full)
  then have "\<forall>t \<in> set (chMempool c). validateTx e c t \<noteq> None"
    using assms(2) validateTx_fee_too_low [of _ c e] by (simp add: BaseFee_def)
  then show ?thesis
    using compact_all_refused [of "chMempool c" e c compact_init] assms(1)
    by (simp add: compact_mempool_eq compact_run_def compact_init_def)
qed

end
