(* ===== verification/Blocks.thy ===== *)
theory Blocks
  imports State
begin

text \<open>
  Block identity and block signatures: \<open>calcBlockHash\<close> (\<open>internal/mesh/chain_core.go\<close>), signing
  and validation (\<open>internal/mesh/block_signing.go\<close>) and the older signature format of
  \<open>internal/chain/block_signing.go\<close>.
\<close>

section \<open>Hash\<close>

text \<open>\<open>UnixNano\<close> is an \<open>int64\<close> and wraps outside the years 1678 to 2262.\<close>

definition unix_nano :: "int \<Rightarrow> int" where
  "unix_nano t = sint (word_of_int t :: i64)"

definition block_canon :: "block \<Rightarrow> string" where
  "block_canon b = json_object
     [(''validator_id'', json_string (bValidatorID b)),
      (''balances_root'', json_string (bBalancesRoot b)),
      (''height'', json_int (bHeight b)),
      (''prev_hash'', json_string (bPrevHash b)),
      (''time_unix'', json_int (unix_nano (bTimeUTC b))),
      (''producer'', json_string (bProducer b)),
      (''txs'', case bTxs b of None \<Rightarrow> ''null'' | Some ts \<Rightarrow> json_array (map txJSON ts))]"

definition calcBlockHash :: "env \<Rightarrow> block \<Rightarrow> string" where
  "calcBlockHash e b = hex_encode (sha256 e (block_canon b))"

section \<open>Signatures\<close>

datatype sig_error = MissingValidatorID | MissingProducer | ValidatorProducerMismatch
  | BadValidatorHex | BadValidatorSize | ProducerPubKeyMismatch | BadBlockSigHex | BadBlockSigSize
  | SigVerificationFailed

text \<open>The signed bytes are those of the hash's hexadecimal text.\<close>

definition blockSignHash :: "env \<Rightarrow> block \<Rightarrow> string" where
  "blockSignHash e b = calcBlockHash e b"

text \<open>\<open>SignBlock\<close> panics (\<open>None\<close>) on a private key of the wrong size.\<close>

definition SignBlock :: "env \<Rightarrow> block \<Rightarrow> string \<Rightarrow> block option" where
  "SignBlock e b priv =
     (case ed25519_Sign e priv (blockSignHash e b) of
        None \<Rightarrow> None
      | Some sig \<Rightarrow> Some (b\<lparr>bSignature := hex_encode sig\<rparr>))"

definition ValidateBlockSignature :: "env \<Rightarrow> block \<Rightarrow> sig_error option" where
  "ValidateBlockSignature e b =
     (if bValidatorID b = [] then Some MissingValidatorID
      else if bProducer b = [] then Some MissingProducer
      else if bValidatorID b \<noteq> bProducer b then Some ValidatorProducerMismatch
      else case hex_decode (bValidatorID b) of
          None \<Rightarrow> Some BadValidatorHex
        | Some pub \<Rightarrow>
            if length pub \<noteq> 32 then Some BadValidatorSize
            else if bProducerPubKey b \<noteq> [] \<and> bProducerPubKey b \<noteq> bValidatorID b
            then Some ProducerPubKeyMismatch
            else (case hex_decode (bSignature b) of
                None \<Rightarrow> Some BadBlockSigHex
              | Some sig \<Rightarrow>
                  if length sig \<noteq> 64 then Some BadBlockSigSize
                  else if \<not> ed_verify e pub (blockSignHash e b) sig then Some SigVerificationFailed
                  else None))"

definition VerifyBlockSignature :: "env \<Rightarrow> block \<Rightarrow> bool" where
  "VerifyBlockSignature e b \<longleftrightarrow> ValidateBlockSignature e b = None"

section \<open>The signature format of internal/chain\<close>

datatype chain_sig_error = MissingBlockSignature | BadHex | InvalidBlockSignature

definition HashBlockForSign :: "env \<Rightarrow> block \<Rightarrow> string" where
  "HashBlockForSign e b = sha256 e (bHash b)"

definition chain_SignBlock :: "env \<Rightarrow> block \<Rightarrow> string \<Rightarrow> string \<Rightarrow> block option" where
  "chain_SignBlock e b priv pub =
     (case ed25519_Sign e priv (HashBlockForSign e b) of
        None \<Rightarrow> None
      | Some sig \<Rightarrow> Some (b\<lparr>bProducerPubKey := hex_encode pub, bSignature := hex_encode sig\<rparr>))"

text \<open>The outer option is a panic of \<open>ed25519.Verify\<close>, the inner one Go's error.\<close>

definition chain_VerifyBlockSignature :: "env \<Rightarrow> block \<Rightarrow> chain_sig_error option option" where
  "chain_VerifyBlockSignature e b =
     (if bProducerPubKey b = [] \<or> bSignature b = [] then Some (Some MissingBlockSignature)
      else case hex_decode (bProducerPubKey b) of
          None \<Rightarrow> Some (Some BadHex)
        | Some pub \<Rightarrow>
            (case hex_decode (bSignature b) of
                None \<Rightarrow> Some (Some BadHex)
              | Some sig \<Rightarrow>
                  (case ed25519_Verify e pub (HashBlockForSign e b) sig of
                      None \<Rightarrow> None
                    | Some ok \<Rightarrow> Some (if ok then None else Some InvalidBlockSignature))))"

section \<open>Lemmas\<close>

lemma calcBlockHash_unhashed [simp]:
  "calcBlockHash e (b\<lparr>bSignature := s\<rparr>) = calcBlockHash e b"
  "calcBlockHash e (b\<lparr>bHash := h\<rparr>) = calcBlockHash e b"
  "calcBlockHash e (b\<lparr>bReward := r\<rparr>) = calcBlockHash e b"
  "calcBlockHash e (b\<lparr>bProducerAddr := a\<rparr>) = calcBlockHash e b"
  "calcBlockHash e (b\<lparr>bProducerPubKey := p\<rparr>) = calcBlockHash e b"
  "calcBlockHash e (b\<lparr>bIsFinalized := f\<rparr>) = calcBlockHash e b"
  by (simp_all add: calcBlockHash_def block_canon_def)

lemma calcBlockHash_nonempty: "crypto_ok e \<Longrightarrow> calcBlockHash e b \<noteq> []"
  using crypto_okD(1) [of e "block_canon b"] by (auto simp: calcBlockHash_def)

lemma ValidateBlockSignature_None:
  assumes "ValidateBlockSignature e b = None"
  shows "bProducer b \<noteq> []" "bValidatorID b = bProducer b"
    "\<exists>pub. hex_decode (bProducer b) = Some pub \<and> length pub = 32"
  using assms by (auto simp: ValidateBlockSignature_def split: if_splits option.splits)

section \<open>Properties\<close>

text \<open>
  A block signed with the key whose public half is its producer and validator
  id passes validation, and signing does not change its hash.
\<close>

theorem SignBlock_validates:
  assumes ok: "crypto_ok e" and len: "length priv = 64"
    and ids: "bValidatorID b = hex_encode (ed_public e priv)" "bProducer b = bValidatorID b"
    and key: "bProducerPubKey b = []"
  shows "\<exists>b'. SignBlock e b priv = Some b' \<and> ValidateBlockSignature e b' = None \<and>
    calcBlockHash e b' = calcBlockHash e b"
proof -
  let ?sig = "ed_sign e priv (blockSignHash e b)"
  let ?b = "b\<lparr>bSignature := hex_encode ?sig\<rparr>"
  have "SignBlock e b priv = Some ?b" using len by (simp add: SignBlock_def ed25519_Sign_def)
  moreover have pub: "length (ed_public e priv) = 32" and "length ?sig = 64"
    using crypto_okD(2,3) [OF ok len] by auto
  moreover have "ed_public e priv \<noteq> []" using pub by auto
  moreover have "blockSignHash e ?b = blockSignHash e b" by (simp add: blockSignHash_def)
  moreover have "ed_verify e (ed_public e priv) (blockSignHash e b) ?sig"
    using crypto_okD(4) [OF ok len] .
  ultimately show ?thesis
    using ids key by (simp add: ValidateBlockSignature_def hex_decode_encode)
qed

text \<open>
  The older verifier checks no key size, so a block whose producer key is valid
  hexadecimal of any other length makes it panic; it panics on nothing else.
\<close>

theorem chain_VerifyBlockSignature_panics_iff:
  "chain_VerifyBlockSignature e b = None \<longleftrightarrow>
     bProducerPubKey b \<noteq> [] \<and> bSignature b \<noteq> [] \<and>
     (\<exists>pub sig. hex_decode (bProducerPubKey b) = Some pub \<and> hex_decode (bSignature b) = Some sig
        \<and> length pub \<noteq> 32)"
  by (auto simp: chain_VerifyBlockSignature_def ed25519_Verify_def split: option.splits if_splits)

end
