(* ===== verification/Durable.thy ===== *)
theory Durable
  imports Types
begin

text \<open>
  The file system under a durable write: what the running process sees, and what is left after the
  machine stops. \<open>writeFileAtomicDurable\<close> (\<open>internal/mesh/chain_persist.go\<close>) is the list of system
  calls it makes; how it ends, and what a crash between two of its calls leaves, both follow from
  running that list.
\<close>

section \<open>A disk with a cache\<close>

text \<open>
  A file is an inode, named by the path it was made under and a number. \<open>fsNames\<close> are the directory
  trees since the last one known to be on the disk, the newest first: a rename is one change of
  the tree. \<open>fsData\<close> is the content of the inodes as the process sees it; the content of a dirty
  inode has not reached the disk.
\<close>

type_synonym inode = "path \<times> nat"

record fsys =
  fsNames :: "(path, inode) fmap list"
  fsData :: "inode \<Rightarrow> string"
  fsDirty :: "inode set"
  fsNext :: nat

abbreviation names_now :: "fsys \<Rightarrow> (path, inode) fmap" where
  "names_now s \<equiv> hd (fsNames s)"

text \<open>A file system on which everything has been written back, and the files a process sees.\<close>

definition mount :: "files \<Rightarrow> fsys" where
  "mount fs = \<lparr>fsNames = [fmmap_keys (\<lambda>p _. (p, 0)) fs], fsData = (\<lambda>i. fmget [] fs (fst i)), fsDirty = {}, fsNext = 1\<rparr>"

definition visible :: "fsys \<Rightarrow> files" where
  "visible s = fmmap (fsData s) (names_now s)"

text \<open>
  What a crash can leave: any of the trees since the last synced one, with the content of a clean
  inode, and with any content at all in place of a dirty one.
\<close>

definition crash :: "fsys \<Rightarrow> files \<Rightarrow> bool" where
  "crash s fs \<longleftrightarrow> (\<exists>names \<in> set (fsNames s). fmdom fs = fmdom names \<and>
     (\<forall>p i. fmlookup names p = Some i \<longrightarrow> i \<notin> fsDirty s \<longrightarrow> fmlookup fs p = Some (fsData s i)))"

section \<open>System calls\<close>

datatype fs_call = CallMkdirAll string | CallOpenTrunc path | CallWrite path string | CallFsync path
  | CallClose path | CallRename path path | CallSyncDir string

definition set_data :: "inode \<Rightarrow> string \<Rightarrow> fsys \<Rightarrow> fsys" where
  "set_data i raw s = s\<lparr>fsData := (fsData s)(i := raw), fsDirty := insert i (fsDirty s)\<rparr>"

text \<open>\<open>O_CREATE|O_TRUNC\<close>: an existing file loses its content, otherwise a new one is made.\<close>

definition open_trunc :: "path \<Rightarrow> fsys \<Rightarrow> fsys" where
  "open_trunc p s = (case fmlookup (names_now s) p of
     Some i \<Rightarrow> set_data i [] s
   | None \<Rightarrow> set_data (p, fsNext s) [] (s\<lparr>fsNames := fmupd p (p, fsNext s) (names_now s) # fsNames s, fsNext := fsNext s + 1\<rparr>))"

definition write_file :: "path \<Rightarrow> string \<Rightarrow> fsys \<Rightarrow> fsys" where
  "write_file p raw s = (case fmlookup (names_now s) p of None \<Rightarrow> s | Some i \<Rightarrow> set_data i (fsData s i @ raw) s)"

text \<open>
  One call, with its error. A failing write leaves the bytes that got through, every other failing
  call leaves things as they were.
\<close>

fun fs_exec :: "env \<Rightarrow> fs_call \<Rightarrow> fsys \<Rightarrow> fsys \<times> io_error option" where
  "fs_exec e (CallMkdirAll dir) s = (s, if io_fails e MkdirAll (dir, []) then Some (IOFailure MkdirAll) else None)"
| "fs_exec e (CallOpenTrunc p) s =
     (if io_fails e OpenFile p then (s, Some (IOFailure OpenFile)) else (open_trunc p s, None))"
| "fs_exec e (CallWrite p raw) s =
     (if io_fails e WriteFile p then (write_file p (take (io_short e p) raw) s, Some (IOFailure WriteFile))
      else (write_file p raw s, None))"
| "fs_exec e (CallFsync p) s =
     (if io_fails e SyncFile p then (s, Some (IOFailure SyncFile))
      else (case fmlookup (names_now s) p of None \<Rightarrow> s | Some i \<Rightarrow> s\<lparr>fsDirty := fsDirty s - {i}\<rparr>, None))"
| "fs_exec e (CallClose p) s = (s, if io_fails e CloseFile p then Some (IOFailure CloseFile) else None)"
| "fs_exec e (CallRename p q) s =
     (if io_fails e RenameFile q then (s, Some (IOFailure RenameFile))
      else case fmlookup (names_now s) p of None \<Rightarrow> (s, Some NotExist)
        | Some i \<Rightarrow> (s\<lparr>fsNames := fmupd q i (fmdrop p (names_now s)) # fsNames s\<rparr>, None))"
| "fs_exec e (CallSyncDir dir) s =
     (if io_fails e SyncDir (dir, []) then (s, Some (IOFailure SyncDir)) else (s\<lparr>fsNames := [names_now s]\<rparr>, None))"

text \<open>The calls in turn, up to the first error.\<close>

fun fs_run :: "env \<Rightarrow> fs_call list \<Rightarrow> fsys \<Rightarrow> fsys \<times> io_error option" where
  "fs_run e [] s = (s, None)"
| "fs_run e (c # cs) s = (case fs_exec e c s of (s1, None) \<Rightarrow> fs_run e cs s1 | (s1, Some err) \<Rightarrow> (s1, Some err))"

section \<open>The durable write\<close>

definition write_calls :: "path \<Rightarrow> path \<Rightarrow> string \<Rightarrow> fs_call list" where
  "write_calls p tmp raw =
     [CallMkdirAll (fst p), CallOpenTrunc tmp, CallWrite tmp raw, CallFsync tmp, CallClose tmp,
      CallRename tmp p, CallSyncDir (fst p)]"

definition writeFileAtomicDurable ::
  "env \<Rightarrow> files \<Rightarrow> path \<Rightarrow> path \<Rightarrow> string \<Rightarrow> io_error option \<times> files" where
  "writeFileAtomicDurable e fs p tmp raw =
     (case fs_run e (write_calls p tmp raw) (mount fs) of (s, err) \<Rightarrow> (err, visible s))"

section \<open>The states of a write\<close>

lemma lookup_keys: "fmlookup (fmmap_keys f m) k = map_option (f k) (fmlookup m k)"
  by (rule fmlookup_fmmap_keys)

lemma visible_mount [simp]: "visible (mount fs) = fs"
proof (rule fmap_ext)
  show "fmlookup (visible (mount fs)) q = fmlookup fs q" for q
    by (cases "fmlookup fs q"; cases q) (simp_all add: visible_def mount_def lookup_keys)
qed

text \<open>The inode of the temporary file, the tree with it, and the state with given bytes in it.\<close>

definition tmp_inode :: "files \<Rightarrow> path \<Rightarrow> inode" where
  "tmp_inode fs tmp = (tmp, if tmp |\<in>| fmdom fs then 0 else 1)"

definition with_tmp :: "files \<Rightarrow> path \<Rightarrow> (path, inode) fmap" where
  "with_tmp fs tmp = fmupd tmp (tmp_inode fs tmp) (names_now (mount fs))"

definition written :: "files \<Rightarrow> path \<Rightarrow> string \<Rightarrow> fsys" where
  "written fs tmp r = set_data (tmp_inode fs tmp) r (open_trunc tmp (mount fs))"

lemma tree_mount [simp]: "fmlookup (names_now (mount fs)) q = map_option (\<lambda>_. (q, 0)) (fmlookup fs q)"
  by (simp add: mount_def lookup_keys)

lemma written_fields:
  "fsData (written fs tmp r) = (\<lambda>i. fmget [] fs (fst i))(tmp_inode fs tmp := r)"
  "fsDirty (written fs tmp r) = {tmp_inode fs tmp}"
  "fmlookup (names_now (written fs tmp r)) tmp = Some (tmp_inode fs tmp)"
  "q \<noteq> tmp \<Longrightarrow> fmlookup (names_now (written fs tmp r)) q = map_option (\<lambda>_. (q, 0)) (fmlookup fs q)"
  by (auto simp: written_def open_trunc_def set_data_def tmp_inode_def with_tmp_def mount_def lookup_keys
      fmlookup_dom_iff split: option.split)

lemma written_names:
  "fsNames (written fs tmp r) = (if tmp |\<in>| fmdom fs then [names_now (mount fs)] else [with_tmp fs tmp, names_now (mount fs)])"
  by (auto simp: written_def open_trunc_def set_data_def tmp_inode_def with_tmp_def mount_def lookup_keys
      fmlookup_dom_iff split: option.split)

lemma open_written: "open_trunc tmp (mount fs) = written fs tmp []"
  by (rule fsys.equality) (auto simp: written_def open_trunc_def set_data_def tmp_inode_def mount_def lookup_keys
      fmlookup_dom_iff split: option.split)

lemma write_written: "write_file tmp r (written fs tmp []) = written fs tmp r"
proof -
  have "fsData (written fs tmp []) (tmp_inode fs tmp) = []" by (simp add: written_fields)
  then show ?thesis
    using written_fields(3) [of fs tmp "[]"] by (simp add: write_file_def) (simp add: written_def set_data_def)
qed

definition synced :: "files \<Rightarrow> path \<Rightarrow> string \<Rightarrow> fsys" where
  "synced fs tmp raw = (written fs tmp raw)\<lparr>fsDirty := {}\<rparr>"

definition renamed :: "files \<Rightarrow> path \<Rightarrow> path \<Rightarrow> string \<Rightarrow> fsys" where
  "renamed fs p tmp raw = (synced fs tmp raw)\<lparr>fsNames :=
     fmupd p (tmp_inode fs tmp) (fmdrop tmp (names_now (written fs tmp raw))) # fsNames (written fs tmp raw)\<rparr>"

definition settled :: "files \<Rightarrow> path \<Rightarrow> path \<Rightarrow> string \<Rightarrow> fsys" where
  "settled fs p tmp raw = (renamed fs p tmp raw)\<lparr>fsNames := [names_now (renamed fs p tmp raw)]\<rparr>"

text \<open>Every call of the write leads from one of these states to the next, or fails.\<close>

lemma write_steps:
  "fs_exec e (CallOpenTrunc tmp) (mount fs) =
     (if io_fails e OpenFile tmp then (mount fs, Some (IOFailure OpenFile)) else (written fs tmp [], None))"
  "fs_exec e (CallWrite tmp raw) (written fs tmp []) =
     (if io_fails e WriteFile tmp then (written fs tmp (take (io_short e tmp) raw), Some (IOFailure WriteFile))
      else (written fs tmp raw, None))"
  "fs_exec e (CallFsync tmp) (written fs tmp raw) =
     (if io_fails e SyncFile tmp then (written fs tmp raw, Some (IOFailure SyncFile)) else (synced fs tmp raw, None))"
  "fs_exec e (CallRename tmp p) (synced fs tmp raw) =
     (if io_fails e RenameFile p then (synced fs tmp raw, Some (IOFailure RenameFile)) else (renamed fs p tmp raw, None))"
  "fs_exec e (CallSyncDir dir) (renamed fs p tmp raw) =
     (if io_fails e SyncDir (dir, []) then (renamed fs p tmp raw, Some (IOFailure SyncDir)) else (settled fs p tmp raw, None))"
  by (simp_all add: open_written write_written written_fields synced_def renamed_def settled_def)

lemma write_run:
  "fs_run e (write_calls p tmp raw) (mount fs) =
     (if io_fails e MkdirAll (fst p, []) then (mount fs, Some (IOFailure MkdirAll))
      else if io_fails e OpenFile tmp then (mount fs, Some (IOFailure OpenFile))
      else if io_fails e WriteFile tmp then (written fs tmp (take (io_short e tmp) raw), Some (IOFailure WriteFile))
      else if io_fails e SyncFile tmp then (written fs tmp raw, Some (IOFailure SyncFile))
      else if io_fails e CloseFile tmp then (synced fs tmp raw, Some (IOFailure CloseFile))
      else if io_fails e RenameFile p then (synced fs tmp raw, Some (IOFailure RenameFile))
      else if io_fails e SyncDir (fst p, []) then (renamed fs p tmp raw, Some (IOFailure SyncDir))
      else (settled fs p tmp raw, None))"
  unfolding write_calls_def
  by (simp add: write_steps del: fs_exec.simps(2,3,4,6,7))

lemma write_prefix:
  "fst (fs_run e (take k (write_calls p tmp raw)) (mount fs)) \<in>
     {mount fs, synced fs tmp raw, renamed fs p tmp raw, settled fs p tmp raw} \<union> range (written fs tmp)"
proof -
  have "k = 0 \<or> k = 1 \<or> k = 2 \<or> k = 3 \<or> k = 4 \<or> k = 5 \<or> k = 6 \<or> 7 \<le> k" by arith
  moreover have "7 \<le> k \<Longrightarrow> take k (write_calls p tmp raw) = write_calls p tmp raw" by (simp add: write_calls_def)
  ultimately show ?thesis
    using write_run [of e p tmp raw fs]
    by (elim disjE) (auto simp: write_calls_def write_steps numeral_eq_Suc simp del: fs_exec.simps(2,3,4,6,7))
qed

section \<open>What the process sees\<close>

lemma visible_lookup: "fmlookup (visible s) q = map_option (fsData s) (fmlookup (names_now s) q)"
  by (simp add: visible_def)

lemma visible_written: "visible (written fs tmp r) = fmupd tmp r fs"
  by (rule fmap_ext) (auto simp: visible_lookup written_fields option.map_comp fmget_def tmp_inode_def o_def
      simp del: fmlookup_map split: option.split)

lemma visible_synced: "visible (synced fs tmp r) = fmupd tmp r fs"
  using visible_written [of fs tmp r] by (simp add: visible_def synced_def)

lemma visible_renamed: "visible (renamed fs p tmp raw) = fmupd p raw (fmdrop tmp (fmupd tmp raw fs))"
proof (rule fmap_ext)
  show "fmlookup (visible (renamed fs p tmp raw)) q = fmlookup (fmupd p raw (fmdrop tmp (fmupd tmp raw fs))) q" for q
  proof (cases "q = p \<or> q = tmp")
    case True
    then show ?thesis by (auto simp: visible_lookup renamed_def synced_def written_fields)
  next
    case False
    then have "fmlookup (visible (renamed fs p tmp raw)) q = fmlookup (visible (written fs tmp raw)) q"
      by (auto simp: visible_lookup renamed_def synced_def)
    then show ?thesis using False by (auto simp: visible_written)
  qed
qed

lemma visible_settled: "visible (settled fs p tmp raw) = fmupd p raw (fmdrop tmp (fmupd tmp raw fs))"
  using visible_renamed [of fs p tmp raw] by (simp add: visible_def settled_def)

text \<open>The write as a function of the files, for the callers that do not crash.\<close>

lemma writeFileAtomicDurable_files:
  "writeFileAtomicDurable e fs p tmp raw =
     (if io_fails e MkdirAll (fst p, []) then (Some (IOFailure MkdirAll), fs)
      else if io_fails e OpenFile tmp then (Some (IOFailure OpenFile), fs)
      else if io_fails e WriteFile tmp
      then (Some (IOFailure WriteFile), fmupd tmp (take (io_short e tmp) raw) fs)
      else if io_fails e SyncFile tmp then (Some (IOFailure SyncFile), fmupd tmp raw fs)
      else if io_fails e CloseFile tmp then (Some (IOFailure CloseFile), fmupd tmp raw fs)
      else case os_Rename e (fmupd tmp raw fs) tmp p of
          (Some err, fs') \<Rightarrow> (Some err, fs')
        | (None, fs') \<Rightarrow>
            (if io_fails e SyncDir (fst p, []) then (Some (IOFailure SyncDir), fs') else (None, fs')))"
  by (simp add: writeFileAtomicDurable_def write_run os_Rename_def visible_written visible_synced visible_renamed
      visible_settled)

section \<open>What a crash leaves\<close>

text \<open>
  A state is safe if, in every tree, each name but the temporary one leads either to what it named
  at first or, if it is the target, to a clean inode with the whole new text.
\<close>

definition safe :: "files \<Rightarrow> path \<Rightarrow> path \<Rightarrow> string \<Rightarrow> fsys \<Rightarrow> bool" where
  "safe fs p tmp raw s \<longleftrightarrow>
     (\<forall>q. q \<noteq> tmp \<longrightarrow> (q, 0) \<notin> fsDirty s \<and> fsData s (q, 0) = fmget [] fs q) \<and>
     (\<forall>names \<in> set (fsNames s). \<forall>q. q \<noteq> tmp \<longrightarrow>
        fmlookup names q = map_option (\<lambda>_. (q, 0)) (fmlookup fs q) \<or>
        q = p \<and> (\<exists>i. fmlookup names q = Some i \<and> i \<notin> fsDirty s \<and> fsData s i = raw))"

lemma crash_safe:
  assumes "safe fs p tmp raw s" and "crash s fs'" and "q \<noteq> tmp"
  shows "fmlookup fs' q = fmlookup fs q \<or> q = p \<and> fmlookup fs' q = Some raw"
proof -
  obtain names where names: "names \<in> set (fsNames s)" and dom: "fmdom fs' = fmdom names"
    and data: "\<And>p i. fmlookup names p = Some i \<Longrightarrow> i \<notin> fsDirty s \<Longrightarrow> fmlookup fs' p = Some (fsData s i)"
    using assms(2) unfolding crash_def by blast
  have clean: "(q, 0) \<notin> fsDirty s" "fsData s (q, 0) = fmget [] fs q"
    using assms(1,3) unfolding safe_def by blast+
  consider (old) "fmlookup names q = map_option (\<lambda>_. (q, 0)) (fmlookup fs q)"
    | (new) i where "q = p" "fmlookup names q = Some i" "i \<notin> fsDirty s" "fsData s i = raw"
    using assms(1,3) names unfolding safe_def by blast
  then show ?thesis
  proof cases
    case old
    show ?thesis
    proof (cases "fmlookup fs q")
      case None
      then have "q |\<notin>| fmdom fs'" using old dom by (simp add: fmdom_notI)
      then show ?thesis using None by (simp add: fmdom_notD)
    next
      case (Some x)
      then show ?thesis using old data [of q "(q, 0)"] clean by simp
    qed
  next
    case new
    then show ?thesis using data by blast
  qed
qed

lemma safe_states:
  assumes "p \<noteq> tmp"
  shows "safe fs p tmp raw (mount fs)" "safe fs p tmp raw (written fs tmp r)" "safe fs p tmp raw (synced fs tmp raw)"
    "safe fs p tmp raw (renamed fs p tmp raw)" "safe fs p tmp raw (settled fs p tmp raw)"
proof -
  have inode: "(q, 0) \<noteq> tmp_inode fs tmp" if "q \<noteq> tmp" for q using that by (simp add: tmp_inode_def)
  have names: "fmlookup names q = map_option (\<lambda>_. (q, 0)) (fmlookup fs q)"
    if "names \<in> set (fsNames (written fs tmp r))" "q \<noteq> tmp" for names q r
    using that by (auto simp: written_names with_tmp_def split: if_splits)
  show "safe fs p tmp raw (mount fs)"
    by (simp add: safe_def mount_def lookup_keys)
  show w: "safe fs p tmp raw (written fs tmp r)" for r
    using names inode by (auto simp: safe_def written_fields)
  show "safe fs p tmp raw (synced fs tmp raw)"
    unfolding safe_def synced_def using names inode by (simp add: written_fields)
  have new: "fmlookup (fmupd p (tmp_inode fs tmp) (fmdrop tmp (names_now (written fs tmp raw)))) q
      = (if q = p then Some (tmp_inode fs tmp) else map_option (\<lambda>_. (q, 0)) (fmlookup fs q))" if "q \<noteq> tmp" for q
    using that by (simp add: written_fields)
  have fields: "fsDirty (renamed fs p tmp raw) = {}" "fsData (renamed fs p tmp raw) = fsData (written fs tmp raw)"
    by (simp_all add: renamed_def synced_def)
  have data: "fsData (written fs tmp raw) (q, 0) = fmget [] fs q" if "q \<noteq> tmp" for q
    using inode [OF that] by (simp add: written_fields)
  have target: "fsData (written fs tmp raw) (tmp_inode fs tmp) = raw" by (simp add: written_fields)
  show "safe fs p tmp raw (renamed fs p tmp raw)"
    unfolding safe_def fields
  proof (intro conjI ballI allI impI)
    fix ns q
    assume "ns \<in> set (fsNames (renamed fs p tmp raw))" and q: "q \<noteq> tmp"
    then consider "ns = fmupd p (tmp_inode fs tmp) (fmdrop tmp (names_now (written fs tmp raw)))"
      | "ns \<in> set (fsNames (written fs tmp raw))" by (auto simp: renamed_def)
    then show "fmlookup ns q = map_option (\<lambda>_. (q, 0)) (fmlookup fs q) \<or>
        q = p \<and> (\<exists>i. fmlookup ns q = Some i \<and> i \<notin> {} \<and> fsData (written fs tmp raw) i = raw)"
      using new [OF q] names q target by cases (metis empty_iff)+
  qed (use data in auto)
  then show "safe fs p tmp raw (settled fs p tmp raw)"
    by (simp add: safe_def settled_def) (simp add: renamed_def)
qed

lemma crash_settled:
  assumes "crash (settled fs p tmp raw) fs'"
  shows "fmlookup fs' p = Some raw"
proof -
  let ?s = "settled fs p tmp raw"
  have names: "fsNames ?s = [fmupd p (tmp_inode fs tmp) (fmdrop tmp (names_now (written fs tmp raw)))]"
    and clean: "fsDirty ?s = {}" and data: "fsData ?s (tmp_inode fs tmp) = raw"
    by (simp_all add: settled_def renamed_def synced_def written_fields(1))
  obtain ns where ns: "ns \<in> set (fsNames ?s)"
    and content: "\<And>q i. fmlookup ns q = Some i \<Longrightarrow> i \<notin> fsDirty ?s \<Longrightarrow> fmlookup fs' q = Some (fsData ?s i)"
    using assms unfolding crash_def by blast
  have "fmlookup ns p = Some (tmp_inode fs tmp)" using ns names by simp
  from content [OF this] show ?thesis using clean data by simp
qed

text \<open>
  C26 (safety): the write of a file is atomic and durable: wherever among its calls the machine
  stops - after any of them, whether or not one failed, and whatever had reached the disk of what was not
  synced - every file but the temporary one has its old content, or, if it is the target, the
  whole new text; and once the write has reported success, the target has the new text.
\<close>

theorem write_is_atomic:
  assumes "p \<noteq> tmp" and "fs_run e (take k (write_calls p tmp raw)) (mount fs) = (s, r)" and "crash s fs'"
  shows "(\<forall>q. q \<noteq> tmp \<longrightarrow> fmlookup fs' q = fmlookup fs q \<or> q = p \<and> fmlookup fs' q = Some raw) \<and>
    (r = None \<and> length (write_calls p tmp raw) \<le> k \<longrightarrow> fmlookup fs' p = Some raw)"
proof (intro conjI)
  have "safe fs p tmp raw s"
    using write_prefix [of e k p tmp raw fs] assms(2) safe_states [OF assms(1)] by (auto simp del: fs_run.simps)
  then show "\<forall>q. q \<noteq> tmp \<longrightarrow> fmlookup fs' q = fmlookup fs q \<or> q = p \<and> fmlookup fs' q = Some raw"
    using crash_safe assms(3) by blast
  show "r = None \<and> length (write_calls p tmp raw) \<le> k \<longrightarrow> fmlookup fs' p = Some raw"
  proof
    assume "r = None \<and> length (write_calls p tmp raw) \<le> k"
    then have "s = settled fs p tmp raw" using assms(2) write_run [of e p tmp raw fs] by (simp split: if_splits)
    then show "fmlookup fs' p = Some raw" using crash_settled assms(3) by simp
  qed
qed

end
