(* ===== verification/Files.thy ===== *)
theory Files
  imports State Durable
begin

text \<open>
  The data directory (\<open>internal/mesh/chain_persist.go\<close>, the paths of \<open>chain_snapshot.go\<close> and
  \<open>validator_identity.go\<close>): the naming of block files and their durable writes, decoding, and the
  quarantine of corrupt files.
\<close>

section \<open>Paths\<close>

text \<open>\<open>filepath.Join\<close> on a root that is already in its cleaned form.\<close>

definition join_path :: "string \<Rightarrow> string \<Rightarrow> string" where
  "join_path root name = (if root = [] then name else if root = ''/'' then root @ name
     else root @ ''/'' @ name)"

definition tmp_of :: "path \<Rightarrow> path" where
  "tmp_of p = (fst p, snd p @ ''.tmp'')"

lemma tmp_of_neq [simp]: "tmp_of p \<noteq> p" "p \<noteq> tmp_of p"
  by (cases p, simp add: tmp_of_def)+

definition data_root :: "chain \<Rightarrow> string" where
  "data_root c =
     (let root = chPersistDir c;
          root2 = (if root = [] then chDataDir c else root)
      in if root2 = [] then ''data'' else root2)"

definition blockDir :: "chain \<Rightarrow> string" where
  "blockDir c = join_path (data_root c) ''blocks''"

definition snapshotPath :: "chain \<Rightarrow> path" where
  "snapshotPath c = (data_root c, ''snapshot.json'')"

definition block_file :: "int \<Rightarrow> string" where
  "block_file h = fmt_int h @ ''.json''"

definition blockPath :: "chain \<Rightarrow> int \<Rightarrow> path" where
  "blockPath c h = (blockDir c, block_file h)"

text \<open>
  \<open>exactBlockJSONNameRE\<close> and \<open>exactBlockJSONTmpNameRE\<close> with the \<open>Sscanf\<close> of the number, which
  fails beyond the \<open>int64\<close> range.
\<close>

definition strip_suffix :: "string \<Rightarrow> string \<Rightarrow> string option" where
  "strip_suffix suf s =
     (let n = length s - length suf
      in if length suf \<le> length s \<and> drop n s = suf then Some (take n s) else None)"

definition scan_height :: "string \<Rightarrow> int option" where
  "scan_height s = (case parse_nat s of None \<Rightarrow> None
     | Some n \<Rightarrow> if int n < 2 ^ 63 then Some (int n) else None)"

definition block_name_height :: "string \<Rightarrow> int option" where
  "block_name_height name = Option.bind (strip_suffix ''.json'' name) scan_height"

definition tmp_name_height :: "string \<Rightarrow> int option" where
  "tmp_name_height name = Option.bind (strip_suffix ''.json.tmp'' name) scan_height"

lemma strip_suffix_append [simp]: "strip_suffix suf (s @ suf) = Some s"
  by (simp add: strip_suffix_def)

lemma scan_height_fmt [simp]: "0 \<le> h \<Longrightarrow> h < 2 ^ 63 \<Longrightarrow> scan_height (fmt_int h) = Some h"
  by (simp add: scan_height_def fmt_int_def parse_fmt_nat)

lemma block_name_height_file [simp]:
  "0 \<le> h \<Longrightarrow> h < 2 ^ 63 \<Longrightarrow> block_name_height (block_file h) = Some h"
  by (simp add: block_name_height_def block_file_def)

lemma tmp_name_height_file [simp]:
  "0 \<le> h \<Longrightarrow> h < 2 ^ 63 \<Longrightarrow> tmp_name_height (block_file h @ ''.tmp'') = Some h"
  using strip_suffix_append [of "''.json.tmp''" "fmt_int h"]
  by (simp add: tmp_name_height_def block_file_def)

lemma block_file_inject [simp]: "block_file h = block_file k \<longleftrightarrow> h = k"
  by (simp add: block_file_def)

section \<open>Writing a block\<close>

definition persistBlockLocked :: "env \<Rightarrow> chain \<Rightarrow> block \<Rightarrow> chain \<times> io_error option" where
  "persistBlockLocked e c b =
     (let dir = blockDir c
      in if io_fails e MkdirAll (dir, []) then (c, Some (IOFailure MkdirAll))
         else let p = blockPath c (bHeight b);
                  (err, fs) = writeFileAtomicDurable e (chDisk c) p (tmp_of p) (marshalBlock e b)
              in (c\<lparr>chDisk := fs\<rparr>, err))"

section \<open>Decoding\<close>

datatype decode_error = EmptyBlockFile | BadBlockJSON | HeightMismatch int int

definition decodePersistedBlock :: "env \<Rightarrow> string \<Rightarrow> int \<Rightarrow> decode_error + block" where
  "decodePersistedBlock e raw expectedHeight =
     (if trim_space raw = [] then Inl EmptyBlockFile
      else case unmarshalBlock e raw of
          None \<Rightarrow> Inl BadBlockJSON
        | Some b \<Rightarrow> if bHeight b \<noteq> expectedHeight then Inl (HeightMismatch expectedHeight (bHeight b))
            else Inr b)"

text \<open>
  What \<open>encoding/json\<close> does on one block whose strings are valid UTF-8: the indented text reads
  back as the block, it is an object, and no proper prefix of it is a JSON value.
\<close>

definition block_codec :: "env \<Rightarrow> block \<Rightarrow> bool" where
  "block_codec e b \<longleftrightarrow>
     unmarshalBlock e (marshalBlock e b) = Some b \<and>
     take 1 (marshalBlock e b) = ''{'' \<and>
     (\<forall>n < length (marshalBlock e b). unmarshalBlock e (take n (marshalBlock e b)) = None)"

section \<open>Quarantine\<close>

definition quarantine_dir :: "string \<Rightarrow> string" where
  "quarantine_dir dir = join_path dir ''quarantine''"

definition quarantine_target :: "env \<Rightarrow> path \<Rightarrow> path" where
  "quarantine_target e p =
     (quarantine_dir (fst p), snd p @ ''.corrupt.'' @ fmt_int (sint (word_of_int (now e) :: i64)))"

definition quarantineCorruptFile :: "env \<Rightarrow> files \<Rightarrow> path \<Rightarrow> io_error option \<times> files" where
  "quarantineCorruptFile e fs p =
     (let qdir = quarantine_dir (fst p)
      in if io_fails e MkdirAll (qdir, []) then (Some (IOFailure MkdirAll), fs)
         else case os_Rename e fs p (quarantine_target e p) of
             (Some err, fs') \<Rightarrow> (Some err, fs')
           | (None, fs') \<Rightarrow>
               (if io_fails e SyncDir (qdir, []) then (Some (IOFailure SyncDir), fs')
                else if io_fails e SyncDir (fst p, []) then (Some (IOFailure SyncDir), fs')
                else (None, fs')))"

text \<open>
  \<open>handleReplayCorruption\<close>: the file is moved away; start-up goes on only if this is allowed at
  this point and by the operator's environment variable.
\<close>

datatype 'c startup_error = QuarantineFailed 'c io_error | StartupHalted 'c | StartupIO io_error

definition handleReplayCorruption ::
  "env \<Rightarrow> files \<Rightarrow> path \<Rightarrow> 'c \<Rightarrow> bool \<Rightarrow> 'c startup_error option \<times> files" where
  "handleReplayCorruption e fs p cause allowBestEffort =
     (case quarantineCorruptFile e fs p of
        (Some err, fs') \<Rightarrow> (Some (QuarantineFailed cause err), fs')
      | (None, fs') \<Rightarrow>
          (if allowBestEffort \<and> allow_corrupt e then (None, fs') else (Some (StartupHalted cause), fs')))"

section \<open>Lemmas\<close>

text \<open>An environment in which no file operation fails.\<close>

definition io_ok :: "env \<Rightarrow> bool" where
  "io_ok e \<longleftrightarrow> (\<forall>opr p. \<not> io_fails e opr p)"

lemma io_okD [simp]: "io_ok e \<Longrightarrow> \<not> io_fails e opr p"
  by (cases p) (simp add: io_ok_def)

lemma blockPath_disk [simp]:
  "blockPath (c\<lparr>chDisk := d\<rparr>) = blockPath c" "blockDir (c\<lparr>chDisk := d\<rparr>) = blockDir c"
  by (simp_all add: blockPath_def blockDir_def data_root_def Let_def fun_eq_iff)

lemma persistBlock_frame: "\<exists>d. fst (persistBlockLocked e c b) = c\<lparr>chDisk := d\<rparr>"
proof (cases "io_fails e MkdirAll (blockDir c, [])")
  case True
  then have "fst (persistBlockLocked e c b) = c\<lparr>chDisk := chDisk c\<rparr>"
    by (simp add: persistBlockLocked_def Let_def)
  then show ?thesis ..
next
  case False
  then show ?thesis by (simp add: persistBlockLocked_def Let_def split_beta) blast
qed

lemma write_ok_content:
  assumes "p \<noteq> tmp" and "writeFileAtomicDurable e fs p tmp raw = (None, fs')"
  shows "fs' = fmupd p raw (fmdrop tmp (fmupd tmp raw fs))"
  using assms by (auto simp: writeFileAtomicDurable_files os_Rename_def split: if_splits)

lemma write_io_ok:
  "io_ok e \<Longrightarrow> writeFileAtomicDurable e fs p tmp raw = (None, fmupd p raw (fmdrop tmp (fmupd tmp raw fs)))"
  by (simp add: writeFileAtomicDurable_files os_Rename_def)

lemma trim_space_nonempty: "take 1 s = [ch] \<Longrightarrow> \<not> is_space ch \<Longrightarrow> trim_space s \<noteq> []"
  by (cases s) (auto simp: trim_space_def dropWhile_append)

lemma brace_not_space: "\<not> is_space (CHR ''{'')"
  by (simp add: is_space_def)

lemma decode_persisted:
  "block_codec e b \<Longrightarrow> decodePersistedBlock e (marshalBlock e b) (bHeight b) = Inr b"
  using trim_space_nonempty [of "marshalBlock e b" "CHR ''{''"] brace_not_space
  by (simp add: decodePersistedBlock_def block_codec_def)

end
