(* ===== verification/Apply.thy ===== *)
theory Apply
  imports Mempool Blocks Files
begin

text \<open>
  Application of a block (\<open>applyBlockLocked\<close>, \<open>internal/mesh/chain_core.go\<close>): the checks in the
  code's order, the state root on a scratch copy of the accounts, persistence, execution over
  the cache of account snapshots, the rewards, and the advance of finality. The reference is
  the ledger of \<open>Ledger\<close>.
\<close>

section \<open>Operations\<close>

datatype block_error =
    NegativeReward | TooManyTxs | BlockTxBadSignature | BlockTxFieldTooLarge | DuplicateTxInBlock
  | DuplicateSenderNonceInBlock | BadHeight int int | BadPrevHash string string | MissingTime
  | BadHash | InvalidSignature sig_error | BadReward i64 i64 | MissingBalancesRoot
  | BadBalancesRoot string string | PersistFailed int io_error | TxInvalid exec_error

definition observeValidatorLocked :: "chain \<Rightarrow> string \<Rightarrow> chain" where
  "observeValidatorLocked c vid =
     (if vid = [] \<or> vid = ''GENESIS'' then c
      else c\<lparr>chValidatorSet := finsert vid (chValidatorSet c)\<rparr>)"

text \<open>The first loop over the transactions: ids and sender nonces seen, and the fees.\<close>

fun check_txs :: "env \<Rightarrow> tx list \<Rightarrow> string fset \<Rightarrow> string fset \<Rightarrow> i64 \<Rightarrow> block_error + i64" where
  "check_txs e [] ids sns fees = Inr fees"
| "check_txs e (t # ts) ids sns fees =
     (if \<not> VerifyTxSignature e t then Inl BlockTxBadSignature
      else if fieldTooLarge t then Inl BlockTxFieldTooLarge
      else let id = txID e t
      in if id |\<in>| ids then Inl DuplicateTxInBlock
      else let sn = senderNonceKey t
      in if sn |\<in>| sns then Inl DuplicateSenderNonceInBlock
      else check_txs e ts (finsert id ids) (finsert sn sns) (fees + txFee t))"

text \<open>\<open>calcStateHashWithBlock\<close>: ill-shaped transactions are skipped, the others run unchecked.\<close>

definition root_tx :: "tx \<Rightarrow> accounts \<times> i64 \<Rightarrow> accounts \<times> i64" where
  "root_tx t st =
     (case st of (tmp, fees) \<Rightarrow>
        if txFrom t = [] \<or> txTo t = [] \<or> txFrom t = txTo t \<or> sle (txAmount t) 0 then (tmp, fees)
        else let (tmp1, f) = getOrCreateAccount tmp (txFrom t);
                 (tmp2, r) = getOrCreateAccount tmp1 (txTo t)
             in (fmupd (txTo t) (credit (txAmount t) r) (fmupd (txFrom t) (debit t f) tmp2),
                 fees + txFee t))"

definition credit_account :: "accounts \<Rightarrow> string \<Rightarrow> i64 \<Rightarrow> accounts" where
  "credit_account m addr v = (let (m1, ac) = getOrCreateAccount m addr in fmupd addr (credit v ac) m1)"

definition reward_recipient :: "block \<Rightarrow> string" where
  "reward_recipient b = (if bProducerAddr b \<noteq> [] then bProducerAddr b else bProducer b)"

definition stateWithBlock :: "accounts \<Rightarrow> block \<Rightarrow> accounts" where
  "stateWithBlock accts b =
     (let (tmp, fees) = fold root_tx (block_txs b) (accts, 0);
          reward = expectedReward (bHeight b) fees;
          tmp1 = (if feeSplitActive (bHeight b) \<and> slt 0 (snd (splitFees fees))
                  then credit_account tmp TreasuryAddr (snd (splitFees fees)) else tmp)
      in if slt 0 reward \<and> reward_recipient b \<noteq> []
         then credit_account tmp1 (reward_recipient b) reward else tmp1)"

definition calcStateHashWithBlock :: "env \<Rightarrow> chain \<Rightarrow> block \<Rightarrow> string" where
  "calcStateHashWithBlock e c b = merkleBalancesRoot e (stateWithBlock (chAccounts c) b)"

text \<open>
  The second loop: snapshots of the touched accounts are cached and written back at the end,
  but \<open>touch\<close> already creates the missing accounts in the chain's own map.
\<close>

type_synonym cache = "accounts \<times> accounts"

definition touch :: "cache \<Rightarrow> string \<Rightarrow> cache \<times> account" where
  "touch k addr =
     (case k of (m, s) \<Rightarrow>
        (case fmlookup s addr of
           Some v \<Rightarrow> ((m, s), v)
         | None \<Rightarrow> let (m', ac) = getOrCreateAccount m addr in ((m', fmupd addr ac s), ac)))"

definition put :: "cache \<Rightarrow> string \<Rightarrow> account \<Rightarrow> cache" where
  "put k addr v = (case k of (m, s) \<Rightarrow> (m, fmupd addr v s))"

fun exec_txs :: "tx list \<Rightarrow> cache \<Rightarrow> i64 \<Rightarrow> exec_error option \<times> cache \<times> i64" where
  "exec_txs [] k fees = (None, k, fees)"
| "exec_txs (t # ts) k fees =
     (case tx_shape t of Some err \<Rightarrow> (Some err, k, fees)
      | None \<Rightarrow>
          let (k1, f) = touch k (txFrom t); (k2, r) = touch k1 (txTo t)
          in case tx_funded t f of Some err \<Rightarrow> (Some err, k2, fees)
             | None \<Rightarrow> exec_txs ts (put (put k2 (txFrom t) (debit t f)) (txTo t) (credit (txAmount t) r))
                 (fees + txFee t))"

text \<open>Writing the snapshots back: every key of the cache gets the cached value.\<close>

definition write_back :: "cache \<Rightarrow> accounts" where
  "write_back k = (case k of (m, s) \<Rightarrow> m ++\<^sub>f s)"

definition pay_rewards :: "block \<Rightarrow> i64 \<Rightarrow> accounts \<Rightarrow> accounts" where
  "pay_rewards b fees m =
     (let m1 = credit_account m (reward_recipient b) (bReward b)
      in if feeSplitActive (bHeight b) \<and> slt 0 (snd (splitFees fees))
         then credit_account m1 TreasuryAddr (snd (splitFees fees)) else m1)"

definition finalityDepth :: int where "finalityDepth = 2"

definition finalize_at :: "int \<Rightarrow> (int, block) fmap \<Rightarrow> (int, block) fmap" where
  "finalize_at h bs = (case fmlookup bs h of None \<Rightarrow> bs
     | Some b \<Rightarrow> if bIsFinalized b then bs else fmupd h (b\<lparr>bIsFinalized := True\<rparr>) bs)"

definition advanceFinalityLocked :: "chain \<Rightarrow> chain" where
  "advanceFinalityLocked c =
     (let target0 = chHeight c - finalityDepth;
          target = (if target0 < 0 then 0 else target0)
      in if target \<le> chFinalizedHeight c then c
         else c\<lparr>chBlocks := fold finalize_at [chFinalizedHeight c + 1..target] (chBlocks c),
                chFinalizedHeight := target\<rparr>)"

text \<open>
  The checks before persistence, in order; the two ids are observed after the time check.
  The fee total is the result. (\<open>ensureGenesisLocked\<close> only replaces a nil account map.)
\<close>

definition check_header :: "env \<Rightarrow> chain \<Rightarrow> block \<Rightarrow> block_error + i64" where
  "check_header e c b =
     (if slt (bReward b) 0 then Inl NegativeReward
      else if MaxBlockTxs < length (block_txs b) then Inl TooManyTxs
      else case check_txs e (block_txs b) {||} {||} 0 of Inl err \<Rightarrow> Inl err
        | Inr fees \<Rightarrow>
            if bHeight b \<noteq> chHeight c + 1 then Inl (BadHeight (bHeight b) (chHeight c + 1))
            else if bPrevHash b \<noteq> chTip c then Inl (BadPrevHash (bPrevHash b) (chTip c))
            else if bTimeUTC b = time_zero then Inl MissingTime
            else Inr fees)"

definition check_body :: "env \<Rightarrow> chain \<Rightarrow> block \<Rightarrow> i64 \<Rightarrow> block_error option" where
  "check_body e c b fees =
     (if bHash b = [] \<or> bHash b \<noteq> calcBlockHash e b then Some BadHash
      else case ValidateBlockSignature e b of Some err \<Rightarrow> Some (InvalidSignature err)
        | None \<Rightarrow>
            if bReward b \<noteq> expectedReward (bHeight b) fees
            then Some (BadReward (bReward b) (expectedReward (bHeight b) fees))
            else if bBalancesRoot b = [] then Some MissingBalancesRoot
            else if bBalancesRoot b \<noteq> calcStateHashWithBlock e c b
            then Some (BadBalancesRoot (bBalancesRoot b) (calcStateHashWithBlock e c b))
            else None)"

text \<open>The second loop goes on adding to the fee total of the first.\<close>

definition execBlockLocked :: "env \<Rightarrow> chain \<Rightarrow> block \<Rightarrow> i64 \<Rightarrow> chain \<times> block_error option" where
  "execBlockLocked e c b fees =
     (case exec_txs (block_txs b) (chAccounts c, fmempty) fees of
        (Some err, k, fees2) \<Rightarrow> (c\<lparr>chAccounts := fst k\<rparr>, Some (TxInvalid err))
      | (None, k, fees2) \<Rightarrow>
          let c1 = c\<lparr>chAccounts := pay_rewards b fees2 (write_back k),
                     chBlocks := fmupd (bHeight b) b (chBlocks c),
                     chHeight := bHeight b, chTip := bHash b\<rparr>;
              c2 = advanceFinalityLocked (fst (compactMempoolLocked e c1))
          in (c2\<lparr>chTip := bHash b\<rparr>, None))"

definition applyBlockLocked :: "env \<Rightarrow> chain \<Rightarrow> block \<Rightarrow> chain \<times> block_error option" where
  "applyBlockLocked e c b =
     (case check_header e c b of Inl err \<Rightarrow> (c, Some err)
      | Inr fees \<Rightarrow>
          let c1 = observeValidatorLocked (observeValidatorLocked c (bValidatorID b)) (bProducer b)
          in case check_body e c1 b fees of Some err \<Rightarrow> (c1, Some err)
             | None \<Rightarrow>
                 (case persistBlockLocked e c1 b of
                    (c2, Some err) \<Rightarrow> (c2, Some (PersistFailed (bHeight b) err))
                  | (c2, None) \<Rightarrow> execBlockLocked e c2 b fees))"

section \<open>The reference\<close>

text \<open>
  What the Merkle root of a block commits to: its transactions run on the ledger, then the
  producer is paid and, after the fork, the treasury gets its share of the fees.
\<close>

definition block_fees :: "block \<Rightarrow> i64" where
  "block_fees b = sum_list (map txFee (block_txs b))"

definition ledger_credit :: "string \<Rightarrow> i64 \<Rightarrow> ledger \<Rightarrow> ledger" where
  "ledger_credit a v L = L(a := credit v (L a))"

definition treasury_share :: "int \<Rightarrow> i64 \<Rightarrow> i64" where
  "treasury_share h fees =
     (if feeSplitActive h \<and> slt 0 (snd (splitFees fees)) then snd (splitFees fees) else 0)"

definition ledger_pay :: "block \<Rightarrow> i64 \<Rightarrow> i64 \<Rightarrow> ledger \<Rightarrow> ledger" where
  "ledger_pay b reward share L =
     ledger_credit TreasuryAddr share (ledger_credit (reward_recipient b) reward L)"

definition ledger_block :: "block \<Rightarrow> ledger \<Rightarrow> exec_error + ledger" where
  "ledger_block b L =
     (case ledger_run (block_txs b) L of Inl err \<Rightarrow> Inl err
      | Inr L' \<Rightarrow> Inr (ledger_pay b (expectedReward (bHeight b) (block_fees b))
                   (treasury_share (bHeight b) (block_fees b)) L'))"

section \<open>Stores\<close>

definition cache_view :: "cache \<Rightarrow> ledger" where
  "cache_view k addr =
     (case fmlookup (snd k) addr of Some v \<Rightarrow> v | None \<Rightarrow> getAccount (fst k) addr)"

lemma cache_view_init [simp]: "cache_view (m, fmempty) = getAccount m"
  by (simp add: cache_view_def fun_eq_iff)

lemma getOrCreateAccount_pair:
  "getOrCreateAccount m a = (m', ac) \<Longrightarrow> getAccount m' = getAccount m \<and> ac = getAccount m a"
  using getAccount_create [of m a] by simp

interpretation cache: tx_store cache_view touch put
  by unfold_locales
    (auto simp: cache_view_def touch_def put_def fun_eq_iff
      split: prod.splits option.splits dest!: getOrCreateAccount_pair)

lemma getAccount_write_back [ledger_simps]: "getAccount (write_back k) = cache_view k"
  by (cases k) (auto simp: write_back_def getAccount_def cache_view_def fun_eq_iff split: option.splits)

lemma touch_accounts: "getAccount (fst (fst (touch k a))) = getAccount (fst k)"
proof (cases k)
  case (Pair m s)
  then show ?thesis
    using getAccount_create(1) [of m a]
    by (auto simp: touch_def split: option.splits prod.splits)
qed

lemma put_accounts [simp]: "fst (put k a v) = fst k"
  by (cases k) (simp add: put_def)

lemma getAccount_credit_account [ledger_simps]:
  "getAccount (credit_account m a v) = ledger_credit a v (getAccount m)"
  using scratch.touch_put_credit [of m a _ _ v]
  by (cases "getOrCreateAccount m a") (simp add: credit_account_def ledger_credit_def)

lemma ledger_credit_commute:
  "ledger_credit a v (ledger_credit b w L) = ledger_credit b w (ledger_credit a v L)"
  by (auto simp: ledger_credit_def fun_eq_iff ac_simps)

lemma ledger_credit_0 [simp]: "ledger_credit a 0 L = L"
  by (simp add: ledger_credit_def)

section \<open>The transaction loops against the ledger\<close>

lemma check_txs_Inr:
  "check_txs e ts ids sns fees = Inr fees' \<Longrightarrow>
     fees' = fees + sum_list (map txFee ts) \<and>
     (\<forall>t \<in> set ts. VerifyTxSignature e t \<and> \<not> fieldTooLarge t \<and>
        txID e t |\<notin>| ids \<and> senderNonceKey t |\<notin>| sns) \<and>
     distinct (map senderNonceKey ts) \<and> distinct (map (txID e) ts)"
proof (induction ts arbitrary: ids sns fees)
  case (Cons t ts)
  have c: "check_txs e ts (finsert (txID e t) ids) (finsert (senderNonceKey t) sns) (fees + txFee t)
      = Inr fees'"
    and t: "VerifyTxSignature e t" "\<not> fieldTooLarge t" "txID e t |\<notin>| ids" "senderNonceKey t |\<notin>| sns"
    using Cons.prems by (simp_all add: Let_def split: if_splits)
  from Cons.IH [OF c] t show ?case by (auto simp: ac_simps)
qed simp

lemma root_tx_shaped:
  assumes "tx_shape t = None"
  shows "getAccount (fst (root_tx t (m, f))) = transfer t (getAccount m) \<and>
    snd (root_tx t (m, f)) = f + txFee t"
proof -
  have shape: "txFrom t \<noteq> txTo t" "\<not> (txFrom t = [] \<or> txTo t = [] \<or> txFrom t = txTo t \<or> sle (txAmount t) 0)"
    using assms by (auto simp: tx_shape_None)
  obtain m1 fa where g1: "getOrCreateAccount m (txFrom t) = (m1, fa)" by fastforce
  obtain m2 ra where g2: "getOrCreateAccount m1 (txTo t) = (m2, ra)" by fastforce
  show ?thesis
    using scratch.transfer_read_read_write_write [OF shape(1) g1 g2] shape(2)
    by (simp add: root_tx_def g1 g2 Let_def)
qed

lemma root_txs_shaped:
  "\<forall>t \<in> set ts. tx_shape t = None \<Longrightarrow>
     getAccount (fst (fold root_tx ts (m, f))) = fold transfer ts (getAccount m) \<and>
     snd (fold root_tx ts (m, f)) = f + sum_list (map txFee ts)"
proof (induction ts arbitrary: m f)
  case (Cons t ts)
  obtain m' f' where "root_tx t (m, f) = (m', f')" by fastforce
  with Cons root_tx_shaped [of t m f] show ?case by (simp add: ac_simps)
qed simp

lemma exec_txs_ledger:
  "exec_txs ts k fees = (err, k', fees') \<Longrightarrow>
     ledger_run ts (cache_view k) = (case err of None \<Rightarrow> Inr (cache_view k') | Some er \<Rightarrow> Inl er) \<and>
     getAccount (fst k') = getAccount (fst k) \<and>
     (err = None \<longrightarrow> fees' = fees + sum_list (map txFee ts))"
proof (induction ts arbitrary: k fees)
  case (Cons t ts)
  obtain k1 f where t1: "touch k (txFrom t) = (k1, f)" by fastforce
  obtain k2 r where t2: "touch k1 (txTo t) = (k2, r)" by fastforce
  have acc: "getAccount (fst k2) = getAccount (fst k)"
    using touch_accounts [of k "txFrom t"] touch_accounts [of k1 "txTo t"] t1 t2 by simp
  have f: "f = cache_view k (txFrom t)" using cache.touch_value [of k "txFrom t"] t1 by simp
  let ?k = "put (put k2 (txFrom t) (debit t f)) (txTo t) (credit (txAmount t) r)"
  show ?case
  proof (cases "tx_shape t")
    case shape: None
    then have "txFrom t \<noteq> txTo t" by (simp add: tx_shape_None)
    from cache.transfer_read_read_write_write [OF this t1 t2]
    have view: "cache_view ?k = transfer t (cache_view k)" .
    show ?thesis
    proof (cases "tx_funded t f")
      case None
      then have "exec_txs ts ?k (fees + txFee t) = (err, k', fees')"
        using Cons.prems shape by (simp add: t1 t2)
      from Cons.IH [OF this] show ?thesis
        using shape None acc by (simp add: view ac_simps flip: f)
    next
      case (Some er)
      then have "err = Some er" "k' = k2" using Cons.prems shape by (simp_all add: t1 t2)
      then show ?thesis using shape acc Some by (simp flip: f)
    qed
  next
    case (Some er)
    then have "err = Some er" "k' = k" using Cons.prems by simp_all
    then show ?thesis using Some by simp
  qed
qed auto

lemma exec_txs_init:
  assumes "exec_txs ts (m, fmempty) fees = (err, k', fees')"
  shows "ledger_run ts (getAccount m) = (case err of None \<Rightarrow> Inr (cache_view k') | Some er \<Rightarrow> Inl er)"
    and "getAccount (fst k') = getAccount m"
    and "err = None \<Longrightarrow> fees' = fees + sum_list (map txFee ts)"
  using exec_txs_ledger [OF assms] by simp_all

section \<open>Frames\<close>

lemma observeValidatorLocked_eq:
  "observeValidatorLocked c v = c\<lparr>chValidatorSet := (if v = [] \<or> v = ''GENESIS'' then chValidatorSet c
     else finsert v (chValidatorSet c))\<rparr>"
  by (simp add: observeValidatorLocked_def)

lemma finalize_at_lookup:
  "fmlookup (finalize_at h bs) k =
     (if k = h then map_option (\<lambda>b. b\<lparr>bIsFinalized := True\<rparr>) (fmlookup bs h) else fmlookup bs k)"
  by (auto simp: finalize_at_def split: option.splits)

lemma finalize_idem [simp]: "b\<lparr>bIsFinalized := True, bIsFinalized := True\<rparr> = b\<lparr>bIsFinalized := True\<rparr>"
  by simp

lemma fold_finalize_lookup:
  "fmlookup (fold finalize_at hs bs) k =
     (if k \<in> set hs then map_option (\<lambda>b. b\<lparr>bIsFinalized := True\<rparr>) (fmlookup bs k) else fmlookup bs k)"
  by (induction hs arbitrary: bs) (auto simp: finalize_at_lookup option.map_comp o_def)

text \<open>What the advance of finality does to the block of one height.\<close>

definition finalized_at :: "int \<Rightarrow> int \<Rightarrow> int \<Rightarrow> block \<Rightarrow> block" where
  "finalized_at fin target h b = (if fin < h \<and> h \<le> target then b\<lparr>bIsFinalized := True\<rparr> else b)"

lemma finalized_at_fields [simp]:
  "bHeight (finalized_at f g h b) = bHeight b" "bHash (finalized_at f g h b) = bHash b"
  "bPrevHash (finalized_at f g h b) = bPrevHash b" "bTimeUTC (finalized_at f g h b) = bTimeUTC b"
  "bTxs (finalized_at f g h b) = bTxs b" "bProducer (finalized_at f g h b) = bProducer b"
  "calcBlockHash e (finalized_at f g h b) = calcBlockHash e b"
  by (simp_all add: finalized_at_def)

lemma ValidateBlockSignature_finalized [simp]:
  "ValidateBlockSignature e (b\<lparr>bIsFinalized := v\<rparr>) = ValidateBlockSignature e b"
  unfolding ValidateBlockSignature_def blockSignHash_def
  by (simp cong: option.case_cong if_cong)

lemma ValidateBlockSignature_finalized_at [simp]:
  "ValidateBlockSignature e (finalized_at f g h b) = ValidateBlockSignature e b"
  by (simp add: finalized_at_def)

definition final_target :: "chain \<Rightarrow> int" where
  "final_target c = max (chFinalizedHeight c) (max 0 (chHeight c - finalityDepth))"

lemma advanceFinality_fields:
  "chFinalizedHeight (advanceFinalityLocked c) = final_target c"
  "fmlookup (chBlocks (advanceFinalityLocked c)) h =
     map_option (finalized_at (chFinalizedHeight c) (final_target c) h) (fmlookup (chBlocks c) h)"
  by (cases "fmlookup (chBlocks c) h"; auto simp: advanceFinalityLocked_def final_target_def
      finalized_at_def fold_finalize_lookup Let_def)+

lemma advanceFinality_frame [frame_simps]:
  "chHeight (advanceFinalityLocked c) = chHeight c" "chTip (advanceFinalityLocked c) = chTip c"
  "chAccounts (advanceFinalityLocked c) = chAccounts c"
  "chMempool (advanceFinalityLocked c) = chMempool c"
  "chMempoolIDs (advanceFinalityLocked c) = chMempoolIDs c"
  "chMempoolSenderNonce (advanceFinalityLocked c) = chMempoolSenderNonce c"
  "chPending (advanceFinalityLocked c) = chPending c"
  "chValidatorSet (advanceFinalityLocked c) = chValidatorSet c"
  "chDisk (advanceFinalityLocked c) = chDisk c" "chDaemon (advanceFinalityLocked c) = chDaemon c"
  "chVotes (advanceFinalityLocked c) = chVotes c"
  "chVoteCounts (advanceFinalityLocked c) = chVoteCounts c"
  "chValidatorPubHex (advanceFinalityLocked c) = chValidatorPubHex c"
  "chValidatorPrivHex (advanceFinalityLocked c) = chValidatorPrivHex c"
  "chDataDir (advanceFinalityLocked c) = chDataDir c"
  "chPersistDir (advanceFinalityLocked c) = chPersistDir c"
  by (simp_all add: advanceFinalityLocked_def Let_def)

lemma calcStateHash_cong:
  "chAccounts c = chAccounts c' \<Longrightarrow> calcStateHashWithBlock e c b = calcStateHashWithBlock e c' b"
  by (simp add: calcStateHashWithBlock_def)

section \<open>A block that is applied\<close>

lemma check_header_Inr:
  assumes "check_header e c b = Inr fees"
  shows "sle 0 (bReward b)" "length (block_txs b) \<le> MaxBlockTxs" "fees = block_fees b"
    "bHeight b = chHeight c + 1" "bPrevHash b = chTip c" "bTimeUTC b \<noteq> time_zero"
    "\<forall>t \<in> set (block_txs b). VerifyTxSignature e t"
    "distinct (map senderNonceKey (block_txs b))"
proof -
  have "check_txs e (block_txs b) {||} {||} 0 = Inr fees"
    using assms by (auto simp: check_header_def split: if_splits sum.splits)
  from check_txs_Inr [OF this]
  show "fees = block_fees b" "\<forall>t \<in> set (block_txs b). VerifyTxSignature e t"
    "distinct (map senderNonceKey (block_txs b))" by (simp_all add: block_fees_def)
qed (use assms in \<open>auto simp: check_header_def not_less split: if_splits sum.splits\<close>)

lemma check_body_None:
  assumes "check_body e c b fees = None"
  shows "bHash b = calcBlockHash e b" "bHash b \<noteq> []" "ValidateBlockSignature e b = None"
    "bReward b = expectedReward (bHeight b) fees" "bBalancesRoot b \<noteq> []"
    "bBalancesRoot b = calcStateHashWithBlock e c b"
  using assms by (simp_all add: check_body_def split: if_splits option.splits)

lemma getAccount_pay_rewards [ledger_simps]:
  "getAccount (pay_rewards b fees m) =
     ledger_pay b (bReward b) (treasury_share (bHeight b) fees) (getAccount m)"
  by (simp add: pay_rewards_def ledger_pay_def treasury_share_def ledger_simps Let_def)

text \<open>The state that \<open>applyBlockLocked\<close> starts to execute in.\<close>

definition observed :: "chain \<Rightarrow> block \<Rightarrow> chain" where
  "observed c b = observeValidatorLocked (observeValidatorLocked c (bValidatorID b)) (bProducer b)"

lemma observed_eq: "\<exists>vs. observed c b = c\<lparr>chValidatorSet := vs\<rparr> \<and> chValidatorSet c |\<subseteq>| vs"
proof -
  have "observed c b = c\<lparr>chValidatorSet := chValidatorSet (observed c b)\<rparr>"
    by (simp add: observed_def observeValidatorLocked_eq)
  moreover have "chValidatorSet c |\<subseteq>| chValidatorSet (observed c b)"
    by (auto simp: observed_def observeValidatorLocked_eq)
  ultimately show ?thesis by blast
qed

lemma persist_after_observe:
  assumes "persistBlockLocked e (observed c b) b = (c2, err)"
  obtains vs d where "c2 = c\<lparr>chValidatorSet := vs, chDisk := d\<rparr>" "chValidatorSet c |\<subseteq>| vs"
    "observed c b = c\<lparr>chValidatorSet := vs\<rparr>"
proof -
  obtain vs where vs: "observed c b = c\<lparr>chValidatorSet := vs\<rparr>" "chValidatorSet c |\<subseteq>| vs"
    using observed_eq by blast
  moreover obtain d where "c2 = (c\<lparr>chValidatorSet := vs\<rparr>)\<lparr>chDisk := d\<rparr>"
    using persistBlock_frame [of e "observed c b" b] assms vs(1) by auto
  ultimately show thesis using that by simp
qed

lemma applyBlock_None:
  assumes "applyBlockLocked e c b = (c', None)"
  obtains fees c2 k fees2 vs d where
    "check_header e c b = Inr fees" "check_body e (observed c b) b fees = None"
    "persistBlockLocked e (observed c b) b = (c2, None)"
    "c2 = c\<lparr>chValidatorSet := vs, chDisk := d\<rparr>" "chValidatorSet c |\<subseteq>| vs"
    "exec_txs (block_txs b) (chAccounts c, fmempty) fees = (None, k, fees2)"
    "c' = (advanceFinalityLocked (fst (compactMempoolLocked e
            (c2\<lparr>chAccounts := pay_rewards b fees2 (write_back k),
                chBlocks := fmupd (bHeight b) b (chBlocks c),
                chHeight := bHeight b, chTip := bHash b\<rparr>))))\<lparr>chTip := bHash b\<rparr>"
proof -
  obtain fees where h: "check_header e c b = Inr fees"
    using assms by (cases "check_header e c b") (simp_all add: applyBlockLocked_def)
  have "check_body e (observed c b) b fees = None"
    using assms h by (cases "check_body e (observed c b) b fees")
      (simp_all add: applyBlockLocked_def Let_def flip: observed_def)
  moreover obtain c2 err where p: "persistBlockLocked e (observed c b) b = (c2, err)" by fastforce
  moreover have "err = None"
    using assms h calculation by (cases err) (simp_all add: applyBlockLocked_def Let_def flip: observed_def)
  moreover obtain vs d where c2: "c2 = c\<lparr>chValidatorSet := vs, chDisk := d\<rparr>" "chValidatorSet c |\<subseteq>| vs"
    using persist_after_observe [OF p] by metis
  moreover have ex: "execBlockLocked e c2 b fees = (c', None)"
    using assms h calculation by (simp add: applyBlockLocked_def Let_def flip: observed_def)
  moreover obtain er k fees2 where x: "exec_txs (block_txs b) (chAccounts c, fmempty) fees = (er, k, fees2)"
    using prod_cases3 by blast
  moreover have "er = None" using ex x c2 by (cases er) (simp_all add: execBlockLocked_def)
  ultimately show thesis
    using that [of fees c2 d vs k] h ex x c2 by (simp add: execBlockLocked_def Let_def)
qed

text \<open>The fields of the chain after a block, and the accounts seen through the ledger.\<close>

lemma applied_fields:
  assumes "applyBlockLocked e c b = (c', None)"
  shows "chHeight c' = bHeight b" "chTip c' = bHash b" "chPending c' = chPending c"
    "chDaemon c' = chDaemon c" "chVotes c' = chVotes c" "chVoteCounts c' = chVoteCounts c"
    "chValidatorPubHex c' = chValidatorPubHex c" "chValidatorPrivHex c' = chValidatorPrivHex c"
    "chDataDir c' = chDataDir c" "chPersistDir c' = chPersistDir c"
    "chFinalizedHeight c' = max (chFinalizedHeight c) (max 0 (bHeight b - finalityDepth))"
    "fmlookup (chBlocks c') h = map_option (finalized_at (chFinalizedHeight c) (chFinalizedHeight c') h)
       (fmlookup (fmupd (bHeight b) b (chBlocks c)) h)"
    "chValidatorSet c |\<subseteq>| chValidatorSet c'"
  by (rule applyBlock_None [OF assms];
      simp add: frame_simps advanceFinality_fields final_target_def)+

lemma applied_checks:
  assumes "applyBlockLocked e c b = (c', None)"
  shows "sle 0 (bReward b)" "length (block_txs b) \<le> MaxBlockTxs"
    "bHeight b = chHeight c + 1" "bPrevHash b = chTip c" "bTimeUTC b \<noteq> time_zero"
    "\<forall>t \<in> set (block_txs b). VerifyTxSignature e t"
    "bHash b = calcBlockHash e b" "bHash b \<noteq> []" "ValidateBlockSignature e b = None"
    "bReward b = expectedReward (bHeight b) (block_fees b)"
    "bBalancesRoot b = calcStateHashWithBlock e c b"
proof (rule_tac [!] applyBlock_None [OF assms])
  fix fees c2 k fees2 vs d
  assume h: "check_header e c b = Inr fees" and body: "check_body e (observed c b) b fees = None"
  note header = check_header_Inr [OF h] and chk = check_body_None [OF body]
  show "sle 0 (bReward b)" "length (block_txs b) \<le> MaxBlockTxs"
    "bHeight b = chHeight c + 1" "bPrevHash b = chTip c" "bTimeUTC b \<noteq> time_zero"
    "\<forall>t \<in> set (block_txs b). VerifyTxSignature e t"
    "bHash b = calcBlockHash e b" "bHash b \<noteq> []" "ValidateBlockSignature e b = None"
    "bReward b = expectedReward (bHeight b) (block_fees b)"
    using header chk by simp_all
  have "chAccounts (observed c b) = chAccounts c" using observed_eq [of c b] by auto
  then show "bBalancesRoot b = calcStateHashWithBlock e c b"
    using chk(6) calcStateHash_cong by metis
qed

lemma applied_accounts:
  assumes "applyBlockLocked e c b = (c', None)"
  shows "\<exists>L. ledger_run (block_txs b) (getAccount (chAccounts c)) = Inr L \<and>
    getAccount (chAccounts c') =
      ledger_pay b (bReward b) (treasury_share (bHeight b) (block_fees b + block_fees b)) L"
proof (rule applyBlock_None [OF assms])
  fix fees c2 k fees2 vs d
  assume h: "check_header e c b = Inr fees"
    and x: "exec_txs (block_txs b) (chAccounts c, fmempty) fees = (None, k, fees2)"
    and c': "c' = (advanceFinalityLocked (fst (compactMempoolLocked e
            (c2\<lparr>chAccounts := pay_rewards b fees2 (write_back k),
                chBlocks := fmupd (bHeight b) b (chBlocks c),
                chHeight := bHeight b, chTip := bHash b\<rparr>))))\<lparr>chTip := bHash b\<rparr>"
  have "fees2 = block_fees b + block_fees b"
    using exec_txs_init(3) [OF x] check_header_Inr(3) [OF h] by (simp add: block_fees_def)
  then show ?thesis
    using exec_txs_init(1) [OF x] c' by (simp add: frame_simps ledger_simps)
qed

section \<open>The root and the ledger\<close>

lemma slt_0_cases: "sle 0 r \<Longrightarrow> \<not> slt 0 r \<Longrightarrow> (r :: i64) = 0"
  by (rule sint64_eqI) simp

lemma stateWithBlock_ledger:
  assumes run: "ledger_run (block_txs b) (getAccount m) = Inr L"
    and reward: "sle 0 (expectedReward (bHeight b) (block_fees b))" and rcpt: "reward_recipient b \<noteq> []"
  shows "getAccount (stateWithBlock m b) =
    ledger_pay b (expectedReward (bHeight b) (block_fees b)) (treasury_share (bHeight b) (block_fees b)) L"
proof -
  have shapes: "\<forall>t \<in> set (block_txs b). tx_shape t = None"
    using ledger_run_shapes [OF run] by blast
  obtain tmp fees where st: "fold root_tx (block_txs b) (m, 0) = (tmp, fees)" by fastforce
  have tmp: "getAccount tmp = L" and fees: "fees = block_fees b"
    using root_txs_shaped [OF shapes, of m 0] ledger_run_fold [OF run] st by (simp_all add: block_fees_def)
  let ?r = "expectedReward (bHeight b) (block_fees b)"
  have "slt 0 ?r \<or> ?r = 0" using slt_0_cases [OF reward] by blast
  then show ?thesis
    using rcpt by (auto simp: stateWithBlock_def st fees tmp ledger_pay_def treasury_share_def
        ledger_simps Let_def intro: ledger_credit_commute)
qed

lemma recipient_nonempty: "ValidateBlockSignature e b = None \<Longrightarrow> reward_recipient b \<noteq> []"
  using ValidateBlockSignature_None(1) [of e b] by (auto simp: reward_recipient_def)

lemma ledger_pay_extra:
  "ledger_pay b r (s + x) L = ledger_credit TreasuryAddr x (ledger_pay b r s L)"
  by (simp add: ledger_pay_def ledger_credit_def fun_eq_iff ac_simps)

lemma applied_block_ledger_aux:
  assumes "applyBlockLocked e c b = (c', None)"
  shows "\<exists>L. ledger_block b (getAccount (chAccounts c)) = Inr L \<and>
    getAccount (stateWithBlock (chAccounts c) b) = L \<and>
    getAccount (chAccounts c') = ledger_credit TreasuryAddr
      (treasury_share (bHeight b) (block_fees b + block_fees b) - treasury_share (bHeight b) (block_fees b)) L"
proof -
  note chk = applied_checks [OF assms]
  obtain L where run: "ledger_run (block_txs b) (getAccount (chAccounts c)) = Inr L"
    and acc: "getAccount (chAccounts c') =
      ledger_pay b (bReward b) (treasury_share (bHeight b) (block_fees b + block_fees b)) L"
    using applied_accounts [OF assms] by blast
  have "sle 0 (expectedReward (bHeight b) (block_fees b))" using chk(1,10) by simp
  from stateWithBlock_ledger [OF run this recipient_nonempty [OF chk(9)]]
  show ?thesis
    using run acc chk(10) by (simp add: ledger_block_def flip: ledger_pay_extra)
qed

section \<open>A block that is refused\<close>

lemma execBlock_Some:
  assumes "execBlockLocked e c b fees = (c', Some err)"
  shows "\<exists>m er. c' = c\<lparr>chAccounts := m\<rparr> \<and> getAccount m = getAccount (chAccounts c) \<and>
    err = TxInvalid er \<and> ledger_run (block_txs b) (getAccount (chAccounts c)) = Inl er"
proof -
  obtain er k fees2 where x: "exec_txs (block_txs b) (chAccounts c, fmempty) fees = (er, k, fees2)"
    using prod_cases3 by blast
  with assms obtain er' where er: "er = Some er'"
    by (cases er) (simp_all add: execBlockLocked_def Let_def)
  then show ?thesis
    using assms x exec_txs_init(1,2) [OF x] by (simp add: execBlockLocked_def) blast
qed

lemma applyBlock_Some:
  assumes "applyBlockLocked e c b = (c', Some err)"
  shows "\<exists>m vs d. c' = c\<lparr>chAccounts := m, chValidatorSet := vs, chDisk := d\<rparr> \<and>
    getAccount m = getAccount (chAccounts c)"
proof (cases "check_header e c b")
  case (Inl er)
  then have "c' = c\<lparr>chAccounts := chAccounts c, chValidatorSet := chValidatorSet c, chDisk := chDisk c\<rparr>"
    using assms by (simp add: applyBlockLocked_def)
  then show ?thesis by blast
next
  case (Inr fees)
  obtain vs where vs: "observed c b = c\<lparr>chValidatorSet := vs\<rparr>" using observed_eq by blast
  show ?thesis
  proof (cases "check_body e (observed c b) b fees")
    case (Some er)
    then have "(c\<lparr>chValidatorSet := vs\<rparr>, Some er) = (c', Some err)"
      using assms Inr by (simp add: applyBlockLocked_def Let_def vs flip: observed_def)
    then have "c' = c\<lparr>chAccounts := chAccounts c, chValidatorSet := vs, chDisk := chDisk c\<rparr>"
      by auto
    then show ?thesis by blast
  next
    case None
    obtain c2 perr where p: "persistBlockLocked e (observed c b) b = (c2, perr)" by fastforce
    then obtain vs d where c2: "c2 = c\<lparr>chValidatorSet := vs, chDisk := d\<rparr>"
      using persist_after_observe by metis
    show ?thesis
    proof (cases perr)
      case (Some io)
      then have "c' = c\<lparr>chAccounts := chAccounts c, chValidatorSet := vs, chDisk := d\<rparr>"
        using assms Inr None p c2 by (simp add: applyBlockLocked_def Let_def flip: observed_def)
      then show ?thesis by blast
    next
      case perr: None
      then have "execBlockLocked e c2 b fees = (c', Some err)"
        using assms Inr None p by (simp add: applyBlockLocked_def Let_def flip: observed_def)
      then obtain m where m: "c' = c2\<lparr>chAccounts := m\<rparr>" "getAccount m = getAccount (chAccounts c2)"
        using execBlock_Some by blast
      then have "c' = c\<lparr>chAccounts := m, chValidatorSet := vs, chDisk := d\<rparr>"
        unfolding c2 by (intro chain.equality) simp_all
      with m(2) c2 show ?thesis by auto
    qed
  qed
qed

text \<open>A committed block is on disk: the write precedes every change of the chain.\<close>

lemma persist_content:
  assumes "persistBlockLocked e c b = (c', None)"
  shows "fmlookup (chDisk c') (blockPath c (bHeight b)) = Some (marshalBlock e b)"
proof -
  obtain err fs where w: "writeFileAtomicDurable e (chDisk c) (blockPath c (bHeight b))
      (tmp_of (blockPath c (bHeight b))) (marshalBlock e b) = (err, fs)" by fastforce
  with assms have "err = None" "c' = c\<lparr>chDisk := fs\<rparr>"
    by (simp_all add: persistBlockLocked_def Let_def split: if_splits)
  with write_ok_content [OF _ w [unfolded \<open>err = None\<close>]] show ?thesis by simp
qed

lemma applied_persisted:
  assumes "applyBlockLocked e c b = (c', None)"
  shows "fmlookup (chDisk c') (blockPath c (bHeight b)) = Some (marshalBlock e b)"
proof (rule applyBlock_None [OF assms])
  fix fees c2 k fees2 vs d
  assume p: "persistBlockLocked e (observed c b) b = (c2, None)"
    and c': "c' = (advanceFinalityLocked (fst (compactMempoolLocked e
            (c2\<lparr>chAccounts := pay_rewards b fees2 (write_back k),
                chBlocks := fmupd (bHeight b) b (chBlocks c),
                chHeight := bHeight b, chTip := bHash b\<rparr>))))\<lparr>chTip := bHash b\<rparr>"
  have "blockPath (observed c b) = blockPath c"
    using observed_eq [of c b] by (auto simp: blockPath_def blockDir_def data_root_def fun_eq_iff Let_def)
  then show ?thesis using persist_content [OF p] c' by (simp add: frame_simps)
qed

lemma mempool_wf_cong:
  "mempool_wf e c \<Longrightarrow> chMempool c' = chMempool c \<Longrightarrow> chMempoolIDs c' = chMempoolIDs c \<Longrightarrow>
     chMempoolSenderNonce c' = chMempoolSenderNonce c \<Longrightarrow> mempool_wf e c'"
  by (simp add: mempool_wf_def)

lemma applied_mempool_wf:
  assumes "applyBlockLocked e c b = (c', None)" and "length (chMempool c) \<le> MaxMempoolTxs"
  shows "mempool_wf e c'"
proof (rule applyBlock_None [OF assms(1)])
  fix fees c2 k fees2 vs d
  assume c2: "c2 = c\<lparr>chValidatorSet := vs, chDisk := d\<rparr>"
    and c': "c' = (advanceFinalityLocked (fst (compactMempoolLocked e
            (c2\<lparr>chAccounts := pay_rewards b fees2 (write_back k),
                chBlocks := fmupd (bHeight b) b (chBlocks c),
                chHeight := bHeight b, chTip := bHash b\<rparr>))))\<lparr>chTip := bHash b\<rparr>"
  let ?c1 = "c2\<lparr>chAccounts := pay_rewards b fees2 (write_back k), chBlocks := fmupd (bHeight b) b (chBlocks c),
    chHeight := bHeight b, chTip := bHash b\<rparr>"
  have "mempool_wf e (fst (compactMempoolLocked e ?c1))"
    by (rule compact_wf_aux) (simp add: c2 assms(2))
  then show ?thesis unfolding c' by (rule mempool_wf_cong) (simp_all add: frame_simps)
qed

section \<open>Properties\<close>

text \<open>
  C5 (refinement): a block that is applied runs on the reference ledger. The state its root
  commits to is the ledger's; the accounts the node keeps differ from it only by the treasury,
  which is paid the share of the fees counted twice instead of once.
\<close>

theorem applied_block_refines_ledger:
  assumes "applyBlockLocked e c b = (c', None)"
  shows "\<exists>L. ledger_block b (getAccount (chAccounts c)) = Inr L \<and>
    bBalancesRoot b = merkleBalancesRoot e (stateWithBlock (chAccounts c) b) \<and>
    getAccount (stateWithBlock (chAccounts c) b) = L \<and>
    getAccount (chAccounts c') = ledger_credit TreasuryAddr
      (treasury_share (bHeight b) (block_fees b + block_fees b) - treasury_share (bHeight b) (block_fees b)) L"
  using applied_block_ledger_aux [OF assms] applied_checks(11) [OF assms]
  by (simp add: calcStateHashWithBlock_def)

text \<open>
  Below the fee-split fork the accounts after a block hash to the
  \<open>balances_root\<close> the block carries.
\<close>

theorem applied_root_below_fork:
  assumes "applyBlockLocked e c b = (c', None)" and "bHeight b < FeeSplitForkHeight"
  shows "merkleBalancesRoot e (chAccounts c') = bBalancesRoot b"
proof -
  have "treasury_share (bHeight b) f = 0" for f
    using assms(2) by (simp add: treasury_share_def feeSplitActive_def)
  then have "getAccount (chAccounts c') = getAccount (stateWithBlock (chAccounts c) b)"
    using applied_block_ledger_aux [OF assms(1)] by auto
  from merkle_root_cong [OF this] show ?thesis
    using applied_checks(11) [OF assms(1)] by (simp add: calcStateHashWithBlock_def)
qed

text \<open>
  C18 (error): a block that is refused, for whatever reason and at whatever point, changes no
  account, height, tip, block, mempool entry, buffered proposal, vote or finality mark; only
  the validator set, the data directory and empty account entries may have changed.
\<close>

theorem refused_block_keeps_state:
  assumes "applyBlockLocked e c b = (c', Some err)"
  shows "getAccount (chAccounts c') = getAccount (chAccounts c) \<and>
    c' = c\<lparr>chAccounts := chAccounts c', chValidatorSet := chValidatorSet c', chDisk := chDisk c'\<rparr>"
proof -
  obtain m vs d where c': "c' = c\<lparr>chAccounts := m, chValidatorSet := vs, chDisk := d\<rparr>"
    and m: "getAccount m = getAccount (chAccounts c)"
    using applyBlock_Some [OF assms] by blast
  then show ?thesis by simp
qed

text \<open>
  A block is committed only after its file is durably in place, and the mempool
  is consistent again afterwards.
\<close>

theorem applied_block_is_on_disk:
  assumes "applyBlockLocked e c b = (c', None)" and "length (chMempool c) \<le> MaxMempoolTxs"
  shows "fmlookup (chDisk c') (blockPath c (bHeight b)) = Some (marshalBlock e b) \<and> mempool_wf e c'"
  using applied_persisted [OF assms(1)] applied_mempool_wf [OF assms] by blast

text \<open>
  C19 (error): the transactions are executed only after the block was written: one whose root
  is right but whose transactions do not run is refused, and its file stays behind.
\<close>

theorem unexecutable_block_stays_on_disk:
  assumes "io_ok e" and h: "check_header e c b = Inr fees" and
    body: "check_body e (observed c b) b fees = None"
    and run: "ledger_run (block_txs b) (getAccount (chAccounts c)) = Inl er"
  shows "\<exists>c'. applyBlockLocked e c b = (c', Some (TxInvalid er)) \<and> chHeight c' = chHeight c \<and>
    fmlookup (chDisk c') (blockPath c (bHeight b)) = Some (marshalBlock e b)"
proof -
  obtain vs where vs: "observed c b = c\<lparr>chValidatorSet := vs\<rparr>" using observed_eq by blast
  obtain c2 where p: "persistBlockLocked e (observed c b) b = (c2, None)"
    using assms(1) by (simp add: persistBlockLocked_def write_io_ok Let_def)
  then obtain vs' d where c2: "c2 = c\<lparr>chValidatorSet := vs', chDisk := d\<rparr>"
    using persist_after_observe by metis
  have "blockPath (observed c b) = blockPath c"
    using vs by (simp add: blockPath_def blockDir_def data_root_def fun_eq_iff Let_def)
  then have disk: "fmlookup (chDisk c2) (blockPath c (bHeight b)) = Some (marshalBlock e b)"
    using persist_content [OF p] by simp
  obtain err k fees2 where x: "exec_txs (block_txs b) (chAccounts c, fmempty) fees = (err, k, fees2)"
    using prod_cases3 by blast
  then have "err = Some er" using exec_txs_init(1) [OF x] run by (cases err) simp_all
  then have "applyBlockLocked e c b = (c2\<lparr>chAccounts := fst k\<rparr>, Some (TxInvalid er))"
    using h body p x c2 by (simp add: applyBlockLocked_def execBlockLocked_def Let_def flip: observed_def)
  with disk c2 show ?thesis by simp
qed

end
