(* ===== verification/Supply.thy ===== *)
theory Supply
  imports Apply
begin

text \<open>
  The money supply: what a block adds to it, when balances stay within range, and what a
  wrapping sum of amount and fee does.
\<close>

section \<open>Supply modulo the width of a balance\<close>

definition supply_on :: "string set \<Rightarrow> ledger \<Rightarrow> i64" where
  "supply_on A L = (\<Sum>a\<in>A. Balance (L a))"

definition total_supply :: "accounts \<Rightarrow> i64" where
  "total_supply m = supply_on (fset (fmdom m)) (getAccount m)"

lemma supply_extend: "finite A \<Longrightarrow> fset (fmdom m) \<subseteq> A \<Longrightarrow> total_supply m = supply_on A (getAccount m)"
  unfolding total_supply_def supply_on_def
  by (rule sum.mono_neutral_left) (auto simp: getAccount_def split: option.splits dest: fmdomI)

lemma supply_on_upd:
  "finite A \<Longrightarrow> a \<in> A \<Longrightarrow> supply_on A (L(a := v)) = supply_on A L + Balance v - Balance (L a)"
  by (simp add: supply_on_def sum.remove [of A a])

lemma supply_on_credit:
  "finite A \<Longrightarrow> a \<in> A \<Longrightarrow> supply_on A (ledger_credit a v L) = supply_on A L + v"
  by (simp add: ledger_credit_def supply_on_upd)

lemma supply_on_transfer:
  assumes "finite A" "txFrom t \<in> A" "txTo t \<in> A" "txFrom t \<noteq> txTo t"
  shows "supply_on A (transfer t L) = supply_on A L - txFee t"
proof -
  have "supply_on A (transfer t L) =
      supply_on A (L(txFrom t := debit t (L (txFrom t)))) + txAmount t"
    using assms by (simp add: transfer_def supply_on_upd)
  then show ?thesis using assms by (simp add: supply_on_upd)
qed

definition block_addrs :: "block \<Rightarrow> string set" where
  "block_addrs b = set (map txFrom (block_txs b)) \<union> set (map txTo (block_txs b))
     \<union> {reward_recipient b, TreasuryAddr}"

lemma supply_on_run:
  assumes "finite A"
  shows "ledger_run ts L = Inr L' \<Longrightarrow> \<forall>t \<in> set ts. txFrom t \<in> A \<and> txTo t \<in> A \<Longrightarrow>
    supply_on A L' = supply_on A L - sum_list (map txFee ts)"
proof (induction ts arbitrary: L)
  case (Cons t ts)
  then have shape: "txFrom t \<noteq> txTo t" and run: "ledger_run ts (transfer t L) = Inr L'"
    by (auto simp: tx_shape_None split: option.splits)
  then show ?case
    using Cons.IH [OF run] Cons.prems(2) supply_on_transfer [OF assms, of t L] by simp
qed simp

lemma supply_after_block:
  assumes "applyBlockLocked e c b = (c', None)"
  shows "total_supply (chAccounts c') = total_supply (chAccounts c) - block_fees b
    + expectedReward (bHeight b) (block_fees b)
    + treasury_share (bHeight b) (block_fees b + block_fees b)"
proof -
  obtain L where run: "ledger_run (block_txs b) (getAccount (chAccounts c)) = Inr L"
    and acc: "getAccount (chAccounts c') =
      ledger_pay b (bReward b) (treasury_share (bHeight b) (block_fees b + block_fees b)) L"
    using applied_accounts [OF assms] by blast
  let ?A = "fset (fmdom (chAccounts c)) \<union> fset (fmdom (chAccounts c')) \<union> block_addrs b"
  have A: "finite ?A" "reward_recipient b \<in> ?A" "TreasuryAddr \<in> ?A"
    "\<forall>t \<in> set (block_txs b). txFrom t \<in> ?A \<and> txTo t \<in> ?A"
    by (auto simp: block_addrs_def)
  have "total_supply (chAccounts c') = supply_on ?A (getAccount (chAccounts c'))"
    and "total_supply (chAccounts c) = supply_on ?A (getAccount (chAccounts c))"
    using A(1) by (intro supply_extend; auto)+
  then show ?thesis
    using supply_on_run [OF A(1) run A(4)] applied_checks(10) [OF assms] A(1-3)
    by (simp add: acc ledger_pay_def supply_on_credit block_fees_def)
qed

lemma splitFees_sum: "sle 0 f \<Longrightarrow> fst (splitFees f) + snd (splitFees f) = f"
proof (cases "sle f 0")
  case True
  assume "sle 0 f"
  with True have "f = 0" by (intro sint64_eqI) simp
  then show ?thesis by (simp add: splitFees_def)
qed (simp add: splitFees_def Let_def)

lemma fee_balance:
  fixes s :: i64
  shows "s' = s - f + (r + p) + x \<Longrightarrow> p + q = f \<Longrightarrow> s' = s + r + (x - q)"
  by auto

section \<open>Balances as integers\<close>

text \<open>
  A ledger is sound for a supply \<open>S\<close> when no balance is negative and the balances sum to
  \<open>S\<close>, which fits the width.
\<close>

definition sound_ledger :: "int \<Rightarrow> string set \<Rightarrow> ledger \<Rightarrow> bool" where
  "sound_ledger S A L \<longleftrightarrow> finite A \<and> (\<forall>a. 0 \<le> sint (Balance (L a))) \<and>
     (\<Sum>a\<in>A. sint (Balance (L a))) = S \<and> S < 2 ^ 63"

lemma sound_two:
  assumes "sound_ledger S A L" "a \<in> A" "b \<in> A" "a \<noteq> b"
  shows "sint (Balance (L a)) + sint (Balance (L b)) \<le> S"
proof -
  have "(\<Sum>x\<in>{a, b}. sint (Balance (L x))) \<le> (\<Sum>x\<in>A. sint (Balance (L x)))"
    using assms by (intro sum_mono2) (auto simp: sound_ledger_def)
  then show ?thesis using assms by (simp add: sound_ledger_def)
qed

lemma sum_upd2:
  fixes f :: "string \<Rightarrow> int"
  assumes "finite A" "a \<in> A" "b \<in> A" "a \<noteq> b" "\<forall>x. x \<noteq> a \<longrightarrow> x \<noteq> b \<longrightarrow> g x = f x"
  shows "sum g A = sum f A + (g a - f a) + (g b - f b)"
proof -
  have "sum h A = h a + (h b + sum h (A - {a} - {b}))" for h :: "string \<Rightarrow> int"
    using assms(1-4) sum.remove [of A a h] sum.remove [of "A - {a}" b h] by simp
  moreover have "sum g (A - {a} - {b}) = sum f (A - {a} - {b})"
    using assms(5) by (intro sum.cong) auto
  ultimately show ?thesis by (simp add: algebra_simps)
qed

lemma sound_transfer:
  assumes s: "sound_ledger S A L" and shape: "tx_shape t = None" and fund: "tx_funded t (L (txFrom t)) = None"
    and nowrap: "sint (txAmount t) + sint (txFee t) < 2 ^ 63"
    and A: "txFrom t \<in> A" "txTo t \<in> A"
  shows "sound_ledger (S - sint (txFee t)) A (transfer t L)"
proof -
  let ?f = "sint (Balance (L (txFrom t)))" and ?r = "sint (Balance (L (txTo t)))"
  have neq: "txFrom t \<noteq> txTo t" and amt: "0 < sint (txAmount t)" using shape by (simp_all add: tx_shape_None)
  have fee: "0 \<le> sint (txFee t)" using fund by (simp add: tx_funded_None)
  have sum: "sint (txAmount t + txFee t) = sint (txAmount t) + sint (txFee t)"
    using amt fee nowrap by (intro sint64_add) simp_all
  have cover: "sint (txAmount t) + sint (txFee t) \<le> ?f" using fund sum by (simp add: tx_funded_None)
  have two: "?f + ?r \<le> S" "S < 2 ^ 63" "0 \<le> ?r"
    using sound_two [OF s A neq] s by (simp_all add: sound_ledger_def)
  have f': "sint (Balance (transfer t L (txFrom t))) = ?f - sint (txAmount t) - sint (txFee t)"
    using neq cover amt fee sum sint64_range [of "Balance (L (txFrom t))"]
    by (simp add: transfer_def) (subst sint64_diff; simp)
  have r': "sint (Balance (transfer t L (txTo t))) = ?r + sint (txAmount t)"
    using neq two cover amt fee by (simp add: transfer_def) (subst sint64_add; simp)
  have others: "\<forall>a. a \<noteq> txFrom t \<longrightarrow> a \<noteq> txTo t \<longrightarrow>
      sint (Balance (transfer t L a)) = sint (Balance (L a))"
    by (simp add: transfer_def)
  have "(\<Sum>a\<in>A. sint (Balance (transfer t L a))) = S - sint (txFee t)"
    using sum_upd2 [OF _ A neq others] s f' r' by (simp add: sound_ledger_def)
  moreover have "0 \<le> sint (Balance (transfer t L a))" for a
    using f' r' others s cover two amt by (cases "a = txFrom t"; cases "a = txTo t")
      (simp_all add: sound_ledger_def)
  ultimately show ?thesis using s fee by (simp add: sound_ledger_def)
qed

lemma sound_run:
  "ledger_run ts L = Inr L' \<Longrightarrow> sound_ledger S A L \<Longrightarrow>
     \<forall>t \<in> set ts. txFrom t \<in> A \<and> txTo t \<in> A \<and> sint (txAmount t) + sint (txFee t) < 2 ^ 63 \<Longrightarrow>
     sound_ledger (S - sum_list (map (\<lambda>t. sint (txFee t)) ts)) A L'"
proof (induction ts arbitrary: L S)
  case (Cons t ts)
  then have shape: "tx_shape t = None" and fund: "tx_funded t (L (txFrom t)) = None"
    and run: "ledger_run ts (transfer t L) = Inr L'"
    by (auto split: option.splits)
  have "sound_ledger (S - sint (txFee t)) A (transfer t L)"
    using sound_transfer [OF Cons.prems(2) shape fund] Cons.prems(3) by simp
  from Cons.IH [OF run this] Cons.prems(3) show ?case by (simp add: algebra_simps)
qed simp

section \<open>Properties\<close>

text \<open>
  C13 (invariant): what an applied block whose fees do not sum to a negative number does to the sum of
  all balances, modulo the width: below the fork the supply grows by exactly the scheduled reward, since the fees go back to the
  producer; from the fork on it also grows by the difference between the treasury's share of
  the fees counted twice and of the fees counted once.
\<close>

theorem block_supply:
  assumes "applyBlockLocked e c b = (c', None)" and "sle 0 (block_fees b)"
  shows "total_supply (chAccounts c') = total_supply (chAccounts c) + blockRewardForHeight (bHeight b)
    + (if feeSplitActive (bHeight b)
       then treasury_share (bHeight b) (block_fees b + block_fees b) - snd (splitFees (block_fees b)) else 0)"
proof (cases "feeSplitActive (bHeight b)")
  case True
  then have "total_supply (chAccounts c') = total_supply (chAccounts c) - block_fees b
      + (blockRewardForHeight (bHeight b) + fst (splitFees (block_fees b)))
      + treasury_share (bHeight b) (block_fees b + block_fees b)"
    using supply_after_block [OF assms(1)] by (simp add: expectedReward_def)
  from fee_balance [OF this splitFees_sum [OF assms(2)]] True show ?thesis by simp
next
  case False
  then show ?thesis
    using supply_after_block [OF assms(1)] by (simp add: expectedReward_def treasury_share_def)
qed

text \<open>
  C14 (safety): transactions whose amount and fee do not overflow keep every balance
  non-negative and remove exactly their fees from the supply, as integers.
\<close>

theorem executed_txs_keep_balances_sound:
  assumes "exec_txs ts (m, fmempty) 0 = (None, k, fees)" and "sound_ledger S A (getAccount m)"
    and "\<forall>t \<in> set ts. txFrom t \<in> A \<and> txTo t \<in> A \<and> sint (txAmount t) + sint (txFee t) < 2 ^ 63"
  shows "sound_ledger (S - sum_list (map (\<lambda>t. sint (txFee t)) ts)) A (getAccount (write_back k))"
  using sound_run [OF _ assms(2,3)] exec_txs_init(1) [OF assms(1)] by (simp add: getAccount_write_back)

text \<open>
  Without that condition execution creates money: the sum of amount and fee
  wraps, so a transaction from an empty account is accepted and leaves it with nearly the
  largest balance there is.
\<close>

theorem wrapping_fee_creates_money:
  assumes shape: "txFrom t \<noteq> []" "txTo t \<noteq> []" "txFrom t \<noteq> txTo t"
    and nonce: "txNonce t = Nonce (getAccount m (txFrom t))"
    and empty: "Balance (getAccount m (txFrom t)) = 0"
    and amount: "txAmount t = 100" and fee: "txFee t = 9223372036854775757"
  shows "\<exists>k. exec_txs [t] (m, fmempty) 0 = (None, k, txFee t) \<and>
    Balance (getAccount (write_back k) (txFrom t)) = 9223372036854775759"
proof -
  obtain err k fees where x: "exec_txs [t] (m, fmempty) 0 = (err, k, fees)" using prod_cases3 by blast
  have s: "tx_shape t = None" using shape amount by (simp add: tx_shape_None)
  moreover have "tx_funded t (getAccount m (txFrom t)) = None"
    using nonce empty amount fee by (simp add: tx_funded_None)
  ultimately have run: "ledger_run [t] (getAccount m) = Inr (transfer t (getAccount m))" by simp
  then have err: "err = None" using exec_txs_init(1) [OF x] by (cases err) simp_all
  then have "cache_view k = transfer t (getAccount m)" using exec_txs_init(1) [OF x] run by simp
  then have "Balance (getAccount (write_back k) (txFrom t)) = 9223372036854775759"
    using shape empty amount fee by (simp add: getAccount_write_back transfer_def)
  moreover have "fees = txFee t" using exec_txs_init(3) [OF x err] by simp
  ultimately show ?thesis using x err by simp
qed

definition overflow_tx :: tx where
  "overflow_tx = \<lparr>txFrom = ''a'', txTo = ''b'', txAmount = 100, txNonce = 0,
     txFee = 9223372036854775757, txPubKey = [], txSignature = []\<rparr>"

theorem wrapping_fee_creates_money_witness:
  "\<exists>k. exec_txs [overflow_tx] (fmempty, fmempty) 0 = (None, k, 9223372036854775757) \<and>
    Balance (getAccount (write_back k) ''a'') = 9223372036854775759"
  using wrapping_fee_creates_money [of overflow_tx fmempty] by (simp add: overflow_tx_def)

definition small_tx :: tx where
  "small_tx = overflow_tx\<lparr>txFee := 1, txAmount := 2\<rparr>"

theorem executed_txs_keep_balances_sound_witness:
  "\<exists>k. exec_txs [small_tx] (fmupd ''a'' \<lparr>Balance = 5, Nonce = 0\<rparr> fmempty, fmempty) 0 = (None, k, 1) \<and>
    sound_ledger 4 {''a'', ''b''} (getAccount (write_back k))"
proof -
  let ?m = "fmupd ''a'' \<lparr>Balance = 5, Nonce = 0\<rparr> (fmempty :: accounts)"
  obtain k where x: "exec_txs [small_tx] (?m, fmempty) 0 = (None, k, 1)"
    by (simp add: small_tx_def overflow_tx_def tx_shape_def tx_funded_def touch_def
        getOrCreateAccount_def zero_account_def)
  have s: "sound_ledger 5 {''a'', ''b''} (getAccount ?m)"
    by (auto simp: sound_ledger_def getAccount_def)
  have "\<forall>t \<in> set [small_tx]. txFrom t \<in> {''a'', ''b''} \<and> txTo t \<in> {''a'', ''b''} \<and>
      sint (txAmount t) + sint (txFee t) < 2 ^ 63"
    by (simp add: small_tx_def overflow_tx_def)
  from executed_txs_keep_balances_sound [OF x s this] x show ?thesis
    by (intro exI [of _ k]) (simp add: small_tx_def)
qed

end
