(* ===== verification/Identity.thy ===== *)
theory Identity
  imports Files
begin

text \<open>
  The validator identity of a node, loaded or created on first use and cached in the chain
  (\<open>internal/mesh/validator_identity.go\<close>).
\<close>

section \<open>The validator key\<close>

datatype key_error = KeyFileEmpty | KeyFileSyntax | KeyFileIncomplete | PubHexInvalid | PubSizeInvalid
  | PrivHexInvalid | PrivSizeInvalid | PubPrivMismatch

datatype identity_error = CachedPubInvalid | CachedPrivInvalid | CachedPairMismatch
  | KeyFileInvalid key_error | KeyFileUnreadable io_error | KeyGenFailed
  | KeyFileWrite io_error | KeyFileRename io_error

text \<open>The checks on the two hexadecimal texts; the result is the pair of raw keys.\<close>

definition decode_key_pair :: "env \<Rightarrow> string \<Rightarrow> string \<Rightarrow> key_error + string \<times> string" where
  "decode_key_pair e pubHex privHex =
     (case hex_decode pubHex of None \<Rightarrow> Inl PubHexInvalid
      | Some pub \<Rightarrow>
          if length pub \<noteq> 32 then Inl PubSizeInvalid
          else (case hex_decode privHex of None \<Rightarrow> Inl PrivHexInvalid
             | Some priv \<Rightarrow>
                 if length priv \<noteq> 64 then Inl PrivSizeInvalid
                 else if pub \<noteq> ed_public e priv then Inl PubPrivMismatch
                 else Inr (pub, priv)))"

definition parseValidatorKeyFile :: "env \<Rightarrow> string \<Rightarrow> key_error + key_file" where
  "parseValidatorKeyFile e raw =
     (if raw = [] then Inl KeyFileEmpty
      else case unmarshalKey e raw of None \<Rightarrow> Inl KeyFileSyntax
        | Some k \<Rightarrow>
            if kfPubHex k = [] \<or> kfPrivHex k = [] then Inl KeyFileIncomplete
            else (case decode_key_pair e (kfPubHex k) (kfPrivHex k) of
                Inl err \<Rightarrow> Inl err | Inr _ \<Rightarrow> Inr k))"

definition is_trim_char :: "char \<Rightarrow> bool" where
  "is_trim_char ch \<longleftrightarrow> ch \<in> {CHR '' '', CHR 0x09, CHR 0x0A, CHR 0x0D}"

fun drop_slashes :: "string \<Rightarrow> string" where
  "drop_slashes (a # b # cs) = (if a = CHR ''/'' then drop_slashes (b # cs) else a # b # cs)"
| "drop_slashes cs = cs"

text \<open>\<open>stringsTrim\<close>: the slashes are dropped from the end, down to one character.\<close>

definition stringsTrim :: "string \<Rightarrow> string" where
  "stringsTrim s =
     (let s1 = rev (dropWhile is_trim_char (rev (dropWhile is_trim_char s)))
      in if s1 = [] then [] else rev (drop_slashes (rev s1)))"

definition validatorKeyPathLocked :: "chain \<Rightarrow> path" where
  "validatorKeyPathLocked c =
     (let base = stringsTrim (chPersistDir c);
          base2 = (if base = [] then stringsTrim (chDataDir c) else base);
          base3 = (if base2 = [] then ''data'' else base2)
      in (base3, ''validator_key.json''))"

text \<open>\<open>os.WriteFile\<close>: opened with truncation, then written.\<close>

definition os_WriteFile :: "env \<Rightarrow> files \<Rightarrow> path \<Rightarrow> string \<Rightarrow> io_error option \<times> files" where
  "os_WriteFile e fs p raw =
     (if io_fails e OpenFile p then (Some (IOFailure OpenFile), fs)
      else if io_fails e WriteFile p then (Some (IOFailure WriteFile), fmupd p (take (io_short e p) raw) fs)
      else if io_fails e CloseFile p then (Some (IOFailure CloseFile), fmupd p raw fs)
      else (None, fmupd p raw fs))"

definition cached_pair_check :: "env \<Rightarrow> chain \<Rightarrow> identity_error option" where
  "cached_pair_check e c =
     (case decode_key_pair e (chValidatorPubHex c) (chValidatorPrivHex c) of
        Inl PubHexInvalid \<Rightarrow> Some CachedPubInvalid
      | Inl PubSizeInvalid \<Rightarrow> Some CachedPubInvalid
      | Inl PrivHexInvalid \<Rightarrow> Some CachedPrivInvalid
      | Inl PrivSizeInvalid \<Rightarrow> Some CachedPrivInvalid
      | Inl _ \<Rightarrow> Some CachedPairMismatch
      | Inr _ \<Rightarrow> None)"

definition set_keys :: "key_file \<Rightarrow> chain \<Rightarrow> chain" where
  "set_keys k c = c\<lparr>chValidatorPubHex := kfPubHex k, chValidatorPrivHex := kfPrivHex k\<rparr>"

definition create_identity :: "env \<Rightarrow> chain \<Rightarrow> path \<Rightarrow> chain \<times> (identity_error + string)" where
  "create_identity e c p =
     (case gen_key e of None \<Rightarrow> (c, Inl KeyGenFailed)
      | Some (pub, priv) \<Rightarrow>
          let k = \<lparr>kfPubHex = hex_encode pub, kfPrivHex = hex_encode priv\<rparr>;
              raw = marshalKey e k @ [CHR 0x0A];
              tmp = tmp_of p
          in case os_WriteFile e (chDisk c) tmp raw of
               (Some err, fs) \<Rightarrow> (c\<lparr>chDisk := fs\<rparr>, Inl (KeyFileWrite err))
             | (None, fs) \<Rightarrow>
                 (case os_Rename e fs tmp p of
                    (Some err, fs') \<Rightarrow> (c\<lparr>chDisk := fs'\<rparr>, Inl (KeyFileRename err))
                  | (None, fs') \<Rightarrow> (set_keys k (c\<lparr>chDisk := fs'\<rparr>), Inr (kfPubHex k))))"

text \<open>The failure to make the directory is ignored; an empty key file is replaced.\<close>

definition EnsureValidatorIdentityLocked :: "env \<Rightarrow> chain \<Rightarrow> chain \<times> (identity_error + string)" where
  "EnsureValidatorIdentityLocked e c =
     (if chValidatorPubHex c \<noteq> [] \<and> chValidatorPrivHex c \<noteq> []
      then (case cached_pair_check e c of Some err \<Rightarrow> (c, Inl err)
            | None \<Rightarrow> (c, Inr (chValidatorPubHex c)))
      else let p = validatorKeyPathLocked c
           in case os_ReadFile e (chDisk c) p of
                Inr raw \<Rightarrow>
                  if 0 < length raw
                  then (case parseValidatorKeyFile e raw of Inl err \<Rightarrow> (c, Inl (KeyFileInvalid err))
                        | Inr k \<Rightarrow> (set_keys k c, Inr (kfPubHex k)))
                  else create_identity e c p
              | Inl NotExist \<Rightarrow> create_identity e c p
              | Inl err \<Rightarrow> (c, Inl (KeyFileUnreadable err)))"

definition ErrNoValidator :: string where "ErrNoValidator = ''ERR_NO_VALIDATOR''"

definition ValidatorIDLocked :: "env \<Rightarrow> chain \<Rightarrow> chain \<times> string" where
  "ValidatorIDLocked e c =
     (case EnsureValidatorIdentityLocked e c of
        (c1, Inl err) \<Rightarrow> (c1\<lparr>chValidatorPubHex := ErrNoValidator, chValidatorPrivHex := []\<rparr>, ErrNoValidator)
      | (c1, Inr pub) \<Rightarrow> (c1, pub))"

definition ValidatorPrivHexLocked :: "env \<Rightarrow> chain \<Rightarrow> chain \<times> (identity_error + string)" where
  "ValidatorPrivHexLocked e c =
     (case EnsureValidatorIdentityLocked e c of
        (c1, Inl err) \<Rightarrow> (c1, Inl err)
      | (c1, Inr _) \<Rightarrow> (c1, Inr (chValidatorPrivHex c1)))"

section \<open>Lemmas\<close>

lemma decode_key_pair_Inr:
  "decode_key_pair e p s = Inr (pub, priv) \<Longrightarrow>
     hex_decode p = Some pub \<and> length pub = 32 \<and> hex_decode s = Some priv \<and> length priv = 64 \<and>
     pub = ed_public e priv"
  by (auto simp: decode_key_pair_def split: option.splits if_splits)

lemma cached_pair_None:
  "cached_pair_check e c = None \<longleftrightarrow>
     (\<exists>kp. decode_key_pair e (chValidatorPubHex c) (chValidatorPrivHex c) = Inr kp)"
  by (auto simp: cached_pair_check_def split: sum.splits key_error.splits)

text \<open>A chain has a usable identity when its cached pair passes the checks.\<close>

definition has_identity :: "env \<Rightarrow> chain \<Rightarrow> bool" where
  "has_identity e c \<longleftrightarrow>
     chValidatorPubHex c \<noteq> [] \<and> chValidatorPrivHex c \<noteq> [] \<and> cached_pair_check e c = None"

lemma Ensure_cached:
  "has_identity e c \<Longrightarrow> EnsureValidatorIdentityLocked e c = (c, Inr (chValidatorPubHex c))"
  by (simp add: EnsureValidatorIdentityLocked_def has_identity_def)

lemma ValidatorID_cached: "has_identity e c \<Longrightarrow> ValidatorIDLocked e c = (c, chValidatorPubHex c)"
  by (simp add: ValidatorIDLocked_def Ensure_cached)

lemma hex_encode_nonempty: "xs \<noteq> [] \<Longrightarrow> hex_encode xs \<noteq> []"
  by (cases xs) (auto simp: hex_encode_def hex_byte_def)

lemma generated_pair:
  assumes "crypto_ok e" and "length priv = 64"
  shows "decode_key_pair e (hex_encode (ed_public e priv)) (hex_encode priv) = Inr (ed_public e priv, priv)"
  using crypto_okD(2) [OF assms] assms(2) by (simp add: decode_key_pair_def hex_decode_encode)

text \<open>The keys, the caches of the identity and the disk are all an identity operation writes.\<close>

lemma create_identity_frame:
  "\<exists>p s d. fst (create_identity e c q) = c\<lparr>chValidatorPubHex := p, chValidatorPrivHex := s, chDisk := d\<rparr>"
proof -
  have triv: "\<exists>p s d'. c\<lparr>chDisk := d\<rparr> = c\<lparr>chValidatorPubHex := p, chValidatorPrivHex := s, chDisk := d'\<rparr>" for d
    by (rule exI [of _ "chValidatorPubHex c"], rule exI [of _ "chValidatorPrivHex c"], rule exI [of _ d]) simp
  have set: "\<exists>p s d'. set_keys k (c\<lparr>chDisk := d\<rparr>) =
      c\<lparr>chValidatorPubHex := p, chValidatorPrivHex := s, chDisk := d'\<rparr>" for k d
    by (rule exI [of _ "kfPubHex k"], rule exI [of _ "kfPrivHex k"], rule exI [of _ d])
      (simp add: set_keys_def)
  have same: "\<exists>p s d'. c = c\<lparr>chValidatorPubHex := p, chValidatorPrivHex := s, chDisk := d'\<rparr>"
    using triv [of "chDisk c"] by simp
  show ?thesis
    using triv set same
    by (auto simp: create_identity_def Let_def split: option.splits prod.splits)
qed

lemma Ensure_frame:
  "\<exists>p s d. fst (EnsureValidatorIdentityLocked e c) =
     c\<lparr>chValidatorPubHex := p, chValidatorPrivHex := s, chDisk := d\<rparr>"
proof -
  have same: "\<exists>p s d. c = c\<lparr>chValidatorPubHex := p, chValidatorPrivHex := s, chDisk := d\<rparr>"
    by (rule exI [of _ "chValidatorPubHex c"], rule exI [of _ "chValidatorPrivHex c"],
        rule exI [of _ "chDisk c"]) simp
  have set: "\<exists>p s d. set_keys k c = c\<lparr>chValidatorPubHex := p, chValidatorPrivHex := s, chDisk := d\<rparr>" for k
    by (rule exI [of _ "kfPubHex k"], rule exI [of _ "kfPrivHex k"], rule exI [of _ "chDisk c"])
      (simp add: set_keys_def)
  show ?thesis
    using same set create_identity_frame [of e c]
    by (auto simp: EnsureValidatorIdentityLocked_def Let_def
        split: option.splits sum.splits io_error.splits)
qed

lemma ValidatorID_frame:
  "\<exists>p s d. fst (ValidatorIDLocked e c) =
     c\<lparr>chValidatorPubHex := p, chValidatorPrivHex := s, chDisk := d\<rparr>"
proof -
  obtain c1 r where r: "EnsureValidatorIdentityLocked e c = (c1, r)" by fastforce
  then obtain p s d where c1: "c1 = c\<lparr>chValidatorPubHex := p, chValidatorPrivHex := s, chDisk := d\<rparr>"
    using Ensure_frame [of e c] by auto
  show ?thesis
  proof (cases r)
    case (Inl err)
    then have "fst (ValidatorIDLocked e c) =
        c\<lparr>chValidatorPubHex := ErrNoValidator, chValidatorPrivHex := [], chDisk := d\<rparr>"
      unfolding ValidatorIDLocked_def r c1 by (intro chain.equality) simp_all
    then show ?thesis by blast
  next
    case (Inr pub)
    then show ?thesis using c1 by (auto simp: ValidatorIDLocked_def r)
  qed
qed

lemma create_identity_Inr:
  assumes "create_identity e c q = (c', Inr pub)"
  obtains kpub kpriv d where "gen_key e = Some (kpub, kpriv)" "pub = hex_encode kpub"
    "c' = c\<lparr>chDisk := d, chValidatorPubHex := hex_encode kpub, chValidatorPrivHex := hex_encode kpriv\<rparr>"
    "fmlookup d q = Some (marshalKey e \<lparr>kfPubHex = hex_encode kpub, kfPrivHex = hex_encode kpriv\<rparr> @ [CHR 0x0A])"
proof -
  obtain kpub kpriv where g: "gen_key e = Some (kpub, kpriv)"
    using assms by (cases "gen_key e") (auto simp: create_identity_def)
  let ?k = "\<lparr>kfPubHex = hex_encode kpub, kfPrivHex = hex_encode kpriv\<rparr>"
  let ?raw = "marshalKey e ?k @ [CHR 0x0A]"
  obtain werr fs where w: "os_WriteFile e (chDisk c) (tmp_of q) ?raw = (werr, fs)" by fastforce
  then have "werr = None"
    using assms g by (cases werr) (simp_all add: create_identity_def Let_def)
  with w have fs: "fmlookup fs (tmp_of q) = Some ?raw" by (auto simp: os_WriteFile_def split: if_splits)
  obtain rerr d where r: "os_Rename e fs (tmp_of q) q = (rerr, d)" by fastforce
  then have "rerr = None"
    using assms g w \<open>werr = None\<close> by (cases rerr) (simp_all add: create_identity_def Let_def)
  with r fs have "fmlookup d q = Some ?raw" by (auto simp: os_Rename_def split: if_splits)
  moreover have "c' = c\<lparr>chDisk := d, chValidatorPubHex := hex_encode kpub, chValidatorPrivHex := hex_encode kpriv\<rparr>"
    and "pub = hex_encode kpub"
    using assms g w r \<open>werr = None\<close> \<open>rerr = None\<close>
    by (auto simp: create_identity_def set_keys_def Let_def)
  ultimately show thesis using that g by blast
qed

text \<open>What the code relies on of \<open>ed25519.GenerateKey\<close>.\<close>

definition gen_key_ok :: "env \<Rightarrow> bool" where
  "gen_key_ok e \<longleftrightarrow> (\<forall>pub priv. gen_key e = Some (pub, priv) \<longrightarrow>
     length priv = 64 \<and> pub = ed_public e priv)"

lemma parse_key_Inr:
  "parseValidatorKeyFile e raw = Inr k \<Longrightarrow>
     kfPubHex k \<noteq> [] \<and> kfPrivHex k \<noteq> [] \<and> (\<exists>kp. decode_key_pair e (kfPubHex k) (kfPrivHex k) = Inr kp)"
  by (auto simp: parseValidatorKeyFile_def split: if_splits option.splits sum.splits)

lemma create_has_identity:
  assumes "crypto_ok e" "gen_key_ok e" and "create_identity e c q = (c', Inr pub)"
  shows "has_identity e c' \<and> chValidatorPubHex c' = pub"
proof (rule create_identity_Inr [OF assms(3)])
  fix kpub kpriv d
  assume g: "gen_key e = Some (kpub, kpriv)" and "pub = hex_encode kpub"
    and c': "c' = c\<lparr>chDisk := d, chValidatorPubHex := hex_encode kpub, chValidatorPrivHex := hex_encode kpriv\<rparr>"
  moreover have "length kpriv = 64" "kpub = ed_public e kpriv"
    using assms(2) g by (simp_all add: gen_key_ok_def)
  moreover from this have "kpub \<noteq> []" "kpriv \<noteq> []" using crypto_okD(2) [OF assms(1)] by fastforce+
  ultimately show ?thesis
    using generated_pair [OF assms(1), of kpriv]
    by (simp add: has_identity_def hex_encode_nonempty cached_pair_None)
qed

lemma Ensure_has_identity:
  assumes "crypto_ok e" "gen_key_ok e" and "EnsureValidatorIdentityLocked e c = (c', Inr pub)"
  shows "has_identity e c' \<and> chValidatorPubHex c' = pub"
proof (cases "chValidatorPubHex c \<noteq> [] \<and> chValidatorPrivHex c \<noteq> []")
  case True
  with assms(3) show ?thesis
    by (auto simp: EnsureValidatorIdentityLocked_def has_identity_def split: option.splits)
next
  case False
  with assms(3) show ?thesis
    using create_has_identity [OF assms(1,2), of c "validatorKeyPathLocked c" c' pub]
    by (auto simp: EnsureValidatorIdentityLocked_def Let_def has_identity_def set_keys_def
        cached_pair_None split: if_splits sum.splits io_error.splits dest!: parse_key_Inr)
qed

section \<open>Properties\<close>

text \<open>
  C24 (type): an identity is only ever returned with a matching key pair behind it: whether it
  was cached, loaded or made, the chain then holds a public and a private key of the right
  sizes that belong together.
\<close>

theorem identity_is_valid_pair:
  assumes "crypto_ok e" and "gen_key_ok e" and "EnsureValidatorIdentityLocked e c = (c', Inr pub)"
  shows "chValidatorPubHex c' = pub \<and> (\<exists>kpub kpriv. hex_decode pub = Some kpub \<and> length kpub = 32 \<and>
    hex_decode (chValidatorPrivHex c') = Some kpriv \<and> length kpriv = 64 \<and> kpub = ed_public e kpriv)"
  using Ensure_has_identity [OF assms] by (auto simp: has_identity_def cached_pair_None dest!: decode_key_pair_Inr)

text \<open>
  C25 (roundtrip): the identity a node makes on its first start is the one it finds on the
  next: a restarted node with the same directories and the disk left behind loads it.
\<close>

theorem identity_survives_restart:
  assumes ok: "crypto_ok e" "gen_key_ok e"
    and made: "create_identity e c (validatorKeyPathLocked c) = (c', Inr pub)"
    and json: "\<forall>p s. unmarshalKey e (marshalKey e \<lparr>kfPubHex = hex_encode p, kfPrivHex = hex_encode s\<rparr>
      @ [CHR 0x0A]) = Some \<lparr>kfPubHex = hex_encode p, kfPrivHex = hex_encode s\<rparr>"
    and restart: "chPersistDir c2 = chPersistDir c" "chDataDir c2 = chDataDir c" "chDisk c2 = chDisk c'"
      "chValidatorPubHex c2 = []" "\<not> io_fails e ReadFile (validatorKeyPathLocked c)"
  shows "snd (EnsureValidatorIdentityLocked e c2) = Inr pub"
proof (rule create_identity_Inr [OF made])
  fix kpub kpriv d
  assume g: "gen_key e = Some (kpub, kpriv)" and pub: "pub = hex_encode kpub"
    and c': "c' = c\<lparr>chDisk := d, chValidatorPubHex := hex_encode kpub, chValidatorPrivHex := hex_encode kpriv\<rparr>"
    and d: "fmlookup d (validatorKeyPathLocked c) =
      Some (marshalKey e \<lparr>kfPubHex = hex_encode kpub, kfPrivHex = hex_encode kpriv\<rparr> @ [CHR 0x0A])"
  have k: "length kpriv = 64" "kpub = ed_public e kpriv" using ok(2) g by (simp_all add: gen_key_ok_def)
  then have "kpub \<noteq> []" "kpriv \<noteq> []" using crypto_okD(2) [OF ok(1)] by fastforce+
  then have "parseValidatorKeyFile e (marshalKey e \<lparr>kfPubHex = hex_encode kpub, kfPrivHex = hex_encode kpriv\<rparr>
      @ [CHR 0x0A]) = Inr \<lparr>kfPubHex = hex_encode kpub, kfPrivHex = hex_encode kpriv\<rparr>"
    using generated_pair [OF ok(1) k(1)] json k(2)
    by (simp add: parseValidatorKeyFile_def hex_encode_nonempty)
  moreover have "validatorKeyPathLocked c2 = validatorKeyPathLocked c"
    using restart(1,2) by (simp add: validatorKeyPathLocked_def Let_def)
  ultimately show ?thesis
    using restart d c' pub by (simp add: EnsureValidatorIdentityLocked_def os_ReadFile_def Let_def)
qed

end
