(* ===== verification/Proposal.thy ===== *)
theory Proposal
  imports Supply Identity
begin

text \<open>
  Proposals (\<open>internal/mesh/chain_core.go\<close>): the screening of a block that arrives, its
  application or buffering, the drain of the buffer, the local proposer, and the chain
  invariant that all of them keep.
\<close>

section \<open>Screening and buffering\<close>

datatype proposal_error =
    ReorgBlocked | QuorumNotReached | InvalidHeight | DuplicateCommitted | ConflictingCommitted
  | StaleProposal | ProposalMissingTime | FutureTimestamp | StaleTimestamp | ProposalBadHash
  | ProposalBadSignature sig_error | ProposalTxInvalid | ApplyFailed block_error | OutOfOrder
  | DuplicatePending | ConflictingPending

definition exec_error_text :: "exec_error \<Rightarrow> string" where
  "exec_error_text err = (case err of
     MissingFromOrTo \<Rightarrow> ''tx invalid: missing from/to''
   | FromEqTo \<Rightarrow> ''tx invalid: from == to''
   | AmountNotPositive \<Rightarrow> ''tx invalid: amount <= 0''
   | NegativeFee \<Rightarrow> ''tx invalid: negative fee''
   | BadNonceSequencing \<Rightarrow> ''tx invalid: bad nonce sequencing''
   | InsufficientBalance \<Rightarrow> ''tx invalid: insufficient balance incl fee'')"

definition block_error_text :: "block_error \<Rightarrow> string" where
  "block_error_text err = (case err of
     NegativeReward \<Rightarrow> ''negative block reward''
   | TooManyTxs \<Rightarrow> ''block tx count exceeds max 64''
   | BlockTxBadSignature \<Rightarrow> ''tx invalid: bad signature''
   | BlockTxFieldTooLarge \<Rightarrow> ''tx invalid: field too large''
   | DuplicateTxInBlock \<Rightarrow> ''tx invalid: duplicate tx in block''
   | DuplicateSenderNonceInBlock \<Rightarrow> ''tx invalid: duplicate sender nonce in block''
   | BadHeight _ _ \<Rightarrow> ''bad height''
   | BadPrevHash _ _ \<Rightarrow> ''bad prevhash''
   | MissingTime \<Rightarrow> ''missing time''
   | BadHash \<Rightarrow> ''bad hash''
   | InvalidSignature _ \<Rightarrow> ''invalid block signature''
   | BadReward _ _ \<Rightarrow> ''bad reward''
   | MissingBalancesRoot \<Rightarrow> ''missing balances_root''
   | BadBalancesRoot _ _ \<Rightarrow> ''bad balances_root''
   | PersistFailed _ _ \<Rightarrow> ''persist block height''
   | TxInvalid er \<Rightarrow> exec_error_text er)"

text \<open>
  The failure is recorded in the daemon's status by its message; the model keeps the constant
  words of the message and leaves out the heights, times and hashes printed into it.
\<close>

definition proposal_error_text :: "proposal_error \<Rightarrow> string" where
  "proposal_error_text err = (case err of
     ReorgBlocked \<Rightarrow> ''reorg blocked below finalized height''
   | QuorumNotReached \<Rightarrow> ''quorum not reached for block''
   | InvalidHeight \<Rightarrow> ''proposal rejected: invalid height''
   | DuplicateCommitted \<Rightarrow> ''proposal rejected: duplicate committed proposal''
   | ConflictingCommitted \<Rightarrow> ''proposal rejected: conflicting committed proposal''
   | StaleProposal \<Rightarrow> ''proposal rejected: stale proposal''
   | ProposalMissingTime \<Rightarrow> ''proposal rejected: missing time''
   | FutureTimestamp \<Rightarrow> ''proposal rejected: future timestamp''
   | StaleTimestamp \<Rightarrow> ''proposal rejected: stale timestamp''
   | ProposalBadHash \<Rightarrow> ''proposal rejected: bad hash''
   | ProposalBadSignature _ \<Rightarrow> ''proposal rejected: invalid block signature''
   | ProposalTxInvalid \<Rightarrow> ''proposal rejected: tx invalid''
   | ApplyFailed er \<Rightarrow> block_error_text er
   | OutOfOrder \<Rightarrow> ''proposal rejected: out-of-order proposal''
   | DuplicatePending \<Rightarrow> ''proposal rejected: duplicate pending proposal''
   | ConflictingPending \<Rightarrow> ''proposal rejected: conflicting pending proposal'')"

definition reorg_check :: "chain \<Rightarrow> block \<Rightarrow> proposal_error option" where
  "reorg_check c b =
     (if 0 < chFinalizedHeight c \<and> bHeight b \<le> chFinalizedHeight c
      then (case fmlookup (chBlocks c) (bHeight b) of None \<Rightarrow> None
            | Some old \<Rightarrow> if bHash old \<noteq> bHash b then Some ReorgBlocked else None)
      else None)"

text \<open>
  With a daemon the node first looks up its own validator id, which may create it; a foreign
  block then needs the quorum of the announced states.
\<close>

definition quorum_check :: "env \<Rightarrow> chain \<Rightarrow> block \<Rightarrow> chain \<times> proposal_error option" where
  "quorum_check e c b =
     (case chDaemon c of None \<Rightarrow> (c, None)
      | Some d \<Rightarrow>
          let (c1, pubHex) = ValidatorIDLocked e c
          in if pubHex \<noteq> [] \<and> pubHex \<noteq> ErrNoValidator \<and> bProducer b \<noteq> pubHex \<and>
                \<not> hasQuorum d (bHeight b) (calcStateHashWithBlock e c1 b)
             then (c1, Some QuorumNotReached) else (c1, None))"

definition committed_check :: "chain \<Rightarrow> block \<Rightarrow> proposal_error option" where
  "committed_check c b =
     (if bHeight b \<le> 0 then Some InvalidHeight
      else if bHeight b \<le> chHeight c
      then Some (case fmlookup (chBlocks c) (bHeight b) of None \<Rightarrow> StaleProposal
            | Some old \<Rightarrow> if bHash old = bHash b \<and> bHash b \<noteq> [] then DuplicateCommitted
                else ConflictingCommitted)
      else None)"

text \<open>A block whose time is not after that of the committed block at the tip.\<close>

definition stale_time :: "chain \<Rightarrow> block \<Rightarrow> bool" where
  "stale_time c b = (case fmlookup (chBlocks c) (chHeight c) of None \<Rightarrow> False
     | Some prev \<Rightarrow> bTimeUTC b \<le> bTimeUTC prev)"

definition content_check :: "env \<Rightarrow> chain \<Rightarrow> block \<Rightarrow> proposal_error option" where
  "content_check e c b =
     (if bTimeUTC b = time_zero then Some ProposalMissingTime
      else if now e + maxProposalFutureSkew < bTimeUTC b then Some FutureTimestamp
      else if bHeight b = chHeight c + 1 \<and> stale_time c b then Some StaleTimestamp
      else if bHash b = [] \<or> bHash b \<noteq> calcBlockHash e b then Some ProposalBadHash
      else case ValidateBlockSignature e b of Some err \<Rightarrow> Some (ProposalBadSignature err)
        | None \<Rightarrow> if \<exists>t \<in> set (block_txs b). txFrom t = [] \<or> txTo t = [] \<or> txFrom t = txTo t
                       \<or> sle (txAmount t) 0
            then Some ProposalTxInvalid else None)"

definition dropPendingLocked :: "int \<Rightarrow> chain \<Rightarrow> chain" where
  "dropPendingLocked h c = (case fmlookup (chPending c) h of None \<Rightarrow> c
     | Some _ \<Rightarrow> c\<lparr>chPending := fmdrop h (chPending c)\<rparr>)"

text \<open>\<open>drainPendingLocked\<close>: each turn of the loop removes one buffered block.\<close>

lemma applyBlock_pending: "chPending (fst (applyBlockLocked e c b)) = chPending c"
proof (cases "snd (applyBlockLocked e c b)")
  case None
  then have "applyBlockLocked e c b = (fst (applyBlockLocked e c b), None)" by (simp add: prod_eq_iff)
  then show ?thesis by (rule applied_fields(3))
next
  case (Some err)
  then have "applyBlockLocked e c b = (fst (applyBlockLocked e c b), Some err)" by (simp add: prod_eq_iff)
  then obtain m vs d where "fst (applyBlockLocked e c b) = c\<lparr>chAccounts := m, chValidatorSet := vs, chDisk := d\<rparr>"
    using applyBlock_Some by blast
  then show ?thesis by simp
qed

lemma applyBlock_pending_pair:
  "(c2, r) = applyBlockLocked e c b \<Longrightarrow> chPending c2 = chPending c"
  using applyBlock_pending [of e c b] by (metis fst_conv)

function drainPendingLocked :: "env \<Rightarrow> chain \<Rightarrow> chain \<times> nat" where
  "drainPendingLocked e c =
     (let next_h = chHeight c + 1
      in case fmlookup (chPending c) next_h of None \<Rightarrow> (c, 0)
         | Some b \<Rightarrow>
             if bPrevHash b \<noteq> chTip c then drainPendingLocked e (dropPendingLocked next_h c)
             else if stale_time c b then drainPendingLocked e (dropPendingLocked next_h c)
             else (case applyBlockLocked e (c\<lparr>chPending := fmdrop next_h (chPending c)\<rparr>) b of
                 (c2, Some err) \<Rightarrow> drainPendingLocked e c2
               | (c2, None) \<Rightarrow>
                   (case drainPendingLocked e (c2\<lparr>chHeight := bHeight b, chTip := bHash b\<rparr>) of
                      (c3, n) \<Rightarrow> (c3, Suc n))))"
  by pat_completeness auto
termination
  by (relation "measure (\<lambda>(e, c). fcard (fmdom (chPending c)))")
    (auto simp: dropPendingLocked_def split: option.splits
      dest!: applyBlock_pending_pair dest: fcard_fmdrop_less)

declare drainPendingLocked.simps [simp del]

text \<open>The result is the chain, whether the block was applied, and the error.\<close>

definition place_block :: "env \<Rightarrow> chain \<Rightarrow> block \<Rightarrow> chain \<times> bool \<times> proposal_error option" where
  "place_block e c b =
     (if bHeight b = chHeight c + 1
      then (case applyBlockLocked e c b of
          (c1, Some err) \<Rightarrow> (c1, False, Some (ApplyFailed err))
        | (c1, None) \<Rightarrow>
            (fst (drainPendingLocked e (c1\<lparr>chHeight := bHeight b, chTip := bHash b\<rparr>)), True, None))
      else if chHeight c + maxProposalBufferDistance < bHeight b then (c, False, Some OutOfOrder)
      else case fmlookup (chPending c) (bHeight b) of
          Some existing \<Rightarrow> (c, False, Some (if bHash existing = bHash b \<and> bHash b \<noteq> []
            then DuplicatePending else ConflictingPending))
        | None \<Rightarrow> (c\<lparr>chPending := fmupd (bHeight b) b (chPending c)\<rparr>, False, None))"

definition screen_block :: "env \<Rightarrow> chain \<Rightarrow> block \<Rightarrow> chain \<times> bool \<times> proposal_error option" where
  "screen_block e c b =
     (let c1 = observeValidatorLocked c (bProducer b)
      in case reorg_check c1 b of Some err \<Rightarrow> (c1, False, Some err)
         | None \<Rightarrow>
             (case quorum_check e c1 b of
                (c2, Some err) \<Rightarrow> (c2, False, Some err)
              | (c2, None) \<Rightarrow>
                  (case committed_check c2 b of Some err \<Rightarrow> (c2, False, Some err)
                   | None \<Rightarrow>
                       (case content_check e c2 b of Some err \<Rightarrow> (c2, False, Some err)
                        | None \<Rightarrow> place_block e c2 b))))"

definition record_failure :: "chain \<Rightarrow> proposal_error option \<Rightarrow> chain" where
  "record_failure c err =
     (case (err, chDaemon c) of
        (Some er, Some d) \<Rightarrow>
          c\<lparr>chDaemon := Some (d\<lparr>dStatus := recordProposalFailure (Some (proposal_error_text er)) (dStatus d)\<rparr>)\<rparr>
      | _ \<Rightarrow> c)"

definition applyBlockOrBufferLocked ::
  "env \<Rightarrow> chain \<Rightarrow> block \<Rightarrow> chain \<times> bool \<times> proposal_error option" where
  "applyBlockOrBufferLocked e c b =
     (case screen_block e c b of (c1, applied, err) \<Rightarrow> (record_failure c1 err, applied, err))"

section \<open>The local proposer\<close>

datatype safety_error = SuccessorBuffered int | ForeignBuffered int

definition foreign_pending :: "chain \<Rightarrow> string \<Rightarrow> int list" where
  "foreign_pending c localValidator =
     filter (\<lambda>h. chHeight c < h \<and> (case fmlookup (chPending c) h of None \<Rightarrow> False
         | Some p \<Rightarrow> bProducer p \<noteq> [] \<and> bProducer p \<noteq> localValidator))
       (sorted_list_of_fset (fmdom (chPending c)))"

text \<open>The lowest buffered block of another validator stops the proposer.\<close>

definition proposalSafetyCheckLocked :: "chain \<Rightarrow> string \<Rightarrow> safety_error option" where
  "proposalSafetyCheckLocked c localValidator =
     (if fmlookup (chPending c) (chHeight c + 1) \<noteq> None then Some (SuccessorBuffered (chHeight c + 1))
      else case foreign_pending c localValidator of [] \<Rightarrow> None | h # _ \<Rightarrow> Some (ForeignBuffered h))"

datatype propose_error = PayoutAddressEmpty | WalletNotBound | ChainNotBound
  | ProposerIdentity identity_error | MissingValidatorKeys | ProposalUnsafe safety_error
  | BadPrivHex | ProposalRefused proposal_error

definition daemon_wallet :: "chain \<Rightarrow> string" where
  "daemon_wallet c = (case chDaemon c of None \<Rightarrow> [] | Some d \<Rightarrow> trim_space (dWalletAddr d))"

definition walletPath :: "chain \<Rightarrow> path" where
  "walletPath c = (trim_space (chDataDir c), ''wallet.json'')"

definition producer_address :: "env \<Rightarrow> chain \<Rightarrow> string" where
  "producer_address e c =
     (if daemon_wallet c = [] \<and> trim_space (chDataDir c) \<noteq> []
      then (case os_ReadFile e (chDisk c) (walletPath c) of Inl _ \<Rightarrow> []
            | Inr raw \<Rightarrow> (case unmarshalAddress e raw of None \<Rightarrow> [] | Some a \<Rightarrow> trim_space a))
      else daemon_wallet c)"

text \<open>The block of the proposer; without transactions its slice is nil.\<close>

definition draft_block :: "env \<Rightarrow> chain \<Rightarrow> string \<Rightarrow> string \<Rightarrow> tx list \<Rightarrow> block" where
  "draft_block e c producerAddr pubHex txs =
     (let h = chHeight c + 1;
          totalFees = sum_list (map txFee txs)
      in \<lparr>bProducer = pubHex, bProducerAddr = producerAddr, bReward = expectedReward h totalFees,
          bProducerPubKey = [], bSignature = [], bBalancesRoot = [], bIsFinalized = False,
          bValidatorID = pubHex, bHeight = h, bPrevHash = chTip c, bHash = [], bTimeUTC = now e,
          bTxs = (if txs = [] then None else Some txs)\<rparr>)"

definition new_block :: "env \<Rightarrow> chain \<Rightarrow> string \<Rightarrow> string \<Rightarrow> tx list \<Rightarrow> block" where
  "new_block e c producerAddr pubHex txs =
     (let b = draft_block e c producerAddr pubHex txs;
          b1 = b\<lparr>bBalancesRoot := calcStateHashWithBlock e c b\<rparr>
      in b1\<lparr>bHash := calcBlockHash e b1\<rparr>)"

text \<open>
  From the compacted mempool on: the first transactions are taken, and put back in front if
  the block is refused. \<open>None\<close> is the panic of signing with a key of the wrong size.
\<close>

definition submit_block ::
  "env \<Rightarrow> chain \<Rightarrow> string \<Rightarrow> string \<Rightarrow> string \<Rightarrow> (chain \<times> propose_error option) option" where
  "submit_block e c producerAddr pubHex priv =
     (let txs = take MaxBlockTxs (chMempool c);
          c1 = rebuildMempoolIndexLocked e (c\<lparr>chMempool := drop MaxBlockTxs (chMempool c)\<rparr>)
      in case SignBlock e (new_block e c1 producerAddr pubHex txs) priv of None \<Rightarrow> None
         | Some b \<Rightarrow>
             (case applyBlockOrBufferLocked e c1 b of
                (c2, applied, None) \<Rightarrow> Some (c2, None)
              | (c2, applied, Some err) \<Rightarrow>
                  Some (rebuildMempoolIndexLocked e (c2\<lparr>chMempool := txs @ chMempool c2\<rparr>),
                        Some (ProposalRefused err))))"

definition proposeBlock :: "env \<Rightarrow> chain \<Rightarrow> (chain \<times> propose_error option) option" where
  "proposeBlock e c =
     (let producerAddr = producer_address e c
      in if producerAddr = [] then Some (c, Some PayoutAddressEmpty)
         else if daemon_wallet c = [] then Some (c, Some WalletNotBound)
         else if chDaemon c = None then Some (c, Some ChainNotBound)
         else case EnsureValidatorIdentityLocked e c of
             (c1, Inl err) \<Rightarrow> Some (c1, Some (ProposerIdentity err))
           | (c1, Inr pubHex) \<Rightarrow>
               (case ValidatorPrivHexLocked e c1 of
                  (c2, Inl err) \<Rightarrow> Some (c2, Some (ProposerIdentity err))
                | (c2, Inr privHex) \<Rightarrow>
                    if pubHex = [] \<or> privHex = [] \<or> pubHex = ErrNoValidator
                    then Some (c2, Some MissingValidatorKeys)
                    else case proposalSafetyCheckLocked c2 pubHex of
                        Some err \<Rightarrow> Some (c2, Some (ProposalUnsafe err))
                      | None \<Rightarrow>
                          let c3 = fst (compactMempoolLocked e c2)
                          in (case hex_decode privHex of None \<Rightarrow> Some (c3, Some BadPrivHex)
                              | Some priv \<Rightarrow> submit_block e c3 producerAddr pubHex priv)))"

datatype action_error = NotLeader | ActionIdentity identity_error | IdentityUnavailable

definition requireValidatorActionReadyLocked :: "env \<Rightarrow> chain \<Rightarrow> string \<Rightarrow> chain \<times> action_error option" where
  "requireValidatorActionReadyLocked e c nodeID =
     (if nodeID \<noteq> ''node1'' then (c, Some NotLeader)
      else case EnsureValidatorIdentityLocked e c of
          (c1, Inl err) \<Rightarrow> (c1, Some (ActionIdentity err))
        | (c1, Inr pubHex) \<Rightarrow>
            (if pubHex = [] \<or> pubHex = ErrNoValidator then (c1, Some IdentityUnavailable) else (c1, None)))"

section \<open>Reading the chain\<close>

definition snapshotRange :: "chain \<Rightarrow> int \<Rightarrow> int \<Rightarrow> block list" where
  "snapshotRange c from_h to_h =
     (let lo = (if from_h < 1 then 1 else from_h);
          hi = (if to_h \<le> 0 \<or> chHeight c < to_h then chHeight c else to_h)
      in if hi < lo then []
         else sort_key bHeight (List.map_filter (fmlookup (chBlocks c)) [lo..hi]))"

text \<open>\<open>GetFinalitySnapshot\<close>: the finalized height, the hash there, and the depth.\<close>

definition GetFinalitySnapshot :: "chain \<Rightarrow> int \<times> string \<times> int" where
  "GetFinalitySnapshot c =
     (let finalizedTip = (if 0 < chFinalizedHeight c
            then (case fmlookup (chBlocks c) (chFinalizedHeight c) of None \<Rightarrow> [] | Some b \<Rightarrow> bHash b)
            else [])
      in (chFinalizedHeight c, finalizedTip, finalityDepth))"

end
