(* ===== verification/Invariant.thy ===== *)
theory Invariant
  imports Proposal
begin

text \<open>
  The invariant of a running node: the committed blocks are a hash-linked, signed chain with
  increasing times, finality trails the tip, the buffer holds at most the block after next, and
  the mempool is indexed. Proposals keep it, and only ever extend the committed chain.
\<close>

section \<open>Definitions\<close>

definition valid_block :: "env \<Rightarrow> block \<Rightarrow> bool" where
  "valid_block e b \<longleftrightarrow> bHash b = calcBlockHash e b \<and> bHash b \<noteq> [] \<and> ValidateBlockSignature e b = None"

text \<open>The blocks above the base (the snapshot's height, or 0) up to the chain's height.\<close>

definition chain_wf :: "env \<Rightarrow> int \<Rightarrow> chain \<Rightarrow> bool" where
  "chain_wf e base c \<longleftrightarrow> 0 \<le> base \<and> base \<le> chHeight c \<and>
     (\<forall>h. fmlookup (chBlocks c) h = None \<longleftrightarrow> h \<le> base \<or> chHeight c < h) \<and>
     (\<forall>h b. fmlookup (chBlocks c) h = Some b \<longrightarrow> bHeight b = h \<and> valid_block e b) \<and>
     (\<forall>h p b. fmlookup (chBlocks c) h = Some p \<longrightarrow> fmlookup (chBlocks c) (h + 1) = Some b \<longrightarrow>
        bPrevHash b = bHash p \<and> bTimeUTC p < bTimeUTC b) \<and>
     (\<forall>b. fmlookup (chBlocks c) (chHeight c) = Some b \<longrightarrow> chTip c = bHash b)"

text \<open>
  The same without the order of the times, which the replay of block files does not check.
\<close>

definition linked :: "env \<Rightarrow> int \<Rightarrow> chain \<Rightarrow> bool" where
  "linked e base c \<longleftrightarrow> 0 \<le> base \<and> base \<le> chHeight c \<and>
     (\<forall>h. fmlookup (chBlocks c) h = None \<longleftrightarrow> h \<le> base \<or> chHeight c < h) \<and>
     (\<forall>h b. fmlookup (chBlocks c) h = Some b \<longrightarrow> bHeight b = h \<and> valid_block e b) \<and>
     (\<forall>h p b. fmlookup (chBlocks c) h = Some p \<longrightarrow> fmlookup (chBlocks c) (h + 1) = Some b \<longrightarrow>
        bPrevHash b = bHash p) \<and>
     (\<forall>b. fmlookup (chBlocks c) (chHeight c) = Some b \<longrightarrow> chTip c = bHash b)"

definition times_increase :: "chain \<Rightarrow> bool" where
  "times_increase c \<longleftrightarrow> (\<forall>h p b. fmlookup (chBlocks c) h = Some p \<longrightarrow>
     fmlookup (chBlocks c) (h + 1) = Some b \<longrightarrow> bTimeUTC p < bTimeUTC b)"

lemma chain_wf_iff: "chain_wf e base c \<longleftrightarrow> linked e base c \<and> times_increase c"
  unfolding chain_wf_def linked_def times_increase_def by blast

definition final_wf :: "chain \<Rightarrow> bool" where
  "final_wf c \<longleftrightarrow> chFinalizedHeight c = max 0 (chHeight c - finalityDepth) \<and>
     (\<forall>h b. fmlookup (chBlocks c) h = Some b \<longrightarrow> h \<le> chFinalizedHeight c \<longrightarrow> bIsFinalized b)"

definition pending_wf :: "env \<Rightarrow> chain \<Rightarrow> bool" where
  "pending_wf e c \<longleftrightarrow> (\<forall>h b. fmlookup (chPending c) h = Some b \<longrightarrow>
     h = chHeight c + 2 \<and> bHeight b = h \<and> valid_block e b)"

definition core_wf :: "env \<Rightarrow> chain \<Rightarrow> bool" where
  "core_wf e c \<longleftrightarrow> chain_wf e 0 c \<and> final_wf c \<and> mempool_wf e c"

definition node_wf :: "env \<Rightarrow> chain \<Rightarrow> bool" where
  "node_wf e c \<longleftrightarrow> core_wf e c \<and> pending_wf e c"

text \<open>Committed blocks are never replaced; only their finality mark may be set.\<close>

definition extends :: "chain \<Rightarrow> chain \<Rightarrow> bool" where
  "extends c c' \<longleftrightarrow> chHeight c \<le> chHeight c' \<and> chFinalizedHeight c \<le> chFinalizedHeight c' \<and>
     (\<forall>h b. fmlookup (chBlocks c) h = Some b \<longrightarrow>
        (\<exists>v. fmlookup (chBlocks c') h = Some (b\<lparr>bIsFinalized := v\<rparr>) \<and> (bIsFinalized b \<longrightarrow> v)))"

lemma chain_wfD:
  assumes "chain_wf e base c"
  shows "0 \<le> base" "base \<le> chHeight c"
    and "fmlookup (chBlocks c) h = None \<longleftrightarrow> h \<le> base \<or> chHeight c < h"
    and "fmlookup (chBlocks c) h = Some b \<Longrightarrow> bHeight b = h \<and> valid_block e b"
    and "fmlookup (chBlocks c) h = Some p \<Longrightarrow> fmlookup (chBlocks c) (h + 1) = Some b \<Longrightarrow>
      bPrevHash b = bHash p \<and> bTimeUTC p < bTimeUTC b"
    and "fmlookup (chBlocks c) (chHeight c) = Some b \<Longrightarrow> chTip c = bHash b"
  using assms unfolding chain_wf_def by blast+

lemma linkedD:
  assumes "linked e base c"
  shows "0 \<le> base" "base \<le> chHeight c"
    and "fmlookup (chBlocks c) h = None \<longleftrightarrow> h \<le> base \<or> chHeight c < h"
    and "fmlookup (chBlocks c) h = Some b \<Longrightarrow> bHeight b = h \<and> valid_block e b"
    and "fmlookup (chBlocks c) h = Some p \<Longrightarrow> fmlookup (chBlocks c) (h + 1) = Some b \<Longrightarrow> bPrevHash b = bHash p"
    and "fmlookup (chBlocks c) (chHeight c) = Some b \<Longrightarrow> chTip c = bHash b"
  using assms unfolding linked_def by blast+

lemma linked_lookup: "linked e base c \<Longrightarrow> fmlookup (chBlocks c) h = Some b \<Longrightarrow> base < h \<and> h \<le> chHeight c"
  using linkedD(3) [of e base c h] by auto

lemma chain_wf_lookup: "chain_wf e base c \<Longrightarrow> fmlookup (chBlocks c) h = Some b \<Longrightarrow> base < h \<and> h \<le> chHeight c"
  by (auto simp: chain_wf_iff dest: linked_lookup)

text \<open>The fields the invariant reads.\<close>

definition core_fields where
  "core_fields c = (chHeight c, chTip c, chBlocks c, chFinalizedHeight c, chMempool c,
     chMempoolIDs c, chMempoolSenderNonce c)"

lemma core_wf_cong: "core_fields c' = core_fields c \<Longrightarrow> core_wf e c' = core_wf e c"
  by (simp add: core_fields_def core_wf_def chain_wf_def final_wf_def mempool_wf_def)

lemma node_wf_cong:
  "core_fields c' = core_fields c \<Longrightarrow> chPending c' = chPending c \<Longrightarrow> node_wf e c' = node_wf e c"
  using core_wf_cong [of c' c e] by (simp add: core_fields_def node_wf_def pending_wf_def)

lemma extends_refl: "core_fields c' = core_fields c \<Longrightarrow> extends c c'"
proof -
  assume "core_fields c' = core_fields c"
  moreover have "b = b\<lparr>bIsFinalized := bIsFinalized b\<rparr>" for b :: block by simp
  ultimately show ?thesis unfolding extends_def core_fields_def by (metis order_refl prod.inject)
qed

lemma extends_trans: "extends c c1 \<Longrightarrow> extends c1 c2 \<Longrightarrow> extends c c2"
proof -
  assume 1: "extends c c1" and 2: "extends c1 c2"
  have "\<exists>v. fmlookup (chBlocks c2) h = Some (b\<lparr>bIsFinalized := v\<rparr>) \<and> (bIsFinalized b \<longrightarrow> v)"
    if b: "fmlookup (chBlocks c) h = Some b" for h b
  proof -
    obtain v where v: "fmlookup (chBlocks c1) h = Some (b\<lparr>bIsFinalized := v\<rparr>)" "bIsFinalized b \<longrightarrow> v"
      using 1 b unfolding extends_def by blast
    then have "\<exists>w. fmlookup (chBlocks c2) h = Some ((b\<lparr>bIsFinalized := v\<rparr>)\<lparr>bIsFinalized := w\<rparr>) \<and>
        (bIsFinalized (b\<lparr>bIsFinalized := v\<rparr>) \<longrightarrow> w)"
      using 2 unfolding extends_def by blast
    with v(2) show ?thesis by auto
  qed
  with 1 2 show ?thesis unfolding extends_def by (meson order_trans)
qed

section \<open>Frames\<close>

lemma observe_core: "core_fields (observeValidatorLocked c v) = core_fields c"
  "chPending (observeValidatorLocked c v) = chPending c"
  "chAccounts (observeValidatorLocked c v) = chAccounts c"
  "chDaemon (observeValidatorLocked c v) = chDaemon c"
  by (simp_all add: observeValidatorLocked_def core_fields_def)

lemma validatorID_core: "core_fields (fst (ValidatorIDLocked e c)) = core_fields c"
  "chPending (fst (ValidatorIDLocked e c)) = chPending c"
  "chAccounts (fst (ValidatorIDLocked e c)) = chAccounts c"
  "chDaemon (fst (ValidatorIDLocked e c)) = chDaemon c"
  using ValidatorID_frame [of e c] by (auto simp: core_fields_def)

lemma ensure_core: "core_fields (fst (EnsureValidatorIdentityLocked e c)) = core_fields c"
  "chPending (fst (EnsureValidatorIdentityLocked e c)) = chPending c"
  "chAccounts (fst (EnsureValidatorIdentityLocked e c)) = chAccounts c"
  "chDaemon (fst (EnsureValidatorIdentityLocked e c)) = chDaemon c"
  using Ensure_frame [of e c] by (auto simp: core_fields_def)

lemma quorum_core: "core_fields (fst (quorum_check e c b)) = core_fields c"
  "chPending (fst (quorum_check e c b)) = chPending c"
  "chAccounts (fst (quorum_check e c b)) = chAccounts c"
proof -
  obtain c1 p where v: "ValidatorIDLocked e c = (c1, p)" by fastforce
  have "fst (quorum_check e c b) \<in> {c, c1}" by (auto simp: quorum_check_def v split: option.splits)
  moreover have "core_fields c1 = core_fields c" "chPending c1 = chPending c" "chAccounts c1 = chAccounts c"
    using validatorID_core(1-3) [of e c] v by simp_all
  ultimately show "core_fields (fst (quorum_check e c b)) = core_fields c"
    "chPending (fst (quorum_check e c b)) = chPending c"
    "chAccounts (fst (quorum_check e c b)) = chAccounts c" by auto
qed

lemma record_failure_core: "core_fields (record_failure c err) = core_fields c"
  "chPending (record_failure c err) = chPending c"
  "chAccounts (record_failure c err) = chAccounts c"
  by (auto simp: record_failure_def core_fields_def split: option.splits)

lemma refused_core:
  assumes "applyBlockLocked e c b = (c', Some err)"
  shows "core_fields c' = core_fields c" "chPending c' = chPending c"
  using applyBlock_Some [OF assms] by (auto simp: core_fields_def)

section \<open>One block\<close>

lemma applied_lookup:
  assumes "applyBlockLocked e c b = (c', None)"
  shows "fmlookup (chBlocks c') h =
    (if h = chHeight c' then Some (finalized_at (chFinalizedHeight c) (chFinalizedHeight c') h b)
     else map_option (finalized_at (chFinalizedHeight c) (chFinalizedHeight c') h) (fmlookup (chBlocks c) h))"
  using applied_fields(1,12) [OF assms] by auto

lemma applied_old_block:
  assumes "applyBlockLocked e c b = (c', None)" and "fmlookup (chBlocks c') k = Some p" and "k \<noteq> chHeight c'"
  shows "\<exists>p0. fmlookup (chBlocks c) k = Some p0 \<and>
    p = finalized_at (chFinalizedHeight c) (chFinalizedHeight c') k p0"
proof -
  have "map_option (finalized_at (chFinalizedHeight c) (chFinalizedHeight c') k) (fmlookup (chBlocks c) k) = Some p"
    using applied_lookup [OF assms(1), of k] assms(2,3) by simp
  then show ?thesis by auto
qed

lemma finalized_at_is: "\<exists>v. finalized_at f g h b = b\<lparr>bIsFinalized := v\<rparr> \<and> (bIsFinalized b \<longrightarrow> v)"
proof (cases "f < h \<and> h \<le> g")
  case False
  then have "finalized_at f g h b = b\<lparr>bIsFinalized := bIsFinalized b\<rparr>" by (auto simp: finalized_at_def)
  then show ?thesis by blast
qed (auto simp: finalized_at_def)

lemma applied_extends:
  assumes wf: "chain_wf e base c" and ap: "applyBlockLocked e c b = (c', None)"
  shows "extends c c'"
proof -
  have h: "chHeight c' = chHeight c + 1" using applied_fields(1) [OF ap] applied_checks(3) [OF ap] by simp
  have "\<exists>v. fmlookup (chBlocks c') k = Some (p\<lparr>bIsFinalized := v\<rparr>) \<and> (bIsFinalized p \<longrightarrow> v)"
    if p: "fmlookup (chBlocks c) k = Some p" for k p
  proof -
    have "k \<noteq> chHeight c'" using chain_wf_lookup [OF wf p] h by simp
    then have "fmlookup (chBlocks c') k = Some (finalized_at (chFinalizedHeight c) (chFinalizedHeight c') k p)"
      using applied_lookup [OF ap, of k] p by simp
    then show ?thesis using finalized_at_is by metis
  qed
  then show ?thesis using h applied_fields(11) [OF ap] by (auto simp: extends_def)
qed

text \<open>Two blocks one after the other, one of them perhaps new.\<close>

lemma applied_step:
  assumes wf: "linked e base c" and ap: "applyBlockLocked e c b = (c', None)"
    and p: "fmlookup (chBlocks c') k = Some p" and q: "fmlookup (chBlocks c') (k + 1) = Some q"
  shows "bPrevHash q = bHash p \<and> (times_increase c \<and> \<not> stale_time c b \<longrightarrow> bTimeUTC p < bTimeUTC q)"
proof -
  have h: "chHeight c' = chHeight c + 1" using applied_fields(1) [OF ap] applied_checks(3) [OF ap] by simp
  show ?thesis
  proof (cases "k = chHeight c")
    case True
    then obtain p0 where p0: "fmlookup (chBlocks c) (chHeight c) = Some p0"
      "bHash p = bHash p0" "bTimeUTC p = bTimeUTC p0"
      using applied_old_block [OF ap p] h by auto
    moreover have "bPrevHash q = bPrevHash b" "bTimeUTC q = bTimeUTC b"
      using q applied_lookup [OF ap, of "k + 1"] h True by auto
    ultimately show ?thesis using linkedD(6) [OF wf] applied_checks(4) [OF ap] by (auto simp: stale_time_def)
  next
    case False
    then have "k + 1 \<noteq> chHeight c'" using h by simp
    then obtain q0 where q0: "fmlookup (chBlocks c) (k + 1) = Some q0"
      "bPrevHash q = bPrevHash q0" "bTimeUTC q = bTimeUTC q0"
      using applied_old_block [OF ap q] by auto
    then have "k + 1 \<le> chHeight c" using linked_lookup [OF wf] by blast
    then have "k \<noteq> chHeight c'" using h by simp
    then obtain p0 where p0: "fmlookup (chBlocks c) k = Some p0"
      "bHash p = bHash p0" "bTimeUTC p = bTimeUTC p0"
      using applied_old_block [OF ap p] by auto
    show ?thesis using linkedD(5) [OF wf p0(1) q0(1)] p0 q0 by (auto simp: times_increase_def)
  qed
qed

lemma applied_linked:
  assumes wf: "linked e base c" and ap: "applyBlockLocked e c b = (c', None)"
  shows "linked e base c'"
proof -
  note look = applied_lookup [OF ap]
  have h: "chHeight c' = chHeight c + 1" "bHeight b = chHeight c + 1"
    using applied_fields(1) [OF ap] applied_checks(3) [OF ap] by simp_all
  have valid: "valid_block e b" using applied_checks(7-9) [OF ap] by (simp add: valid_block_def)
  have vf: "valid_block e (finalized_at f g k p) = valid_block e p" for f g k p
    by (simp add: valid_block_def)
  have "fmlookup (chBlocks c') k = None \<longleftrightarrow> k \<le> base \<or> chHeight c' < k" for k
    using look [of k] linkedD(3) [OF wf, of k] h linkedD(2) [OF wf] by auto
  moreover have "fmlookup (chBlocks c') k = Some p \<Longrightarrow> bHeight p = k \<and> valid_block e p" for k p
    using look [of k] linkedD(4) [OF wf] valid h by (auto simp: vf split: if_splits)
  moreover have "fmlookup (chBlocks c') (chHeight c') = Some p \<Longrightarrow> chTip c' = bHash p" for p
    using look [of "chHeight c'"] applied_fields(2) [OF ap] by auto
  ultimately show ?thesis
    unfolding linked_def using applied_step [OF wf ap] linkedD(1,2) [OF wf] h by (intro conjI allI impI) auto
qed

lemma applied_chain_wf:
  assumes wf: "chain_wf e base c" and ap: "applyBlockLocked e c b = (c', None)"
    and time: "\<not> stale_time c b"
  shows "chain_wf e base c'"
proof -
  have "linked e base c" "times_increase c" using wf by (simp_all add: chain_wf_iff)
  then show ?thesis
    using applied_linked [OF _ ap] applied_step [OF _ ap] time unfolding chain_wf_iff times_increase_def by blast
qed

lemma applied_final_wf:
  assumes wf: "linked e 0 c" "final_wf c" and ap: "applyBlockLocked e c b = (c', None)"
  shows "final_wf c'"
proof -
  have h: "chHeight c' = chHeight c + 1" using applied_fields(1) [OF ap] applied_checks(3) [OF ap] by simp
  have f: "chFinalizedHeight c' = max 0 (chHeight c' - finalityDepth)"
    using applied_fields(1,11) [OF ap] wf h by (simp add: final_wf_def)
  have "bIsFinalized p" if p: "fmlookup (chBlocks c') k = Some p" and k: "k \<le> chFinalizedHeight c'" for k p
  proof -
    have "0 < k"
      using p applied_lookup [OF ap, of k] linked_lookup [OF wf(1), of k] linkedD(2) [OF wf(1)] h
      by (auto split: if_splits)
    then have "k < chHeight c'" using k f by (auto simp: finalityDepth_def)
    then obtain p0 where p0: "fmlookup (chBlocks c) k = Some p0"
      "p = finalized_at (chFinalizedHeight c) (chFinalizedHeight c') k p0"
      using applied_old_block [OF ap p] by auto
    then show ?thesis using wf(2) k by (auto simp: final_wf_def finalized_at_def)
  qed
  with f show ?thesis by (simp add: final_wf_def)
qed

lemma applied_core_wf:
  assumes "core_wf e c" and "applyBlockLocked e c b = (c', None)" and "\<not> stale_time c b"
  shows "core_wf e c'"
  using assms applied_chain_wf [OF _ assms(2,3)] applied_final_wf [OF _ _ assms(2)]
    applied_mempool_wf [OF assms(2)]
  by (auto simp: core_wf_def chain_wf_iff mempool_wf_def [of e c])

section \<open>The drain\<close>

lemma chain_set_same: "applyBlockLocked e c b = (c', None) \<Longrightarrow>
    c'\<lparr>chHeight := bHeight b, chTip := bHash b\<rparr> = c'"
  using applied_fields(1,2) [of e c b c'] by simp

lemma drop_core: "core_fields (dropPendingLocked h c) = core_fields c"
  "core_fields (c\<lparr>chPending := pnd\<rparr>) = core_fields c"
  "stale_time (c\<lparr>chPending := pnd\<rparr>) b = stale_time c b"
  by (simp_all add: dropPendingLocked_def core_fields_def stale_time_def split: option.split)

lemma chain_wf_core: "core_fields c' = core_fields c \<Longrightarrow> chain_wf e base c' = chain_wf e base c"
  by (simp add: core_fields_def chain_wf_def)

text \<open>What a turn of the drain does: it stops, drops the next block, or applies it.\<close>

lemma drain_cases:
  obtains (stop) "fmlookup (chPending c) (chHeight c + 1) = None" "drainPendingLocked e c = (c, 0)"
  | (skip) b c1 where "fmlookup (chPending c) (chHeight c + 1) = Some b"
      "core_fields c1 = core_fields c" "chPending c1 = fmdrop (chHeight c + 1) (chPending c)"
      "drainPendingLocked e c = drainPendingLocked e c1"
      "fcard (fmdom (chPending c1)) < fcard (fmdom (chPending c))"
  | (step) b c1 c2 where "fmlookup (chPending c) (chHeight c + 1) = Some b"
      "core_fields c1 = core_fields c" "chPending c1 = fmdrop (chHeight c + 1) (chPending c)"
      "applyBlockLocked e c1 b = (c2, None)" "\<not> stale_time c1 b"
      "drainPendingLocked e c = (case drainPendingLocked e c2 of (c3, n) \<Rightarrow> (c3, Suc n))"
      "fcard (fmdom (chPending c2)) < fcard (fmdom (chPending c))"
proof (cases "fmlookup (chPending c) (chHeight c + 1)")
  case None
  then show thesis by (intro stop) (simp_all add: drainPendingLocked.simps [of e c])
next
  case (Some b)
  let ?p = "fmdrop (chHeight c + 1) (chPending c)"
  let ?c = "c\<lparr>chPending := ?p\<rparr>"
  have less: "fcard (fmdom ?p) < fcard (fmdom (chPending c))" using Some by (rule fcard_fmdrop_less)
  have drop: "dropPendingLocked (chHeight c + 1) c = ?c" using Some by (simp add: dropPendingLocked_def)
  note unfold = drainPendingLocked.simps [of e c]
  show thesis
  proof (cases "bPrevHash b \<noteq> chTip c \<or> stale_time c b")
    case True
    then have "drainPendingLocked e c = drainPendingLocked e ?c" using Some drop by (subst unfold) (auto simp: Let_def)
    then show thesis using Some less by (intro skip [of b ?c]) (simp_all add: drop_core)
  next
    case False
    obtain c2 r where ap: "applyBlockLocked e ?c b = (c2, r)" by fastforce
    have pend: "chPending c2 = ?p" using applyBlock_pending [of e ?c b] ap by simp
    show thesis
    proof (cases r)
      case None
      have "drainPendingLocked e c = (case drainPendingLocked e (c2\<lparr>chHeight := bHeight b, chTip := bHash b\<rparr>) of
          (c3, n) \<Rightarrow> (c3, Suc n))"
        using Some False ap None by (subst unfold) simp
      moreover have "\<not> stale_time ?c b" using False by (simp add: drop_core)
      ultimately show thesis
        using Some less ap None pend chain_set_same [of e ?c b c2]
        by (intro step [of b ?c c2]) (simp_all add: drop_core)
    next
      case (Some err)
      then have "drainPendingLocked e c = drainPendingLocked e c2"
        using \<open>fmlookup _ _ = Some b\<close> False ap by (subst unfold) simp
      then show thesis
        using \<open>fmlookup _ _ = Some b\<close> less pend ap Some refused_core(1) [of e ?c b c2 err]
        by (intro skip [of b c2]) (simp_all add: drop_core)
    qed
  qed
qed

text \<open>The drain applies valid blocks on top and empties the buffer up to the next height.\<close>

lemma drain_ok:
  "core_wf e c \<Longrightarrow> drainPendingLocked e c = (c', n) \<Longrightarrow>
     core_wf e c' \<and> extends c c' \<and> chHeight c' = chHeight c + int n \<and>
     (\<forall>k b. fmlookup (chPending c') k = Some b \<longrightarrow>
        fmlookup (chPending c) k = Some b \<and> (k \<le> chHeight c \<or> chHeight c' + 1 < k))"
proof (induction "fcard (fmdom (chPending c))" arbitrary: c n rule: less_induct)
  case less
  show ?case
  proof (cases rule: drain_cases [of c e])
    case stop
    have "k \<le> chHeight c \<or> chHeight c + 1 < k" if "fmlookup (chPending c) k = Some b" for k b
      using stop(1) that by (cases "k = chHeight c + 1") auto
    then show ?thesis using less.prems stop(2) by (auto simp: extends_refl)
  next
    case (skip b c1)
    have h: "chHeight c1 = chHeight c" using skip(2) by (simp add: core_fields_def)
    have "core_wf e c1" using core_wf_cong [OF skip(2)] less.prems(1) by simp
    moreover have "drainPendingLocked e c1 = (c', n)" using less.prems(2) skip(4) by simp
    ultimately have ih: "core_wf e c' \<and> extends c1 c' \<and> chHeight c' = chHeight c1 + int n \<and>
     (\<forall>k b. fmlookup (chPending c') k = Some b \<longrightarrow>
        fmlookup (chPending c1) k = Some b \<and> (k \<le> chHeight c1 \<or> chHeight c' + 1 < k))"
      by (rule less.hyps [OF skip(5)])
    have "fmlookup (chPending c) k = Some p \<and> (k \<le> chHeight c \<or> chHeight c' + 1 < k)"
      if "fmlookup (chPending c') k = Some p" for k p
    proof -
      have "fmlookup (chPending c1) k = Some p" "k \<le> chHeight c1 \<or> chHeight c' + 1 < k"
        using ih that by blast+
      then show ?thesis using skip(3) h fmdrop_SomeD by metis
    qed
    then show ?thesis using ih extends_trans [OF extends_refl [OF skip(2)], of c'] h by simp
  next
    case (step b c1 c2)
    have wf1: "core_wf e c1" using core_wf_cong [OF step(2)] less.prems(1) by simp
    then have c1: "chain_wf e 0 c1" by (simp add: core_wf_def)
    have wf2: "core_wf e c2" by (rule applied_core_wf [OF wf1 step(4,5)])
    have h: "chHeight c2 = chHeight c + 1"
      using applied_fields(1) [OF step(4)] applied_checks(3) [OF step(4)] step(2)
      by (simp add: core_fields_def)
    have ext: "extends c c2"
      using extends_trans [OF extends_refl [OF step(2)] applied_extends [OF c1 step(4)]] .
    have pend: "chPending c2 = fmdrop (chHeight c + 1) (chPending c)"
      using applied_fields(3) [OF step(4)] step(3) by simp
    obtain m where m: "drainPendingLocked e c2 = (c', m)" "n = Suc m"
      using less.prems(2) step(6) by (cases "drainPendingLocked e c2") auto
    note ih = less.hyps [OF step(7) wf2 m(1)]
    have "fmlookup (chPending c) k = Some p \<and> (k \<le> chHeight c \<or> chHeight c' + 1 < k)"
      if "fmlookup (chPending c') k = Some p" for k p
    proof -
      have "fmlookup (chPending c2) k = Some p" "k \<le> chHeight c2 \<or> chHeight c' + 1 < k"
        using ih that by blast+
      moreover from this have "fmlookup (chPending c) k = Some p" "k \<noteq> chHeight c + 1"
        using pend fmdrop_SomeD by metis+
      ultimately show ?thesis using h by auto
    qed
    then show ?thesis using ih extends_trans [OF ext, of c'] h m(2) by simp
  qed
qed

lemma drain_bound: "snd (drainPendingLocked e c) \<le> fcard (fmdom (chPending c))"
proof (induction "fcard (fmdom (chPending c))" arbitrary: c rule: less_induct)
  case less
  show ?case
  proof (cases rule: drain_cases [of c e])
    case (skip b c1)
    then show ?thesis using less.hyps [OF skip(5)] by simp
  next
    case (step b c1 c2)
    then show ?thesis using less.hyps [OF step(7)] by (auto split: prod.splits)
  qed simp
qed

lemma drain_next_empty:
  "fmlookup (chPending (fst (drainPendingLocked e c))) (chHeight (fst (drainPendingLocked e c)) + 1) = None"
proof (induction "fcard (fmdom (chPending c))" arbitrary: c rule: less_induct)
  case less
  show ?case
  proof (cases rule: drain_cases [of c e])
    case (skip b c1)
    then show ?thesis using less.hyps [OF skip(5)] by simp
  next
    case (step b c1 c2)
    then show ?thesis using less.hyps [OF step(7)] by (auto split: prod.splits)
  qed simp
qed

section \<open>A proposal that arrives\<close>

lemma content_check_None:
  assumes "content_check e c b = None"
  shows "valid_block e b" "bHeight b = chHeight c + 1 \<Longrightarrow> \<not> stale_time c b"
    "bTimeUTC b \<le> now e + maxProposalFutureSkew"
    "\<forall>t \<in> set (block_txs b). tx_shape t = None"
  using assms by (auto simp: content_check_def valid_block_def tx_shape_None not_less not_le
      split: if_splits option.splits)

lemma place_ok:
  assumes wf: "node_wf e c" and content: "content_check e c b = None" and pos: "chHeight c < bHeight b"
    and place: "place_block e c b = (c', applied, err)"
  shows "node_wf e c' \<and> extends c c'"
proof (cases "bHeight b = chHeight c + 1")
  case True
  have core: "core_wf e c" using wf by (simp add: node_wf_def)
  obtain c1 r where ap: "applyBlockLocked e c b = (c1, r)" by fastforce
  show ?thesis
  proof (cases r)
    case (Some er)
    then have "c' = c1" using place True ap by (simp add: place_block_def)
    then show ?thesis
      using refused_core [OF ap [unfolded Some]] node_wf_cong [of c1 c e] wf extends_refl [of c1 c] by simp
  next
    case None
    note ap = ap [unfolded None]
    have wf1: "core_wf e c1" by (rule applied_core_wf [OF core ap content_check_None(2) [OF content True]])
    have h: "chHeight c1 = chHeight c + 1" using applied_fields(1) [OF ap] True by simp
    obtain n where d: "drainPendingLocked e c1 = (c', n)"
      using place True ap chain_set_same [OF ap]
      by (cases "drainPendingLocked e c1") (simp add: place_block_def)
    note dr = drain_ok [OF wf1 d]
    have "fmlookup (chPending c') k = None" for k
    proof (rule ccontr)
      assume "fmlookup (chPending c') k \<noteq> None"
      then obtain p where "fmlookup (chPending c') k = Some p" by blast
      with dr have "fmlookup (chPending c1) k = Some p" and "k \<le> chHeight c1 \<or> chHeight c' + 1 < k"
        by blast+
      then have "fmlookup (chPending c) k = Some p" and "k \<le> chHeight c1 \<or> chHeight c' + 1 < k"
        using applied_fields(3) [OF ap] by simp_all
      moreover from this have "k = chHeight c + 2" using wf by (simp add: node_wf_def pending_wf_def)
      ultimately show False using h dr by simp
    qed
    then have "pending_wf e c'" by (simp add: pending_wf_def)
    moreover have "extends c c'"
      using dr extends_trans [OF applied_extends [OF _ ap]] core by (auto simp: core_wf_def)
    ultimately show ?thesis using dr by (simp add: node_wf_def)
  qed
next
  case False
  show ?thesis
  proof (cases "chHeight c + maxProposalBufferDistance < bHeight b \<or> fmlookup (chPending c) (bHeight b) \<noteq> None")
    case True
    then have "c' = c" using place False by (auto simp: place_block_def split: if_splits)
    then show ?thesis using wf extends_refl [of c c] by simp
  next
    case buffer: False
    then have c': "c' = c\<lparr>chPending := fmupd (bHeight b) b (chPending c)\<rparr>"
      using place False by (simp add: place_block_def)
    have h: "bHeight b = chHeight c + 2"
      using buffer False pos by (simp add: maxProposalBufferDistance_def)
    have "pending_wf e c'"
      using wf h content_check_None(1) [OF content] by (auto simp: c' node_wf_def pending_wf_def)
    moreover have "core_fields c' = core_fields c" by (simp add: c' drop_core)
    ultimately show ?thesis
      using core_wf_cong [of c' c e] extends_refl [of c' c] wf by (simp add: node_wf_def)
  qed
qed

lemma screen_ok:
  assumes wf: "node_wf e c" and screen: "screen_block e c b = (c', applied, err)"
  shows "node_wf e c' \<and> extends c c'"
proof -
  let ?c1 = "observeValidatorLocked c (bProducer b)"
  obtain c2 q where q: "quorum_check e ?c1 b = (c2, q)" by fastforce
  have core: "core_fields ?c1 = core_fields c" "core_fields c2 = core_fields c"
    and pend: "chPending ?c1 = chPending c" "chPending c2 = chPending c"
    using quorum_core [of e ?c1 b] q observe_core [of c "bProducer b"] by simp_all
  have wf1: "node_wf e ?c1" "node_wf e c2" using node_wf_cong core pend wf by metis+
  have ext: "extends c ?c1" "extends c c2" using extends_refl core by metis+
  show ?thesis
  proof (cases "reorg_check ?c1 b = None \<and> q = None \<and> committed_check c2 b = None \<and> content_check e c2 b = None")
    case True
    then have "place_block e c2 b = (c', applied, err)" using screen q by (simp add: screen_block_def Let_def)
    moreover have "chHeight c2 < bHeight b" using True by (simp add: committed_check_def split: if_splits)
    ultimately show ?thesis using place_ok [OF wf1(2)] True extends_trans [OF ext(2)] by blast
  next
    case False
    then have "c' = ?c1 \<or> c' = c2"
      using screen q by (auto simp: screen_block_def Let_def split: option.splits)
    then show ?thesis using wf1 ext by auto
  qed
qed

lemma apply_or_buffer_ok:
  assumes "node_wf e c" and "applyBlockOrBufferLocked e c b = (c', applied, err)"
  shows "node_wf e c' \<and> extends c c'"
proof -
  obtain c1 where s: "screen_block e c b = (c1, applied, err)" and c': "c' = record_failure c1 err"
    using assms(2) by (auto simp: applyBlockOrBufferLocked_def split: prod.splits)
  have "node_wf e c1 \<and> extends c c1" by (rule screen_ok [OF assms(1) s])
  then show ?thesis
    using node_wf_cong [OF record_failure_core(1,2)] extends_trans [of c c1 c']
      extends_refl [of c' c1] record_failure_core [of c1 err] c' by auto
qed

section \<open>Properties\<close>

text \<open>
  C4 (invariant): whatever block arrives - valid, forged, stale, out of order, conflicting - the
  node stays well formed: its blocks are a signed, hash-linked chain with increasing times from
  height 1 to the tip, finality trails by two, at most the block after next is buffered, and
  the mempool is indexed. Committed blocks are never replaced and finality never goes back.
\<close>

theorem proposal_keeps_node_wf:
  assumes "node_wf e c" and "applyBlockOrBufferLocked e c b = (c', applied, err)"
  shows "node_wf e c' \<and> extends c c'"
  by (rule apply_or_buffer_ok [OF assms])

text \<open>
  The drain of the buffer ends after as many rounds as it holds blocks, and
  the height grows by exactly the number it reports as applied.
\<close>

theorem drain_counts_applied:
  assumes "core_wf e c" and "drainPendingLocked e c = (c', n)"
  shows "chHeight c' = chHeight c + int n \<and> n \<le> fcard (fmdom (chPending c)) \<and>
    fmlookup (chPending c') (chHeight c' + 1) = None \<and> extends c c'"
  using drain_ok [OF assms] drain_bound [of e c] drain_next_empty [of e c] assms(2) by simp

end
