(* ===== verification/Proposer.thy ===== *)
theory Proposer
  imports Invariant
begin

text \<open>
  The local proposer (\<open>proposeBlock\<close>): it keeps the invariant, gives the transactions back when
  its block is refused, and its own block is never refused on a node that is ready.
\<close>

section \<open>Refusals\<close>

lemma apply_or_buffer_err:
  assumes "applyBlockOrBufferLocked e c b = (c', applied, Some err)"
  shows "core_fields c' = core_fields c \<and> chPending c' = chPending c \<and>
    getAccount (chAccounts c') = getAccount (chAccounts c)"
proof -
  let ?c1 = "observeValidatorLocked c (bProducer b)"
  obtain c0 where s: "screen_block e c b = (c0, applied, Some err)" and c': "c' = record_failure c0 (Some err)"
    using assms by (auto simp: applyBlockOrBufferLocked_def split: prod.splits)
  obtain c2 q where q: "quorum_check e ?c1 b = (c2, q)" by fastforce
  have core: "core_fields ?c1 = core_fields c" "core_fields c2 = core_fields c"
    and pend: "chPending ?c1 = chPending c" "chPending c2 = chPending c"
    and accts: "chAccounts ?c1 = chAccounts c" "chAccounts c2 = chAccounts c"
    using quorum_core [of e ?c1 b] q observe_core [of c "bProducer b"] by simp_all
  have "core_fields c0 = core_fields c \<and> chPending c0 = chPending c \<and>
    getAccount (chAccounts c0) = getAccount (chAccounts c)"
  proof (cases "reorg_check ?c1 b = None \<and> q = None \<and> committed_check c2 b = None \<and> content_check e c2 b = None")
    case True
    then have place: "place_block e c2 b = (c0, applied, Some err)"
      using s q by (simp add: screen_block_def Let_def)
    show ?thesis
    proof (cases "bHeight b = chHeight c2 + 1")
      case True
      then obtain er where ap: "applyBlockLocked e c2 b = (c0, Some er)"
        using place by (auto simp: place_block_def split: prod.splits option.splits)
      then have "getAccount (chAccounts c0) = getAccount (chAccounts c)"
        using applyBlock_Some [OF ap] accts(2) by fastforce
      then show ?thesis using refused_core [OF ap] core pend by metis
    next
      case False
      then have "c0 = c2" using place by (auto simp: place_block_def split: if_splits option.splits)
      then show ?thesis using core pend accts by simp
    qed
  next
    case False
    then have "c0 = ?c1 \<or> c0 = c2" using s q by (auto simp: screen_block_def Let_def split: option.splits)
    then show ?thesis using core pend accts by auto
  qed
  then show ?thesis using c' record_failure_core [of c0 "Some err"] by simp
qed

lemma rebuild_wf:
  assumes "mempool_wf e c" and "length ts \<le> MaxMempoolTxs" and "distinct (map senderNonceKey ts)"
    and "set ts \<subseteq> set (chMempool c)"
  shows "mempool_wf e (rebuildMempoolIndexLocked e (c\<lparr>chMempool := ts\<rparr>))"
  using assms by (auto simp: mempool_wf_def rebuildMempoolIndexLocked_def Let_def)

lemma rebuild_chain:
  "core_wf e c \<Longrightarrow> mempool_wf e (rebuildMempoolIndexLocked e (c\<lparr>chMempool := ts\<rparr>)) \<Longrightarrow>
     core_wf e (rebuildMempoolIndexLocked e (c\<lparr>chMempool := ts\<rparr>))"
  by (simp add: core_wf_def chain_wf_def final_wf_def rebuildMempoolIndexLocked_def Let_def)

lemma rebuild_fields:
  "chPending (rebuildMempoolIndexLocked e (c\<lparr>chMempool := ts\<rparr>)) = chPending c"
  "chHeight (rebuildMempoolIndexLocked e (c\<lparr>chMempool := ts\<rparr>)) = chHeight c"
  "chBlocks (rebuildMempoolIndexLocked e (c\<lparr>chMempool := ts\<rparr>)) = chBlocks c"
  "chFinalizedHeight (rebuildMempoolIndexLocked e (c\<lparr>chMempool := ts\<rparr>)) = chFinalizedHeight c"
  "chMempool (rebuildMempoolIndexLocked e (c\<lparr>chMempool := ts\<rparr>)) = ts"
  "chAccounts (rebuildMempoolIndexLocked e (c\<lparr>chMempool := ts\<rparr>)) = chAccounts c"
  "chTip (rebuildMempoolIndexLocked e (c\<lparr>chMempool := ts\<rparr>)) = chTip c"
  "chDaemon (rebuildMempoolIndexLocked e (c\<lparr>chMempool := ts\<rparr>)) = chDaemon c"
  "chValidatorPubHex (rebuildMempoolIndexLocked e (c\<lparr>chMempool := ts\<rparr>)) = chValidatorPubHex c"
  "chValidatorPrivHex (rebuildMempoolIndexLocked e (c\<lparr>chMempool := ts\<rparr>)) = chValidatorPrivHex c"
  by (simp_all add: rebuildMempoolIndexLocked_def Let_def)

lemma extends_blocks:
  "chHeight c' = chHeight c \<Longrightarrow> chBlocks c' = chBlocks c \<Longrightarrow> chFinalizedHeight c' = chFinalizedHeight c \<Longrightarrow>
     extends c c'"
proof -
  assume "chHeight c' = chHeight c" "chBlocks c' = chBlocks c" "chFinalizedHeight c' = chFinalizedHeight c"
  moreover have "b = b\<lparr>bIsFinalized := bIsFinalized b\<rparr>" for b :: block by simp
  ultimately show ?thesis unfolding extends_def by (metis order_refl)
qed

section \<open>The proposer keeps the invariant\<close>

lemma compact_node_wf:
  assumes "node_wf e c"
  shows "node_wf e (fst (compactMempoolLocked e c)) \<and> extends c (fst (compactMempoolLocked e c))"
proof -
  have "mempool_wf e (fst (compactMempoolLocked e c))"
    using assms by (intro compact_wf_aux) (simp add: node_wf_def core_wf_def mempool_wf_def)
  then show ?thesis
    using assms extends_blocks [of "fst (compactMempoolLocked e c)" c]
    by (simp add: node_wf_def core_wf_def pending_wf_def chain_wf_def final_wf_def frame_simps)
qed

lemma submit_ok:
  assumes wf: "node_wf e c" and sub: "submit_block e c addr pub priv = Some (c', err)"
  shows "node_wf e c' \<and> extends c c' \<and>
    (err \<noteq> None \<longrightarrow> chMempool c' = chMempool c \<and> chHeight c' = chHeight c \<and> chTip c' = chTip c \<and>
       chBlocks c' = chBlocks c \<and> getAccount (chAccounts c') = getAccount (chAccounts c))"
proof -
  let ?txs = "take MaxBlockTxs (chMempool c)" and ?rest = "drop MaxBlockTxs (chMempool c)"
  let ?c1 = "rebuildMempoolIndexLocked e (c\<lparr>chMempool := ?rest\<rparr>)"
  have mp: "mempool_wf e c" and core: "core_wf e c" using wf by (simp_all add: node_wf_def core_wf_def)
  have "distinct (map senderNonceKey ?rest)"
    using mp by (simp add: mempool_wf_def flip: drop_map)
  then have "mempool_wf e ?c1"
    using mp by (intro rebuild_wf) (auto simp: mempool_wf_def dest: in_set_dropD)
  then have wf1: "node_wf e ?c1"
    using rebuild_chain [OF core] wf by (simp add: node_wf_def pending_wf_def rebuild_fields)
  have ext1: "extends c ?c1" by (rule extends_blocks) (simp_all add: rebuild_fields)
  obtain b where b: "SignBlock e (new_block e ?c1 addr pub ?txs) priv = Some b"
    using sub by (cases "SignBlock e (new_block e ?c1 addr pub ?txs) priv") (simp_all add: submit_block_def Let_def)
  obtain c2 applied r where ap: "applyBlockOrBufferLocked e ?c1 b = (c2, applied, r)"
    using prod_cases3 by blast
  have wf2: "node_wf e c2" and ext2: "extends ?c1 c2" using apply_or_buffer_ok [OF wf1 ap] by simp_all
  show ?thesis
  proof (cases r)
    case None
    then have "c' = c2" "err = None" using sub b ap by (simp_all add: submit_block_def Let_def)
    then show ?thesis using wf2 extends_trans [OF ext1 ext2] by simp
  next
    case (Some er)
    have fields: "core_fields c2 = core_fields ?c1" "chPending c2 = chPending ?c1"
      "getAccount (chAccounts c2) = getAccount (chAccounts ?c1)"
      using apply_or_buffer_err [OF ap [unfolded Some]] by simp_all
    then have rest: "chMempool c2 = ?rest" by (simp add: core_fields_def rebuild_fields)
    then have c': "c' = rebuildMempoolIndexLocked e (c2\<lparr>chMempool := chMempool c\<rparr>)"
      using sub b ap Some by (simp add: submit_block_def Let_def)
    have "mempool_wf e c'"
      using mp unfolding c' by (simp add: mempool_wf_def rebuildMempoolIndexLocked_def Let_def)
    then have "node_wf e c'"
      using rebuild_chain [of e c2] wf2 unfolding c' by (simp add: node_wf_def pending_wf_def rebuild_fields)
    moreover have same: "chHeight c' = chHeight c" "chBlocks c' = chBlocks c" "chTip c' = chTip c"
      "chFinalizedHeight c' = chFinalizedHeight c" "chMempool c' = chMempool c"
      "getAccount (chAccounts c') = getAccount (chAccounts c)"
      using fields unfolding c' by (simp_all add: core_fields_def rebuild_fields)
    ultimately show ?thesis using extends_blocks [OF same(1,2,4)] by simp
  qed
qed

text \<open>
  The states \<open>proposeBlock\<close> can end in. The mempool is compacted before the errors of the signing key and of
  the block, after all others.
\<close>

definition compacted_first :: "propose_error \<Rightarrow> bool" where
  "compacted_first err = (case err of BadPrivHex \<Rightarrow> True | ProposalRefused _ \<Rightarrow> True | _ \<Rightarrow> False)"

lemma submit_error: "submit_block e c addr pub priv = Some (c', Some er) \<Longrightarrow> compacted_first er"
  by (auto simp: submit_block_def compacted_first_def Let_def split: option.splits prod.splits)

lemma propose_cases:
  assumes "proposeBlock e c = Some (c', err)"
  obtains (early) c1 er where "core_fields c1 = core_fields c" "chPending c1 = chPending c"
      "chAccounts c1 = chAccounts c" "err = Some er"
      "c' = (if compacted_first er then fst (compactMempoolLocked e c1) else c1)"
  | (submitted) c1 addr pub priv where "core_fields c1 = core_fields c" "chPending c1 = chPending c"
      "chAccounts c1 = chAccounts c"
      "submit_block e (fst (compactMempoolLocked e c1)) addr pub priv = Some (c', err)"
proof (cases "producer_address e c = [] \<or> daemon_wallet c = [] \<or> chDaemon c = None")
  case True
  then show thesis
    using assms by (intro early [of c "the err"]) (auto simp: proposeBlock_def compacted_first_def Let_def split: if_splits)
next
  case False
  obtain c1 r1 where r1: "EnsureValidatorIdentityLocked e c = (c1, r1)" by fastforce
  obtain c2 r2 where r2: "ValidatorPrivHexLocked e c1 = (c2, r2)" by fastforce
  have core1: "core_fields c1 = core_fields c" "chPending c1 = chPending c" "chAccounts c1 = chAccounts c"
    using ensure_core [of e c] r1 by simp_all
  have "fst (ValidatorPrivHexLocked e c1) = fst (EnsureValidatorIdentityLocked e c1)"
    by (auto simp: ValidatorPrivHexLocked_def split: prod.split sum.split)
  then have core2: "core_fields c2 = core_fields c" "chPending c2 = chPending c" "chAccounts c2 = chAccounts c"
    using ensure_core [of e c1] r2 core1 by simp_all
  show thesis
  proof (cases r1)
    case (Inl er)
    then show thesis using assms False r1 core1 by (intro early [of c1 "the err"]) (auto simp: proposeBlock_def compacted_first_def Let_def)
  next
    case pub: (Inr pub)
    show thesis
    proof (cases r2)
      case (Inl er)
      then show thesis
        using assms False r1 r2 pub core2 by (intro early [of c2 "the err"]) (auto simp: proposeBlock_def compacted_first_def Let_def)
    next
      case priv: (Inr priv)
      let ?c3 = "fst (compactMempoolLocked e c2)"
      show thesis
      proof (cases "pub = [] \<or> priv = [] \<or> pub = ErrNoValidator \<or>
          proposalSafetyCheckLocked c2 pub \<noteq> None \<or> hex_decode priv = None")
        case True
        then show thesis
          using assms False r1 r2 pub priv core2
          by (intro early [of c2 "the err"]) (auto simp: proposeBlock_def compacted_first_def Let_def split: if_splits option.splits)
      next
        case ready: False
        then obtain key where "hex_decode priv = Some key" by auto
        then have "submit_block e ?c3 (producer_address e c) pub key = Some (c', err)"
          using assms False r1 r2 pub priv ready by (auto simp: proposeBlock_def Let_def)
        then show thesis using core2 submitted by blast
      qed
    qed
  qed
qed

lemma compact_cong:
  assumes "node_wf e c" and "core_fields c1 = core_fields c" "chPending c1 = chPending c"
  shows "node_wf e (fst (compactMempoolLocked e c1)) \<and> extends c (fst (compactMempoolLocked e c1))"
  using compact_node_wf [of e c1] node_wf_cong [OF assms(2,3), of e] assms(1)
    extends_trans [OF extends_refl [OF assms(2)]] by blast

lemma propose_ok:
  assumes wf: "node_wf e c" and "proposeBlock e c = Some (c', err)"
  shows "node_wf e c' \<and> extends c c' \<and> (err \<noteq> None \<longrightarrow> chHeight c' = chHeight c \<and> chBlocks c' = chBlocks c)"
  using assms(2)
proof (cases rule: propose_cases)
  case (early c1 er)
  then show ?thesis
    using compact_cong [OF wf early(1,2)] node_wf_cong [OF early(1,2), of e] wf extends_refl [OF early(1)]
    by (auto simp: core_fields_def frame_simps)
next
  case (submitted c1 addr pub priv)
  note cw = compact_cong [OF wf submitted(1,2)]
  from submit_ok [OF conjunct1 [OF cw] submitted(4)] show ?thesis
    using extends_trans [OF conjunct2 [OF cw]] submitted(1) by (auto simp: core_fields_def frame_simps)
qed

lemma compact_mempool_cong:
  assumes "core_fields c1 = core_fields c" and "chAccounts c1 = chAccounts c"
  shows "chMempool (fst (compactMempoolLocked e c1)) = chMempool (fst (compactMempoolLocked e c))"
proof -
  have mp: "chMempool c1 = chMempool c" using assms(1) by (simp add: core_fields_def)
  then have "validateTx e c1 = validateTx e c"
    using assms(2) by (intro ext) (simp only: validateTx_def requiredFeeLocked_def)
  then have "compact_step e c1 = compact_step e c" using assms(2) by (intro ext) (simp only: compact_step_def)
  then show ?thesis using mp by (simp add: compact_mempool_eq compact_run_def)
qed

lemma failed_proposal_aux:
  assumes wf: "node_wf e c" and fail: "proposeBlock e c = Some (c', Some err)"
  shows "node_wf e c' \<and> chHeight c' = chHeight c \<and> chTip c' = chTip c \<and> chBlocks c' = chBlocks c \<and>
    getAccount (chAccounts c') = getAccount (chAccounts c) \<and>
    chMempool c' = (if compacted_first err then chMempool (fst (compactMempoolLocked e c)) else chMempool c)"
  using fail
proof (cases rule: propose_cases)
  case (early c1 er)
  then have "chHeight c' = chHeight c" "chTip c' = chTip c" "chBlocks c' = chBlocks c" "chAccounts c' = chAccounts c"
    by (simp_all add: core_fields_def frame_simps)
  moreover have "chMempool c' = (if compacted_first err then chMempool (fst (compactMempoolLocked e c)) else chMempool c)"
    using early compact_mempool_cong [OF early(1,3), of e] by (simp add: core_fields_def)
  ultimately show ?thesis using propose_ok [OF wf fail] by simp
next
  case (submitted c1 addr pub priv)
  note cw = compact_cong [OF wf submitted(1,2)]
  have "chHeight c1 = chHeight c" "chTip c1 = chTip c" "chBlocks c1 = chBlocks c"
    using submitted(1) by (simp_all add: core_fields_def)
  then show ?thesis
    using submit_ok [OF conjunct1 [OF cw] submitted(4)] submit_error submitted(4)
      compact_mempool_cong [OF submitted(1,3), of e] submitted(3) by (simp add: frame_simps)
qed

section \<open>A ready proposer succeeds\<close>

lemma ledger_run_take: "ledger_run ts L = Inr L' \<Longrightarrow> \<exists>L1. ledger_run (take n ts) L = Inr L1"
  using ledger_run_append [of "take n ts" "drop n ts" L] by (auto split: sum.splits)

lemma compact_distinct_ids: "distinct (map (txID e) (cKept (compact_run e c ts))) \<and>
    fset (cPendingIDs (compact_run e c ts)) = txID e ` set (cKept (compact_run e c ts))"
proof (induction ts rule: rev_induct)
  case Nil
  then show ?case by (simp add: compact_run_def compact_init_def)
next
  case (snoc t ts)
  let ?k = "compact_run e c ts"
  have step: "compact_run e c (ts @ [t]) = compact_step e c t ?k" by (simp add: compact_run_def)
  have "cKept (compact_step e c t ?k) = cKept ?k \<and> cPendingIDs (compact_step e c t ?k) = cPendingIDs ?k \<or>
      cKept (compact_step e c t ?k) = cKept ?k @ [t] \<and> txID e t |\<notin>| cPendingIDs ?k \<and>
      cPendingIDs (compact_step e c t ?k) = finsert (txID e t) (cPendingIDs ?k)"
    by (auto simp: compact_step_def compact_drop_def Let_def split: prod.splits)
  then show ?case using snoc step by auto
qed

text \<open>A transaction that can run after the kept ones is kept.\<close>

lemma compact_keeps_next:
  assumes inv: "compact_inv e c seen k" and valid: "validateTx e c t = None"
    and new: "txID e t |\<notin>| cPendingIDs k" "senderNonceKey t |\<notin>| cPendingSenderNonce k"
    and run: "ledger_run (cKept k @ [t]) (getAccount (chAccounts c)) = Inr L"
  shows "cKept (compact_step e c t k) = cKept k @ [t]"
proof -
  let ?acc = "chAccounts c"
  obtain sh1 sf where g1: "getShadow ?acc (cShadows k) (txFrom t) = (sh1, sf)" by fastforce
  then have sf: "sf = shadow_view ?acc (cShadows k) (txFrom t)"
    using shadow.touch_value [of ?acc "cShadows k" "txFrom t"] by simp
  have "ledger_run (cKept k) (getAccount ?acc) = Inr (shadow_view ?acc (cShadows k))"
    using inv by (simp add: compact_inv_def)
  then have "tx_funded t sf = None"
    using run by (simp add: ledger_run_append sf split: option.splits)
  then show ?thesis
    using valid new by (auto simp: compact_step_def g1 tx_funded_None not_less Let_def split: prod.split)
qed

definition all_executable :: "env \<Rightarrow> chain \<Rightarrow> bool" where
  "all_executable e c \<longleftrightarrow> (\<forall>t \<in> set (chMempool c). validateTx e c t = None) \<and>
     distinct (map (txID e) (chMempool c)) \<and> distinct (map senderNonceKey (chMempool c)) \<and>
     (\<exists>L. ledger_run (chMempool c) (getAccount (chAccounts c)) = Inr L)"

lemma compact_keeps_all:
  assumes "\<forall>t \<in> set ts. validateTx e c t = None" and "distinct (map (txID e) ts)" "distinct (map senderNonceKey ts)"
    and "ledger_run ts (getAccount (chAccounts c)) = Inr L"
  shows "cKept (compact_run e c ts) = ts"
  using assms
proof (induction ts arbitrary: L rule: rev_induct)
  case Nil
  then show ?case by (simp add: compact_run_def compact_init_def)
next
  case (snoc t ts)
  let ?k = "compact_run e c ts"
  obtain L1 where L1: "ledger_run ts (getAccount (chAccounts c)) = Inr L1"
    using snoc.prems(4) by (auto simp: ledger_run_append split: sum.splits)
  have kept: "cKept ?k = ts" using snoc.IH [OF _ _ _ L1] snoc.prems(1-3) by simp
  have ids: "txID e t |\<notin>| cPendingIDs ?k" using compact_distinct_ids [of e c ts] kept snoc.prems(2) by auto
  have sns: "senderNonceKey t |\<notin>| cPendingSenderNonce ?k"
    using compact_inv_run [of e c ts] kept snoc.prems(3) by (auto simp: compact_inv_def)
  have "compact_run e c (ts @ [t]) = compact_step e c t ?k" by (simp add: compact_run_def)
  then show ?case
    using compact_keeps_next [OF compact_inv_run _ ids sns] snoc.prems(1,4) kept by simp
qed

lemma compaction_keeps_all: "all_executable e c \<Longrightarrow> chMempool (fst (compactMempoolLocked e c)) = chMempool c"
  using compact_keeps_all [of "chMempool c" e c] by (auto simp: all_executable_def compact_mempool_eq)

lemma check_txs_complete:
  "\<forall>t \<in> set ts. VerifyTxSignature e t \<and> \<not> fieldTooLarge t \<and> txID e t |\<notin>| ids \<and> senderNonceKey t |\<notin>| sns \<Longrightarrow>
     distinct (map (txID e) ts) \<Longrightarrow> distinct (map senderNonceKey ts) \<Longrightarrow>
     check_txs e ts ids sns fees = Inr (fees + sum_list (map txFee ts))"
proof (induction ts arbitrary: ids sns fees)
  case (Cons t ts)
  have "txID e u \<noteq> txID e t \<and> senderNonceKey u \<noteq> senderNonceKey t" if "u \<in> set ts" for u
    using Cons.prems(2,3) imageI [OF that, of "txID e"] imageI [OF that, of senderNonceKey] by auto
  then have "check_txs e ts (finsert (txID e t) ids) (finsert (senderNonceKey t) sns) (fees + txFee t) =
      Inr (fees + txFee t + sum_list (map txFee ts))"
    using Cons.prems by (intro Cons.IH) simp_all
  then show ?case using Cons.prems by (simp add: ac_simps)
qed simp

lemma sign_validates_aux:
  assumes ok: "crypto_ok e" and len: "length priv = 64"
    and ids: "hex_decode (bValidatorID b) = Some (ed_public e priv)" "bProducer b = bValidatorID b"
    and key: "bProducerPubKey b = []" and nonempty: "bValidatorID b \<noteq> []"
  shows "\<exists>s. SignBlock e b priv = Some (b\<lparr>bSignature := s\<rparr>) \<and> ValidateBlockSignature e (b\<lparr>bSignature := s\<rparr>) = None"
proof -
  let ?sig = "ed_sign e priv (blockSignHash e b)"
  have "SignBlock e b priv = Some (b\<lparr>bSignature := hex_encode ?sig\<rparr>)"
    using len by (simp add: SignBlock_def ed25519_Sign_def)
  moreover have "blockSignHash e (b\<lparr>bSignature := hex_encode ?sig\<rparr>) = blockSignHash e b"
    by (simp add: blockSignHash_def)
  moreover have "ed_verify e (ed_public e priv) (blockSignHash e b) ?sig"
    using crypto_okD(4) [OF ok len] .
  ultimately show ?thesis
    using ids key nonempty crypto_okD(2,3) [OF ok len]
    by (intro exI [of _ "hex_encode ?sig"]) (simp add: ValidateBlockSignature_def hex_decode_encode)
qed

lemma merkle_root_nonempty:
  assumes "crypto_ok e"
  shows "merkleBalancesRoot e m \<noteq> []"
proof -
  have 32: "\<forall>x. length (sha256 e x) = 32" using crypto_okD(1) [OF assms] by simp
  then have ne: "sha256 e x \<noteq> []" for x by (metis length_0_conv zero_neq_numeral)
  show ?thesis
  proof (cases "nonzero_accounts m = []")
    case True
    then show ?thesis using ne by (simp add: merkleBalancesRoot_def hex_encode_nonempty)
  next
    case False
    let ?ls = "map (merkle_leaf e) (nonzero_accounts m)"
    have "\<forall>l \<in> set ?ls. length l = 32" using 32 by (auto simp: merkle_leaf_def)
    then have "\<forall>l \<in> set (merkle_tree e ?ls). length l = 32" using merkle_tree_digests 32 by blast
    moreover have "length (merkle_tree e ?ls) = 1" using False by (intro merkle_tree_single) simp
    ultimately have "length (hd (merkle_tree e ?ls)) = 32" by (cases "merkle_tree e ?ls") auto
    then have "hd (merkle_tree e ?ls) \<noteq> []" by auto
    then show ?thesis using False by (simp add: merkleBalancesRoot_def hex_encode_nonempty Let_def)
  qed
qed

lemma seal_simps:
  "block_txs (b\<lparr>bSignature := s\<rparr>) = block_txs b" "block_txs (b\<lparr>bHash := h\<rparr>) = block_txs b"
  "block_txs (b\<lparr>bBalancesRoot := r\<rparr>) = block_txs b"
  "reward_recipient (b\<lparr>bSignature := s\<rparr>) = reward_recipient b"
  "reward_recipient (b\<lparr>bHash := h\<rparr>) = reward_recipient b"
  "reward_recipient (b\<lparr>bBalancesRoot := r\<rparr>) = reward_recipient b"
  "bHeight (b\<lparr>bSignature := s\<rparr>) = bHeight b" "bHeight (b\<lparr>bHash := h\<rparr>) = bHeight b"
  "bHeight (b\<lparr>bBalancesRoot := r\<rparr>) = bHeight b"
  by (simp_all add: block_txs_def reward_recipient_def)

lemma state_ignores_seals:
  "stateWithBlock m (b\<lparr>bSignature := s\<rparr>) = stateWithBlock m b"
  "stateWithBlock m (b\<lparr>bHash := h\<rparr>) = stateWithBlock m b"
  "stateWithBlock m (b\<lparr>bBalancesRoot := r\<rparr>) = stateWithBlock m b"
  by (simp_all only: stateWithBlock_def seal_simps)

lemma applyBlock_complete:
  assumes "check_header e c b = Inr fees" and "check_body e (observed c b) b fees = None"
    and "persistBlockLocked e (observed c b) b = (c2, None)"
    and "exec_txs (block_txs b) (chAccounts c2, fmempty) fees = (None, k, fees2)"
  shows "\<exists>c'. applyBlockLocked e c b = (c', None)"
  using assms by (simp add: applyBlockLocked_def execBlockLocked_def Let_def flip: observed_def)

lemma draft_block_fields:
  "bHeight (draft_block e c a p ts) = chHeight c + 1" "bPrevHash (draft_block e c a p ts) = chTip c"
  "bTimeUTC (draft_block e c a p ts) = now e" "block_txs (draft_block e c a p ts) = ts"
  "bProducer (draft_block e c a p ts) = p" "bValidatorID (draft_block e c a p ts) = p"
  "bProducerPubKey (draft_block e c a p ts) = []"
  "bReward (draft_block e c a p ts) = expectedReward (chHeight c + 1) (sum_list (map txFee ts))"
  by (simp_all add: draft_block_def block_txs_def Let_def)

lemma new_block_fields:
  "bHeight (new_block e c a p ts) = chHeight c + 1" "bPrevHash (new_block e c a p ts) = chTip c"
  "bTimeUTC (new_block e c a p ts) = now e" "block_txs (new_block e c a p ts) = ts"
  "bProducer (new_block e c a p ts) = p" "bValidatorID (new_block e c a p ts) = p"
  "bProducerPubKey (new_block e c a p ts) = []"
  "bReward (new_block e c a p ts) = expectedReward (chHeight c + 1) (sum_list (map txFee ts))"
  by (simp_all add: new_block_def draft_block_fields seal_simps Let_def)

lemma new_block_seals:
  "bHash (new_block e c a p ts) = calcBlockHash e (new_block e c a p ts)"
  "bBalancesRoot (new_block e c a p ts) = calcStateHashWithBlock e c (new_block e c a p ts)"
  by (simp_all add: new_block_def calcStateHashWithBlock_def state_ignores_seals calcBlockHash_unhashed Let_def)

text \<open>A block sealed by the proposer passes every check and runs.\<close>

definition txs_checked :: "env \<Rightarrow> chain \<Rightarrow> tx list \<Rightarrow> bool" where
  "txs_checked e c ts \<longleftrightarrow> length ts \<le> MaxBlockTxs \<and>
     (\<forall>t \<in> set ts. VerifyTxSignature e t \<and> \<not> fieldTooLarge t) \<and>
     distinct (map (txID e) ts) \<and> distinct (map senderNonceKey ts) \<and>
     sle 0 (expectedReward (chHeight c + 1) (sum_list (map txFee ts)))"

definition txs_ready :: "env \<Rightarrow> chain \<Rightarrow> tx list \<Rightarrow> bool" where
  "txs_ready e c ts \<longleftrightarrow> txs_checked e c ts \<and> (\<exists>L. ledger_run ts (getAccount (chAccounts c)) = Inr L)"

definition key_ready :: "env \<Rightarrow> string \<Rightarrow> string \<Rightarrow> bool" where
  "key_ready e p priv \<longleftrightarrow> length priv = 64 \<and> hex_decode p = Some (ed_public e priv) \<and> p \<noteq> []"

lemma sealed_block:
  assumes ok: "crypto_ok e" and key: "key_ready e p priv"
  obtains s where "SignBlock e (new_block e c a p ts) priv = Some ((new_block e c a p ts)\<lparr>bSignature := s\<rparr>)"
    "ValidateBlockSignature e ((new_block e c a p ts)\<lparr>bSignature := s\<rparr>) = None"
  using sign_validates_aux [OF ok, of priv "new_block e c a p ts"] key
  by (auto simp: key_ready_def new_block_fields)

lemma sealed_block_checks:
  assumes ok: "crypto_ok e" and ts: "txs_checked e c ts" and time: "now e \<noteq> time_zero"
    and bs: "bs = (new_block e c a p ts)\<lparr>bSignature := s\<rparr>" "ValidateBlockSignature e bs = None"
    and c2: "chAccounts c2 = chAccounts c" "chHeight c2 = chHeight c" "chTip c2 = chTip c"
  shows "check_header e c2 bs = Inr (sum_list (map txFee ts))"
    and "check_body e (observed c2 bs) bs (sum_list (map txFee ts)) = None"
    and "block_txs bs = ts"
proof -
  let ?b = "new_block e c a p ts"
  note f = new_block_fields [of e c a p ts]
  show "block_txs bs = ts" by (simp add: bs(1) seal_simps f)
  have "check_txs e ts {||} {||} 0 = Inr (sum_list (map txFee ts))"
    using ts check_txs_complete [of ts e "{||}" "{||}" 0] by (simp add: txs_checked_def)
  then show "check_header e c2 bs = Inr (sum_list (map txFee ts))"
    using ts c2 time by (simp add: bs(1) check_header_def f seal_simps txs_checked_def not_less)
  have acc: "chAccounts (observed c2 bs) = chAccounts c" using observed_eq [of c2 bs] c2 by auto
  have root: "calcStateHashWithBlock e (observed c2 bs) bs = bBalancesRoot ?b"
    by (simp add: new_block_seals(2) calcStateHashWithBlock_def acc) (simp add: bs(1) state_ignores_seals)
  have hash: "bHash ?b = calcBlockHash e ?b" "bHash ?b \<noteq> []"
    using new_block_seals(1) [of e c a p ts] calcBlockHash_nonempty [OF ok, of ?b] by simp_all
  have "bBalancesRoot ?b \<noteq> []"
    using new_block_seals(2) [of e c a p ts] merkle_root_nonempty [OF ok]
    by (simp add: calcStateHashWithBlock_def)
  then show "check_body e (observed c2 bs) bs (sum_list (map txFee ts)) = None"
    using bs root hash by (simp add: check_body_def f(1,8) calcBlockHash_unhashed)
qed

lemma sealed_block_applies:
  assumes ok: "crypto_ok e" "io_ok e" and ts: "txs_ready e c ts" and time: "now e \<noteq> time_zero"
    and bs: "bs = (new_block e c a p ts)\<lparr>bSignature := s\<rparr>" "ValidateBlockSignature e bs = None"
    and c2: "chAccounts c2 = chAccounts c" "chHeight c2 = chHeight c" "chTip c2 = chTip c"
  shows "\<exists>c'. applyBlockLocked e c2 bs = (c', None)"
proof -
  have ts': "txs_checked e c ts" using ts by (simp add: txs_ready_def)
  note chk = sealed_block_checks [OF ok(1) ts' time bs c2]
  obtain c3 where p: "persistBlockLocked e (observed c2 bs) bs = (c3, None)"
    using ok(2) by (simp add: persistBlockLocked_def write_io_ok Let_def)
  then obtain vs d where c3: "c3 = c2\<lparr>chValidatorSet := vs, chDisk := d\<rparr>"
    using persist_after_observe by metis
  obtain err k fees where x: "exec_txs ts (chAccounts c3, fmempty) (sum_list (map txFee ts)) = (err, k, fees)"
    using prod_cases3 by blast
  then have "err = None"
    using exec_txs_init(1) [OF x] ts c2 c3 by (cases err) (auto simp: txs_ready_def)
  then show ?thesis
    using applyBlock_complete [OF chk(1,2) p, of k fees] x chk(3) by simp
qed

lemma err_no_validator_not_hex: "hex_decode ErrNoValidator = None"
  by code_simp

definition proposer_ready :: "env \<Rightarrow> chain \<Rightarrow> bool" where
  "proposer_ready e c \<longleftrightarrow> node_wf e c \<and> has_identity e c \<and> daemon_wallet c \<noteq> [] \<and>
     chPending c = fmempty \<and> now e \<noteq> time_zero \<and>
     (case fmlookup (chBlocks c) (chHeight c) of None \<Rightarrow> True | Some prev \<Rightarrow> bTimeUTC prev < now e) \<and>
     sle 0 (expectedReward (chHeight c + 1)
       (sum_list (map txFee (take MaxBlockTxs (chMempool (fst (compactMempoolLocked e c)))))))"

lemma compacted_txs_ready:
  assumes "proposer_ready e c"
  shows "txs_ready e (fst (compactMempoolLocked e c)) (take MaxBlockTxs (chMempool (fst (compactMempoolLocked e c))))"
proof -
  let ?k = "compact_run e c (chMempool c)"
  let ?ts = "take MaxBlockTxs (cKept ?k)"
  have inv: "compact_inv e c (chMempool c) ?k" by (rule compact_inv_run)
  have "\<forall>t \<in> set ?ts. validateTx e c t = None"
    using inv by (auto simp: compact_inv_def dest: in_set_takeD)
  then have "\<forall>t \<in> set ?ts. VerifyTxSignature e t \<and> \<not> fieldTooLarge t" using validateTx_None by blast
  moreover have "distinct (map (txID e) ?ts)" "distinct (map senderNonceKey ?ts)"
    using compact_distinct_ids [of e c "chMempool c"] inv by (simp_all add: compact_inv_def flip: take_map)
  moreover have "\<exists>L. ledger_run ?ts (getAccount (chAccounts c)) = Inr L"
    using inv ledger_run_take unfolding compact_inv_def by blast
  ultimately show ?thesis
    using assms by (simp add: txs_ready_def txs_checked_def compact_mempool_eq frame_simps proposer_ready_def)
qed

lemma observe_fields:
  "chHeight (observeValidatorLocked c v) = chHeight c" "chBlocks (observeValidatorLocked c v) = chBlocks c"
  "chFinalizedHeight (observeValidatorLocked c v) = chFinalizedHeight c"
  "chTip (observeValidatorLocked c v) = chTip c"
  by (simp_all add: observeValidatorLocked_def)

text \<open>The screening lets the node's own valid block through to be placed.\<close>

lemma own_block_screened:
  assumes id: "has_identity e c" "bProducer b = chValidatorPubHex c"
    and h: "bHeight b = chHeight c + 1" "0 \<le> chHeight c" "chFinalizedHeight c \<le> chHeight c"
  shows "screen_block e c b = (case content_check e c b of
      Some err \<Rightarrow> (observeValidatorLocked c (bProducer b), False, Some err)
    | None \<Rightarrow> place_block e (observeValidatorLocked c (bProducer b)) b)"
proof -
  let ?c1 = "observeValidatorLocked c (bProducer b)"
  have "has_identity e ?c1"
    using id(1) by (simp add: has_identity_def cached_pair_check_def observeValidatorLocked_def)
  moreover have "bProducer b = chValidatorPubHex ?c1" using id(2) by (simp add: observeValidatorLocked_def)
  ultimately have q: "quorum_check e ?c1 b = (?c1, None)"
    by (auto simp: quorum_check_def ValidatorID_cached split: option.splits)
  have "content_check e ?c1 b = content_check e c b"
    by (simp only: content_check_def stale_time_def observe_fields)
  moreover have "reorg_check ?c1 b = None" "committed_check ?c1 b = None"
    using h by (simp_all add: reorg_check_def committed_check_def observe_fields)
  ultimately show ?thesis using q by (simp add: screen_block_def Let_def)
qed

lemma place_next_block:
  assumes "applyBlockLocked e c b = (c1, None)" "bHeight b = chHeight c + 1" "chPending c = fmempty"
  shows "place_block e c b = (c1, True, None)"
  using assms chain_set_same [OF assms(1)] applied_fields(3) [OF assms(1)]
  by (simp add: place_block_def drainPendingLocked.simps [of e c1])

lemma propose_unfolds:
  assumes id: "has_identity e c" and w: "daemon_wallet c \<noteq> []" and p: "chPending c = fmempty"
  obtains priv where "key_ready e (chValidatorPubHex c) priv"
    "proposeBlock e c = submit_block e (fst (compactMempoolLocked e c)) (daemon_wallet c) (chValidatorPubHex c) priv"
proof -
  obtain pub priv where k: "decode_key_pair e (chValidatorPubHex c) (chValidatorPrivHex c) = Inr (pub, priv)"
    and ne: "chValidatorPubHex c \<noteq> []" "chValidatorPrivHex c \<noteq> []"
    using id by (auto simp: has_identity_def cached_pair_None)
  note kp = decode_key_pair_Inr [OF k]
  have "chValidatorPubHex c \<noteq> ErrNoValidator" using kp err_no_validator_not_hex by auto
  moreover have "producer_address e c = daemon_wallet c" using w by (simp add: producer_address_def)
  moreover have "chDaemon c \<noteq> None" using w by (auto simp: daemon_wallet_def split: option.splits)
  moreover have "proposalSafetyCheckLocked c (chValidatorPubHex c) = None"
    using p by (simp add: proposalSafetyCheckLocked_def foreign_pending_def sorted_list_of_fset.rep_eq)
  ultimately have "proposeBlock e c =
      submit_block e (fst (compactMempoolLocked e c)) (daemon_wallet c) (chValidatorPubHex c) priv"
    using w ne kp by (auto simp: proposeBlock_def Ensure_cached [OF id] ValidatorPrivHexLocked_def Let_def)
  moreover have "key_ready e (chValidatorPubHex c) priv" using kp ne by (simp add: key_ready_def)
  ultimately show thesis using that by blast
qed

lemma submit_ready:
  assumes ok: "crypto_ok e" "io_ok e" and key: "key_ready e (chValidatorPubHex c) priv"
    and ts: "txs_ready e c (take MaxBlockTxs (chMempool c))" and id: "has_identity e c"
    and wf: "node_wf e c" and pend: "chPending c = fmempty"
    and time: "now e \<noteq> time_zero"
      "case fmlookup (chBlocks c) (chHeight c) of None \<Rightarrow> True | Some prev \<Rightarrow> bTimeUTC prev < now e"
  shows "\<exists>c' b. submit_block e c addr (chValidatorPubHex c) priv = Some (c', None) \<and>
    chHeight c' = chHeight c + 1 \<and> fmlookup (chBlocks c') (chHeight c') = Some b \<and>
    block_txs b = take MaxBlockTxs (chMempool c)"
proof -
  let ?txs = "take MaxBlockTxs (chMempool c)" and ?pub = "chValidatorPubHex c"
  let ?c1 = "rebuildMempoolIndexLocked e (c\<lparr>chMempool := drop MaxBlockTxs (chMempool c)\<rparr>)"
  let ?b = "new_block e ?c1 addr ?pub ?txs"
  have ts1: "txs_ready e ?c1 ?txs" using ts by (simp add: txs_ready_def txs_checked_def rebuild_fields)
  obtain s where s: "SignBlock e ?b priv = Some (?b\<lparr>bSignature := s\<rparr>)"
      "ValidateBlockSignature e (?b\<lparr>bSignature := s\<rparr>) = None"
    using sealed_block [OF ok(1) key] by metis
  let ?bs = "?b\<lparr>bSignature := s\<rparr>"
  note f = new_block_fields [of e ?c1 addr ?pub ?txs]
  have h: "bHeight ?bs = chHeight c + 1" "bHeight ?bs = chHeight ?c1 + 1" "bProducer ?bs = ?pub"
    by (simp_all add: f rebuild_fields)
  have "\<not> stale_time ?c1 ?bs"
    using time(2) by (auto simp: stale_time_def f rebuild_fields split: option.splits)
  moreover have "bHash ?b = calcBlockHash e ?b" "bHash ?b \<noteq> []"
    using new_block_seals(1) [of e ?c1 addr ?pub ?txs] calcBlockHash_nonempty [OF ok(1), of ?b] by simp_all
  moreover obtain L where "ledger_run ?txs (getAccount (chAccounts c)) = Inr L"
    using ts by (auto simp: txs_ready_def)
  then have "\<forall>t \<in> set ?txs. tx_shape t = None" using ledger_run_shapes by blast
  ultimately have content: "content_check e ?c1 ?bs = None"
    using s(2) time(1) by (simp add: content_check_def f seal_simps maxProposalFutureSkew_def
        calcBlockHash_unhashed tx_shape_None not_le)
  have cw: "chain_wf e 0 c" "final_wf c" using wf by (simp_all add: node_wf_def core_wf_def)
  have fin: "0 \<le> chHeight ?c1" "chFinalizedHeight ?c1 \<le> chHeight ?c1"
    using chain_wfD(2) [OF cw(1)] cw(2) by (simp_all add: rebuild_fields final_wf_def finalityDepth_def)
  have id1: "has_identity e ?c1" "bProducer ?bs = chValidatorPubHex ?c1"
    using id h by (simp_all add: has_identity_def cached_pair_check_def rebuild_fields)
  let ?c2 = "observeValidatorLocked ?c1 (bProducer ?bs)"
  obtain c3 where ap: "applyBlockLocked e ?c2 ?bs = (c3, None)"
    using sealed_block_applies [OF ok ts1 time(1) refl s(2), of ?c2] observe_core(3) observe_fields by metis
  have "place_block e ?c2 ?bs = (c3, True, None)"
    by (rule place_next_block [OF ap]) (simp_all add: observe_fields observe_core h rebuild_fields pend)
  then have "applyBlockOrBufferLocked e ?c1 ?bs = (c3, True, None)"
    using own_block_screened [OF id1 h(2) fin] content
    by (simp add: applyBlockOrBufferLocked_def record_failure_def)
  then have "submit_block e c addr ?pub priv = Some (c3, None)"
    using s(1) by (simp add: submit_block_def Let_def)
  moreover have "chHeight c3 = chHeight c + 1" using applied_fields(1) [OF ap] h by simp
  moreover have "fmlookup (chBlocks c3) (chHeight c3) =
      Some (finalized_at (chFinalizedHeight ?c2) (chFinalizedHeight c3) (chHeight c3) ?bs)"
    using applied_lookup [OF ap] by simp
  moreover have "block_txs (finalized_at g k j ?bs) = ?txs" for g k j
    using f(4) by (simp add: block_txs_def)
  ultimately show ?thesis by blast
qed

lemma propose_ready:
  assumes ok: "crypto_ok e" "io_ok e" and ready: "proposer_ready e c"
  shows "\<exists>c' b. proposeBlock e c = Some (c', None) \<and> chHeight c' = chHeight c + 1 \<and>
    fmlookup (chBlocks c') (chHeight c') = Some b \<and>
    block_txs b = take MaxBlockTxs (chMempool (fst (compactMempoolLocked e c)))"
proof -
  let ?c = "fst (compactMempoolLocked e c)"
  have r: "node_wf e c" "has_identity e c" "daemon_wallet c \<noteq> []" "chPending c = fmempty"
    using ready by (simp_all add: proposer_ready_def)
  obtain priv where key: "key_ready e (chValidatorPubHex c) priv"
    and pr: "proposeBlock e c = submit_block e ?c (daemon_wallet c) (chValidatorPubHex c) priv"
    using propose_unfolds [OF r(2-4)] by blast
  have id: "has_identity e ?c" using r(2) by (simp add: has_identity_def cached_pair_check_def frame_simps)
  show ?thesis
    using submit_ready [OF ok _ compacted_txs_ready [OF ready] id, of priv "daemon_wallet c"] key pr ready
      compact_node_wf [OF r(1)] by (simp add: frame_simps proposer_ready_def)
qed

section \<open>Properties\<close>

text \<open>
  C7 (liveness): a node that is ready - identity, wallet, empty buffer, a clock past the last
  block - always extends its chain: its proposal is never refused by its own checks, and the
  new block carries the first transactions of the compacted mempool.
\<close>

theorem ready_proposer_commits:
  assumes "crypto_ok e" and "io_ok e" and "proposer_ready e c"
  shows "\<exists>c' b. proposeBlock e c = Some (c', None) \<and> chHeight c' = chHeight c + 1 \<and>
    fmlookup (chBlocks c') (chHeight c') = Some b \<and>
    block_txs b = take MaxBlockTxs (chMempool (fst (compactMempoolLocked e c)))"
  by (rule propose_ready [OF assms])

text \<open>
  C20 (error): a proposal that fails - for want of an address, a key or a free buffer, or because the
  node refuses its own block - changes neither height nor tip nor blocks nor balances, and the
  mempool ends as it was, or, where the error comes after the compaction, as the compaction leaves it, with the
  transactions of the refused block back in front. No transaction is lost from a mempool whose
  transactions can all be executed.
\<close>

theorem failed_proposal_restores_mempool:
  assumes "node_wf e c" and "proposeBlock e c = Some (c', Some err)"
  shows "node_wf e c' \<and> chHeight c' = chHeight c \<and> chTip c' = chTip c \<and> chBlocks c' = chBlocks c \<and>
    getAccount (chAccounts c') = getAccount (chAccounts c) \<and>
    chMempool c' = (case err of
        BadPrivHex \<Rightarrow> chMempool (fst (compactMempoolLocked e c))
      | ProposalRefused _ \<Rightarrow> chMempool (fst (compactMempoolLocked e c))
      | _ \<Rightarrow> chMempool c) \<and>
    (all_executable e c \<longrightarrow> chMempool c' = chMempool c)"
  using failed_proposal_aux [OF assms] compaction_keeps_all [of e c]
  by (auto simp: compacted_first_def split: propose_error.splits)

text \<open>
  One block buffered for the height after next from another validator stops the
  local proposer, and nothing the proposer does removes it: the node waits for the missing
  block from outside.
\<close>

theorem foreign_buffered_block_stops_proposer:
  assumes "node_wf e c" and "fmlookup (chPending c) h = Some b"
    and "bProducer b \<noteq> chValidatorPubHex c" and "has_identity e c" and "daemon_wallet c \<noteq> []"
  shows "proposeBlock e c = Some (c, Some (ProposalUnsafe (ForeignBuffered h)))"
proof -
  have pend: "pending_wf e c" using assms(1) by (simp add: node_wf_def)
  have h: "h = chHeight c + 2" and valid: "valid_block e b"
    using pend assms(2) by (auto simp: pending_wf_def)
  have only: "k = h" if "fmlookup (chPending c) k = Some p" for k p
    using pend that h by (auto simp: pending_wf_def)
  have prod: "bProducer b \<noteq> []" using valid ValidateBlockSignature_None(1) [of e b] by (simp add: valid_block_def)
  have dom: "fmdom (chPending c) = {|h|}" 
  proof (rule fset_eqI)
    show "k |\<in>| fmdom (chPending c) \<longleftrightarrow> k |\<in>| {|h|}" for k
      using only [of k] fmdomI [OF assms(2)] by (cases "fmlookup (chPending c) k") (auto intro: fmdomI)
  qed
  have "chHeight c + 1 \<noteq> h" using h by simp
  then have "fmlookup (chPending c) (chHeight c + 1) = None" using only by fastforce
  then have safety: "proposalSafetyCheckLocked c (chValidatorPubHex c) = Some (ForeignBuffered h)"
    using assms(2,3) prod h dom
    by (simp add: proposalSafetyCheckLocked_def foreign_pending_def sorted_list_of_fset.rep_eq)
  obtain pub priv where k: "decode_key_pair e (chValidatorPubHex c) (chValidatorPrivHex c) = Inr (pub, priv)"
    and ne: "chValidatorPubHex c \<noteq> []" "chValidatorPrivHex c \<noteq> []"
    using assms(4) by (auto simp: has_identity_def cached_pair_None)
  have "chValidatorPubHex c \<noteq> ErrNoValidator"
    using decode_key_pair_Inr [OF k] err_no_validator_not_hex by auto
  moreover have "producer_address e c = daemon_wallet c" using assms(5) by (simp add: producer_address_def)
  moreover have "chDaemon c \<noteq> None" using assms(5) by (auto simp: daemon_wallet_def split: option.splits)
  ultimately show ?thesis
    using assms(5) ne safety
    by (auto simp: proposeBlock_def Ensure_cached [OF assms(4)] ValidatorPrivHexLocked_def Let_def)
qed

end
