(* ===== verification/Sample.thy ===== *)
theory Sample
  imports Proposer
begin

text \<open>
  A concrete node on which the hypotheses of the theorems hold: an environment whose
  primitives are computable stand-ins (a digest that keeps the last 32 bytes, a signature that
  names the key and the digest), one key pair, one signed transaction and one sealed block.
\<close>

section \<open>The environment\<close>

definition toy_digest :: "string \<Rightarrow> string" where
  "toy_digest m = take 32 (rev m @ replicate 32 (CHR ''0''))"

lemma length_toy_digest [simp]: "length (toy_digest m) = 32"
  by (simp add: toy_digest_def)

definition sample_priv :: string where
  "sample_priv = replicate 64 (CHR ''k'')"

definition sample_env :: env where
  "sample_env = \<lparr>sha256 = toy_digest,
     ed_verify = (\<lambda>pub m sig. sig = pub @ toy_digest m),
     ed_sign = (\<lambda>priv m. drop 32 priv @ toy_digest m),
     ed_public = (\<lambda>priv. drop 32 priv),
     gen_key = Some (drop 32 sample_priv, sample_priv),
     marshalBlock = (\<lambda>b. ''{'' @ fmt_int (bHeight b) @ ''}''), unmarshalBlock = (\<lambda>_. None),
     marshalSnapshot = (\<lambda>_. ''{}''), unmarshalSnapshot = (\<lambda>_. None),
     marshalKey = (\<lambda>k. kfPubHex k @ ''/'' @ kfPrivHex k),
     unmarshalKey = (\<lambda>s. let (p, q) = (takeWhile (\<lambda>ch. ch \<noteq> CHR ''/'') s, dropWhile (\<lambda>ch. ch \<noteq> CHR ''/'') s)
        in if q = [] then None else Some \<lparr>kfPubHex = p, kfPrivHex = butlast (tl q)\<rparr>),
     marshalWallet = (\<lambda>_. ''{}''), unmarshalWallet = (\<lambda>_. None), unmarshalAddress = (\<lambda>_. None),
     marshalFinality = (\<lambda>_. ''{}''), unmarshalFinality = (\<lambda>_. None),
     marshalConsensusKey = (\<lambda>_. ''{}''), unmarshalConsensusKey = (\<lambda>_. None), fmt_time = fmt_int,
     now = 1700000000 * 10 ^ 9, allow_corrupt = False,
     io_fails = (\<lambda>_ _. False), io_short = (\<lambda>_. 0)\<rparr>"

lemma sample_crypto [simp]: "crypto_ok sample_env"
  by (simp add: crypto_ok_def sample_env_def)

lemma sample_io [simp]: "io_ok sample_env"
  by (simp add: io_ok_def sample_env_def)

lemma sample_gen_key [simp]: "gen_key_ok sample_env"
  by (simp add: gen_key_ok_def sample_env_def sample_priv_def)

definition sample_pub_hex :: string where "sample_pub_hex = hex_encode (ed_public sample_env sample_priv)"
definition sample_priv_hex :: string where "sample_priv_hex = hex_encode sample_priv"

lemma sample_pair: "decode_key_pair sample_env sample_pub_hex sample_priv_hex
    = Inr (ed_public sample_env sample_priv, sample_priv)"
  unfolding sample_pub_hex_def sample_priv_hex_def
  by (rule generated_pair) (simp_all add: sample_priv_def)

section \<open>A transaction\<close>

definition sample_addr :: string where
  "sample_addr = (case addrFromPubHex sample_env sample_pub_hex of Inl _ \<Rightarrow> [] | Inr a \<Rightarrow> a)"

definition sample_tx :: tx where
  "sample_tx = (case SignTx sample_env sample_addr ''bob'' 5 0 1 sample_pub_hex sample_priv_hex of
     Inl _ \<Rightarrow> overflow_tx | Inr t \<Rightarrow> t)"

lemma sample_keys:
  "hex_decode sample_pub_hex = Some (ed_public sample_env sample_priv)"
  "hex_decode sample_priv_hex = Some sample_priv"
  "length sample_priv = 64" "length (ed_public sample_env sample_priv) = 32"
  using decode_key_pair_Inr [OF sample_pair] by auto

lemma sample_addr: "addrFromPubHex sample_env sample_pub_hex = Inr sample_addr"
  by (simp add: sample_addr_def addrFromPubHex_def sample_keys)

lemma sample_SignTx:
  "SignTx sample_env sample_addr ''bob'' 5 0 1 sample_pub_hex sample_priv_hex = Inr sample_tx"
  by (simp add: sample_tx_def SignTx_def sample_keys sample_addr Let_def)

lemma sample_tx_fields:
  "txFrom sample_tx = sample_addr" "txTo sample_tx = ''bob''" "txAmount sample_tx = 5"
  "txNonce sample_tx = 0" "txFee sample_tx = 1" "VerifyTxSignature sample_env sample_tx"
  using SignTx_verifies [OF sample_crypto sample_SignTx sample_keys(2,1)]
  by (simp_all add: VerifyTxSignature_def)

lemma length_sample_addr: "length sample_addr = 40"
  by (simp add: sample_addr_def addrFromPubHex_def sample_keys) (simp add: sample_env_def)

lemma sample_tx_shape: "tx_shape sample_tx = None" "sample_addr \<noteq> ''bob''" "sample_addr \<noteq> []"
proof -
  show "sample_addr \<noteq> ''bob''" "sample_addr \<noteq> []"
    using length_sample_addr by (auto dest: arg_cong [of _ _ length])
  then show "tx_shape sample_tx = None" by (simp add: tx_shape_None sample_tx_fields)
qed

lemma sample_tx_small: "\<not> fieldTooLarge sample_tx"
proof -
  have "length (txPubKey sample_tx) = 64" "length (txSignature sample_tx) = 128"
    by (simp_all add: sample_tx_def SignTx_def sample_keys sample_addr Let_def)
      (simp_all add: sample_pub_hex_def sample_keys, simp add: sample_env_def sample_priv_def)
  then show ?thesis by (simp add: fieldTooLarge_def sample_tx_fields length_sample_addr)
qed

section \<open>Nodes\<close>

text \<open>A node with its keys and wallet, and its own address holding the given balance.\<close>

definition sample_daemon :: daemon where
  "sample_daemon = \<lparr>dWalletAddr = ''w'', dNodeID = ''node1'', dPeerState = fmempty, dStatus = new_status\<rparr>"

definition node_with :: "i64 \<Rightarrow> chain" where
  "node_with bal = newProductionChain\<lparr>chValidatorPubHex := sample_pub_hex, chValidatorPrivHex := sample_priv_hex,
     chDaemon := Some sample_daemon, chAccounts := fmupd sample_addr \<lparr>Balance = bal, Nonce = 0\<rparr> fmempty\<rparr>"

lemma node_with_fields [simp]:
  "chHeight (node_with bal) = 0" "chTip (node_with bal) = []" "chBlocks (node_with bal) = fmempty"
  "chMempool (node_with bal) = []" "chMempoolIDs (node_with bal) = {||}"
  "chMempoolSenderNonce (node_with bal) = fmempty" "chPending (node_with bal) = fmempty"
  "chFinalizedHeight (node_with bal) = 0" "chDisk (node_with bal) = fmempty"
  "chValidatorPubHex (node_with bal) = sample_pub_hex" "chValidatorPrivHex (node_with bal) = sample_priv_hex"
  "chDaemon (node_with bal) = Some sample_daemon" "chValidatorSet (node_with bal) = {||}"
  "chVotes (node_with bal) = fmempty" "chVoteCounts (node_with bal) = fmempty"
  by (simp_all add: node_with_def newProductionChain_def)

lemma node_with_account: "getAccount (chAccounts (node_with bal)) =
    (\<lambda>_. zero_account)(sample_addr := \<lparr>Balance = bal, Nonce = 0\<rparr>)"
  by (simp add: node_with_def getAccount_upd)

lemma node_with_mempool_wf: "mempool_wf e (node_with bal)"
  by (simp add: mempool_wf_def mempool_index_def)

lemma node_with_wf: "node_wf e (node_with bal)"
  using node_with_mempool_wf [of e bal]
  by (simp add: node_wf_def core_wf_def chain_wf_def final_wf_def pending_wf_def finalityDepth_def)
    presburger

lemma sample_hex_nonempty: "sample_pub_hex \<noteq> []" "sample_priv_hex \<noteq> []"
  by (simp_all add: sample_pub_hex_def sample_priv_hex_def hex_encode_nonempty sample_env_def sample_priv_def)

lemma node_with_identity: "has_identity sample_env (node_with bal)"
  by (simp add: has_identity_def cached_pair_check_def sample_pair sample_hex_nonempty)

lemma node_with_wallet: "daemon_wallet (node_with bal) = ''w''"
  by (simp add: daemon_wallet_def sample_daemon_def trim_space_def is_space_def)

lemma sample_time: "now sample_env \<noteq> time_zero"
  by (simp add: sample_env_def time_zero_def)

lemma reward_1: "expectedReward 1 f = 50 + f"
  by (simp add: expectedReward_def feeSplitActive_def FeeSplitForkHeight_def blockRewardForHeight_def)

lemma node_with_ready: "proposer_ready sample_env (node_with bal)"
  using node_with_wf [of sample_env bal] node_with_identity [of bal] sample_time
  by (simp add: proposer_ready_def node_with_wallet compactMempoolLocked_def resetMempoolLocked_def reward_1)

section \<open>Blocks\<close>

lemma sample_key_ready: "key_ready sample_env sample_pub_hex sample_priv"
  using sample_keys sample_hex_nonempty by (simp add: key_ready_def)

definition sample_draft :: "i64 \<Rightarrow> block" where
  "sample_draft bal = new_block sample_env (node_with bal) ''w'' sample_pub_hex [sample_tx]"

definition sample_block :: "i64 \<Rightarrow> block" where
  "sample_block bal = (case SignBlock sample_env (sample_draft bal) sample_priv of None \<Rightarrow> sample_draft bal | Some b \<Rightarrow> b)"

lemma sample_block_sealed:
  obtains s where "sample_block bal = (new_block sample_env (node_with bal) ''w'' sample_pub_hex [sample_tx])\<lparr>bSignature := s\<rparr>"
    "ValidateBlockSignature sample_env (sample_block bal) = None"
proof (rule sealed_block [OF sample_crypto sample_key_ready, of "node_with bal" "''w''" "[sample_tx]"])
  fix s
  assume "SignBlock sample_env (new_block sample_env (node_with bal) ''w'' sample_pub_hex [sample_tx]) sample_priv
      = Some ((new_block sample_env (node_with bal) ''w'' sample_pub_hex [sample_tx])\<lparr>bSignature := s\<rparr>)"
    and "ValidateBlockSignature sample_env ((new_block sample_env (node_with bal) ''w'' sample_pub_hex [sample_tx])\<lparr>bSignature := s\<rparr>) = None"
  then show thesis by (intro that [of s]) (simp_all add: sample_block_def sample_draft_def)
qed

lemma sample_block_fields:
  "bHeight (sample_block bal) = 1" "block_txs (sample_block bal) = [sample_tx]"
  "bTimeUTC (sample_block bal) = now sample_env"
  by (rule sample_block_sealed [of bal]; simp add: new_block_fields seal_simps)+

lemma sample_txs_checked: "txs_checked sample_env (node_with bal) [sample_tx]"
  using sample_tx_small by (simp add: txs_checked_def MaxBlockTxs_def sample_tx_fields reward_1)

lemma sample_txs_ready: "txs_ready sample_env (node_with 100) [sample_tx]"
proof -
  have "tx_funded sample_tx \<lparr>Balance = 100, Nonce = 0\<rparr> = None" by (simp add: tx_funded_None sample_tx_fields)
  then show ?thesis
    using sample_txs_checked [of 100] sample_tx_shape
    by (simp add: txs_ready_def node_with_account sample_tx_fields(1))
qed

lemma sample_block_applies: "\<exists>c'. applyBlockLocked sample_env (node_with 100) (sample_block 100) = (c', None)"
proof (rule sample_block_sealed [of 100])
  fix s
  assume b: "sample_block 100 = (new_block sample_env (node_with 100) ''w'' sample_pub_hex [sample_tx])\<lparr>bSignature := s\<rparr>"
    and v: "ValidateBlockSignature sample_env (sample_block 100) = None"
  show ?thesis
    by (rule sealed_block_applies [OF sample_crypto sample_io sample_txs_ready sample_time b v refl refl refl])
qed

lemma poor_block_checks:
  "check_header sample_env (node_with 0) (sample_block 0) = Inr 1"
  "check_body sample_env (observed (node_with 0) (sample_block 0)) (sample_block 0) 1 = None"
  by (rule sample_block_sealed [of 0];
      use sealed_block_checks [OF sample_crypto sample_txs_checked sample_time _ _ refl refl refl, of "sample_block 0"]
      in \<open>simp add: sample_tx_fields\<close>)+

lemma poor_block_run:
  "ledger_run (block_txs (sample_block 0)) (getAccount (chAccounts (node_with 0))) = Inl InsufficientBalance"
  using sample_tx_shape by (simp add: sample_block_fields node_with_account tx_funded_def sample_tx_fields)

end
