(* ===== verification/Replay.thy ===== *)
theory Replay
  imports Invariant
begin

text \<open>
  Start-up from the block directory (\<open>internal/mesh/chain_persist.go\<close>): promotion of interrupted
  writes, the replay of the block files, and the theorem that a restart reproduces the chain.
\<close>

section \<open>Operations\<close>

datatype replay_cause = DecodeTmp int decode_error | DecodeBlock int decode_error
  | ApplyBlockAt int block_error

definition os_ReadDir :: "env \<Rightarrow> files \<Rightarrow> string \<Rightarrow> io_error + string list" where
  "os_ReadDir e fs dir =
     (if io_fails e ReadDir (dir, []) then Inl (IOFailure ReadDir) else Inr (dir_names fs dir))"

definition path_text :: "path \<Rightarrow> string" where
  "path_text p = join_path (fst p) (snd p)"

definition record_recovery :: "string \<Rightarrow> string \<Rightarrow> chain \<Rightarrow> chain" where
  "record_recovery kind detail c = (case chDaemon c of None \<Rightarrow> c
     | Some d \<Rightarrow> c\<lparr>chDaemon := Some (d\<lparr>dStatus := recordRecoveryEvent kind detail (dStatus d)\<rparr>)\<rparr>)"

text \<open>The names were read before the loop; the disk changes under it.\<close>

fun promote_tmps :: "env \<Rightarrow> string \<Rightarrow> string list \<Rightarrow> chain \<Rightarrow> chain \<times> replay_cause startup_error option" where
  "promote_tmps e dir [] c = (c, None)"
| "promote_tmps e dir (name # names) c =
     (case tmp_name_height name of None \<Rightarrow> promote_tmps e dir names c
      | Some h \<Rightarrow>
          let tmpPath = (dir, name); finalPath = (dir, block_file h)
          in case os_Stat e (chDisk c) finalPath of
               None \<Rightarrow> promote_tmps e dir names (c\<lparr>chDisk := os_Remove e (chDisk c) tmpPath\<rparr>)
             | Some NotExist \<Rightarrow>
                 (case os_ReadFile e (chDisk c) tmpPath of Inl err \<Rightarrow> (c, Some (StartupIO err))
                  | Inr raw \<Rightarrow>
                      (case decodePersistedBlock e raw h of
                         Inl derr \<Rightarrow>
                           (case handleReplayCorruption e (chDisk c) tmpPath (DecodeTmp h derr) False of
                              (err, fs) \<Rightarrow> (c\<lparr>chDisk := fs\<rparr>, err))
                       | Inr b \<Rightarrow>
                           (case os_Rename e (chDisk c) tmpPath finalPath of
                              (Some err, fs) \<Rightarrow> (c\<lparr>chDisk := fs\<rparr>, Some (StartupIO err))
                            | (None, fs) \<Rightarrow>
                                if io_fails e SyncDir (dir, []) then (c\<lparr>chDisk := fs\<rparr>, Some (StartupIO (IOFailure SyncDir)))
                                else promote_tmps e dir names
                                  (record_recovery ''block_tmp_promoted''
                                     (''height='' @ fmt_int h @ '' tmp='' @ path_text tmpPath
                                       @ '' final='' @ path_text finalPath) (c\<lparr>chDisk := fs\<rparr>)))))
             | Some err \<Rightarrow> (c, Some (StartupIO err)))"

definition recoverInterruptedBlockWrites :: "env \<Rightarrow> chain \<Rightarrow> string \<Rightarrow> chain \<times> replay_cause startup_error option" where
  "recoverInterruptedBlockWrites e c dir =
     (case os_ReadDir e (chDisk c) dir of
        Inl NotExist \<Rightarrow> (c, None)
      | Inl err \<Rightarrow> (c, Some (StartupIO err))
      | Inr names \<Rightarrow> promote_tmps e dir names c)"

text \<open>The block files above a height, by height; the highest is treated more leniently.\<close>

definition block_files :: "int \<Rightarrow> string list \<Rightarrow> (int \<times> string) list" where
  "block_files minH names = sort_key fst
     (List.map_filter (\<lambda>name. case block_name_height name of None \<Rightarrow> None
        | Some h \<Rightarrow> if minH < h then Some (h, name) else None) names)"

definition max_height :: "(int \<times> string) list \<Rightarrow> int" where
  "max_height fs = (if fs = [] then -1 else fst (last fs))"

text \<open>
  How a replay ends. When the last file cannot be applied and corrupt files are allowed, the file
  is moved away and the replay stops without an error.
\<close>

datatype replay_end = Replayed | StoppedEarly | ReplayFailed "replay_cause startup_error"

fun replay_files :: "env \<Rightarrow> string \<Rightarrow> int \<Rightarrow> (int \<times> string) list \<Rightarrow> chain \<Rightarrow> chain \<times> replay_end" where
  "replay_files e dir maxH [] c = (c, Replayed)"
| "replay_files e dir maxH ((h, name) # fs) c =
     (case os_ReadFile e (chDisk c) (dir, name) of Inl err \<Rightarrow> (c, ReplayFailed (StartupIO err))
      | Inr raw \<Rightarrow>
          (case decodePersistedBlock e raw h of
             Inl derr \<Rightarrow>
               (case handleReplayCorruption e (chDisk c) (dir, name) (DecodeBlock h derr) (h = maxH) of
                  (None, d) \<Rightarrow> replay_files e dir maxH fs (c\<lparr>chDisk := d\<rparr>)
                | (Some err, d) \<Rightarrow> (c\<lparr>chDisk := d\<rparr>, ReplayFailed err))
           | Inr b \<Rightarrow>
               (case applyBlockLocked e c b of
                  (c1, None) \<Rightarrow> replay_files e dir maxH fs c1
                | (c1, Some berr) \<Rightarrow>
                    (case handleReplayCorruption e (chDisk c1) (dir, name) (ApplyBlockAt (bHeight b) berr) (h = maxH) of
                       (None, d) \<Rightarrow> (c1\<lparr>chDisk := d\<rparr>, StoppedEarly)
                     | (Some err, d) \<Rightarrow> (c1\<lparr>chDisk := d\<rparr>, ReplayFailed err)))))"

definition replay_dir :: "env \<Rightarrow> int \<Rightarrow> chain \<Rightarrow> chain \<times> replay_end" where
  "replay_dir e minH c =
     (let dir = blockDir c
      in case os_ReadDir e (chDisk c) dir of
           Inl NotExist \<Rightarrow> (c, Replayed)
         | Inl err \<Rightarrow> (c, ReplayFailed (StartupIO err))
         | Inr names \<Rightarrow> let fs = block_files minH names in replay_files e dir (max_height fs) fs c)"

text \<open>No height is negative in a name, so \<open>loadFromDisk\<close> replays every block file.\<close>

definition loadFromDisk :: "env \<Rightarrow> chain \<Rightarrow> chain \<times> replay_cause startup_error option" where
  "loadFromDisk e c =
     (case recoverInterruptedBlockWrites e c (blockDir c) of
        (c1, Some err) \<Rightarrow> (c1, Some err)
      | (c1, None) \<Rightarrow>
          (case replay_dir e (-1) c1 of
             (c2, ReplayFailed err) \<Rightarrow> (c2, Some err)
           | (c2, _) \<Rightarrow> (c2, None)))"

section \<open>The disk does not steer the chain\<close>

abbreviation on_disk :: "chain \<Rightarrow> files \<Rightarrow> chain" where
  "on_disk c d \<equiv> c\<lparr>chDisk := d\<rparr>"

lemma on_disk_fields:
  "chAccounts (on_disk c d) = chAccounts c" "chMempool (on_disk c d) = chMempool c"
  "chHeight (on_disk c d) = chHeight c" "chTip (on_disk c d) = chTip c"
  "chBlocks (on_disk c d) = chBlocks c"
  by simp_all

lemma validateTx_disk: "validateTx e (on_disk c d) = validateTx e c"
  by (rule ext) (simp only: validateTx_def requiredFeeLocked_def on_disk_fields)

lemma compact_step_disk: "compact_step e (on_disk c d) = compact_step e c"
  by (intro ext) (simp only: compact_step_def validateTx_disk on_disk_fields)

lemma compact_disk: "fst (compactMempoolLocked e (on_disk c d)) = on_disk (fst (compactMempoolLocked e c)) d"
  by (simp add: compactMempoolLocked_def compact_run_def resetMempoolLocked_def rebuildMempoolIndexLocked_def
      compact_step_disk Let_def)

lemma finality_disk: "advanceFinalityLocked (on_disk c d) = on_disk (advanceFinalityLocked c) d"
  by (simp add: advanceFinalityLocked_def Let_def)

lemma observed_disk: "observed (on_disk c d) b = on_disk (observed c b) d"
  by (simp add: observed_def observeValidatorLocked_def)

lemma checks_disk:
  "check_header e (on_disk c d) b = check_header e c b"
  "check_body e (on_disk c d) b fees = check_body e c b fees"
  by (simp_all only: check_header_def check_body_def calcStateHashWithBlock_def on_disk_fields)

lemma exec_disk:
  "execBlockLocked e (on_disk c d) b fees = (case execBlockLocked e c b fees of (c', r) \<Rightarrow> (on_disk c' d, r))"
proof -
  obtain err k f2 where x: "exec_txs (block_txs b) (chAccounts c, fmempty) fees = (err, k, f2)"
    using prod_cases3 by blast
  let ?c1 = "c\<lparr>chAccounts := pay_rewards b f2 (write_back k), chBlocks := fmupd (bHeight b) b (chBlocks c),
    chHeight := bHeight b, chTip := bHash b\<rparr>"
  have "(on_disk c d)\<lparr>chAccounts := pay_rewards b f2 (write_back k), chBlocks := fmupd (bHeight b) b (chBlocks c),
    chHeight := bHeight b, chTip := bHash b\<rparr> = on_disk ?c1 d" by (rule chain.equality) simp_all
  then have "advanceFinalityLocked (fst (compactMempoolLocked e ((on_disk c d)\<lparr>chAccounts := pay_rewards b f2 (write_back k),
      chBlocks := fmupd (bHeight b) b (chBlocks c), chHeight := bHeight b, chTip := bHash b\<rparr>)))
      = on_disk (advanceFinalityLocked (fst (compactMempoolLocked e ?c1))) d"
    by (simp only: compact_disk finality_disk)
  then show ?thesis by (cases err) (simp_all add: execBlockLocked_def x Let_def)
qed

text \<open>The disk after a block was written.\<close>

definition disk_with :: "env \<Rightarrow> chain \<Rightarrow> block \<Rightarrow> files \<Rightarrow> files" where
  "disk_with e c b d =
     (let p = blockPath c (bHeight b); raw = marshalBlock e b
      in fmupd p raw (fmdrop (tmp_of p) (fmupd (tmp_of p) raw d)))"

lemma persist_io_ok:
  "io_ok e \<Longrightarrow> persistBlockLocked e c b = (on_disk c (disk_with e c b (chDisk c)), None)"
  by (simp add: persistBlockLocked_def write_io_ok disk_with_def Let_def)

lemma blockPath_observed: "blockPath (observed c b) = blockPath c" "disk_with e (observed c b) = disk_with e c"
  using observed_eq [of c b]
  by (auto simp: blockPath_def blockDir_def data_root_def fun_eq_iff disk_with_def Let_def)

lemma disk_with_on_disk: "disk_with e (on_disk c d) b = disk_with e c b"
  by (simp add: disk_with_def fun_eq_iff Let_def)

lemma applied_disk:
  assumes io: "io_ok e" and ap: "applyBlockLocked e c b = (c', None)"
  shows "applyBlockLocked e (on_disk c d) b = (on_disk c' (disk_with e c b d), None)"
    and "chDisk c' = disk_with e c b (chDisk c)"
proof -
  have cases: "applyBlockLocked e (on_disk c d0) b = (case check_header e c b of Inl err \<Rightarrow> (on_disk c d0, Some err)
      | Inr fees \<Rightarrow> (case check_body e (observed c b) b fees of Some err \<Rightarrow> (on_disk (observed c b) d0, Some err)
          | None \<Rightarrow> (case execBlockLocked e (observed c b) b fees of
               (c', r) \<Rightarrow> (on_disk c' (disk_with e c b d0), r))))" for d0
    using persist_io_ok [OF io, of "on_disk (observed c b) d0" b]
    by (simp add: applyBlockLocked_def checks_disk observed_disk exec_disk blockPath_observed disk_with_on_disk
        Let_def split: sum.split option.split flip: observed_def)
  obtain fees c1 where f: "check_header e c b = Inr fees" "check_body e (observed c b) b fees = None"
    and x: "execBlockLocked e (observed c b) b fees = (c1, None)" and c': "c' = on_disk c1 (disk_with e c b (chDisk c))"
    using ap cases [of "chDisk c"] by (auto split: sum.splits option.splits prod.splits)
  show "applyBlockLocked e (on_disk c d) b = (on_disk c' (disk_with e c b d), None)"
    using cases [of d] f x c' by simp
  show "chDisk c' = disk_with e c b (chDisk c)" by (simp add: c')
qed

section \<open>A run of blocks and its files\<close>

fun apply_all :: "env \<Rightarrow> chain \<Rightarrow> block list \<Rightarrow> chain option" where
  "apply_all e c [] = Some c"
| "apply_all e c (b # bs) =
     (case applyBlockLocked e c b of (c', None) \<Rightarrow> apply_all e c' bs | (c', Some err) \<Rightarrow> None)"

lemma apply_all_ConsD:
  assumes "apply_all e c (b # bs) = Some c1"
  obtains c' where "applyBlockLocked e c b = (c', None)" "apply_all e c' bs = Some c1"
  using assms by (auto split: prod.splits option.splits)

lemma applied_paths:
  assumes "applyBlockLocked e c b = (c', None)"
  shows "blockPath c' = blockPath c" "blockDir c' = blockDir c" "disk_with e c' = disk_with e c"
  using applied_fields(9,10) [OF assms]
  by (simp_all add: blockPath_def blockDir_def data_root_def disk_with_def fun_eq_iff Let_def)

lemma apply_all_heights:
  "apply_all e c bs = Some c1 \<Longrightarrow> map bHeight bs = [chHeight c + 1..chHeight c + int (length bs)]"
proof (induction bs arbitrary: c)
  case (Cons b bs)
  obtain c' where ap: "applyBlockLocked e c b = (c', None)" and rest: "apply_all e c' bs = Some c1"
    using Cons.prems by (rule apply_all_ConsD)
  have h: "bHeight b = chHeight c + 1" "chHeight c' = chHeight c + 1"
    using applied_checks(3) [OF ap] applied_fields(1) [OF ap] by simp_all
  have "[chHeight c + 1..chHeight c + int (length (b # bs))] =
      (chHeight c + 1) # [chHeight c + 1 + 1..chHeight c + int (length (b # bs))]"
    by (rule upto_rec1) simp
  then show ?case using Cons.IH [OF rest] h by (simp add: algebra_simps)
qed simp

lemma apply_all_disk:
  "io_ok e \<Longrightarrow> apply_all e c bs = Some c1 \<Longrightarrow> chDisk c1 = fold (disk_with e c) bs (chDisk c)"
proof (induction bs arbitrary: c)
  case (Cons b bs)
  obtain c' where ap: "applyBlockLocked e c b = (c', None)" and rest: "apply_all e c' bs = Some c1"
    using Cons.prems(2) by (rule apply_all_ConsD)
  show ?case
    using Cons.IH [OF Cons.prems(1) rest] applied_disk(2) [OF Cons.prems(1) ap] applied_paths(3) [OF ap] by simp
qed simp

lemma block_path_not_tmp: "blockPath c h \<noteq> tmp_of (blockPath c k)"
proof
  assume "blockPath c h = tmp_of (blockPath c k)"
  then have "last (fmt_int h @ ''.json'') = last (fmt_int k @ ''.json.tmp'')"
    by (simp add: blockPath_def tmp_of_def block_file_def)
  then show False by simp
qed

lemma blockPath_inject [simp]: "blockPath c h = blockPath c k \<longleftrightarrow> h = k"
  by (simp add: blockPath_def)

lemma disk_with_lookup:
  "fmlookup (disk_with e c b d) q =
     (if q = blockPath c (bHeight b) then Some (marshalBlock e b)
      else if q = tmp_of (blockPath c (bHeight b)) then None else fmlookup d q)"
  by (simp add: disk_with_def Let_def)

lemma disk_all_lookup:
  "distinct (map bHeight bs) \<Longrightarrow>
     (\<forall>b \<in> set bs. fmlookup (fold (disk_with e c) bs d) (blockPath c (bHeight b)) = Some (marshalBlock e b)) \<and>
     (\<forall>q. fmlookup (fold (disk_with e c) bs d) q \<noteq> None \<longrightarrow>
        fmlookup d q \<noteq> None \<or> q \<in> (\<lambda>b. blockPath c (bHeight b)) ` set bs)"
proof (induction bs rule: rev_induct)
  case (snoc b bs)
  let ?d = "fold (disk_with e c) bs d"
  have "fmlookup (disk_with e c b ?d) (blockPath c (bHeight x)) = Some (marshalBlock e x)"
    if "x \<in> set (bs @ [b])" for x
  proof (cases "x = b")
    case False
    then have x: "x \<in> set bs" using that by simp
    have "bHeight b \<notin> bHeight ` set bs" using snoc.prems by simp
    then have "bHeight x \<noteq> bHeight b" using imageI [OF x, of bHeight] by metis
    then show ?thesis using snoc x by (simp add: disk_with_lookup block_path_not_tmp)
  qed (simp add: disk_with_lookup)
  moreover have "fmlookup d q \<noteq> None \<or> q \<in> (\<lambda>b. blockPath c (bHeight b)) ` set (bs @ [b])"
    if "fmlookup (disk_with e c b ?d) q \<noteq> None" for q
  proof (cases "q = blockPath c (bHeight b)")
    case False
    then have "fmlookup ?d q \<noteq> None" using that by (simp add: disk_with_lookup split: if_splits)
    then have "fmlookup d q \<noteq> None \<or> q \<in> (\<lambda>b. blockPath c (bHeight b)) ` set bs"
      using snoc by (simp only: map_append distinct_append simp_thms)
    then show ?thesis by auto
  qed simp
  ultimately show ?case by simp
qed simp

section \<open>The replay of the files\<close>

lemma replay_ok:
  assumes io: "io_ok e"
  shows "apply_all e c bs = Some c1 \<Longrightarrow> dir = blockDir c \<Longrightarrow>
    \<forall>b \<in> set bs. block_codec e b \<and> fmlookup d (blockPath c (bHeight b)) = Some (marshalBlock e b) \<Longrightarrow>
    \<exists>d'. replay_files e dir maxH (map (\<lambda>b. (bHeight b, block_file (bHeight b))) bs) (on_disk c d) = (on_disk c1 d', Replayed)"
proof (induction bs arbitrary: c d)
  case Nil
  then show ?case by (intro exI [of _ d]) simp
next
  case (Cons b bs)
  obtain c' where ap: "applyBlockLocked e c b = (c', None)" and rest: "apply_all e c' bs = Some c1"
    using Cons.prems(1) by (rule apply_all_ConsD)
  have dir: "dir = blockDir c'" and paths: "blockPath c' = blockPath c"
    using Cons.prems(2) applied_paths [OF ap] by simp_all
  let ?d = "disk_with e c b d"
  have h: "map bHeight (b # bs) = [chHeight c + 1..chHeight c + int (length (b # bs))]"
    by (rule apply_all_heights [OF Cons.prems(1)])
  then have "distinct (map bHeight (b # bs))" by (simp only: distinct_upto)
  then have "\<forall>x \<in> set bs. block_codec e x \<and> fmlookup ?d (blockPath c' (bHeight x)) = Some (marshalBlock e x)"
    using Cons.prems(3) by (auto simp: disk_with_lookup block_path_not_tmp paths)
  from Cons.IH [OF rest dir this] obtain d' where
    r: "replay_files e dir maxH (map (\<lambda>b. (bHeight b, block_file (bHeight b))) bs) (on_disk c' ?d) = (on_disk c1 d', Replayed)"
    by blast
  have "os_ReadFile e d (dir, block_file (bHeight b)) = Inr (marshalBlock e b)"
    using io Cons.prems(2,3) by (simp add: os_ReadFile_def blockPath_def)
  moreover have "decodePersistedBlock e (marshalBlock e b) (bHeight b) = Inr b"
    using Cons.prems(3) by (intro decode_persisted) simp
  ultimately show ?case using r applied_disk(1) [OF io ap, of d] by (intro exI [of _ d']) simp
qed

lemma tmp_name_height_block [simp]: "tmp_name_height (block_file h) = None"
proof -
  have "strip_suffix ''.json.tmp'' (block_file h) = None"
  proof (rule ccontr)
    assume "strip_suffix ''.json.tmp'' (block_file h) \<noteq> None"
    then have "drop (length (block_file h) - length ''.json.tmp'') (block_file h) = ''.json.tmp''"
      by (auto simp: strip_suffix_def Let_def split: if_splits)
    then have "last (block_file h) = last ''.json.tmp''"
      by (metis last_drop drop_eq_Nil linorder_not_le list.distinct(1))
    then show False by (simp add: block_file_def)
  qed
  then show ?thesis by (simp add: tmp_name_height_def)
qed

lemma promote_none: "\<forall>n \<in> set names. tmp_name_height n = None \<Longrightarrow> promote_tmps e dir names c = (c, None)"
  by (induction names) simp_all

lemma block_files_exact:
  assumes set: "set names = block_file ` {1..n}" and dist: "distinct names" and n: "n < 2 ^ 63"
  shows "block_files (-1) names = map (\<lambda>h. (h, block_file h)) [1..n]"
proof -
  let ?sel = "\<lambda>name. case block_name_height name of None \<Rightarrow> None | Some h \<Rightarrow> if -1 < h then Some (h, name) else None"
  let ?xs = "block_files (-1) names"
  have sel: "?sel (block_file h) = Some (h, block_file h)" if "h \<in> {1..n}" for h
    using that n by simp
  have names: "\<exists>h \<in> {1..n}. name = block_file h" if "name \<in> set names" for name
    using that set by auto
  have mf: "List.map_filter ?sel names = map (\<lambda>name. the (?sel name)) names"
  proof -
    have "filter (\<lambda>name. ?sel name \<noteq> None) names = names"
    proof (rule filter_True)
      show "\<forall>name \<in> set names. ?sel name \<noteq> None"
      proof
        fix name assume "name \<in> set names"
        then obtain h where "h \<in> {1..n}" "name = block_file h" using names by blast
        then show "?sel name \<noteq> None" by (simp only: sel option.simps not_False_eq_True)
      qed
    qed
    then show ?thesis by (simp add: List.map_filter_def o_def)
  qed
  have elems: "set ?xs = (\<lambda>h. (h, block_file h)) ` {1..n}"
  proof -
    have "set ?xs = (\<lambda>h. the (?sel (block_file h))) ` {1..n}"
      by (simp add: block_files_def mf set image_image)
    also have "\<dots> = (\<lambda>h. (h, block_file h)) ` {1..n}"
      by (rule image_cong [OF refl]) (simp only: sel option.sel)
    finally show ?thesis .
  qed
  then have "map (\<lambda>p. (fst p, block_file (fst p))) ?xs = ?xs" by (intro map_idI) auto
  then have shape: "?xs = map (\<lambda>h. (h, block_file h)) (map fst ?xs)" by (simp add: o_def)
  have "inj_on (\<lambda>name. fst (the (?sel name))) (set names)"
  proof (rule inj_onI)
    fix x y assume xy: "x \<in> set names" "y \<in> set names" and eq: "fst (the (?sel x)) = fst (the (?sel y))"
    obtain h k where hk: "h \<in> {1..n}" "x = block_file h" "k \<in> {1..n}" "y = block_file k"
      using names xy by meson
    then have "h = k" using eq by (simp only: sel option.sel fst_conv)
    with hk show "x = y" by simp
  qed
  then have "distinct (map fst (List.map_filter ?sel names))"
    unfolding mf using dist by (simp add: distinct_map comp_inj_on_iff o_def)
  then have "distinct (map fst ?xs)"
    by (simp only: block_files_def distinct_map distinct_sort set_sort)
  moreover have "sorted (map fst ?xs)" by (simp add: block_files_def)
  moreover have "set (map fst ?xs) = {1..n}" by (simp add: elems image_image)
  ultimately have "map fst ?xs = [1..n]"
    by (intro sorted_distinct_set_unique) simp_all
  with shape show ?thesis by simp
qed

text \<open>A disk that holds the block files of a run, and no other block file or temporary file.\<close>

definition holds_blocks :: "env \<Rightarrow> chain \<Rightarrow> block list \<Rightarrow> files \<Rightarrow> bool" where
  "holds_blocks e c bs d \<longleftrightarrow>
     (\<forall>b \<in> set bs. fmlookup d (blockPath c (bHeight b)) = Some (marshalBlock e b)) \<and>
     set (dir_names d (blockDir c)) = block_file ` {1..int (length bs)}"

lemma run_leaves_blocks:
  assumes io: "io_ok e" and fresh: "chHeight c = 0" "chDisk c = fmempty" and run: "apply_all e c bs = Some c1"
  shows "map bHeight bs = [1..int (length bs)]" "holds_blocks e c bs (chDisk c1)"
proof -
  let ?d = "chDisk c1" and ?dir = "blockDir c"
  show h: "map bHeight bs = [1..int (length bs)]" using apply_all_heights [OF run] fresh by simp
  then have dist: "distinct (map bHeight bs)" by simp
  have d: "?d = fold (disk_with e c) bs fmempty" using apply_all_disk [OF io run] fresh by simp
  have look: "\<forall>b \<in> set bs. fmlookup ?d (blockPath c (bHeight b)) = Some (marshalBlock e b)"
    and keys: "\<And>q. fmlookup ?d q \<noteq> None \<Longrightarrow> q \<in> (\<lambda>b. blockPath c (bHeight b)) ` set bs"
    using disk_all_lookup [OF dist, of e c fmempty] unfolding d by auto
  have hs: "bHeight ` set bs = {1..int (length bs)}" using h by (metis list.set_map set_upto)
  have "set (dir_names ?d ?dir) = block_file ` {1..int (length bs)}"
  proof
    show "set (dir_names ?d ?dir) \<subseteq> block_file ` {1..int (length bs)}"
    proof
      fix nm assume "nm \<in> set (dir_names ?d ?dir)"
      then have "fmlookup ?d (?dir, nm) \<noteq> None" by (simp add: fmlookup_dom_iff)
      then obtain b where "b \<in> set bs" "nm = block_file (bHeight b)"
        using keys by (auto simp: blockPath_def)
      then show "nm \<in> block_file ` {1..int (length bs)}" using hs by blast
    qed
    show "block_file ` {1..int (length bs)} \<subseteq> set (dir_names ?d ?dir)"
    proof
      fix nm assume "nm \<in> block_file ` {1..int (length bs)}"
      then obtain b where "b \<in> set bs" "nm = block_file (bHeight b)" using hs by (metis imageE)
      then show "nm \<in> set (dir_names ?d ?dir)" using look by (auto simp: blockPath_def intro: fmdomI)
    qed
  qed
  with look show "holds_blocks e c bs ?d" by (simp add: holds_blocks_def)
qed

lemma restart_on:
  assumes io: "io_ok e" and run: "apply_all e c bs = Some c1" and h: "map bHeight bs = [1..int (length bs)]"
    and codec: "\<forall>b \<in> set bs. block_codec e b" and small: "int (length bs) < 2 ^ 63" and d: "holds_blocks e c bs d"
  shows "\<exists>d'. loadFromDisk e (on_disk c d) = (on_disk c1 d', None)"
proof -
  let ?n = "int (length bs)" and ?dir = "blockDir c" and ?c = "on_disk c d"
  have names: "set (dir_names d ?dir) = block_file ` {1..?n}" using d by (simp add: holds_blocks_def)
  have files: "block_files (-1) (dir_names d ?dir) = map (\<lambda>b. (bHeight b, block_file (bHeight b))) bs"
  proof -
    have "block_files (-1) (dir_names d ?dir) = map (\<lambda>h. (h, block_file h)) (map bHeight bs)"
      unfolding h by (rule block_files_exact [OF names _ small]) simp
    then show ?thesis by (simp add: o_def)
  qed
  have "recoverInterruptedBlockWrites e ?c (blockDir ?c) = (?c, None)"
    using io names promote_none [of "dir_names d ?dir" e ?dir ?c]
    by (auto simp: recoverInterruptedBlockWrites_def os_ReadDir_def)
  moreover have "\<forall>b \<in> set bs. block_codec e b \<and> fmlookup d (blockPath c (bHeight b)) = Some (marshalBlock e b)"
    using codec d by (simp add: holds_blocks_def)
  from replay_ok [OF io run refl this]
  obtain d' where "replay_files e ?dir (max_height (map (\<lambda>b. (bHeight b, block_file (bHeight b))) bs))
      (map (\<lambda>b. (bHeight b, block_file (bHeight b))) bs) ?c = (on_disk c1 d', Replayed)" by blast
  ultimately show ?thesis
    using io files by (intro exI [of _ d']) (simp add: loadFromDisk_def replay_dir_def os_ReadDir_def Let_def)
qed

section \<open>A write that was cut short\<close>

text \<open>The names before the first temporary file are passed over; a broken temporary file ends the scan.\<close>

lemma promote_skip:
  "\<forall>n \<in> set xs. tmp_name_height n = None \<Longrightarrow> promote_tmps e dir (xs @ ys) c = promote_tmps e dir ys c"
  by (induction xs) simp_all

definition quarantined :: "env \<Rightarrow> path \<Rightarrow> string \<Rightarrow> files \<Rightarrow> files" where
  "quarantined e p raw d = fmupd (quarantine_target e p) raw (fmdrop p d)"

lemma quarantine_elsewhere: "fst (quarantine_target e p) \<noteq> fst p"
  by (simp add: quarantine_target_def quarantine_dir_def join_path_def)

lemma broken_tmp_halts:
  assumes io: "io_ok e" and h: "0 \<le> h" "h < 2 ^ 63"
    and names: "\<forall>n \<in> set (dir_names (chDisk c) (blockDir c)). n \<noteq> block_file h @ ''.tmp'' \<longrightarrow> tmp_name_height n = None"
    and tmp: "fmlookup (chDisk c) (tmp_of (blockPath c h)) = Some raw"
    and final: "fmlookup (chDisk c) (blockPath c h) = None"
    and bad: "decodePersistedBlock e raw h = Inl derr"
  shows "loadFromDisk e c = (on_disk c (quarantined e (tmp_of (blockPath c h)) raw (chDisk c)),
    Some (StartupHalted (DecodeTmp h derr)))"
proof -
  let ?t = "tmp_of (blockPath c h)" and ?dir = "blockDir c" and ?nm = "block_file h @ ''.tmp''"
  have t: "?t = (?dir, ?nm)" by (simp add: tmp_of_def blockPath_def)
  have "?nm \<in> set (dir_names (chDisk c) ?dir)" using tmp by (auto simp: t intro: fmdomI)
  then obtain xs ys where split: "dir_names (chDisk c) ?dir = xs @ ?nm # ys" "?nm \<notin> set xs"
    using split_list_first by metis
  then have skip: "promote_tmps e ?dir (dir_names (chDisk c) ?dir) c = promote_tmps e ?dir (?nm # ys) c"
    using names by (metis promote_skip Un_iff set_append)
  have stat: "os_Stat e (chDisk c) (?dir, block_file h) = Some NotExist"
    using io final by (simp add: os_Stat_def blockPath_def fmdom_notI)
  have read: "os_ReadFile e (chDisk c) ?t = Inr raw"
    using io tmp by (simp add: os_ReadFile_def)
  have quar: "handleReplayCorruption e (chDisk c) ?t cause False =
      (Some (StartupHalted cause), quarantined e ?t raw (chDisk c))" for cause :: replay_cause
    using io tmp by (simp add: handleReplayCorruption_def quarantineCorruptFile_def os_Rename_def quarantined_def Let_def)
  have "promote_tmps e ?dir (?nm # ys) c =
      (on_disk c (quarantined e ?t raw (chDisk c)), Some (StartupHalted (DecodeTmp h derr)))"
    using stat read bad quar h by (simp add: t Let_def)
  then show ?thesis
    using io skip by (simp add: loadFromDisk_def recoverInterruptedBlockWrites_def os_ReadDir_def)
qed

section \<open>Properties\<close>

text \<open>
  C9 (roundtrip): a restart reproduces the chain: after any run of applied blocks, a node that
  starts from the same initial state and finds the files they left loads exactly the same
  chain - height, tip, blocks, accounts, finality, mempool - and reports no error.
\<close>

theorem restart_restores_chain:
  assumes "io_ok e" and "chHeight c = 0" and "chDisk c = fmempty"
    and "apply_all e c bs = Some c1" and "\<forall>b \<in> set bs. block_codec e b" and "int (length bs) < 2 ^ 63"
  shows "\<exists>d. loadFromDisk e (c\<lparr>chDisk := chDisk c1\<rparr>) = (c1\<lparr>chDisk := d\<rparr>, None)"
  using restart_on [OF assms(1,4) _ assms(5,6)] run_leaves_blocks [OF assms(1-4)] by simp

end
