(* ===== verification/Snapshot.thy ===== *)
theory Snapshot
  imports Replay
begin

text \<open>
  Snapshots of the chain (\<open>internal/mesh/chain_snapshot.go\<close>): export, validation, saving,
  loading from disk with the replay of later blocks, and loading from a peer's bytes.
\<close>

section \<open>Operations\<close>

datatype snapshot_error = SnapshotEmpty | SnapshotSyntax | NegativeBalance string | NegativeNonce string
  | MissingAccountsHash | AccountsHashMismatch | MissingSnapshotHash | SnapshotHashMismatch

definition ExportSnapshotLocked :: "env \<Rightarrow> chain \<Rightarrow> chain_snapshot" where
  "ExportSnapshotLocked e c =
     (let accHash = computeAccountsHash e (chAccounts c)
      in \<lparr>snapHeight = chHeight c, snapHash = chTip c, snapAccounts = chAccounts c,
          snapAccountsHash = accHash,
          snapSnapshotHash = computeSnapshotHash e (chHeight c) (chTip c) accHash\<rparr>)"

text \<open>The file is indented and ends without a newline; errors of the directory come first.\<close>

definition SaveSnapshotLocked :: "env \<Rightarrow> chain \<Rightarrow> chain \<times> io_error option" where
  "SaveSnapshotLocked e c =
     (let raw = marshalSnapshot e (ExportSnapshotLocked e c); p = snapshotPath c
      in if io_fails e MkdirAll (fst p, []) then (c, Some (IOFailure MkdirAll))
         else case writeFileAtomicDurable e (chDisk c) p (tmp_of p) raw of
             (err, fs) \<Rightarrow> (c\<lparr>chDisk := fs\<rparr>, err))"

text \<open>
  The first account with a negative number is reported; Go visits the map in any order, the
  model in the order of the addresses.
\<close>

definition account_error :: "accounts \<Rightarrow> snapshot_error option" where
  "account_error m =
     (case filter (\<lambda>a. slt (Balance (getAccount m a)) 0 \<or> slt (Nonce (getAccount m a)) 0)
        (sorted_list_of_fset (fmdom m)) of
        [] \<Rightarrow> None
      | a # _ \<Rightarrow> Some (if slt (Balance (getAccount m a)) 0 then NegativeBalance a else NegativeNonce a))"

definition validateSnapshotPayload :: "env \<Rightarrow> string \<Rightarrow> chain_snapshot \<Rightarrow> snapshot_error + accounts" where
  "validateSnapshotPayload e raw snap =
     (if trim_space raw = [] then Inl SnapshotEmpty
      else case account_error (snapAccounts snap) of Some err \<Rightarrow> Inl err
        | None \<Rightarrow>
            if snapAccountsHash snap = [] then Inl MissingAccountsHash
            else if computeAccountsHash e (snapAccounts snap) \<noteq> snapAccountsHash snap then Inl AccountsHashMismatch
            else if snapSnapshotHash snap = [] then Inl MissingSnapshotHash
            else if computeSnapshotHash e (snapHeight snap) (snapHash snap) (snapAccountsHash snap)
                \<noteq> snapSnapshotHash snap then Inl SnapshotHashMismatch
            else Inr (snapAccounts snap))"

definition read_snapshot :: "env \<Rightarrow> string \<Rightarrow> snapshot_error + chain_snapshot \<times> accounts" where
  "read_snapshot e raw =
     (case unmarshalSnapshot e raw of None \<Rightarrow> Inl SnapshotSyntax
      | Some snap \<Rightarrow> (case validateSnapshotPayload e raw snap of Inl err \<Rightarrow> Inl err
          | Inr accts \<Rightarrow> Inr (snap, accts)))"

text \<open>The chain on the base of a snapshot. The finality, the votes and the validators stay.\<close>

definition reset_to_snapshot :: "chain_snapshot \<Rightarrow> accounts \<Rightarrow> chain \<Rightarrow> chain" where
  "reset_to_snapshot snap accts c = resetMempoolLocked
     (c\<lparr>chHeight := snapHeight snap, chTip := snapHash snap, chAccounts := accts,
        chBlocks := fmempty, chPending := fmempty\<rparr>)"

definition LoadSnapshotFromBytes :: "env \<Rightarrow> chain \<Rightarrow> string \<Rightarrow> chain \<times> (snapshot_error + bool)" where
  "LoadSnapshotFromBytes e c raw =
     (if trim_space raw = [] then (c, Inl SnapshotEmpty)
      else case read_snapshot e raw of Inl err \<Rightarrow> (c, Inl err)
        | Inr (snap, accts) \<Rightarrow> (reset_to_snapshot snap accts c, Inr True))"

datatype snapshot_cause = SnapshotCorrupt snapshot_error | TmpSnapshotCorrupt snapshot_error
  | AfterSnapshot replay_cause

fun map_startup :: "('a \<Rightarrow> 'b) \<Rightarrow> 'a startup_error \<Rightarrow> 'b startup_error" where
  "map_startup f (QuarantineFailed ca err) = QuarantineFailed (f ca) err"
| "map_startup f (StartupHalted ca) = StartupHalted (f ca)"
| "map_startup f (StartupIO err) = StartupIO err"

definition recoverInterruptedSnapshotWrite :: "env \<Rightarrow> chain \<Rightarrow> chain \<times> snapshot_cause startup_error option" where
  "recoverInterruptedSnapshotWrite e c =
     (let p = snapshotPath c; tmp = tmp_of p
      in case os_Stat e (chDisk c) tmp of
           Some NotExist \<Rightarrow> (c, None)
         | Some err \<Rightarrow> (c, Some (StartupIO err))
         | None \<Rightarrow>
             (case os_Stat e (chDisk c) p of
                None \<Rightarrow> (c\<lparr>chDisk := os_Remove e (chDisk c) tmp\<rparr>, None)
              | Some NotExist \<Rightarrow>
                  (case os_ReadFile e (chDisk c) tmp of Inl err \<Rightarrow> (c, Some (StartupIO err))
                   | Inr raw \<Rightarrow>
                       (case read_snapshot e raw of
                          Inl serr \<Rightarrow> (case handleReplayCorruption e (chDisk c) tmp (TmpSnapshotCorrupt serr) False of
                              (err, fs) \<Rightarrow> (c\<lparr>chDisk := fs\<rparr>, err))
                        | Inr (snap, accts) \<Rightarrow>
                            (case os_Rename e (chDisk c) tmp p of
                               (Some err, fs) \<Rightarrow> (c\<lparr>chDisk := fs\<rparr>, Some (StartupIO err))
                             | (None, fs) \<Rightarrow>
                                 if io_fails e SyncDir (fst p, [])
                                 then (c\<lparr>chDisk := fs\<rparr>, Some (StartupIO (IOFailure SyncDir)))
                                 else (record_recovery ''snapshot_tmp_promoted''
                                     (''tmp='' @ path_text tmp @ '' final='' @ path_text p @ '' height=''
                                       @ fmt_int (snapHeight snap)) (c\<lparr>chDisk := fs\<rparr>), None))))
              | Some err \<Rightarrow> (c, Some (StartupIO err))))"

definition LoadSnapshotFromDisk :: "env \<Rightarrow> chain \<Rightarrow> chain \<times> (snapshot_cause startup_error + bool)" where
  "LoadSnapshotFromDisk e c =
     (case recoverInterruptedSnapshotWrite e c of
        (c1, Some err) \<Rightarrow> (c1, Inl err)
      | (c1, None) \<Rightarrow>
          (case os_ReadFile e (chDisk c1) (snapshotPath c1) of
             Inl NotExist \<Rightarrow> (c1, Inr False)
           | Inl err \<Rightarrow> (c1, Inl (StartupIO err))
           | Inr raw \<Rightarrow>
               (case read_snapshot e raw of
                  Inl serr \<Rightarrow> (case handleReplayCorruption e (chDisk c1) (snapshotPath c1) (SnapshotCorrupt serr) False of
                      (None, fs) \<Rightarrow> (c1\<lparr>chDisk := fs\<rparr>, Inr False)
                    | (Some err, fs) \<Rightarrow> (c1\<lparr>chDisk := fs\<rparr>, Inl err))
                | Inr (snap, accts) \<Rightarrow>
                    (case replay_dir e (snapHeight snap) (reset_to_snapshot snap accts c1) of
                       (c2, Replayed) \<Rightarrow> (c2, Inr True)
                     | (c2, StoppedEarly) \<Rightarrow> (c2, Inr False)
                     | (c2, ReplayFailed err) \<Rightarrow> (c2, Inl (map_startup AfterSnapshot err))))))"

section \<open>Lemmas\<close>

lemma account_error_None:
  "account_error m = None \<longleftrightarrow> (\<forall>a. sle 0 (Balance (getAccount m a)) \<and> sle 0 (Nonce (getAccount m a)))"
proof -
  let ?neg = "\<lambda>a. slt (Balance (getAccount m a)) 0 \<or> slt (Nonce (getAccount m a)) 0"
  have "account_error m = None \<longleftrightarrow> filter ?neg (sorted_list_of_fset (fmdom m)) = []"
    by (auto simp: account_error_def split: list.splits)
  also have "\<dots> \<longleftrightarrow> (\<forall>a. a |\<in>| fmdom m \<longrightarrow> \<not> ?neg a)" by (auto simp: filter_empty_conv)
  also have "\<dots> \<longleftrightarrow> (\<forall>a. \<not> ?neg a)"
    using getAccount_nonzero_dom [of m] by (metis less_irrefl signed_0 zero_account_simps)
  finally show ?thesis by (simp add: not_less)
qed

lemma validate_Inr:
  "validateSnapshotPayload e raw snap = Inr accts \<longleftrightarrow>
     trim_space raw \<noteq> [] \<and> accts = snapAccounts snap \<and> account_error accts = None \<and>
     snapAccountsHash snap \<noteq> [] \<and> snapAccountsHash snap = computeAccountsHash e accts \<and>
     snapSnapshotHash snap \<noteq> [] \<and>
     snapSnapshotHash snap = computeSnapshotHash e (snapHeight snap) (snapHash snap) (snapAccountsHash snap)"
  by (auto simp: validateSnapshotPayload_def split: option.splits)

lemma export_valid:
  assumes "crypto_ok e" and "trim_space raw \<noteq> []" and "account_error (chAccounts c) = None"
  shows "validateSnapshotPayload e raw (ExportSnapshotLocked e c) = Inr (chAccounts c)"
proof -
  have "sha256 e m \<noteq> []" for m using crypto_okD(1) [OF assms(1), of m] by auto
  then have "hex_encode (sha256 e m) \<noteq> []" for m by (simp add: hex_encode_nonempty)
  then show ?thesis
    using assms by (simp add: validate_Inr ExportSnapshotLocked_def computeAccountsHash_def
        computeSnapshotHash_def Let_def)
qed

section \<open>Properties\<close>

lemma snapshot_copies:
  assumes "crypto_ok e" and "account_error (chAccounts c) = None"
    and "unmarshalSnapshot e (marshalSnapshot e (ExportSnapshotLocked e c)) = Some (ExportSnapshotLocked e c)"
    and "trim_space (marshalSnapshot e (ExportSnapshotLocked e c)) \<noteq> []"
  shows "\<exists>c'. LoadSnapshotFromBytes e c0 (marshalSnapshot e (ExportSnapshotLocked e c)) = (c', Inr True) \<and>
    chHeight c' = chHeight c \<and> chTip c' = chTip c \<and> chAccounts c' = chAccounts c \<and>
    chBlocks c' = fmempty \<and> chPending c' = fmempty \<and> chMempool c' = []"
  using export_valid [OF assms(1,4,2)] assms(3,4)
  by (simp add: LoadSnapshotFromBytes_def read_snapshot_def reset_to_snapshot_def resetMempoolLocked_def)
    (simp add: ExportSnapshotLocked_def Let_def)

text \<open>
  C16 (roundtrip): a snapshot taken by one node and loaded by another gives it the same height,
  tip and accounts and an empty chain above them, whatever the receiver held before.
\<close>

theorem snapshot_roundtrip:
  assumes "crypto_ok e" and "account_error (chAccounts c) = None"
    and "unmarshalSnapshot e (marshalSnapshot e (ExportSnapshotLocked e c)) = Some (ExportSnapshotLocked e c)"
    and "trim_space (marshalSnapshot e (ExportSnapshotLocked e c)) \<noteq> []"
  shows "\<exists>c'. LoadSnapshotFromBytes e c0 (marshalSnapshot e (ExportSnapshotLocked e c)) = (c', Inr True) \<and>
    chHeight c' = chHeight c \<and> chTip c' = chTip c \<and> chAccounts c' = chAccounts c \<and>
    chBlocks c' = fmempty \<and> chPending c' = fmempty \<and> chMempool c' = []"
  by (rule snapshot_copies [OF assms])

text \<open>
  C28 (safety): what a snapshot must satisfy to be taken over: no negative balance or nonce, the
  accounts hash to the digest it names, and this, the height and the tip to the second digest.
  Anything else leaves the node exactly as it was.
\<close>

theorem snapshot_accepted_iff:
  "LoadSnapshotFromBytes e c raw = (c', res) \<Longrightarrow>
     (case res of Inl err \<Rightarrow> c' = c
      | Inr loaded \<Rightarrow> \<exists>snap. unmarshalSnapshot e raw = Some snap \<and> loaded \<and>
          (\<forall>a. sle 0 (Balance (getAccount (chAccounts c') a)) \<and> sle 0 (Nonce (getAccount (chAccounts c') a))) \<and>
          snapAccountsHash snap = computeAccountsHash e (chAccounts c') \<and>
          snapSnapshotHash snap = computeSnapshotHash e (chHeight c') (chTip c') (snapAccountsHash snap))"
  by (auto simp: LoadSnapshotFromBytes_def read_snapshot_def validate_Inr reset_to_snapshot_def
      resetMempoolLocked_def account_error_None split: if_splits sum.splits option.splits)

text \<open>
  Loading a snapshot resets the chain but not the finality mark: a node that takes
  over a snapshot below its finalized height refuses, as a reorganisation, no block at all, since
  it has none, and goes on reporting the old finalized height.
\<close>

theorem snapshot_keeps_finalized_height:
  assumes "LoadSnapshotFromBytes e c raw = (c', Inr loaded)"
  shows "chFinalizedHeight c' = chFinalizedHeight c \<and> reorg_check c' b = None \<and>
    GetFinalitySnapshot c' = (chFinalizedHeight c, [], finalityDepth)"
  using assms
  by (auto simp: LoadSnapshotFromBytes_def reset_to_snapshot_def resetMempoolLocked_def reorg_check_def
      GetFinalitySnapshot_def split: if_splits sum.splits)

end
