(* ===== verification/Quorum.thy ===== *)
theory Quorum
  imports Prelude
begin

text \<open>
  Quorums: what both voting rules of the node rely on, the majority of the mesh chain and the
  two thirds of the consensus finalizer. Proved once for any set of members and any number of
  needed votes above half of them.
\<close>

locale quorum =
  fixes members :: "'a fset" and need :: nat
  assumes majority: "fcard members < 2 * need"
begin

definition is_quorum :: "'a fset \<Rightarrow> bool" where
  "is_quorum V \<longleftrightarrow> V |\<subseteq>| members \<and> need \<le> fcard V"

lemma overlap:
  assumes "is_quorum V" and "is_quorum W"
  shows "2 * need \<le> fcard members + fcard (V |\<inter>| W)"
proof -
  have "fcard V + fcard W = fcard (V |\<union>| W) + fcard (V |\<inter>| W)" by (rule fcard_funion_finter)
  moreover have "fcard (V |\<union>| W) \<le> fcard members"
    using assms by (intro fcard_mono) (auto simp: is_quorum_def)
  ultimately show ?thesis using assms by (simp add: is_quorum_def)
qed

lemma intersect:
  assumes "is_quorum V" and "is_quorum W"
  shows "V |\<inter>| W \<noteq> {||}"
  using overlap [OF assms] majority by (auto simp: fcard_fempty)

lemma nonempty: "is_quorum V \<Longrightarrow> V \<noteq> {||}"
  using intersect [of V V] by auto

lemma mono: "is_quorum V \<Longrightarrow> V |\<subseteq>| W \<Longrightarrow> W |\<subseteq>| members \<Longrightarrow> is_quorum W"
  unfolding is_quorum_def using fcard_mono [of V W] by linarith

end

end
