(* ===== verification/Votes.thy ===== *)
theory Votes
  imports Snapshot Quorum
begin

text \<open>
  Votes in the mesh (\<open>validator_votes.go\<close>, \<open>consensus_commit.go\<close> and the vote handling of
  \<open>chain_core.go\<close>): signing, verification, bookkeeping, and the two ways to finalize by votes.
\<close>

section \<open>Operations\<close>

definition voteSignBytes :: "env \<Rightarrow> int \<Rightarrow> string \<Rightarrow> string" where
  "voteSignBytes e height blockHash = sha256 e (json_object
     [(''height'', json_int height), (''block_hash'', json_string blockHash)])"

datatype vote_error = VoteIdentityUnavailable | BadValidatorPrivateKey

definition SignVoteLocked :: "env \<Rightarrow> chain \<Rightarrow> int \<Rightarrow> string \<Rightarrow> chain \<times> (vote_error + vote)" where
  "SignVoteLocked e c height blockHash =
     (let (c1, vid) = ValidatorIDLocked e c;
          privHex = chValidatorPrivHex c1
      in if vid = [] \<or> privHex = [] \<or> vid = ErrNoValidator then (c1, Inl VoteIdentityUnavailable)
         else case hex_decode privHex of None \<Rightarrow> (c1, Inl BadValidatorPrivateKey)
           | Some priv \<Rightarrow>
               if length priv \<noteq> 64 then (c1, Inl BadValidatorPrivateKey)
               else (c1, Inr \<lparr>vHeight = height, vBlockHash = blockHash, vValidatorID = vid,
                   vSignature = hex_encode (ed_sign e priv (voteSignBytes e height blockHash))\<rparr>))"

definition VerifyVote :: "env \<Rightarrow> vote \<Rightarrow> bool" where
  "VerifyVote e v \<longleftrightarrow>
     \<not> (vHeight v \<le> 0 \<or> vBlockHash v = [] \<or> vValidatorID v = [] \<or> vSignature v = []) \<and>
     (case hex_decode (vValidatorID v) of None \<Rightarrow> False
      | Some pub \<Rightarrow> length pub = 32 \<and>
          (case hex_decode (vSignature v) of None \<Rightarrow> False
           | Some sig \<Rightarrow> ed_verify e pub (voteSignBytes e (vHeight v) (vBlockHash v)) sig))"

definition quorumNeededLocked :: "chain \<Rightarrow> int" where
  "quorumNeededLocked c =
     (let n = fcard (chValidatorSet c) in if n = 0 then 1 else int (n div 2 + 1))"

text \<open>\<open>tryFinalizeLocked\<close> counts in \<open>voteCounts\<close>, which no operation of the chain writes.\<close>

definition tryFinalizeLocked :: "env \<Rightarrow> chain \<Rightarrow> int \<Rightarrow> chain \<times> bool" where
  "tryFinalizeLocked e c height =
     (if fmget 0 (chVoteCounts c) height < quorumNeededLocked c then (c, False)
      else case fmlookup (chBlocks c) height of None \<Rightarrow> (c, False)
        | Some b \<Rightarrow>
            let c1 = fst (SaveSnapshotLocked e c)
            in (c1\<lparr>chBlocks := fmupd height (b\<lparr>bIsFinalized := True\<rparr>) (chBlocks c1)\<rparr>, True))"

text \<open>The result is whether the vote was taken; its error is the bad signature.\<close>

definition addVoteLocked :: "env \<Rightarrow> chain \<Rightarrow> vote \<Rightarrow> chain \<times> bool" where
  "addVoteLocked e c v =
     (if \<not> VerifyVote e v then (c, False)
      else let m = fmget fmempty (chVotes c) (vHeight v);
               c1 = c\<lparr>chVotes := fmupd (vHeight v) (fmupd (vValidatorID v) v m) (chVotes c)\<rparr>;
               c2 = observeValidatorLocked c1 (vValidatorID v)
           in (fst (tryFinalizeLocked e c2 (vHeight v)), True))"

definition defaultCommitThreshold :: nat where "defaultCommitThreshold = 1"

definition commitThresholdLocked :: "chain \<Rightarrow> nat" where
  "commitThresholdLocked c = (if defaultCommitThreshold < 1 then 1 else defaultCommitThreshold)"

definition matching_votes :: "chain \<Rightarrow> int \<Rightarrow> block \<Rightarrow> nat" where
  "matching_votes c height b =
     fcard (fmdom (fmfilter (\<lambda>k. case fmlookup (fmget fmempty (chVotes c) height) k of None \<Rightarrow> False
        | Some v \<Rightarrow> vHeight v = height \<and> vBlockHash v = bHash b) (fmget fmempty (chVotes c) height)))"

definition set_tip_at :: "int \<Rightarrow> block \<Rightarrow> chain \<Rightarrow> chain" where
  "set_tip_at height b c = (if height = chHeight c then c\<lparr>chTip := bHash b\<rparr> else c)"

definition tryFinalizeHeightLocked :: "env \<Rightarrow> chain \<Rightarrow> int \<Rightarrow> chain \<times> bool" where
  "tryFinalizeHeightLocked e c height =
     (if height \<le> 0 then (c, False)
      else case fmlookup (chBlocks c) height of None \<Rightarrow> (c, False)
        | Some b \<Rightarrow>
            if bIsFinalized b then (set_tip_at height b c, True)
            else if fmget fmempty (chVotes c) height = fmempty then (c, False)
            else if matching_votes c height b < commitThresholdLocked c then (c, False)
            else let b1 = b\<lparr>bIsFinalized := True\<rparr>;
                     c1 = c\<lparr>chBlocks := fmupd height b1 (chBlocks c)\<rparr>;
                     c2 = fst (persistBlockLocked e c1 b1)
                 in (set_tip_at height b1 c2, True))"

section \<open>Lemmas\<close>

text \<open>The simple majority of the chain is a quorum rule, before and after it knows validators.\<close>

interpretation majority: quorum "chValidatorSet c" "nat (quorumNeededLocked c)" for c
  by unfold_locales (auto simp: quorumNeededLocked_def Let_def fcard_fempty)

lemma hex_upper_empty [simp]: "hex_upper s = [] \<longleftrightarrow> s = []"
  by (simp add: hex_upper_def)

lemma verify_upper: "VerifyVote e (v\<lparr>vValidatorID := hex_upper (vValidatorID v)\<rparr>) = VerifyVote e v"
  unfolding VerifyVote_def voteSignBytes_def by (simp add: hex_decode_upper cong: option.case_cong conj_cong)

lemma verified_not_genesis: "VerifyVote e v \<Longrightarrow> vValidatorID v \<noteq> ''GENESIS''"
proof -
  have "hex_decode ''GENESIS'' = None" by code_simp
  then show "VerifyVote e v \<Longrightarrow> vValidatorID v \<noteq> ''GENESIS''" by (auto simp: VerifyVote_def)
qed

lemma addVote_no_counts:
  assumes "chVoteCounts c = fmempty" and "addVoteLocked e c v = (c', ok)"
  shows "c' = (if ok then observeValidatorLocked (c\<lparr>chVotes := fmupd (vHeight v)
      (fmupd (vValidatorID v) v (fmget fmempty (chVotes c) (vHeight v))) (chVotes c)\<rparr>) (vValidatorID v) else c)"
    and "ok \<longleftrightarrow> VerifyVote e v"
proof -
  have "0 < quorumNeededLocked d" for d by (simp add: quorumNeededLocked_def Let_def)
  then have t: "tryFinalizeLocked e d h = (d, False)" if "chVoteCounts d = fmempty" for d h
    using that by (simp add: tryFinalizeLocked_def)
  have "chVoteCounts (observeValidatorLocked (c\<lparr>chVotes := m\<rparr>) x) = fmempty" for m x
    using assms(1) by (simp add: observeValidatorLocked_def)
  then show "c' = (if ok then observeValidatorLocked (c\<lparr>chVotes := fmupd (vHeight v)
      (fmupd (vValidatorID v) v (fmget fmempty (chVotes c) (vHeight v))) (chVotes c)\<rparr>) (vValidatorID v) else c)"
    and "ok \<longleftrightarrow> VerifyVote e v"
    using assms(2) t by (auto simp: addVoteLocked_def Let_def split: if_splits)
qed

lemma persist_core: "core_fields (fst (persistBlockLocked e c b)) = core_fields c"
  "chPending (fst (persistBlockLocked e c b)) = chPending c"
  using persistBlock_frame [of e c b] by (auto simp: core_fields_def)

lemma mark_wf:
  assumes wf: "chain_wf e base c" and b: "fmlookup (chBlocks c) h = Some b"
    and blocks: "chBlocks c' = fmupd h (b\<lparr>bIsFinalized := True\<rparr>) (chBlocks c)"
    and same: "chHeight c' = chHeight c" "chTip c' = chTip c" "chFinalizedHeight c' = chFinalizedHeight c"
  shows "chain_wf e base c' \<and> extends c c'"
proof
  have look: "fmlookup (chBlocks c') k = map_option (\<lambda>p. if k = h then p\<lparr>bIsFinalized := True\<rparr> else p)
      (fmlookup (chBlocks c) k)" for k
    using b by (cases "fmlookup (chBlocks c) k") (auto simp: blocks)
  have old: "\<exists>p0 v. fmlookup (chBlocks c) k = Some p0 \<and> p = p0\<lparr>bIsFinalized := v\<rparr>"
    if pk: "fmlookup (chBlocks c') k = Some p" for k p
  proof -
    obtain p0 where p0: "fmlookup (chBlocks c) k = Some p0" "p = (if k = h then p0\<lparr>bIsFinalized := True\<rparr> else p0)"
      using pk look [of k] by (cases "fmlookup (chBlocks c) k") auto
    moreover have "p0 = p0\<lparr>bIsFinalized := bIsFinalized p0\<rparr>" by simp
    ultimately show ?thesis by metis
  qed
  show "chain_wf e base c'"
    unfolding chain_wf_def
  proof (intro conjI allI impI)
    show "fmlookup (chBlocks c') k = None \<longleftrightarrow> k \<le> base \<or> chHeight c' < k" for k
      using chain_wfD(3) [OF wf, of k] look [of k] same by simp
    show "bHeight p = k" "valid_block e p" if pk: "fmlookup (chBlocks c') k = Some p" for k p
    proof -
      obtain p0 v where p0: "fmlookup (chBlocks c) k = Some p0" "p = p0\<lparr>bIsFinalized := v\<rparr>"
        using old [OF pk] by blast
      with chain_wfD(4) [OF wf p0(1)] show "bHeight p = k" "valid_block e p"
        by (auto simp: valid_block_def calcBlockHash_unhashed)
    qed
    show "bPrevHash q = bHash p" "bTimeUTC p < bTimeUTC q"
      if "fmlookup (chBlocks c') k = Some p" "fmlookup (chBlocks c') (k + 1) = Some q" for k p q
      using old [OF that(1)] old [OF that(2)] chain_wfD(5) [OF wf] by auto
    show "chTip c' = bHash p" if "fmlookup (chBlocks c') (chHeight c') = Some p" for p
      using old [OF that] chain_wfD(6) [OF wf] same by auto
  qed (use chain_wfD(1,2) [OF wf] same in auto)
  have "\<exists>v. fmlookup (chBlocks c') k = Some (p\<lparr>bIsFinalized := v\<rparr>) \<and> (bIsFinalized p \<longrightarrow> v)"
    if "fmlookup (chBlocks c) k = Some p" for k p
  proof (cases "k = h")
    case True
    then show ?thesis using that b by (auto simp: blocks)
  next
    case False
    moreover have "p = p\<lparr>bIsFinalized := bIsFinalized p\<rparr>" by simp
    ultimately show ?thesis using that by (metis blocks fmupd_lookup)
  qed
  then show "extends c c'" using same by (simp add: extends_def)
qed

lemma try_finalize_aux:
  assumes wf: "chain_wf e' base c" and t: "tryFinalizeHeightLocked e c height = (c', finished)"
  shows "extends c c' \<and> chain_wf e' base c' \<and>
    (finished \<longrightarrow> (\<exists>b. fmlookup (chBlocks c') height = Some b \<and> bIsFinalized b)) \<and>
    (\<not> finished \<longrightarrow> c' = c)"
proof (cases "height \<le> 0 \<or> fmlookup (chBlocks c) height = None")
  case True
  then have "c' = c" "\<not> finished" using t by (auto simp: tryFinalizeHeightLocked_def split: if_splits)
  then show ?thesis using wf extends_refl [of c c] by simp
next
  case False
  then obtain b where b: "fmlookup (chBlocks c) height = Some b" and pos: "\<not> height \<le> 0" by auto
  have tip: "set_tip_at height b c = c"
    using chain_wfD(6) [OF wf] b by (auto simp: set_tip_at_def)
  show ?thesis
  proof (cases "bIsFinalized b")
    case True
    then have "c' = c" "finished" using t b pos tip by (simp_all add: tryFinalizeHeightLocked_def)
    then show ?thesis using wf b True extends_refl [of c c] by simp
  next
    case open_b: False
    show ?thesis
    proof (cases "fmget fmempty (chVotes c) height = fmempty \<or> matching_votes c height b < commitThresholdLocked c")
      case True
      then have "c' = c" "\<not> finished" using t b pos open_b by (auto simp: tryFinalizeHeightLocked_def split: if_splits)
      then show ?thesis using wf extends_refl [of c c] by simp
    next
      case enough: False
      let ?b = "b\<lparr>bIsFinalized := True\<rparr>"
      let ?c1 = "c\<lparr>chBlocks := fmupd height ?b (chBlocks c)\<rparr>"
      obtain d where d: "fst (persistBlockLocked e ?c1 ?b) = ?c1\<lparr>chDisk := d\<rparr>"
        using persistBlock_frame by blast
      have c': "c' = set_tip_at height ?b (?c1\<lparr>chDisk := d\<rparr>)" "finished"
        using t b pos open_b enough d by (simp_all add: tryFinalizeHeightLocked_def Let_def)
      have tip': "height = chHeight c \<Longrightarrow> chTip c = bHash b" using chain_wfD(6) [OF wf] b by simp
      have f: "chBlocks c' = fmupd height ?b (chBlocks c)" "chHeight c' = chHeight c" "chTip c' = chTip c"
        "chFinalizedHeight c' = chFinalizedHeight c"
        unfolding c' set_tip_at_def using tip' by auto
      show ?thesis using mark_wf [OF wf b f] c'(2) by (simp add: f)
    qed
  qed
qed

lemma SignVote_verified:
  assumes "crypto_ok e" and "0 < height" and "blockHash \<noteq> []"
    and "SignVoteLocked e c height blockHash = (c', Inr v)" and "has_identity e c"
  shows "VerifyVote e v \<and> vHeight v = height \<and> vBlockHash v = blockHash \<and>
    vValidatorID v = chValidatorPubHex c \<and> c' = c"
proof -
  obtain pub priv where k: "decode_key_pair e (chValidatorPubHex c) (chValidatorPrivHex c) = Inr (pub, priv)"
    and ne: "chValidatorPubHex c \<noteq> []"
    using assms(5) by (auto simp: has_identity_def cached_pair_None)
  note kp = decode_key_pair_Inr [OF k]
  have v: "v = \<lparr>vHeight = height, vBlockHash = blockHash, vValidatorID = chValidatorPubHex c,
      vSignature = hex_encode (ed_sign e priv (voteSignBytes e height blockHash))\<rparr>" and c': "c' = c"
    using assms(4) kp by (auto simp: SignVoteLocked_def ValidatorID_cached [OF assms(5)] Let_def split: if_splits)
  have "ed_sign e priv (voteSignBytes e height blockHash) \<noteq> []"
    using crypto_okD(3) [OF assms(1)] kp by (metis length_0_conv zero_neq_numeral)
  then show ?thesis
    using v c' kp ne assms(2,3) crypto_okD(2,4) [OF assms(1), of priv]
    by (simp add: VerifyVote_def hex_encode_nonempty hex_decode_encode)
qed

section \<open>Properties\<close>

text \<open>
  A vote signed by a node for a block above height 0 passes verification.
\<close>

theorem SignVote_verifies:
  assumes "crypto_ok e" and "0 < height" and "blockHash \<noteq> []"
    and "SignVoteLocked e c height blockHash = (c', Inr v)" and "has_identity e c"
  shows "VerifyVote e v \<and> vHeight v = height \<and> vBlockHash v = blockHash \<and>
    vValidatorID v = chValidatorPubHex c \<and> c' = c"
  by (rule SignVote_verified [OF assms])

text \<open>
  C29 (safety): votes never finalize anything: the counter they would have to raise is never
  written, so however many verified votes a node takes, no block changes, the finality mark
  stays, and the counter is still empty afterwards.
\<close>

theorem votes_never_finalize:
  assumes "chVoteCounts c = fmempty"
  shows "let c' = fold (\<lambda>v c. fst (addVoteLocked e c v)) vs c
    in chBlocks c' = chBlocks c \<and> chFinalizedHeight c' = chFinalizedHeight c \<and>
       chDisk c' = chDisk c \<and> chVoteCounts c' = fmempty"
  using assms
proof (induction vs arbitrary: c)
  case (Cons v vs)
  obtain c1 ok where a: "addVoteLocked e c v = (c1, ok)" by fastforce
  have "chBlocks c1 = chBlocks c" "chFinalizedHeight c1 = chFinalizedHeight c" "chDisk c1 = chDisk c"
    "chVoteCounts c1 = fmempty"
    using addVote_no_counts(1) [OF Cons.prems a] Cons.prems by (auto simp: observeValidatorLocked_def)
  then show ?case using Cons.IH [of c1] a by (simp add: Let_def)
qed (simp add: Let_def)

text \<open>
  The validator id of a vote is not part of what is signed and is compared as text,
  so one signature counts under every spelling of its key: writing the id in capitals gives a
  second valid vote, a second entry in the vote table and a second member of the validator set.
\<close>

theorem one_key_votes_twice:
  assumes "VerifyVote e v" and "hex_upper (vValidatorID v) \<noteq> vValidatorID v" and "chVoteCounts c = fmempty"
    and "fst (addVoteLocked e (fst (addVoteLocked e c v)) (v\<lparr>vValidatorID := hex_upper (vValidatorID v)\<rparr>)) = c'"
  shows "\<exists>u. fmlookup (fmget fmempty (chVotes c') (vHeight v)) (vValidatorID v) = Some v \<and>
    fmlookup (fmget fmempty (chVotes c') (vHeight v)) (hex_upper (vValidatorID v)) = Some u \<and>
    vSignature u = vSignature v \<and>
    vValidatorID v |\<in>| chValidatorSet c' \<and> hex_upper (vValidatorID v) |\<in>| chValidatorSet c'"
proof -
  let ?u = "v\<lparr>vValidatorID := hex_upper (vValidatorID v)\<rparr>"
  obtain c1 ok1 where a1: "addVoteLocked e c v = (c1, ok1)" by fastforce
  note s1 = addVote_no_counts [OF assms(3) a1]
  have cnt: "chVoteCounts c1 = fmempty" using s1 assms(1,3) by (simp add: observeValidatorLocked_def)
  obtain c2 ok2 where a2: "addVoteLocked e c1 ?u = (c2, ok2)" by fastforce
  note s2 = addVote_no_counts [OF cnt a2]
  have ne: "vValidatorID v \<noteq> []" using assms(1) by (simp add: VerifyVote_def)
  have u: "VerifyVote e ?u" using assms(1) verify_upper [of e v] by simp
  have g: "vValidatorID v \<noteq> ''GENESIS''" "hex_upper (vValidatorID v) \<noteq> ''GENESIS''"
    using verified_not_genesis [OF assms(1)] verified_not_genesis [OF u] by simp_all
  have c1: "c1 = c\<lparr>chVotes := fmupd (vHeight v) (fmupd (vValidatorID v) v (fmget fmempty (chVotes c) (vHeight v)))
      (chVotes c), chValidatorSet := finsert (vValidatorID v) (chValidatorSet c)\<rparr>"
    using s1 assms(1) g ne by (simp add: observeValidatorLocked_def)
  have "c' = c2" using assms(4) a1 a2 by simp
  also have "c2 = c1\<lparr>chVotes := fmupd (vHeight v) (fmupd (hex_upper (vValidatorID v)) ?u
      (fmget fmempty (chVotes c1) (vHeight v))) (chVotes c1),
      chValidatorSet := finsert (hex_upper (vValidatorID v)) (chValidatorSet c1)\<rparr>"
    using s2 u g ne by (simp add: observeValidatorLocked_def)
  finally show ?thesis
    using assms(2) by (intro exI [of _ ?u]) (simp add: c1)
qed

text \<open>
  Finalizing a height by votes only sets the mark of a block that is there and
  for which a vote with its hash was recorded: the committed chain is extended in the sense
  of the chain invariant, and the tip stays the hash of the last block.
\<close>

theorem tryFinalizeHeight_marks:
  assumes "chain_wf e' base c" and "tryFinalizeHeightLocked e c height = (c', finished)"
  shows "extends c c' \<and> chain_wf e' base c' \<and>
    (finished \<longrightarrow> (\<exists>b. fmlookup (chBlocks c') height = Some b \<and> bIsFinalized b)) \<and>
    (\<not> finished \<longrightarrow> c' = c)"
  by (rule try_finalize_aux [OF assms])

end
