(* ===== verification/Witnesses.thy ===== *)
theory Witnesses
  imports Sample Votes
begin

text \<open>
  The theorems of the development applied to the sample node, so that their hypotheses are
  seen to hold somewhere.
\<close>

section \<open>Transactions and mempool\<close>


definition padded :: "string \<Rightarrow> string" where "padded m = take 32 (m @ replicate 32 (CHR ''0''))"

lemma length_padded [simp]: "length (padded m) = 32"
  by (simp add: padded_def)




section \<open>Files\<close>

text \<open>
  A machine that stops after the third call of a write, with half of the new text on the disk, and
  one that stops after the last.
\<close>

theorem write_is_atomic_witness:
  "\<exists>s s' fs' fs''. fs_run sample_env (take 3 (write_calls (''d'', ''f'') (''d'', ''g'') ''new''))
       (mount (fmupd (''d'', ''f'') ''old'' fmempty)) = (s, None) \<and> crash s fs' \<and>
     fmlookup fs' (''d'', ''g'') = Some ''n'' \<and> fmlookup fs' (''d'', ''f'') = Some ''old'' \<and>
     fs_run sample_env (take 7 (write_calls (''d'', ''f'') (''d'', ''g'') ''new''))
       (mount (fmupd (''d'', ''f'') ''old'' fmempty)) = (s', None) \<and> crash s' fs'' \<and>
     fmlookup fs'' (''d'', ''f'') = Some ''new''"
proof -
  let ?f = "(''d'', ''f'')" and ?g = "(''d'', ''g'')"
  let ?fs = "fmupd ?f ''old'' fmempty"
  have io: "\<not> io_fails sample_env opr q" for opr q by simp
  have ne: "?f \<noteq> ?g" by simp
  have run3: "fs_run sample_env (take 3 (write_calls ?f ?g ''new'')) (mount ?fs) = (written ?fs ?g ''new'', None)"
    using write_steps(1) [of sample_env ?g ?fs] write_steps(2) [of sample_env ?g "''new''" ?fs] io by (simp add: write_calls_def numeral_3_eq_3 del: fs_exec.simps(2,3))
  have run7: "fs_run sample_env (take 7 (write_calls ?f ?g ''new'')) (mount ?fs) = (settled ?fs ?f ?g ''new'', None)"
    using write_run [of sample_env ?f ?g "''new''" ?fs] io by (simp add: write_calls_def)
  have crash3: "crash (written ?fs ?g ''new'') (fmupd ?g ''n'' ?fs)"
    by (auto simp: crash_def written_names with_tmp_def mount_def lookup_keys written_fields tmp_inode_def)
  have crash7: "crash (settled ?fs ?f ?g ''new'') (fmupd ?f ''new'' fmempty)"
    by (auto simp: crash_def settled_def renamed_def synced_def written_fields written_names with_tmp_def mount_def
        lookup_keys tmp_inode_def)
  have "fmlookup (fmupd ?g ''n'' ?fs) ?f = Some ''old'' \<or> fmlookup (fmupd ?g ''n'' ?fs) ?f = Some ''new''"
    using write_is_atomic [OF ne run3 crash3] by auto
  moreover have "fmlookup (fmupd ?f ''new'' fmempty) ?f = Some ''new''"
    using write_is_atomic [OF ne run7 crash7] by (simp add: write_calls_def)
  ultimately show ?thesis using run3 run7 crash3 crash7
    by (intro exI [of _ "written ?fs ?g ''new''"] exI [of _ "settled ?fs ?f ?g ''new''"]
        exI [of _ "fmupd ?g ''n'' ?fs"] exI [of _ "fmupd ?f ''new'' fmempty"]) simp
qed

theorem SignTx_VerifyTx_witness: "VerifyTx sample_env sample_tx = None \<and> txFee sample_tx = 1"
  using SignTx_VerifyTx [OF sample_crypto sample_SignTx sample_keys(2,1)] by simp

lemma sample_admitted: "addTxToMempoolLocked sample_env (node_with 100) sample_tx =
    ((node_with 100)\<lparr>chMempool := [sample_tx], chMempoolIDs := {|txID sample_env sample_tx|},
       chMempoolSenderNonce := fmupd (senderNonceKey sample_tx) (txID sample_env sample_tx) fmempty\<rparr>, None)"
proof -
  have "validateTx sample_env (node_with 100) sample_tx = None"
    using sample_tx_shape sample_tx_small
    by (simp add: validateTx_def sample_tx_fields requiredFeeLocked_def requiredFee_below_step
        node_with_account Let_def)
  then show ?thesis by (simp add: addTxToMempoolLocked_def MaxMempoolTxs_def Let_def)
qed

theorem addTxToMempoolLocked_wf_witness:
  "mempool_wf sample_env (fst (addTxToMempoolLocked sample_env (node_with 100) sample_tx)) \<and>
   chMempool (fst (addTxToMempoolLocked sample_env (node_with 100) sample_tx)) = [sample_tx]"
  using addTxToMempoolLocked_wf [OF node_with_mempool_wf, of sample_env 100 sample_tx]
  by (simp add: sample_admitted)

theorem admission_pays_base_fee_only_witness:
  "requiredFeeLocked (node_with 100) = BaseFee \<and> sle BaseFee (txFee sample_tx)"
  using admission_pays_base_fee_only [OF sample_admitted] by simp

definition stuffed_node :: chain where
  "stuffed_node = (node_with 100)\<lparr>chMempool := replicate 256 sample_tx\<rparr>"

theorem full_mempool_is_flushed_witness:
  "length (chMempool stuffed_node) = 256 \<and> chMempool (fst (compactMempoolLocked sample_env stuffed_node)) = []"
proof -
  have "length (chMempool stuffed_node) = MaxMempoolTxs" "\<forall>t \<in> set (chMempool stuffed_node). txFee t = BaseFee"
    by (simp_all add: stuffed_node_def MaxMempoolTxs_def BaseFee_def sample_tx_fields)
  from full_mempool_is_flushed [OF this, of sample_env] show ?thesis
    by (simp add: stuffed_node_def)
qed

theorem compaction_keeps_executable_witness:
  "\<exists>c' n. compactMempoolLocked sample_env stuffed_node = (c', n) \<and>
    length (chMempool c') + n = 256 \<and> (\<exists>L. ledger_run (chMempool c') (getAccount (chAccounts c')) = Inr L)"
proof -
  obtain c' n where "compactMempoolLocked sample_env stuffed_node = (c', n)" by fastforce
  with compaction_keeps_executable [OF this] show ?thesis by (auto simp: stuffed_node_def)
qed

section \<open>Blocks\<close>

theorem SignBlock_validates_witness:
  "\<exists>b'. SignBlock sample_env ((sample_draft 100)\<lparr>bTxs := None\<rparr>) sample_priv = Some b' \<and>
    ValidateBlockSignature sample_env b' = None"
proof -
  let ?b = "(sample_draft 100)\<lparr>bTxs := None\<rparr>"
  have "bValidatorID ?b = hex_encode (ed_public sample_env sample_priv)" "bProducer ?b = bValidatorID ?b"
    "bProducerPubKey ?b = []"
    by (simp_all add: sample_draft_def new_block_fields sample_pub_hex_def)
  from SignBlock_validates [OF sample_crypto sample_keys(3) this] show ?thesis by blast
qed

theorem applied_block_refines_ledger_witness:
  "\<exists>c' L. applyBlockLocked sample_env (node_with 100) (sample_block 100) = (c', None) \<and>
    ledger_block (sample_block 100) (getAccount (chAccounts (node_with 100))) = Inr L \<and>
    getAccount (stateWithBlock (chAccounts (node_with 100)) (sample_block 100)) = L"
proof -
  obtain c' where a: "applyBlockLocked sample_env (node_with 100) (sample_block 100) = (c', None)"
    using sample_block_applies by blast
  from applied_block_refines_ledger [OF a] a show ?thesis by blast
qed

theorem applied_root_below_fork_witness:
  "\<exists>c'. applyBlockLocked sample_env (node_with 100) (sample_block 100) = (c', None) \<and>
    merkleBalancesRoot sample_env (chAccounts c') = bBalancesRoot (sample_block 100)"
proof -
  obtain c' where a: "applyBlockLocked sample_env (node_with 100) (sample_block 100) = (c', None)"
    using sample_block_applies by blast
  have "bHeight (sample_block 100) < FeeSplitForkHeight" by (simp add: sample_block_fields FeeSplitForkHeight_def)
  from applied_root_below_fork [OF a this] a show ?thesis by blast
qed

theorem applied_block_is_on_disk_witness:
  "\<exists>c'. applyBlockLocked sample_env (node_with 100) (sample_block 100) = (c', None) \<and>
    fmlookup (chDisk c') (blockPath (node_with 100) 1) = Some (marshalBlock sample_env (sample_block 100))"
proof -
  obtain c' where a: "applyBlockLocked sample_env (node_with 100) (sample_block 100) = (c', None)"
    using sample_block_applies by blast
  have "length (chMempool (node_with 100)) \<le> MaxMempoolTxs" by (simp add: MaxMempoolTxs_def)
  from applied_block_is_on_disk [OF a this] a show ?thesis by (auto simp: sample_block_fields)
qed

theorem unexecutable_block_stays_on_disk_witness:
  "\<exists>c'. applyBlockLocked sample_env (node_with 0) (sample_block 0) = (c', Some (TxInvalid InsufficientBalance)) \<and>
    fmlookup (chDisk c') (blockPath (node_with 0) 1) = Some (marshalBlock sample_env (sample_block 0))"
  using unexecutable_block_stays_on_disk [OF sample_io poor_block_checks poor_block_run]
  by (auto simp: sample_block_fields)

theorem refused_block_keeps_state_witness:
  "\<exists>c'. applyBlockLocked sample_env (node_with 0) (sample_block 0 \<lparr>bReward := -1\<rparr>) = (c', Some NegativeReward) \<and>
    getAccount (chAccounts c') = getAccount (chAccounts (node_with 0)) \<and> chTip c' = []"
proof -
  have a: "applyBlockLocked sample_env (node_with 0) (sample_block 0 \<lparr>bReward := -1\<rparr>)
      = (node_with 0, Some NegativeReward)"
    by (simp add: applyBlockLocked_def check_header_def)
  from refused_block_keeps_state [OF a] a show ?thesis by simp
qed

theorem block_supply_witness:
  "\<exists>c'. applyBlockLocked sample_env (node_with 100) (sample_block 100) = (c', None) \<and>
    total_supply (chAccounts c') = total_supply (chAccounts (node_with 100)) + 50"
proof -
  obtain c' where a: "applyBlockLocked sample_env (node_with 100) (sample_block 100) = (c', None)"
    using sample_block_applies by blast
  have "sle 0 (block_fees (sample_block 100))" by (simp add: block_fees_def sample_block_fields sample_tx_fields)
  from block_supply [OF a this] a show ?thesis
    by (auto simp: sample_block_fields feeSplitActive_def FeeSplitForkHeight_def blockRewardForHeight_def)
qed

section \<open>Identity\<close>

theorem identity_is_valid_pair_witness:
  "EnsureValidatorIdentityLocked sample_env (node_with 0) = (node_with 0, Inr sample_pub_hex) \<and>
   (\<exists>kpub. hex_decode sample_pub_hex = Some kpub \<and> length kpub = 32)"
proof -
  have a: "EnsureValidatorIdentityLocked sample_env (node_with 0) = (node_with 0, Inr sample_pub_hex)"
    using Ensure_cached [OF node_with_identity] by simp
  from identity_is_valid_pair [OF sample_crypto sample_gen_key a] a show ?thesis by blast
qed

section \<open>Proposals\<close>

theorem proposal_keeps_node_wf_witness:
  "\<exists>c' applied err. applyBlockOrBufferLocked sample_env (node_with 100) (sample_block 100) = (c', applied, err) \<and>
    node_wf sample_env c'"
proof -
  obtain c' applied err where
    a: "applyBlockOrBufferLocked sample_env (node_with 100) (sample_block 100) = (c', applied, err)"
    using prod_cases3 by blast
  from proposal_keeps_node_wf [OF node_with_wf a] a show ?thesis by blast
qed

theorem ready_proposer_commits_witness:
  "\<exists>c'. proposeBlock sample_env (node_with 100) = Some (c', None) \<and> chHeight c' = 1"
  using ready_proposer_commits [OF sample_crypto sample_io node_with_ready, of 100] by auto

theorem drain_counts_applied_witness:
  "\<exists>c' n. drainPendingLocked sample_env (node_with 100) = (c', n) \<and> chHeight c' = int n"
proof -
  obtain c' n where d: "drainPendingLocked sample_env (node_with 100) = (c', n)" by fastforce
  have "core_wf sample_env (node_with 100)" using node_with_wf [of sample_env 100] by (simp add: node_wf_def)
  from drain_counts_applied [OF this d] d show ?thesis by auto
qed

text \<open>A block for height 2 from another validator, as it would be buffered.\<close>

definition other_priv :: string where "other_priv = replicate 64 (CHR ''q'')"
definition other_pub_hex :: string where "other_pub_hex = hex_encode (ed_public sample_env other_priv)"

lemma other_key_ready: "key_ready sample_env other_pub_hex other_priv"
  by (simp add: key_ready_def other_pub_hex_def hex_decode_encode hex_encode_nonempty)
    (simp add: sample_env_def other_priv_def)

lemma other_is_other: "other_pub_hex \<noteq> sample_pub_hex"
proof -
  have "ed_public sample_env other_priv \<noteq> ed_public sample_env sample_priv"
    by (simp add: sample_env_def other_priv_def sample_priv_def)
  then show ?thesis by (simp add: other_pub_hex_def sample_pub_hex_def)
qed

definition other_block :: block where
  "other_block = (let b = new_block sample_env ((node_with 0)\<lparr>chHeight := 1\<rparr>) ''x'' other_pub_hex []
     in case SignBlock sample_env b other_priv of None \<Rightarrow> b | Some b' \<Rightarrow> b')"

lemma other_block: "valid_block sample_env other_block" "bHeight other_block = 2"
  "bProducer other_block = other_pub_hex"
proof -
  let ?c = "(node_with 0)\<lparr>chHeight := 1\<rparr>"
  let ?b = "new_block sample_env ?c ''x'' other_pub_hex []"
  obtain s where eq: "other_block = ?b\<lparr>bSignature := s\<rparr>"
    and v: "ValidateBlockSignature sample_env other_block = None"
  proof (rule sealed_block [OF sample_crypto other_key_ready, of ?c "''x''" "[]"])
    fix s
    assume "SignBlock sample_env ?b other_priv = Some (?b\<lparr>bSignature := s\<rparr>)"
      "ValidateBlockSignature sample_env (?b\<lparr>bSignature := s\<rparr>) = None"
    then show thesis by (intro that [of s]) (simp_all add: other_block_def Let_def)
  qed
  show "valid_block sample_env other_block" "bHeight other_block = 2"
    "bProducer other_block = other_pub_hex"
    using v [unfolded eq] new_block_seals(1) [of sample_env ?c "''x''" other_pub_hex "[]"]
      calcBlockHash_nonempty [OF sample_crypto, of ?b]
    by (simp_all add: eq valid_block_def new_block_fields calcBlockHash_unhashed)
qed

definition stalled_node :: chain where
  "stalled_node = (node_with 0)\<lparr>chPending := fmupd 2 other_block fmempty\<rparr>"

theorem foreign_buffered_block_stops_proposer_witness:
  "proposeBlock sample_env stalled_node = Some (stalled_node, Some (ProposalUnsafe (ForeignBuffered 2)))"
proof (rule foreign_buffered_block_stops_proposer)
  have "core_wf sample_env stalled_node = core_wf sample_env (node_with 0)"
    by (rule core_wf_cong) (simp add: core_fields_def stalled_node_def)
  then show "node_wf sample_env stalled_node"
    using node_with_wf [of sample_env 0] other_block
    by (simp add: node_wf_def pending_wf_def stalled_node_def)
  show "fmlookup (chPending stalled_node) 2 = Some other_block" by (simp add: stalled_node_def)
  show "bProducer other_block \<noteq> chValidatorPubHex stalled_node"
    using other_is_other by (simp add: other_block stalled_node_def)
  show "has_identity sample_env stalled_node"
    using node_with_identity [of 0] by (simp add: has_identity_def cached_pair_check_def stalled_node_def)
  show "daemon_wallet stalled_node \<noteq> []"
    using node_with_wallet [of 0] by (simp add: daemon_wallet_def stalled_node_def)
qed

text \<open>
  A clock at the zero time makes the node refuse its own block; the one transaction of its mempool
  stays.
\<close>

definition clockless_env :: env where "clockless_env = sample_env\<lparr>now := time_zero\<rparr>"

definition pending_node :: chain where
  "pending_node = fst (addTxToMempoolLocked sample_env (node_with 100) sample_tx)"

lemma pending_node: "pending_node = (node_with 100)\<lparr>chMempool := [sample_tx], chMempoolIDs := {|txID sample_env sample_tx|},
    chMempoolSenderNonce := fmupd (senderNonceKey sample_tx) (txID sample_env sample_tx) fmempty\<rparr>"
  by (simp add: pending_node_def sample_admitted)

lemma clockless_frame:
  "txID clockless_env = txID sample_env" "VerifyTxSignature clockless_env = VerifyTxSignature sample_env"
  "decode_key_pair clockless_env = decode_key_pair sample_env"
proof -
  have f: "txSignBytes clockless_env = txSignBytes sample_env" "addrFromPubHex clockless_env = addrFromPubHex sample_env"
    by (simp_all add: fun_eq_iff clockless_env_def txSignBytes_def addrFromPubHex_def cong: option.case_cong if_cong)
  show "txID clockless_env = txID sample_env" by (simp add: fun_eq_iff clockless_env_def txID_def)
  show "VerifyTxSignature clockless_env = VerifyTxSignature sample_env"
    by (simp add: fun_eq_iff VerifyTxSignature_def VerifyTx_None_iff f) (simp add: clockless_env_def)
  show "decode_key_pair clockless_env = decode_key_pair sample_env"
    by (simp add: fun_eq_iff clockless_env_def decode_key_pair_def cong: option.case_cong if_cong)
qed

lemma pending_node_ready:
  "node_wf clockless_env pending_node" "all_executable clockless_env pending_node" "has_identity clockless_env pending_node"
proof -
  have fields: "chAccounts pending_node = chAccounts (node_with 100)" "chMempool pending_node = [sample_tx]"
    by (simp_all add: pending_node)
  have "index_tx clockless_env = index_tx sample_env" by (simp add: fun_eq_iff index_tx_def clockless_frame)
  then have "mempool_wf clockless_env pending_node"
    using addTxToMempoolLocked_wf [OF node_with_mempool_wf, of sample_env 100 sample_tx]
    by (simp add: mempool_wf_def clockless_frame mempool_index_def flip: pending_node_def)
  then show "node_wf clockless_env pending_node"
    using node_with_wf [of clockless_env 100]
    by (simp add: node_wf_def core_wf_def chain_wf_def final_wf_def pending_wf_def pending_node)
  have valid: "validateTx sample_env (node_with 100) sample_tx = None"
    using addTx_None(1) [OF sample_admitted] .
  then have "validateTx clockless_env pending_node sample_tx = None"
    using sample_tx_shape sample_tx_small
    by (simp add: validateTx_def clockless_frame fields sample_tx_fields requiredFeeLocked_def requiredFee_below_step
        node_with_account Let_def)
  moreover have "ledger_run [sample_tx] (getAccount (chAccounts (node_with 100))) = Inr (transfer sample_tx (getAccount (chAccounts (node_with 100))))"
    using validateTx_None(2,5) [OF valid] by simp
  ultimately show "all_executable clockless_env pending_node" by (auto simp: all_executable_def fields)
  show "has_identity clockless_env pending_node"
    using node_with_identity [of 100] by (simp add: has_identity_def cached_pair_check_def pending_node clockless_frame)
qed

theorem failed_proposal_restores_mempool_witness:
  "\<exists>c'. proposeBlock clockless_env pending_node = Some (c', Some (ProposalRefused ProposalMissingTime)) \<and>
     node_wf clockless_env c' \<and> chMempool c' = [sample_tx]"
proof -
  let ?e = clockless_env and ?c = "fst (compactMempoolLocked clockless_env pending_node)"
  have w: "daemon_wallet pending_node \<noteq> []" "chPending pending_node = fmempty"
    using node_with_wallet [of 100] by (simp_all add: daemon_wallet_def pending_node)
  obtain priv where key: "key_ready ?e (chValidatorPubHex pending_node) priv"
    and pr: "proposeBlock ?e pending_node = submit_block ?e ?c (daemon_wallet pending_node) (chValidatorPubHex pending_node) priv"
    using propose_unfolds [OF pending_node_ready(3) w] by blast
  have ok: "crypto_ok ?e" using sample_crypto by (simp add: clockless_env_def crypto_ok_def)
  let ?txs = "take MaxBlockTxs (chMempool ?c)"
  let ?c1 = "rebuildMempoolIndexLocked ?e (?c\<lparr>chMempool := drop MaxBlockTxs (chMempool ?c)\<rparr>)"
  let ?b = "new_block ?e ?c1 (daemon_wallet pending_node) (chValidatorPubHex pending_node) ?txs"
  obtain s where s: "SignBlock ?e ?b priv = Some (?b\<lparr>bSignature := s\<rparr>)"
    using sealed_block [OF ok key] by metis
  let ?bs = "?b\<lparr>bSignature := s\<rparr>"
  have id: "has_identity ?e ?c1" "bProducer ?bs = chValidatorPubHex ?c1"
    using pending_node_ready(3) by (simp_all add: has_identity_def cached_pair_check_def rebuild_fields frame_simps new_block_fields)
  have h: "bHeight ?bs = chHeight ?c1 + 1" "0 \<le> chHeight ?c1" "chFinalizedHeight ?c1 \<le> chHeight ?c1"
    by (simp_all add: rebuild_fields frame_simps new_block_fields pending_node)
  have "content_check ?e ?c1 ?bs = Some ProposalMissingTime"
    by (simp add: content_check_def new_block_fields) (simp add: clockless_env_def)
  then obtain c2 where "applyBlockOrBufferLocked ?e ?c1 ?bs = (c2, False, Some ProposalMissingTime)"
    using own_block_screened [OF id h] by (simp add: applyBlockOrBufferLocked_def)
  then obtain c' where p: "proposeBlock ?e pending_node = Some (c', Some (ProposalRefused ProposalMissingTime))"
    using pr s by (simp add: submit_block_def Let_def)
  have "chMempool pending_node = [sample_tx]" by (simp add: pending_node)
  then show ?thesis
    using failed_proposal_restores_mempool [OF pending_node_ready(1) p] pending_node_ready(2) p by auto
qed

section \<open>Restart\<close>

lemma hex_no_slash: "ch \<in> set (hex_encode s) \<Longrightarrow> ch \<noteq> CHR ''/''"
proof -
  have "hex_val (CHR ''/'') = None" by (simp add: hex_val_def)
  then have d: "hex_digit k \<noteq> CHR ''/''" if "k < 16" for k using hex_val_digit [OF that] by auto
  assume "ch \<in> set (hex_encode s)"
  then obtain b where "ch \<in> set (hex_byte b)" by (auto simp: hex_encode_def)
  moreover have "(of_char b :: nat) div 16 < 16" using of_char_less_256 [of b] by (simp add: less_mult_imp_div_less)
  ultimately show "ch \<noteq> CHR ''/''" using d [of "of_char b div 16"] d [of "of_char b mod 16"]
    by (auto simp: hex_byte_def)
qed

lemma sample_key_json:
  "\<forall>p s. unmarshalKey sample_env (marshalKey sample_env \<lparr>kfPubHex = hex_encode p, kfPrivHex = hex_encode s\<rparr>
      @ [CHR 0x0A]) = Some \<lparr>kfPubHex = hex_encode p, kfPrivHex = hex_encode s\<rparr>"
proof (intro allI)
  fix p s
  have "takeWhile (\<lambda>ch. ch \<noteq> CHR ''/'') (hex_encode p @ CHR ''/'' # xs) = hex_encode p"
    "dropWhile (\<lambda>ch. ch \<noteq> CHR ''/'') (hex_encode p @ CHR ''/'' # xs) = CHR ''/'' # xs" for xs
    using hex_no_slash [of _ p] by (simp_all add: takeWhile_append dropWhile_append)
  then show "unmarshalKey sample_env (marshalKey sample_env \<lparr>kfPubHex = hex_encode p, kfPrivHex = hex_encode s\<rparr>
      @ [CHR 0x0A]) = Some \<lparr>kfPubHex = hex_encode p, kfPrivHex = hex_encode s\<rparr>"
    by (simp add: sample_env_def Let_def)
qed

theorem identity_survives_restart_witness:
  "\<exists>c' pub. create_identity sample_env newProductionChain (validatorKeyPathLocked newProductionChain) = (c', Inr pub) \<and>
    snd (EnsureValidatorIdentityLocked sample_env (newProductionChain\<lparr>chDisk := chDisk c'\<rparr>)) = Inr pub"
proof -
  let ?p = "validatorKeyPathLocked newProductionChain"
  have io: "\<not> io_fails sample_env opr p" for opr p by (simp add: sample_env_def)
  have g: "gen_key sample_env = Some (drop 32 sample_priv, sample_priv)" by (simp add: sample_env_def)
  have "\<exists>c' pub. create_identity sample_env newProductionChain ?p = (c', Inr pub)"
    by (simp add: create_identity_def g os_WriteFile_def os_Rename_def io Let_def)
  then obtain c' pub where made: "create_identity sample_env newProductionChain ?p = (c', Inr pub)" by blast
  have "snd (EnsureValidatorIdentityLocked sample_env (newProductionChain\<lparr>chDisk := chDisk c'\<rparr>)) = Inr pub"
    by (rule identity_survives_restart [OF sample_crypto sample_gen_key made sample_key_json])
      (simp_all add: newProductionChain_def io)
  with made show ?thesis by blast
qed

end
