(* ===== verification/Wallet.thy ===== *)
theory Wallet
  imports Identity Mempool
begin

text \<open>
  The wallet of a node (\<open>internal/crypto/wallet.go\<close>): made on the first start, read on every
  later one, and the command that signs a transaction with it (\<open>cmd/signtx/main.go\<close>).
\<close>

section \<open>Paths\<close>

text \<open>\<open>filepath.Dir\<close> and \<open>filepath.Base\<close> of a clean path.\<close>

definition path_of :: "string \<Rightarrow> path" where
  "path_of s =
     (let base = rev (takeWhile (\<lambda>ch. ch \<noteq> CHR ''/'') (rev s))
      in if CHR ''/'' \<notin> set s then (''.'', s)
         else let dir = take (length s - length base - 1) s in (if dir = [] then ''/'' else dir, base))"

section \<open>Operations\<close>

datatype wallet_error = WalletFile io_error | WalletSyntax | WalletMissingKeys | WalletPubHex
  | WalletAddressMismatch | WalletKeyGen

definition GenerateWallet :: "env \<Rightarrow> wallet_error + wallet" where
  "GenerateWallet e =
     (case gen_key e of None \<Rightarrow> Inl WalletKeyGen
      | Some (pub, priv) \<Rightarrow>
          (case AddressFromPubHex e (hex_encode pub) of None \<Rightarrow> Inl WalletPubHex
           | Some addr \<Rightarrow> Inr \<lparr>wAddress = addr, wPubHex = hex_encode pub, wPrivHex = hex_encode priv\<rparr>))"

text \<open>The checks that loading and saving share: the keys are there, and the address, if it is, fits.\<close>

definition check_wallet :: "env \<Rightarrow> wallet \<Rightarrow> wallet_error + wallet" where
  "check_wallet e w =
     (if wPubHex w = [] \<or> wPrivHex w = [] then Inl WalletMissingKeys
      else case AddressFromPubHex e (wPubHex w) of None \<Rightarrow> Inl WalletPubHex
        | Some addr \<Rightarrow>
            let w1 = (if wAddress w = [] then w\<lparr>wAddress := addr\<rparr> else w)
            in if wAddress w1 \<noteq> addr then Inl WalletAddressMismatch else Inr w1)"

definition LoadWallet :: "env \<Rightarrow> files \<Rightarrow> path \<Rightarrow> wallet_error + wallet" where
  "LoadWallet e fs p =
     (case os_ReadFile e fs p of Inl err \<Rightarrow> Inl (WalletFile err)
      | Inr raw \<Rightarrow> (case unmarshalWallet e raw of None \<Rightarrow> Inl WalletSyntax | Some w \<Rightarrow> check_wallet e w))"

definition SaveWallet :: "env \<Rightarrow> files \<Rightarrow> path \<Rightarrow> wallet \<Rightarrow> files \<times> wallet_error option" where
  "SaveWallet e fs p w =
     (case check_wallet e w of Inl err \<Rightarrow> (fs, Some err)
      | Inr w1 \<Rightarrow>
          if io_fails e MkdirAll (fst p, []) then (fs, Some (WalletFile (IOFailure MkdirAll)))
          else let tmp = tmp_of p
               in case os_WriteFile e fs tmp (marshalWallet e w1 @ [CHR 0x0A]) of
                    (Some err, fs1) \<Rightarrow> (fs1, Some (WalletFile err))
                  | (None, fs1) \<Rightarrow>
                      (case os_Rename e fs1 tmp p of
                         (Some err, fs2) \<Rightarrow> (fs2, Some (WalletFile err)) | (None, fs2) \<Rightarrow> (fs2, None)))"

definition LoadOrCreateWallet :: "env \<Rightarrow> files \<Rightarrow> path \<Rightarrow> files \<times> (wallet_error + wallet)" where
  "LoadOrCreateWallet e fs p =
     (case LoadWallet e fs p of Inr w \<Rightarrow> (fs, Inr w)
      | Inl err \<Rightarrow>
          if err \<noteq> WalletFile NotExist then (fs, Inl err)
          else (case GenerateWallet e of Inl err \<Rightarrow> (fs, Inl err)
            | Inr w \<Rightarrow> (case SaveWallet e fs p w of (fs1, Some err) \<Rightarrow> (fs1, Inl err)
                | (fs1, None) \<Rightarrow> (fs1, Inr w))))"

text \<open>\<open>main\<close> of \<open>signtx\<close> with its parsed flags; every failure panics with a message of its own.\<close>

datatype signtx_panic = FlagMissing string | FlagBad string | NoWallet wallet_error | NotSigned tx_error

definition signtx_main :: "env \<Rightarrow> files \<Rightarrow> string \<Rightarrow> string \<Rightarrow> i64 \<Rightarrow> i64 \<Rightarrow> i64 \<Rightarrow> signtx_panic + tx" where
  "signtx_main e fs wallet_path to amount nonce fee =
     (if wallet_path = [] then Inl (FlagMissing ''wallet'')
      else if to = [] then Inl (FlagMissing ''to'')
      else if sle amount 0 then Inl (FlagBad ''amount'')
      else if slt nonce 0 then Inl (FlagBad ''nonce'')
      else if slt fee 0 then Inl (FlagBad ''fee'')
      else case LoadWallet e fs (path_of wallet_path) of Inl err \<Rightarrow> Inl (NoWallet err)
        | Inr w \<Rightarrow> (case SignTx e (wAddress w) to amount nonce fee (wPubHex w) (wPrivHex w) of
            Inl err \<Rightarrow> Inl (NotSigned err) | Inr t \<Rightarrow> Inr t))"

section \<open>Lemmas\<close>

text \<open>A wallet that belongs to its own public key and holds both keys passes the check unchanged.\<close>

definition wallet_ok :: "env \<Rightarrow> wallet \<Rightarrow> bool" where
  "wallet_ok e w \<longleftrightarrow> wPubHex w \<noteq> [] \<and> wPrivHex w \<noteq> [] \<and> AddressFromPubHex e (wPubHex w) = Some (wAddress w)"

lemma check_ok: "check_wallet e w = Inr w \<longleftrightarrow> wallet_ok e w"
  by (cases w) (auto simp: check_wallet_def wallet_ok_def Let_def split: option.splits)

lemma checked_ok: "check_wallet e w = Inr w1 \<Longrightarrow> wallet_ok e w1"
  by (cases w; cases w1) (auto simp: check_wallet_def wallet_ok_def Let_def split: if_splits option.splits)

lemma check_no_file: "check_wallet e w \<noteq> Inl (WalletFile err)"
  by (simp add: check_wallet_def Let_def split: option.split)

lemma generated_ok:
  assumes "crypto_ok e" "gen_key_ok e" and "GenerateWallet e = Inr w"
  shows "wallet_ok e w"
proof -
  obtain pub priv where g: "gen_key e = Some (pub, priv)"
    and a: "AddressFromPubHex e (hex_encode pub) = Some (wAddress w)"
    and w: "wPubHex w = hex_encode pub" "wPrivHex w = hex_encode priv"
    using assms(3) by (auto simp: GenerateWallet_def split: option.splits prod.splits)
  then have "length priv = 64" "length pub = 32"
    using assms(2) crypto_okD(2) [OF assms(1)] by (auto simp: gen_key_ok_def)
  then have "pub \<noteq> []" "priv \<noteq> []" by auto
  with a w show ?thesis by (simp add: wallet_ok_def hex_encode_nonempty)
qed

lemma loaded_ok: "LoadWallet e fs p = Inr w \<Longrightarrow> wallet_ok e w"
  using checked_ok by (auto simp: LoadWallet_def split: sum.splits option.splits)

lemma saved_file:
  assumes "wallet_ok e w" and "SaveWallet e fs p w = (fs1, None)"
  shows "fmlookup fs1 p = Some (marshalWallet e w @ [CHR 0x0A])"
proof -
  let ?raw = "marshalWallet e w @ [CHR 0x0A]"
  have c: "check_wallet e w = Inr w" using assms(1) by (simp add: check_ok)
  obtain fs0 where f: "os_WriteFile e fs (tmp_of p) ?raw = (None, fs0)" "os_Rename e fs0 (tmp_of p) p = (None, fs1)"
    using assms(2) c by (auto simp: SaveWallet_def Let_def split: if_splits prod.splits option.splits)
  then have "fmlookup fs0 (tmp_of p) = Some ?raw" by (auto simp: os_WriteFile_def split: if_splits)
  with f(2) show ?thesis by (auto simp: os_Rename_def split: if_splits)
qed

lemma existing_wallet_untouched:
  "fmlookup fs p = Some raw \<Longrightarrow> fst (LoadOrCreateWallet e fs p) = fs"
  by (auto simp: LoadOrCreateWallet_def LoadWallet_def os_ReadFile_def check_no_file
      split: sum.splits option.splits if_splits)

lemma found_wallet_ok:
  assumes "crypto_ok e" "gen_key_ok e" and "LoadOrCreateWallet e fs p = (fs1, Inr w)"
  shows "wallet_ok e w"
  using assms(3) loaded_ok generated_ok [OF assms(1,2)]
  by (auto simp: LoadOrCreateWallet_def split: if_splits sum.splits prod.splits option.splits)

lemma wallet_kept:
  assumes "crypto_ok e" "gen_key_ok e" and first: "LoadOrCreateWallet e fs p = (fs1, Inr w)"
    and json: "unmarshalWallet e (marshalWallet e w @ [CHR 0x0A]) = Some w"
  shows "wallet_ok e w \<and> LoadOrCreateWallet e fs1 p = (fs1, Inr w)"
proof (cases "LoadWallet e fs p")
  case (Inr x)
  with first show ?thesis using loaded_ok [OF Inr] by (simp add: LoadOrCreateWallet_def)
next
  case (Inl err)
  then have err: "err = WalletFile NotExist" and g: "GenerateWallet e = Inr w"
    and s: "SaveWallet e fs p w = (fs1, None)"
    using first by (auto simp: LoadOrCreateWallet_def split: if_splits sum.splits prod.splits option.splits)
  have ok: "wallet_ok e w" by (rule generated_ok [OF assms(1,2) g])
  have "\<not> io_fails e ReadFile p" using Inl err by (auto simp: LoadWallet_def os_ReadFile_def split: if_splits)
  then have "LoadWallet e fs1 p = Inr w"
    using saved_file [OF ok s] json ok
    by (simp add: LoadWallet_def os_ReadFile_def check_ok)
  with ok show ?thesis by (simp add: LoadOrCreateWallet_def)
qed

lemma signtx_Inr:
  assumes "signtx_main e fs p to amount nonce fee = Inr t"
  shows "\<exists>w. LoadWallet e fs (path_of p) = Inr w \<and> sle 0 fee \<and>
    SignTx e (wAddress w) to amount nonce fee (wPubHex w) (wPrivHex w) = Inr t"
  using assms by (auto simp: signtx_main_def not_less split: if_splits sum.splits)

text \<open>A signed transaction is taken if the account has the nonce and the balance for it.\<close>

lemma signed_tx_admitted:
  assumes "crypto_ok e" and s: "SignTx e addr to amount nonce fee pub priv = Inr t"
    and k: "hex_decode priv = Some sk" "hex_decode pub = Some (ed_public e sk)"
    and "to \<noteq> txFrom t" and "\<not> fieldTooLarge t" and "sle BaseFee fee" and room: "length (chMempool c) < MaxMempoolTxs"
    and "sle (amount + fee) (Balance (getAccount (chAccounts c) (txFrom t)))"
    and "Nonce (getAccount (chAccounts c) (txFrom t)) = nonce" and "sle 0 fee"
    and new: "txID e t |\<notin>| chMempoolIDs c" "fmlookup (chMempoolSenderNonce c) (senderNonceKey t) = None"
  shows "\<exists>c'. addTxToMempoolLocked e c t = (c', None) \<and> t \<in> set (chMempool c')"
proof -
  have v: "VerifyTx e t = None" and t: "txTo t = to" "txAmount t = amount" "txNonce t = nonce" "txFee t = fee"
    using SignTx_verifies [OF assms(1) s k] by auto
  then have sig: "VerifyTxSignature e t" by (simp add: VerifyTxSignature_def)
  have fee: "requiredFeeLocked c = BaseFee"
    using room by (simp add: requiredFeeLocked_def requiredFee_def MaxMempoolTxs_def FeeCongestionStep_def)
  have "validateTx e c t = None"
    using sig VerifyTx_fields [OF sig] assms t by (auto simp: validateTx_def fee not_le not_less)
  then show ?thesis using room new by (simp add: addTxToMempoolLocked_def Let_def)
qed

section \<open>Properties\<close>

text \<open>
  A node keeps its wallet: whatever a start found or made - a wallet whose
  address belongs to its key - the next start finds the same and writes nothing; a file that was there already is never written.
\<close>

theorem wallet_survives_restart:
  assumes "crypto_ok e" and "gen_key_ok e" and "LoadOrCreateWallet e fs p = (fs1, Inr w)"
    and "unmarshalWallet e (marshalWallet e w @ [CHR 0x0A]) = Some w"
  shows "AddressFromPubHex e (wPubHex w) = Some (wAddress w) \<and> LoadOrCreateWallet e fs1 p = (fs1, Inr w) \<and>
    (fmlookup fs p = None \<or> fs1 = fs)"
  using wallet_kept [OF assms] existing_wallet_untouched [of fs p _ e] assms(3)
  by (cases "fmlookup fs p") (simp_all add: wallet_ok_def)

text \<open>
  A transaction that the signing command prints for a wallet with matching keys is
  taken by every node whose account of the sender has the nonce and the balance for it, as
  long as the mempool has room and holds nothing of this sender.
\<close>

theorem signtx_is_admitted:
  assumes "crypto_ok e" and sign: "signtx_main e fs p to amount nonce fee = Inr t"
    and keys: "\<And>w. LoadWallet e fs (path_of p) = Inr w \<Longrightarrow> \<exists>priv. hex_decode (wPrivHex w) = Some priv \<and>
      hex_decode (wPubHex w) = Some (ed_public e priv)"
    and "to \<noteq> txFrom t" and "\<not> fieldTooLarge t" and "sle BaseFee fee" and "length (chMempool c) < MaxMempoolTxs"
    and "sle (amount + fee) (Balance (getAccount (chAccounts c) (txFrom t)))"
    and "Nonce (getAccount (chAccounts c) (txFrom t)) = nonce"
    and "txID e t |\<notin>| chMempoolIDs c" and "fmlookup (chMempoolSenderNonce c) (senderNonceKey t) = None"
  shows "\<exists>c'. addTxToMempoolLocked e c t = (c', None) \<and> t \<in> set (chMempool c')"
proof -
  obtain w where w: "LoadWallet e fs (path_of p) = Inr w" "sle 0 fee"
    and s: "SignTx e (wAddress w) to amount nonce fee (wPubHex w) (wPrivHex w) = Inr t"
    using signtx_Inr [OF sign] by blast
  obtain priv where k: "hex_decode (wPrivHex w) = Some priv" "hex_decode (wPubHex w) = Some (ed_public e priv)"
    using keys [OF w(1)] by blast
  show ?thesis by (rule signed_tx_admitted [OF assms(1) s k assms(4-9) w(2) assms(10,11)])
qed

end
