(* ===== verification/Addr.thy ===== *)
theory Addr
  imports Codec
begin

text \<open>
  Network addresses as the node reads them: the parts of packages \<open>net\<close> and \<open>strconv\<close> it
  uses (\<open>SplitHostPort\<close>, \<open>JoinHostPort\<close>, \<open>ParseIP\<close>, \<open>Atoi\<close>) and, on top of them, the address
  checks of \<open>internal/mesh/config.go\<close>, \<open>peer_touch.go\<close> and \<open>daemon_bridge.go\<close>.
\<close>

section \<open>Packages net and strconv\<close>

datatype split_error = MissingPort | TooManyColons | MissingBracket | UnexpectedOpen | UnexpectedClose

text \<open>Everything before the last colon, and what follows it.\<close>

definition split_last_colon :: "string \<Rightarrow> (string \<times> string) option" where
  "split_last_colon s =
     (let port = rev (takeWhile (\<lambda>ch. ch \<noteq> CHR '':'') (rev s))
      in if CHR '':'' \<in> set s then Some (take (length s - length port - 1) s, port) else None)"

definition SplitHostPort :: "string \<Rightarrow> split_error + string \<times> string" where
  "SplitHostPort s =
     (case split_last_colon s of None \<Rightarrow> Inl MissingPort
      | Some (before, port) \<Rightarrow>
          if take 1 s = ''[''
          then let inner = takeWhile (\<lambda>ch. ch \<noteq> CHR '']'') (tl s);
                   rest = dropWhile (\<lambda>ch. ch \<noteq> CHR '']'') (tl s);
                   after = tl rest
               in if rest = [] then Inl MissingBracket
                  else if after = [] then Inl MissingPort
                  else if length after \<noteq> length port + 1
                  then (if take 1 after = '':'' then Inl TooManyColons else Inl MissingPort)
                  else if CHR ''['' \<in> set (tl s) then Inl UnexpectedOpen
                  else if CHR '']'' \<in> set after then Inl UnexpectedClose
                  else Inr (inner, port)
          else if CHR '':'' \<in> set before then Inl TooManyColons
          else if CHR ''['' \<in> set s then Inl UnexpectedOpen
          else if CHR '']'' \<in> set s then Inl UnexpectedClose
          else Inr (before, port))"

definition JoinHostPort :: "string \<Rightarrow> string \<Rightarrow> string" where
  "JoinHostPort host port =
     (if CHR '':'' \<in> set host then ''['' @ host @ '']:'' @ port else host @ '':'' @ port)"

definition Atoi :: "string \<Rightarrow> int option" where
  "Atoi s =
     (let (neg, ds) = (if take 1 s = ''-'' then (True, tl s) else if take 1 s = ''+'' then (False, tl s) else (False, s))
      in case parse_nat ds of None \<Rightarrow> None
         | Some n \<Rightarrow> let v = (if neg then - int n else int n)
             in if - (2 ^ 63) \<le> v \<and> v < 2 ^ 63 then Some v else None)"

fun split_on :: "char \<Rightarrow> string \<Rightarrow> string list" where
  "split_on d [] = [[]]"
| "split_on d (ch # s) = (if ch = d then [] # split_on d s
     else case split_on d s of [] \<Rightarrow> [[ch]] | x # xs \<Rightarrow> (ch # x) # xs)"

text \<open>A field of a dotted address: no leading zero, at most 255.\<close>

definition ipv4_field :: "string \<Rightarrow> nat option" where
  "ipv4_field s =
     (if length s \<noteq> 1 \<and> take 1 s = ''0'' then None
      else case parse_nat s of None \<Rightarrow> None | Some n \<Rightarrow> if n \<le> 255 then Some n else None)"

definition parse_ipv4 :: "string \<Rightarrow> nat list option" where
  "parse_ipv4 s =
     (let fields = map ipv4_field (split_on (CHR ''.'') s)
      in if length fields = 4 \<and> (\<forall>f \<in> set fields. f \<noteq> None) then Some (map the fields) else None)"

fun hex_nat :: "nat \<Rightarrow> string \<Rightarrow> nat" where
  "hex_nat acc [] = acc"
| "hex_nat acc (ch # s) = hex_nat (acc * 16 + (case hex_val ch of None \<Rightarrow> 0 | Some v \<Rightarrow> v)) s"

lemma dropWhile_shorter: "x \<in> set s \<Longrightarrow> length (dropWhile P s) - Suc k < length s"
  using length_dropWhile_le [of P s] by (cases s) (auto simp del: dropWhile.simps)

text \<open>
  The groups of an IPv6 address: the bytes so far, and where the \<open>::\<close> was. A dotted address
  may end it.
\<close>

function ipv6_groups :: "nat list \<Rightarrow> nat option \<Rightarrow> string \<Rightarrow> (nat list \<times> nat option) option" where
  "ipv6_groups acc ell s =
     (if 16 \<le> length acc then (if s = [] then Some (acc, ell) else None)
      else let digits = takeWhile (\<lambda>ch. hex_val ch \<noteq> None) s; rest = dropWhile (\<lambda>ch. hex_val ch \<noteq> None) s
           in if digits = [] \<or> 4 < length digits then None
              else if take 1 rest = ''.''
              then (if (ell = None \<and> length acc \<noteq> 12) \<or> 16 < length acc + 4 then None
                    else case parse_ipv4 s of None \<Rightarrow> None | Some v4 \<Rightarrow> Some (acc @ v4, ell))
              else let v = hex_nat 0 digits; acc1 = acc @ [v div 256, v mod 256]
                   in if rest = [] then Some (acc1, ell)
                      else if take 1 rest \<noteq> '':'' \<or> length rest = 1 then None
                      else if take 1 (tl rest) = '':''
                      then (if ell \<noteq> None then None
                            else if tl (tl rest) = [] then Some (acc1, Some (length acc1))
                            else ipv6_groups acc1 (Some (length acc1)) (tl (tl rest)))
                      else ipv6_groups acc1 ell (tl rest))"
  by pat_completeness auto
termination
  by (relation "measure (\<lambda>(acc, ell, s). length s)") (auto intro: dropWhile_shorter)

declare ipv6_groups.simps [simp del]

definition parse_ipv6 :: "string \<Rightarrow> nat list option" where
  "parse_ipv6 s =
     (case (if take 2 s = ''::'' then (if drop 2 s = [] then Some ([], Some 0) else ipv6_groups [] (Some 0) (drop 2 s))
            else ipv6_groups [] None s) of None \<Rightarrow> None
      | Some (b, ell) \<Rightarrow>
          if length b < 16
          then (case ell of None \<Rightarrow> None | Some k \<Rightarrow> Some (take k b @ replicate (16 - length b) 0 @ drop k b))
          else if ell = None then Some b else None)"

definition v4_in_v6 :: "nat list" where "v4_in_v6 = replicate 10 0 @ [255, 255]"

text \<open>\<open>net.ParseIP\<close> gives the 16 bytes of the address; a zone is refused.\<close>

definition ParseIP :: "string \<Rightarrow> nat list option" where
  "ParseIP s =
     (case take 1 (dropWhile (\<lambda>ch. ch \<notin> {CHR ''.'', CHR '':'', CHR ''%''}) s) of
        [] \<Rightarrow> None
      | ch # _ \<Rightarrow> if ch = CHR ''.'' then map_option ((@) v4_in_v6) (parse_ipv4 s)
          else if ch = CHR '':'' then parse_ipv6 s else None)"

definition IsLoopback :: "nat list \<Rightarrow> bool" where
  "IsLoopback b = (if take 12 b = v4_in_v6 then b ! 12 = 127 else b = replicate 15 0 @ [1])"

section \<open>Address checks of the node\<close>

datatype addr_error = BadSplit split_error | AddrMissingPort | BadPort | BadHost

definition alnum :: "char \<Rightarrow> bool" where
  "alnum ch \<longleftrightarrow> (97 \<le> (of_char ch :: nat) \<and> (of_char ch :: nat) \<le> 122) \<or> (65 \<le> (of_char ch :: nat) \<and> (of_char ch :: nat) \<le> 90)
     \<or> is_digit ch"

definition valid_label :: "string \<Rightarrow> bool" where
  "valid_label l \<longleftrightarrow> l \<noteq> [] \<and> (\<forall>ch \<in> set l. alnum ch \<or> ch = CHR ''-'') \<and> hd l \<noteq> CHR ''-'' \<and> last l \<noteq> CHR ''-''"

definition isValidHostname :: "string \<Rightarrow> bool" where
  "isValidHostname host \<longleftrightarrow> host = [] \<or> (\<forall>l \<in> set (split_on (CHR ''.'') host). valid_label l)"

definition validateTCPAddress :: "string \<Rightarrow> addr_error + string" where
  "validateTCPAddress addr =
     (case SplitHostPort (trim_space addr) of Inl err \<Rightarrow> Inl (BadSplit err)
      | Inr (host, port) \<Rightarrow>
          if port = [] then Inl AddrMissingPort
          else case Atoi port of None \<Rightarrow> Inl BadPort
            | Some p \<Rightarrow>
                if p < 1 \<or> 65535 < p then Inl BadPort
                else if host \<noteq> [] \<and> ParseIP host = None \<and> \<not> isValidHostname host then Inl BadHost
                else Inr (JoinHostPort host (fmt_int p)))"

definition sameSocket :: "string \<Rightarrow> string \<Rightarrow> bool" where
  "sameSocket a b \<longleftrightarrow> (case (validateTCPAddress a, validateTCPAddress b) of
     (Inr an, Inr bn) \<Rightarrow> an = bn | _ \<Rightarrow> False)"

definition isLoopbackHTTPListen :: "string \<Rightarrow> bool" where
  "isLoopbackHTTPListen addr =
     (case SplitHostPort (trim_space addr) of Inl _ \<Rightarrow> False
      | Inr (host, _) \<Rightarrow> trim_space host = ''localhost'' \<or>
          (case ParseIP (trim_space host) of None \<Rightarrow> False | Some ip \<Rightarrow> IsLoopback ip))"

definition resolveHTTPSurfaceEnabled :: "bool option \<Rightarrow> string \<Rightarrow> bool" where
  "resolveHTTPSurfaceEnabled override httpListen =
     (case override of Some b \<Rightarrow> b | None \<Rightarrow> isLoopbackHTTPListen httpListen)"

definition httpHostForListen :: "string \<Rightarrow> string \<Rightarrow> string" where
  "httpHostForListen httpListen fallbackHost =
     (case SplitHostPort (trim_space httpListen) of
        Inr (h, _) \<Rightarrow> if trim_space h \<noteq> [] then trim_space h
          else if trim_space fallbackHost \<noteq> [] then trim_space fallbackHost else ''127.0.0.1''
      | Inl _ \<Rightarrow> if trim_space fallbackHost \<noteq> [] then trim_space fallbackHost else ''127.0.0.1'')"

definition lower_char :: "char \<Rightarrow> char" where
  "lower_char ch = (if 65 \<le> (of_char ch :: nat) \<and> (of_char ch :: nat) \<le> 90 then char_of ((of_char ch :: nat) + 32) else ch)"

text \<open>Lower case is only compared with an ASCII name, so the ASCII letters suffice.\<close>

definition normalizeHost :: "string \<Rightarrow> string" where
  "normalizeHost h0 =
     (let h = trim_space h0
      in if h = [] then h
         else if map lower_char h = ''localhost'' then ''127.0.0.1''
         else if h = ''0.0.0.0'' \<or> h = ''::'' then []
         else if h = ''::1'' then ''127.0.0.1'' else h)"

definition splitHostPortLoose :: "string \<Rightarrow> (string \<times> string) option" where
  "splitHostPortLoose addr0 =
     (let addr = trim_space addr0
      in if addr = [] then None
         else case SplitHostPort addr of Inl _ \<Rightarrow> None
           | Inr (h, p) \<Rightarrow> Some (normalizeHost h, trim_space p))"

definition equivalentPeerAddr :: "string \<Rightarrow> string \<Rightarrow> bool" where
  "equivalentPeerAddr a b =
     (case (splitHostPortLoose a, splitHostPortLoose b) of
        (Some (ha, pa), Some (hb, pb)) \<Rightarrow>
          if pa = [] \<or> pb = [] \<or> pa \<noteq> pb then False
          else if ha = [] \<or> hb = [] then True else ha = hb
      | _ \<Rightarrow> trim_space a = trim_space b)"

section \<open>Lemmas\<close>

lemma split_last_colon_Some:
  "split_last_colon s = Some (h, p) \<longleftrightarrow> s = h @ CHR '':'' # p \<and> CHR '':'' \<notin> set p"
proof
  assume "split_last_colon s = Some (h, p)"
  then have c: "CHR '':'' \<in> set s" and p: "p = rev (takeWhile (\<lambda>ch. ch \<noteq> CHR '':'') (rev s))"
    and h: "h = take (length s - length p - 1) s"
    by (auto simp: split_last_colon_def Let_def split: if_splits)
  let ?d = "dropWhile (\<lambda>ch. ch \<noteq> CHR '':'') (rev s)"
  have d: "?d \<noteq> []" "hd ?d = CHR '':''"
    using c hd_dropWhile [of "\<lambda>ch. ch \<noteq> CHR '':''" "rev s"] by auto
  have "rev s = takeWhile (\<lambda>ch. ch \<noteq> CHR '':'') (rev s) @ CHR '':'' # tl ?d"
    using d by (metis list.collapse takeWhile_dropWhile_id)
  then have s: "s = rev (tl ?d) @ CHR '':'' # p" unfolding p
    by (metis append.assoc append_Cons append_Nil rev.simps(2) rev_append rev_rev_ident)
  have "length s - length p - 1 = length (rev (tl ?d))" by (subst s) simp
  then have "h = take (length (rev (tl ?d))) (rev (tl ?d) @ CHR '':'' # p)" using h s by metis
  then have "h = rev (tl ?d)" by simp
  then show "s = h @ CHR '':'' # p \<and> CHR '':'' \<notin> set p"
    using s p by (auto dest: set_takeWhileD)
next
  assume s: "s = h @ CHR '':'' # p \<and> CHR '':'' \<notin> set p"
  moreover from s have "\<forall>ch \<in> set (rev p). ch \<noteq> CHR '':''" by auto
  ultimately have "takeWhile (\<lambda>ch. ch \<noteq> CHR '':'') (rev s) = rev p"
    using takeWhile_until [of "rev p" "\<lambda>ch. ch \<noteq> CHR '':''" "CHR '':''" "rev h"] by simp
  then show "split_last_colon s = Some (h, p)" using s by (simp add: split_last_colon_def)
qed

text \<open>\<open>JoinHostPort\<close> is undone by \<open>SplitHostPort\<close> on anything \<open>SplitHostPort\<close> returns.\<close>

definition port_free :: "string \<Rightarrow> bool" where
  "port_free s \<longleftrightarrow> CHR ''['' \<notin> set s \<and> CHR '']'' \<notin> set s"

lemma split_join:
  assumes "port_free h" and "port_free p" and "CHR '':'' \<notin> set p"
  shows "SplitHostPort (JoinHostPort h p) = Inr (h, p)"
proof (cases "CHR '':'' \<in> set h")
  case False
  then have j: "JoinHostPort h p = h @ CHR '':'' # p" by (simp add: JoinHostPort_def)
  have "split_last_colon (h @ CHR '':'' # p) = Some (h, p)" using assms(3) by (simp add: split_last_colon_Some)
  moreover have "take 1 (h @ CHR '':'' # p) \<noteq> ''[''" using assms(1) by (cases h) (auto simp: port_free_def)
  ultimately show ?thesis using False assms by (simp add: j SplitHostPort_def port_free_def)
next
  case True
  let ?s = "''['' @ h @ '']:'' @ p"
  have j: "JoinHostPort h p = ?s" using True by (simp add: JoinHostPort_def)
  have "split_last_colon ?s = Some (CHR ''['' # h @ '']'', p)" using assms(3) by (simp add: split_last_colon_Some)
  moreover have "takeWhile (\<lambda>ch. ch \<noteq> CHR '']'') (h @ '']:'' @ p) = h"
    "dropWhile (\<lambda>ch. ch \<noteq> CHR '']'') (h @ '']:'' @ p) = '']:'' @ p"
    using assms(1) by (auto simp: port_free_def takeWhile_append dropWhile_append)
  ultimately show ?thesis using assms by (simp add: j SplitHostPort_def port_free_def)
qed

lemma split_port_free: "SplitHostPort s = Inr (h, p) \<Longrightarrow> port_free h"
proof -
  assume sp: "SplitHostPort s = Inr (h, p)"
  then obtain b where b: "split_last_colon s = Some (b, p)"
    by (auto simp: SplitHostPort_def Let_def split: option.splits if_splits)
  then have s: "s = b @ CHR '':'' # p" by (simp add: split_last_colon_Some)
  show "port_free h"
  proof (cases "take 1 s = ''[''")
    case True
    then have "h = takeWhile (\<lambda>ch. ch \<noteq> CHR '']'') (tl s)" "CHR ''['' \<notin> set (tl s)"
      using sp b by (auto simp: SplitHostPort_def Let_def split: if_splits)
    then show ?thesis by (auto simp: port_free_def dest: set_takeWhileD)
  next
    case False
    then have "h = b" "CHR ''['' \<notin> set s" "CHR '']'' \<notin> set s"
      using sp b by (auto simp: SplitHostPort_def Let_def split: if_splits)
    then show ?thesis by (simp add: port_free_def s)
  qed
qed

lemma fmt_int_port: "0 \<le> i \<Longrightarrow> port_free (fmt_int i) \<and> CHR '':'' \<notin> set (fmt_int i)"
  using fmt_nat_digits [of "nat i"] by (auto simp: fmt_int_def port_free_def is_digit_def)

lemma Atoi_fmt: "0 \<le> i \<Longrightarrow> i < 2 ^ 63 \<Longrightarrow> Atoi (fmt_int i) = Some i"
proof -
  assume i: "0 \<le> i" "i < 2 ^ 63"
  have "is_digit (hd (fmt_int i))" using i fmt_nat_hd [of "nat i"] by (simp add: fmt_int_def)
  then have "take 1 (fmt_int i) \<noteq> ''-''" "take 1 (fmt_int i) \<noteq> ''+''"
    by (cases "fmt_int i"; auto simp: is_digit_def)+
  moreover have "parse_nat (fmt_int i) = Some (nat i)" using i by (simp add: fmt_int_def parse_fmt_nat)
  ultimately show ?thesis using i by (simp add: Atoi_def)
qed

lemma trim_space_id: "s \<noteq> [] \<Longrightarrow> \<not> is_space (hd s) \<Longrightarrow> \<not> is_space (last s) \<Longrightarrow> trim_space s = s"
  by (simp add: trim_space_def dropWhile_id hd_rev)

lemma split_on_first: "ch \<noteq> d \<Longrightarrow> \<exists>x xs. split_on d (ch # s) = (ch # x) # xs"
  by (cases "split_on d s") auto

lemma alnum_not_space: "alnum ch \<Longrightarrow> \<not> is_space ch" "is_digit ch \<Longrightarrow> \<not> is_space ch"
  by (auto simp: alnum_def is_digit_def is_space_def)

lemma ParseIP_v4:
  assumes "ParseIP host \<noteq> None" and "CHR '':'' \<notin> set host"
  shows "parse_ipv4 host \<noteq> None"
proof -
  let ?d = "dropWhile (\<lambda>ch. ch \<notin> {CHR ''.'', CHR '':'', CHR ''%''}) host"
  have "ParseIP host = None" if "?d = []" by (simp only: ParseIP_def that) simp
  then obtain ch r where d: "?d = ch # r" using assms(1) by (cases ?d) blast+
  then have "ch \<in> set host" by (metis list.set_intros(1) set_dropWhileD)
  then have "ch \<noteq> CHR '':''" using assms(2) by auto
  moreover have "ParseIP host = (if ch = CHR ''.'' then map_option ((@) v4_in_v6) (parse_ipv4 host)
      else if ch = CHR '':'' then parse_ipv6 host else None)"
    unfolding ParseIP_def d by simp
  ultimately show ?thesis using assms(1) by (cases "ch = CHR ''.''") simp_all
qed

lemma host_hd:
  assumes "host \<noteq> []" and "CHR '':'' \<notin> set host" and "ParseIP host \<noteq> None \<or> isValidHostname host"
  shows "\<not> is_space (hd host)"
proof -
  obtain ch rest where h: "host = ch # rest" using assms(1) by (cases host) auto
  consider (ip) "parse_ipv4 host \<noteq> None" | (name) "isValidHostname host"
    using assms(2,3) ParseIP_v4 by blast
  then show ?thesis
  proof cases
    case ip
    then have f: "\<forall>x \<in> set (split_on (CHR ''.'') host). ipv4_field x \<noteq> None"
      by (auto simp: parse_ipv4_def Let_def split: if_splits)
    moreover have "ch = CHR ''.'' \<Longrightarrow> [] \<in> set (split_on (CHR ''.'') host)" using h by simp
    moreover have "ipv4_field [] = None" by (simp add: ipv4_field_def parse_nat_def)
    ultimately have "ch \<noteq> CHR ''.''" by blast
    then obtain x xs where "split_on (CHR ''.'') host = (ch # x) # xs" using split_on_first h by metis
    then have "ipv4_field (ch # x) \<noteq> None" using f by simp
    then have "is_digit ch" by (auto simp: ipv4_field_def parse_nat_def split: if_splits option.splits)
    then show ?thesis using h alnum_not_space by simp
  next
    case name
    then have f: "\<forall>x \<in> set (split_on (CHR ''.'') host). valid_label x"
      using assms(1) by (simp add: isValidHostname_def)
    moreover have "ch = CHR ''.'' \<Longrightarrow> [] \<in> set (split_on (CHR ''.'') host)" using h by simp
    moreover have "\<not> valid_label []" by (simp add: valid_label_def)
    ultimately have "ch \<noteq> CHR ''.''" by blast
    then obtain x xs where "split_on (CHR ''.'') host = (ch # x) # xs" using split_on_first h by metis
    then have "valid_label (ch # x)" using f by simp
    then have "alnum ch" unfolding valid_label_def by simp blast
    then show ?thesis using h alnum_not_space(1) by simp
  qed
qed

lemma joined_trim:
  assumes "host = [] \<or> CHR '':'' \<in> set host \<or> \<not> is_space (hd host)" and "0 \<le> p"
  shows "trim_space (JoinHostPort host (fmt_int p)) = JoinHostPort host (fmt_int p)"
proof (rule trim_space_id)
  have "is_digit (last (fmt_int p))"
    using assms(2) fmt_nat_digits [of "nat p"] by (simp add: fmt_int_def)
  then show "\<not> is_space (last (JoinHostPort host (fmt_int p)))"
    using alnum_not_space by (simp add: JoinHostPort_def)
  show "\<not> is_space (hd (JoinHostPort host (fmt_int p)))"
    using assms(1) by (cases host) (auto simp: JoinHostPort_def is_space_def)
qed (simp add: JoinHostPort_def)

lemma validateTCP_Inr:
  assumes "validateTCPAddress a = Inr n"
  obtains host p where "n = JoinHostPort host (fmt_int p)" "1 \<le> p" "p \<le> 65535" "port_free host"
    "host = [] \<or> ParseIP host \<noteq> None \<or> isValidHostname host"
proof -
  obtain host port p where "SplitHostPort (trim_space a) = Inr (host, port)" "Atoi port = Some p"
    "1 \<le> p" "p \<le> 65535" "host = [] \<or> ParseIP host \<noteq> None \<or> isValidHostname host"
    "n = JoinHostPort host (fmt_int p)"
    using assms by (auto simp: validateTCPAddress_def not_less split: sum.splits option.splits if_splits)
  with split_port_free show thesis by (intro that) auto
qed

lemma canonical_form:
  assumes "validateTCPAddress a = Inr n"
  shows "validateTCPAddress n = Inr n \<and> (\<exists>host p. SplitHostPort n = Inr (host, fmt_int p) \<and> 1 \<le> p \<and> p \<le> 65535)"
proof (rule validateTCP_Inr [OF assms])
  fix host p
  assume n: "n = JoinHostPort host (fmt_int p)" and p: "1 \<le> p" "p \<le> 65535" and pf: "port_free host"
    and host: "host = [] \<or> ParseIP host \<noteq> None \<or> isValidHostname host"
  have sp: "SplitHostPort n = Inr (host, fmt_int p)"
    unfolding n using split_join [OF pf] fmt_int_port [of p] p by simp
  have "trim_space n = n"
    unfolding n by (rule joined_trim) (use host host_hd p in auto)
  moreover have "Atoi (fmt_int p) = Some p" using p by (intro Atoi_fmt) auto
  ultimately have "validateTCPAddress n = Inr n" using sp p host by (auto simp: validateTCPAddress_def n)
  with sp p show ?thesis by blast
qed

section \<open>Properties\<close>

text \<open>
  C31 (roundtrip): what the address check returns is canonical: checked again it comes back
  unchanged, and it splits into a host and a port between 1 and 65535 in plain decimal.
\<close>

theorem validated_address_is_canonical:
  assumes "validateTCPAddress a = Inr n"
  shows "validateTCPAddress n = Inr n \<and> (\<exists>host p. SplitHostPort n = Inr (host, fmt_int p) \<and> 1 \<le> p \<and> p \<le> 65535)"
  by (rule canonical_form [OF assms])

theorem validated_address_is_canonical_witness:
  "validateTCPAddress '' a:+08 '' = Inr ''a:8'' \<and> validateTCPAddress ''a:8'' = Inr ''a:8''"
proof -
  have "validateTCPAddress '' a:+08 '' = Inr ''a:8''" by code_simp
  from validated_address_is_canonical [OF this] this show ?thesis by blast
qed

end
