(* ===== verification/Config.thy ===== *)
theory Config
  imports Addr "HOL-Library.Finite_Map"
begin

text \<open>
  The configuration of a node (\<open>internal/mesh/config.go\<close>, \<open>bootstrap.go\<close> and the start-up
  helpers of \<open>daemon_bridge.go\<close>): which fields a file must have, how they are trimmed and
  combined, and what a configuration must satisfy to be accepted. The file's JSON is read by
  the library: an operation gets the set of keys of the object and the decoded struct.
\<close>

section \<open>Data\<close>

record mesh_tls =
  Enabled :: bool
  CertFile :: string
  KeyFile :: string
  CAFile :: string

record mesh_config =
  cfTLS :: "mesh_tls option"
  cfNodeID :: string
  cfPersistDir :: string
  cfDataDir :: string
  cfListen :: string
  cfHost :: string
  cfPort :: int
  cfDebug :: string
  cfHttpListen :: string
  cfHttpRateLimitEnabled :: bool
  cfHttpRateLimitRPS :: int
  cfHttpRateLimitBurst :: int
  cfDebugEndpointsEnabled :: "bool option"
  cfAdminEndpointsEnabled :: "bool option"
  cfAllowRuntimePeerMutation :: bool
  cfPeers :: "string list"
  cfPeerAPI :: "(string, string) fmap"
  cfDiscoveryEnabled :: bool
  cfDiscoveryUDPPort :: int
  cfDiscoveryAnnounceEveryMs :: int
  cfDiscoveryLogEveryMs :: int
  cfDiscoveryMaxPeers :: int
  cfDiscoveryAllowCIDR :: string
  cfDiscoveryPersist :: bool
  cfDiscoveryPersistFile :: string
  cfDiscoveryDisableUDP :: bool
  cfDiscoveryLeaderURL :: string
  cfDiscoveryPollEveryMs :: int

datatype config_error = EmptyConfig | MissingField string | LegacyDebugField | BootstrapAsConfig
  | BadBootstrapPeers | ListenAndHostPort | HostPortApart | EmptyField string
  | BadAddress string addr_error | SameListen string | SurfaceNotLoopback string string
  | TLSIncomplete | TLSFiles | EmptyPeer | DuplicatePeer string | SelfPeer string | SelfPeerAPI string
  | UnreadableConfig | UnparsableConfig

section \<open>Required fields\<close>

definition validateRequiredMeshConfigFields :: "string fset \<Rightarrow> config_error option" where
  "validateRequiredMeshConfigFields raw =
     (if raw = {||} then Some EmptyConfig
      else if ''node_id'' |\<notin>| raw then Some (MissingField ''node_id'')
      else if ''http_listen'' |\<notin>| raw
      then (if ''debug'' |\<in>| raw then Some LegacyDebugField else Some (MissingField ''http_listen''))
      else if ''listen'' |\<in>| raw then None
      else if ''host'' |\<notin>| raw then Some (MissingField ''listen or host+port'')
      else if ''port'' |\<notin>| raw then Some (MissingField ''listen or host+port'')
      else None)"

definition isBootstrapConfig :: "string fset \<Rightarrow> bool" where
  "isBootstrapConfig raw \<longleftrightarrow> ''bootstrap_peers'' |\<in>| raw \<and>
     ''node_id'' |\<notin>| raw \<and> ''listen'' |\<notin>| raw \<and> ''http_listen'' |\<notin>| raw"

fun check_bootstrap_entries :: "string list \<Rightarrow> config_error option" where
  "check_bootstrap_entries [] = None"
| "check_bootstrap_entries (peer # peers) =
     (if trim_space peer = [] then Some EmptyPeer
      else case validateTCPAddress (trim_space peer) of Inl err \<Rightarrow> Some (BadAddress ''bootstrap_peer'' err)
        | Inr _ \<Rightarrow> check_bootstrap_entries peers)"

text \<open>The argument is the decoded \<open>bootstrap_peers\<close>, if it is a list of strings.\<close>

definition validateBootstrapConfig :: "string list option \<Rightarrow> config_error option" where
  "validateBootstrapConfig peers =
     (case peers of None \<Rightarrow> Some BadBootstrapPeers | Some ps \<Rightarrow> check_bootstrap_entries ps)"

section \<open>Validation\<close>

definition candidateSelfAddresses :: "mesh_config \<Rightarrow> string fset" where
  "candidateSelfAddresses cfg =
     (case (if cfListen cfg \<noteq> [] then validateTCPAddress (cfListen cfg) else Inl AddrMissingPort) of
        Inr n \<Rightarrow> {|n|} | Inl _ \<Rightarrow> {||}) |\<union>|
     (case (if trim_space (cfHost cfg) \<noteq> [] \<and> cfPort cfg \<noteq> 0
            then validateTCPAddress (JoinHostPort (trim_space (cfHost cfg)) (fmt_int (cfPort cfg)))
            else Inl AddrMissingPort) of
        Inr n \<Rightarrow> {|n|} | Inl _ \<Rightarrow> {||})"

text \<open>
  The certificate files of an enabled TLS section are checked by the TLS library against the
  file system; \<open>tls_files\<close> is that check.
\<close>

definition tls_validate :: "(mesh_tls \<Rightarrow> bool) \<Rightarrow> mesh_tls \<Rightarrow> config_error option" where
  "tls_validate tls_files t =
     (if \<not> Enabled t then None
      else if CertFile t = [] \<or> KeyFile t = [] \<or> CAFile t = [] then Some TLSIncomplete
      else if tls_files t then None else Some TLSFiles)"

fun check_peers :: "string fset \<Rightarrow> string fset \<Rightarrow> string list \<Rightarrow> config_error option" where
  "check_peers selfs seen [] = None"
| "check_peers selfs seen (peer # peers) =
     (let p = trim_space peer
      in if p = [] then Some EmptyPeer
         else case validateTCPAddress p of Inl err \<Rightarrow> Some (BadAddress ''peer'' err)
           | Inr n \<Rightarrow>
               if n |\<in>| seen then Some (DuplicatePeer p)
               else if n |\<in>| selfs then Some (SelfPeer p)
               else check_peers selfs (finsert n seen) peers)"

text \<open>Go visits the map in any order; the model in the order of its keys, which decides the error only.\<close>

fun check_peer_api :: "string fset \<Rightarrow> (string, string) fmap \<Rightarrow> string list \<Rightarrow> config_error option" where
  "check_peer_api selfs m [] = None"
| "check_peer_api selfs m (meshAddr # rest) =
     (case validateTCPAddress (trim_space meshAddr) of Inl err \<Rightarrow> Some (BadAddress ''peer_api mesh address'' err)
      | Inr meshNormalized \<Rightarrow>
          (case validateTCPAddress (trim_space (fmget [] m meshAddr)) of
             Inl err \<Rightarrow> Some (BadAddress ''peer_api api address'' err)
           | Inr _ \<Rightarrow>
               if meshNormalized |\<in>| selfs then Some (SelfPeerAPI meshAddr)
               else check_peer_api selfs m rest))"

definition check_addresses :: "mesh_config \<Rightarrow> config_error option" where
  "check_addresses cfg =
     (if cfNodeID cfg = [] then Some (EmptyField ''node_id'')
      else if cfListen cfg = [] then Some (EmptyField ''listen'')
      else if cfHttpListen cfg = [] then Some (EmptyField ''http_listen'')
      else case validateTCPAddress (cfListen cfg) of Inl err \<Rightarrow> Some (BadAddress ''listen'' err)
        | Inr _ \<Rightarrow>
            (case validateTCPAddress (cfHttpListen cfg) of Inl err \<Rightarrow> Some (BadAddress ''http_listen'' err)
             | Inr _ \<Rightarrow>
                 if sameSocket (cfListen cfg) (cfHttpListen cfg) then Some (SameListen (cfListen cfg))
                 else if \<not> isLoopbackHTTPListen (cfHttpListen cfg)
                 then (if resolveHTTPSurfaceEnabled (cfDebugEndpointsEnabled cfg) (cfHttpListen cfg)
                       then Some (SurfaceNotLoopback ''debug_endpoints_enabled'' (cfHttpListen cfg))
                       else if resolveHTTPSurfaceEnabled (cfAdminEndpointsEnabled cfg) (cfHttpListen cfg)
                       then Some (SurfaceNotLoopback ''admin_endpoints_enabled'' (cfHttpListen cfg))
                       else None)
                 else None))"

definition validateMeshConfig :: "(mesh_tls \<Rightarrow> bool) \<Rightarrow> mesh_config \<Rightarrow> config_error option" where
  "validateMeshConfig tls_files cfg =
     (case check_addresses cfg of Some err \<Rightarrow> Some err
      | None \<Rightarrow>
          (case (case cfTLS cfg of None \<Rightarrow> None | Some t \<Rightarrow> tls_validate tls_files t) of Some err \<Rightarrow> Some err
           | None \<Rightarrow>
               (case check_peers (candidateSelfAddresses cfg) {||} (cfPeers cfg) of Some err \<Rightarrow> Some err
                | None \<Rightarrow> check_peer_api (candidateSelfAddresses cfg) (cfPeerAPI cfg)
                    (sorted_list_of_fset (fmdom (cfPeerAPI cfg))))))"

definition trim_tls :: "mesh_tls \<Rightarrow> mesh_tls" where
  "trim_tls t = t\<lparr>CertFile := trim_space (CertFile t), KeyFile := trim_space (KeyFile t), CAFile := trim_space (CAFile t)\<rparr>"

definition trim_config :: "mesh_config \<Rightarrow> mesh_config" where
  "trim_config cfg = cfg\<lparr>cfNodeID := trim_space (cfNodeID cfg), cfListen := trim_space (cfListen cfg),
     cfHost := trim_space (cfHost cfg), cfDebug := trim_space (cfDebug cfg),
     cfHttpListen := trim_space (cfHttpListen cfg), cfDataDir := trim_space (cfDataDir cfg),
     cfPersistDir := trim_space (cfPersistDir cfg), cfTLS := map_option trim_tls (cfTLS cfg)\<rparr>"

text \<open>The accepted configuration, or the error; the struct is changed in place.\<close>

definition normalizeAndValidateMeshConfig ::
  "(mesh_tls \<Rightarrow> bool) \<Rightarrow> mesh_config \<Rightarrow> string fset \<Rightarrow> mesh_config \<times> config_error option" where
  "normalizeAndValidateMeshConfig tls_files cfg0 raw =
     (let cfg = trim_config cfg0;
          hasListen = ''listen'' |\<in>| raw;
          hasHost = ''host'' |\<in>| raw \<and> cfHost cfg \<noteq> [];
          hasPort = ''port'' |\<in>| raw \<and> cfPort cfg \<noteq> 0
      in if hasListen \<and> hasHost \<and> hasPort then (cfg, Some ListenAndHostPort)
         else if \<not> hasListen \<and> hasHost \<noteq> hasPort then (cfg, Some HostPortApart)
         else let cfg1 = (if hasListen then cfg\<lparr>cfHost := [], cfPort := 0\<rparr> else cfg)
              in if cfDebug cfg1 \<noteq> [] then (cfg1, Some LegacyDebugField)
                 else let cfg2 = (if cfListen cfg1 = [] \<and> cfHost cfg1 \<noteq> [] \<and> cfPort cfg1 \<noteq> 0
                              then cfg1\<lparr>cfListen := JoinHostPort (cfHost cfg1) (fmt_int (cfPort cfg1))\<rparr> else cfg1)
                      in (cfg2, validateMeshConfig tls_files cfg2))"

text \<open>
  \<open>LoadMeshConfig\<close>: the argument is the content of the file, if it could be read; \<open>json_keys\<close>,
  \<open>json_bootstrap\<close> and \<open>json_config\<close> are the decodings by the JSON library of its keys, of its
  \<open>bootstrap_peers\<close> and of the whole struct.
\<close>

record config_codec =
  json_keys :: "string \<Rightarrow> string fset option"
  json_bootstrap :: "string \<Rightarrow> string list option"
  json_config :: "string \<Rightarrow> mesh_config option"
  tls_files :: "mesh_tls \<Rightarrow> bool"

definition LoadMeshConfig :: "config_codec \<Rightarrow> string option \<Rightarrow> config_error + mesh_config" where
  "LoadMeshConfig k content =
     (case content of None \<Rightarrow> Inl UnreadableConfig
      | Some data \<Rightarrow>
          (case json_keys k data of None \<Rightarrow> Inl UnparsableConfig
           | Some raw \<Rightarrow>
               if isBootstrapConfig raw
               then (case validateBootstrapConfig (json_bootstrap k data) of Some err \<Rightarrow> Inl err
                     | None \<Rightarrow> Inl BootstrapAsConfig)
               else case json_config k data of None \<Rightarrow> Inl UnparsableConfig
                 | Some cfg \<Rightarrow>
                     (case validateRequiredMeshConfigFields raw of Some err \<Rightarrow> Inl err
                      | None \<Rightarrow>
                          (case normalizeAndValidateMeshConfig (tls_files k) cfg raw of
                             (cfg1, None) \<Rightarrow> Inr cfg1 | (_, Some err) \<Rightarrow> Inl err))))"

section \<open>Start-up peers\<close>

datatype peer_list_error = PlEmptyEntry nat | PlBadAddress addr_error | PlDuplicate string | PlSelf string
  | PlPathEmpty | PlUnreadable | PlUnparsable

fun normalize_entries :: "string fset \<Rightarrow> nat \<Rightarrow> string fset \<Rightarrow> string list \<Rightarrow> peer_list_error + string list" where
  "normalize_entries selfs i seen [] = Inr []"
| "normalize_entries selfs i seen (peer # peers) =
     (let p = trim_space peer
      in if p = [] then Inl (PlEmptyEntry i)
         else case validateTCPAddress p of Inl err \<Rightarrow> Inl (PlBadAddress err)
           | Inr n \<Rightarrow>
               if n |\<in>| seen then Inl (PlDuplicate p)
               else if n |\<in>| selfs then Inl (PlSelf p)
               else map_sum id (Cons n) (normalize_entries selfs (i + 1) (finsert n seen) peers))"

definition normalizeBootstrapPeers :: "string list \<Rightarrow> string fset \<Rightarrow> peer_list_error + string list" where
  "normalizeBootstrapPeers peers selfAddrs = map_sum id sort (normalize_entries selfAddrs 0 {||} peers)"

text \<open>No file counts as an empty list.\<close>

definition loadBootstrapPeersFromFile ::
  "(string \<Rightarrow> string list option) \<Rightarrow> string \<Rightarrow> (bool + string) \<Rightarrow> string fset \<Rightarrow> peer_list_error + string list" where
  "loadBootstrapPeersFromFile json p content selfAddrs =
     (if trim_space p = [] then Inl PlPathEmpty
      else case content of Inl notExist \<Rightarrow> if notExist then Inr [] else Inl PlUnreadable
        | Inr data \<Rightarrow> (case json data of None \<Rightarrow> Inl PlUnparsable
            | Some peers \<Rightarrow> normalizeBootstrapPeers peers selfAddrs))"

fun peer_set :: "string fset \<Rightarrow> string list \<Rightarrow> addr_error + string fset" where
  "peer_set acc [] = Inr acc"
| "peer_set acc (p # ps) =
     (if trim_space p = [] then peer_set acc ps
      else case validateTCPAddress (trim_space p) of Inl err \<Rightarrow> Inl err
        | Inr n \<Rightarrow> peer_set (finsert n acc) ps)"

definition buildStartupPeerSet :: "string list \<Rightarrow> string list \<Rightarrow> addr_error + string fset" where
  "buildStartupPeerSet configPeers bootstrapPeers = peer_set {||} (configPeers @ bootstrapPeers)"

text \<open>Two spellings of one mesh address: Go keeps whichever it visits last, the model the last key.\<close>

definition normalizePeerAPIMap :: "(string, string) fmap \<Rightarrow> (string, string) fmap" where
  "normalizePeerAPIMap m = fold (\<lambda>meshAddr out.
     case (validateTCPAddress (trim_space meshAddr), validateTCPAddress (trim_space (fmget [] m meshAddr))) of
       (Inr mn, Inr an) \<Rightarrow> fmupd mn an out | _ \<Rightarrow> out) (sorted_list_of_fset (fmdom m)) fmempty"

section \<open>Lemmas\<close>

lemma validate_trim [simp]: "validateTCPAddress (trim_space a) = validateTCPAddress a"
  by (simp add: validateTCPAddress_def)

lemma validated_nonempty: "validateTCPAddress a = Inr n \<Longrightarrow> trim_space n \<noteq> []"
  using canonical_form [of a n] by (auto simp: validateTCPAddress_def SplitHostPort_def split_last_colon_def)

text \<open>The canonical forms of a list of addresses that passed a check.\<close>

definition canonical :: "string list \<Rightarrow> string list \<Rightarrow> bool" where
  "canonical ps ns \<longleftrightarrow> map validateTCPAddress ps = map Inr ns"

lemma canonical_simps [simp]: "canonical [] ns \<longleftrightarrow> ns = []"
  "canonical (p # ps) ns \<longleftrightarrow> (\<exists>m ms. ns = m # ms \<and> validateTCPAddress p = Inr m \<and> canonical ps ms)"
  by (auto simp: canonical_def Cons_eq_map_conv)

lemma check_peers_None:
  "check_peers selfs seen ps = None \<Longrightarrow> \<exists>ns. canonical ps ns \<and> distinct ns \<and>
     (\<forall>n \<in> set ns. n |\<notin>| selfs \<and> n |\<notin>| seen)"
proof (induction ps arbitrary: seen)
  case (Cons p ps)
  from Cons.prems obtain n where n: "validateTCPAddress p = Inr n" "n |\<notin>| seen" "n |\<notin>| selfs"
    and rest: "check_peers selfs (finsert n seen) ps = None"
    by (auto simp: Let_def split: if_splits sum.splits)
  from Cons.IH [OF rest] obtain ns where "canonical ps ns" "distinct ns"
    "\<forall>m \<in> set ns. m |\<notin>| selfs \<and> m |\<notin>| finsert n seen" by blast
  with n show ?case by (intro exI [of _ "n # ns"]) auto
qed simp

lemma normalize_entries_Inr:
  "normalize_entries selfs i seen ps = Inr ns \<Longrightarrow> canonical ps ns \<and> distinct ns \<and>
     (\<forall>n \<in> set ns. n |\<notin>| selfs \<and> n |\<notin>| seen)"
proof (induction ps arbitrary: i seen ns)
  case (Cons p ps)
  from Cons.prems obtain n ms where n: "validateTCPAddress p = Inr n" "n |\<notin>| seen" "n |\<notin>| selfs" "ns = n # ms"
    and rest: "normalize_entries selfs (i + 1) (finsert n seen) ps = Inr ms"
    by (cases "normalize_entries selfs (i + 1) (finsert (projr (validateTCPAddress p)) seen) ps")
      (auto simp: Let_def split: if_splits sum.splits)
  from Cons.IH [OF rest] n show ?case by auto
qed simp

lemma peer_set_canonical: "canonical ps ns \<Longrightarrow> peer_set acc ps = Inr (acc |\<union>| fset_of_list ns)"
proof (induction ps arbitrary: acc ns)
  case (Cons p ps)
  then obtain m ms where m: "ns = m # ms" "validateTCPAddress p = Inr m" "canonical ps ms" by auto
  then have "trim_space p \<noteq> []" by (auto simp: validateTCPAddress_def SplitHostPort_def split_last_colon_def)
  then show ?case using m Cons.IH [OF m(3), of "finsert m acc"] by simp
qed simp

lemma canonical_self:
  assumes "canonical ps ns"
  shows "canonical ns ns"
proof -
  have "validateTCPAddress n = Inr n" if "n \<in> set ns" for n
  proof -
    have "Inr n \<in> set (map validateTCPAddress ps)" using assms that by (auto simp: canonical_def)
    then show ?thesis using canonical_form by fastforce
  qed
  then show ?thesis by (simp add: canonical_def)
qed

lemma normalized_checked:
  assumes "normalizeAndValidateMeshConfig tf cfg0 raw = (cfg, None)"
  shows "validateMeshConfig tf cfg = None"
  using assms by (auto simp: normalizeAndValidateMeshConfig_def Let_def split: if_splits)

lemma validate_None:
  assumes "validateMeshConfig tf cfg = None"
  shows "check_addresses cfg = None" "check_peers (candidateSelfAddresses cfg) {||} (cfPeers cfg) = None"
  using assms by (simp_all add: validateMeshConfig_def split: option.splits)

lemma LoadMeshConfig_Inr:
  assumes "LoadMeshConfig k content = Inr cfg"
  shows "validateMeshConfig (tls_files k) cfg = None"
  using assms by (auto simp: LoadMeshConfig_def dest: normalized_checked
      split: option.splits if_splits prod.splits)

lemma public_surfaces:
  assumes "LoadMeshConfig k content = Inr cfg" and "\<not> isLoopbackHTTPListen (cfHttpListen cfg)"
  shows "\<not> resolveHTTPSurfaceEnabled (cfDebugEndpointsEnabled cfg) (cfHttpListen cfg)"
    "\<not> resolveHTTPSurfaceEnabled (cfAdminEndpointsEnabled cfg) (cfHttpListen cfg)"
  using validate_None(1) [OF LoadMeshConfig_Inr [OF assms(1)]] assms(2)
  by (auto simp: check_addresses_def split: if_splits sum.splits)

section \<open>Properties\<close>

lemma canonical_members:
  "canonical ps ns \<Longrightarrow> n \<in> set ns \<longleftrightarrow> (\<exists>p \<in> set ps. validateTCPAddress p = Inr n)"
  by (induction ps arbitrary: ns) auto

lemma canonical_valid: "canonical ps ns \<Longrightarrow> p \<in> set ps \<Longrightarrow> \<exists>n. validateTCPAddress p = Inr n"
  by (induction ps arbitrary: ns) auto

text \<open>The entries of the bootstrap file; a missing one has none.\<close>

definition listed_peers :: "(string \<Rightarrow> string list option) \<Rightarrow> bool + string \<Rightarrow> string list" where
  "listed_peers json content = (case content of Inl _ \<Rightarrow> [] | Inr data \<Rightarrow> (case json data of None \<Rightarrow> [] | Some ps \<Rightarrow> ps))"

lemma loaded_bootstrap:
  assumes "loadBootstrapPeersFromFile json path content selfs = Inr boot"
  obtains bs where "canonical (listed_peers json content) bs" "boot = sort bs" "\<forall>n \<in> set bs. n |\<notin>| selfs"
proof (cases "listed_peers json content = []")
  case True
  have "boot = []"
    using assms True by (auto simp: loadBootstrapPeersFromFile_def normalizeBootstrapPeers_def listed_peers_def
        split: if_splits sum.splits option.splits)
  then show ?thesis using that [of "[]"] True by simp
next
  case False
  then obtain bs where bs: "normalize_entries selfs 0 {||} (listed_peers json content) = Inr bs" "boot = sort bs"
    using assms by (auto simp: loadBootstrapPeersFromFile_def normalizeBootstrapPeers_def listed_peers_def map_sum_def
        split: if_splits sum.splits option.splits)
  then show ?thesis using that [of bs] normalize_entries_Inr [OF bs(1)] by blast
qed

lemma startup_peer_set:
  assumes "LoadMeshConfig k content = Inr cfg"
    and "loadBootstrapPeersFromFile json path bcontent (candidateSelfAddresses cfg) = Inr boot"
  shows "\<exists>S. buildStartupPeerSet (cfPeers cfg) boot = Inr S \<and>
    (\<forall>p \<in> set (cfPeers cfg @ listed_peers json bcontent). \<exists>n. validateTCPAddress p = Inr n) \<and>
    (\<forall>n. n |\<in>| S \<longleftrightarrow> (\<exists>p \<in> set (cfPeers cfg @ listed_peers json bcontent). validateTCPAddress p = Inr n)) \<and>
    (\<forall>n. n |\<in>| S \<longrightarrow> validateTCPAddress n = Inr n) \<and> S |\<inter>| candidateSelfAddresses cfg = {||}"
proof -
  let ?ps = "cfPeers cfg @ listed_peers json bcontent"
  obtain ns where ns: "canonical (cfPeers cfg) ns" "\<forall>n \<in> set ns. n |\<notin>| candidateSelfAddresses cfg"
    using check_peers_None [OF validate_None(2) [OF LoadMeshConfig_Inr [OF assms(1)]]] by blast
  obtain bs where bs: "canonical (listed_peers json bcontent) bs" "boot = sort bs" "\<forall>n \<in> set bs. n |\<notin>| candidateSelfAddresses cfg"
    by (rule loaded_bootstrap [OF assms(2)])
  have all: "canonical ?ps (ns @ bs)" using ns(1) bs(1) by (simp add: canonical_def)
  note self = canonical_self [OF all]
  have "canonical boot boot" using canonical_self [OF bs(1)] bs(2) by (auto simp: canonical_def map_eq_conv)
  then have "canonical (cfPeers cfg @ boot) (ns @ boot)" using ns(1) by (simp add: canonical_def)
  from peer_set_canonical [OF this, of "{||}"]
  moreover have "fset_of_list (ns @ boot) = fset_of_list (ns @ bs)" by (auto simp: fset_of_list_elem bs(2))
  ultimately have "buildStartupPeerSet (cfPeers cfg) boot = Inr (fset_of_list (ns @ bs))"
    by (simp add: buildStartupPeerSet_def)
  moreover have "\<forall>n \<in> set (ns @ bs). validateTCPAddress n = Inr n \<and> n |\<notin>| candidateSelfAddresses cfg"
    using self ns(2) bs(3) by (auto simp: canonical_def map_eq_conv)
  moreover have "\<forall>p \<in> set ?ps. \<exists>n. validateTCPAddress p = Inr n" using canonical_valid [OF all] by blast
  ultimately show ?thesis using canonical_members [OF all]
    by (intro exI [of _ "fset_of_list (ns @ bs)"]) (auto simp: fset_of_list_elem simp del: fset_of_list_append set_append)
qed

text \<open>
  C32 (safety): the peers a node starts with. With an accepted configuration and a bootstrap file
  that loads, building their set cannot fail; the set holds the canonical form of every address
  of the configuration and of the file and nothing else; and none of them is an address of the
  node itself, in whatever spelling it was configured.
\<close>

theorem startup_peers_exclude_self:
  assumes "LoadMeshConfig k content = Inr cfg"
    and "loadBootstrapPeersFromFile json path bcontent (candidateSelfAddresses cfg) = Inr boot"
  shows "\<exists>S. buildStartupPeerSet (cfPeers cfg) boot = Inr S \<and>
    (\<forall>p \<in> set (cfPeers cfg @ listed_peers json bcontent). \<exists>n. validateTCPAddress p = Inr n) \<and>
    (\<forall>n. n |\<in>| S \<longleftrightarrow> (\<exists>p \<in> set (cfPeers cfg @ listed_peers json bcontent). validateTCPAddress p = Inr n)) \<and>
    (\<forall>n. n |\<in>| S \<longrightarrow> validateTCPAddress n = Inr n) \<and> S |\<inter>| candidateSelfAddresses cfg = {||}"
  by (rule startup_peer_set [OF assms])

section \<open>Witnesses\<close>

definition sample_config :: mesh_config where
  "sample_config = \<lparr>cfTLS = None, cfNodeID = ''n'', cfPersistDir = [], cfDataDir = [], cfListen = ''a:1'',
     cfHost = [], cfPort = 0, cfDebug = [], cfHttpListen = ''b:2'', cfHttpRateLimitEnabled = True,
     cfHttpRateLimitRPS = 25, cfHttpRateLimitBurst = 50, cfDebugEndpointsEnabled = None,
     cfAdminEndpointsEnabled = None, cfAllowRuntimePeerMutation = False, cfPeers = [''c:3''],
     cfPeerAPI = fmempty, cfDiscoveryEnabled = False, cfDiscoveryUDPPort = 0,
     cfDiscoveryAnnounceEveryMs = 0, cfDiscoveryLogEveryMs = 0, cfDiscoveryMaxPeers = 0,
     cfDiscoveryAllowCIDR = [], cfDiscoveryPersist = False, cfDiscoveryPersistFile = [],
     cfDiscoveryDisableUDP = False, cfDiscoveryLeaderURL = [], cfDiscoveryPollEveryMs = 0\<rparr>"

definition sample_codec :: config_codec where
  "sample_codec = \<lparr>json_keys = (\<lambda>_. Some {|''node_id'', ''listen'', ''http_listen''|}),
     json_bootstrap = (\<lambda>_. None), json_config = (\<lambda>_. Some sample_config), tls_files = (\<lambda>_. False)\<rparr>"

lemma sample_addresses [simp]:
  "validateTCPAddress ''a:1'' = Inr ''a:1''" "validateTCPAddress ''b:2'' = Inr ''b:2''"
  "validateTCPAddress ''c:3'' = Inr ''c:3''" "isLoopbackHTTPListen ''b:2'' = False"
  "trim_space ''n'' = ''n''" "trim_space ''a:1'' = ''a:1''" "trim_space ''b:2'' = ''b:2''" "trim_space ''c:3'' = ''c:3''"
  by code_simp+

lemma sample_config_loads_with: "LoadMeshConfig (sample_codec\<lparr>tls_files := f\<rparr>) (Some ''{}'') = Inr sample_config"
proof -
  have t: "trim_config sample_config = sample_config"
    by (simp add: trim_config_def sample_config_def)
  have "check_addresses sample_config = None"
    by (simp add: check_addresses_def sameSocket_def resolveHTTPSurfaceEnabled_def sample_config_def)
  moreover have "candidateSelfAddresses sample_config = {|''a:1''|}"
    by (simp add: candidateSelfAddresses_def sample_config_def)
  ultimately have "validateMeshConfig tf sample_config = None" for tf
    by (simp add: validateMeshConfig_def) (simp add: sample_config_def Let_def sorted_list_of_fset.rep_eq)
  then have "normalizeAndValidateMeshConfig tf sample_config {|''node_id'', ''listen'', ''http_listen''|} = (sample_config, None)" for tf
    by (simp add: normalizeAndValidateMeshConfig_def t) (simp add: sample_config_def)
  then show ?thesis
    by (simp add: LoadMeshConfig_def sample_codec_def isBootstrapConfig_def validateRequiredMeshConfigFields_def)
qed

lemma sample_config_loads: "LoadMeshConfig sample_codec (Some ''{}'') = Inr sample_config"
proof -
  have "sample_codec\<lparr>tls_files := tls_files sample_codec\<rparr> = sample_codec" by simp
  then show ?thesis using sample_config_loads_with [of "tls_files sample_codec"] by simp
qed

theorem startup_peers_exclude_self_witness:
  "\<exists>boot S. loadBootstrapPeersFromFile (\<lambda>_. Some ['' d:4'', ''e:5'']) ''n'' (Inr ''[]'') (candidateSelfAddresses sample_config) = Inr boot \<and>
     buildStartupPeerSet (cfPeers sample_config) boot = Inr S \<and> ''c:3'' |\<in>| S \<and> ''d:4'' |\<in>| S \<and> ''a:1'' |\<notin>| S"
proof -
  let ?json = "\<lambda>_ :: string. Some ['' d:4'', ''e:5'']"
  have selfs: "candidateSelfAddresses sample_config = {|''a:1''|}" by (simp add: candidateSelfAddresses_def sample_config_def)
  have v: "validateTCPAddress '' d:4'' = Inr ''d:4''" "validateTCPAddress ''d:4'' = Inr ''d:4''"
    "validateTCPAddress ''e:5'' = Inr ''e:5''" "trim_space '' d:4'' = ''d:4''" "trim_space ''e:5'' = ''e:5''" by code_simp+
  then obtain boot where boot: "loadBootstrapPeersFromFile ?json ''n'' (Inr ''[]'') (candidateSelfAddresses sample_config) = Inr boot"
    unfolding selfs by (simp add: loadBootstrapPeersFromFile_def normalizeBootstrapPeers_def map_sum_def Let_def)
  have c: "cfPeers sample_config = [''c:3'']" by (simp add: sample_config_def)
  from startup_peers_exclude_self [OF sample_config_loads boot] boot v selfs show ?thesis
    by (auto simp: listed_peers_def c)
qed

end
