(* ===== verification/Certificates.thy ===== *)
theory Certificates
  imports Wallet Config
begin

text \<open>
  The certificate files of a node: the checks on the files of the mesh's TLS section
  (\<open>transport_tls.go\<close>) and the key pair of the HTTP server, which a node without that section
  makes for itself and for its neighbours on the same machine (\<open>http_tls.go\<close>). What the
  libraries do with the contents - parsing, signing, comparing - is the record \<open>tls_lib\<close>.
\<close>

section \<open>Operations\<close>

text \<open>
  \<open>key_pair_loads\<close> is \<open>tls.LoadX509KeyPair\<close> on the texts of a certificate and a key, \<open>leaf_window\<close> the
  validity of the first certificate if it parses, \<open>pem_ca\<close> whether a text adds certificates to a
  pool, \<open>ca_parses\<close> whether a certificate and a key of the local authority decode and parse,
  \<open>new_ca\<close> and \<open>new_leaf\<close> the texts of a fresh pair, if all of its steps succeed.
\<close>

record tls_lib =
  is_dir :: "path \<Rightarrow> bool"
  broad_mode :: "path \<Rightarrow> bool"
  key_pair_loads :: "string \<Rightarrow> string \<Rightarrow> bool"
  leaf_window :: "string \<Rightarrow> (int \<times> int) option"
  pem_ca :: "string \<Rightarrow> bool"
  ca_parses :: "string \<Rightarrow> string \<Rightarrow> bool"
  new_ca :: "(string \<times> string) option"
  new_leaf :: "string \<Rightarrow> string \<Rightarrow> string \<Rightarrow> (string \<times> string) option"

datatype tls_error = TlsEmptyPath string | TlsNotAccessible string io_error | TlsDirectory string
  | TlsUnreadable string io_error | TlsBroadMode string | TlsNotConfigured | TlsPairMismatch
  | TlsNoLeaf | TlsNotYetValid | TlsExpired | TlsReadCA io_error | TlsBadCA
  | TlsEmptyDataDir | TlsIncomplete bool bool | TlsBadPair | TlsIO io_error | TlsMake

definition validateTLSFile :: "tls_lib \<Rightarrow> env \<Rightarrow> files \<Rightarrow> string \<Rightarrow> string \<Rightarrow> bool \<Rightarrow> tls_error option" where
  "validateTLSFile l e fs label file privateKey =
     (let p = path_of (trim_space file)
      in if trim_space file = [] then Some (TlsEmptyPath label)
         else case (if is_dir l p \<and> \<not> io_fails e StatFile p then None else os_Stat e fs p) of
             Some err \<Rightarrow> Some (TlsNotAccessible label err)
           | None \<Rightarrow>
               if is_dir l p then Some (TlsDirectory label)
               else case os_ReadFile e fs p of Inl err \<Rightarrow> Some (TlsUnreadable label err)
                 | Inr _ \<Rightarrow> if privateKey \<and> broad_mode l p then Some (TlsBroadMode label) else None)"

text \<open>A file that the library reads for itself: an unreadable file does not load.\<close>

definition pair_loads :: "tls_lib \<Rightarrow> env \<Rightarrow> files \<Rightarrow> path \<Rightarrow> path \<Rightarrow> bool" where
  "pair_loads l e fs cert key =
     (case (os_ReadFile e fs cert, os_ReadFile e fs key) of
        (Inr c, Inr k) \<Rightarrow> key_pair_loads l c k | _ \<Rightarrow> False)"

text \<open>\<open>MeshTLS.validate\<close>.\<close>

definition validate_mesh_tls :: "tls_lib \<Rightarrow> env \<Rightarrow> files \<Rightarrow> mesh_tls \<Rightarrow> tls_error option" where
  "validate_mesh_tls l e fs t =
     (if \<not> Enabled t then None
      else if CertFile t = [] \<or> KeyFile t = [] \<or> CAFile t = [] then Some TlsNotConfigured
      else case validateTLSFile l e fs ''tls cert_file'' (CertFile t) False of Some err \<Rightarrow> Some err
      | None \<Rightarrow> (case validateTLSFile l e fs ''tls key_file'' (KeyFile t) True of Some err \<Rightarrow> Some err
      | None \<Rightarrow> (case validateTLSFile l e fs ''tls ca_file'' (CAFile t) False of Some err \<Rightarrow> Some err
      | None \<Rightarrow>
          let cert = path_of (CertFile t); ca = path_of (CAFile t)
          in if \<not> pair_loads l e fs cert (path_of (KeyFile t)) then Some TlsPairMismatch
             else case leaf_window l (fmget [] fs cert) of None \<Rightarrow> Some TlsNoLeaf
               | Some (notBefore, notAfter) \<Rightarrow>
                   if now e < notBefore then Some TlsNotYetValid
                   else if notAfter < now e then Some TlsExpired
                   else case os_ReadFile e fs ca of Inl err \<Rightarrow> Some (TlsReadCA err)
                     | Inr raw \<Rightarrow> if pem_ca l raw then None else Some TlsBadCA)))"

text \<open>The authority's files are shared by the data directories beside each other.\<close>

definition sharedHTTPCAPaths :: "string \<Rightarrow> path \<times> path" where
  "sharedHTTPCAPaths dataDir =
     (let base = fst (path_of dataDir) in ((base, ''http_ca.pem''), (base, ''http_ca.key'')))"

definition loadOrCreateSharedHTTPCA ::
  "tls_lib \<Rightarrow> env \<Rightarrow> files \<Rightarrow> path \<Rightarrow> path \<Rightarrow> files \<times> (tls_error + string \<times> string)" where
  "loadOrCreateSharedHTTPCA l e fs certPath keyPath =
     (case (case (os_ReadFile e fs certPath, os_ReadFile e fs keyPath) of
              (Inr c, Inr k) \<Rightarrow> if ca_parses l c k then Some (c, k) else None | _ \<Rightarrow> None) of
        Some ck \<Rightarrow> (fs, Inr ck)
      | None \<Rightarrow>
          if io_fails e MkdirAll (fst certPath, []) then (fs, Inl (TlsIO (IOFailure MkdirAll)))
          else case new_ca l of None \<Rightarrow> (fs, Inl TlsMake)
            | Some (c, k) \<Rightarrow>
                (case os_WriteFile e fs certPath c of (Some err, fs1) \<Rightarrow> (fs1, Inl (TlsIO err))
                 | (None, fs1) \<Rightarrow>
                     (case os_WriteFile e fs1 keyPath k of (Some err, fs2) \<Rightarrow> (fs2, Inl (TlsIO err))
                      | (None, fs2) \<Rightarrow> (fs2, Inr (c, k)))))"

text \<open>
  A file opened with truncation into which a PEM block is written; only the opening is checked, so
  a failing write leaves what got through.
\<close>

definition encode_file :: "env \<Rightarrow> files \<Rightarrow> path \<Rightarrow> string \<Rightarrow> io_error option \<times> files" where
  "encode_file e fs p raw =
     (if io_fails e OpenFile p then (Some (IOFailure OpenFile), fs)
      else (None, fmupd p (if io_fails e WriteFile p then take (io_short e p) raw else raw) fs))"

definition make_http_pair ::
  "tls_lib \<Rightarrow> env \<Rightarrow> files \<Rightarrow> string \<Rightarrow> string \<Rightarrow> path \<Rightarrow> path \<Rightarrow> files \<times> (tls_error + path \<times> path)" where
  "make_http_pair l e fs dataDir host certPath keyPath =
     (if io_fails e MkdirAll (dataDir, []) then (fs, Inl (TlsIO (IOFailure MkdirAll)))
      else case (case sharedHTTPCAPaths dataDir of (caCert, caKey) \<Rightarrow> loadOrCreateSharedHTTPCA l e fs caCert caKey) of
          (fs1, Inl err) \<Rightarrow> (fs1, Inl err)
        | (fs1, Inr (ca, caKey)) \<Rightarrow>
            (case new_leaf l host ca caKey of None \<Rightarrow> (fs1, Inl TlsMake)
             | Some (c, k) \<Rightarrow>
                 (case encode_file e fs1 certPath c of (Some err, fs2) \<Rightarrow> (fs2, Inl (TlsIO err))
                  | (None, fs2) \<Rightarrow>
                      (case encode_file e fs2 keyPath k of (Some err, fs3) \<Rightarrow> (fs3, Inl (TlsIO err))
                       | (None, fs3) \<Rightarrow> (fs3, Inr (certPath, keyPath))))))"

text \<open>An error of \<open>os.Stat\<close>, whatever it is, counts as a missing file.\<close>

definition own_http_pair :: "tls_lib \<Rightarrow> env \<Rightarrow> files \<Rightarrow> string \<Rightarrow> string \<Rightarrow> files \<times> (tls_error + path \<times> path)" where
  "own_http_pair l e fs dataDir host =
     (let certPath = (dataDir, ''http_tls_cert.pem''); keyPath = (dataDir, ''http_tls_key.pem'');
          certExists = (os_Stat e fs certPath = None); keyExists = (os_Stat e fs keyPath = None)
      in if dataDir = [] then (fs, Inl TlsEmptyDataDir)
         else if certExists \<noteq> keyExists then (fs, Inl (TlsIncomplete certExists keyExists))
         else if certExists
         then (case validateTLSFile l e fs ''http tls cert'' (join_path dataDir ''http_tls_cert.pem'') False of
             Some err \<Rightarrow> (fs, Inl err)
           | None \<Rightarrow> (case validateTLSFile l e fs ''http tls key'' (join_path dataDir ''http_tls_key.pem'') True of
               Some err \<Rightarrow> (fs, Inl err)
             | None \<Rightarrow> (fs, if pair_loads l e fs certPath keyPath then Inr (certPath, keyPath) else Inl TlsBadPair)))
         else make_http_pair l e fs dataDir host certPath keyPath)"

definition ensureHTTPServerTLSFiles ::
  "tls_lib \<Rightarrow> env \<Rightarrow> files \<Rightarrow> string \<Rightarrow> string \<Rightarrow> mesh_tls option \<Rightarrow> files \<times> (tls_error + path \<times> path)" where
  "ensureHTTPServerTLSFiles l e fs dataDir host meshTLS =
     (case meshTLS of
        Some t \<Rightarrow>
          if Enabled t
          then (case validate_mesh_tls l e fs t of Some err \<Rightarrow> (fs, Inl err)
            | None \<Rightarrow> (fs, Inr (path_of (CertFile t), path_of (KeyFile t))))
          else own_http_pair l e fs dataDir host
      | None \<Rightarrow> own_http_pair l e fs dataDir host)"

section \<open>Lemmas\<close>

lemma path_of_join: "d \<noteq> [] \<Longrightarrow> CHR ''/'' \<notin> set n \<Longrightarrow> path_of (join_path d n) = (d, n)"
  by (auto simp: path_of_def join_path_def Let_def takeWhile_append)

text \<open>A directory name as the start-up passes it on: trimmed and not empty.\<close>

definition dir_name :: "string \<Rightarrow> bool" where
  "dir_name d \<longleftrightarrow> d \<noteq> [] \<and> \<not> is_space (hd d)"

lemma trimmed_hd:
  assumes "trim_space t = t" and "t \<noteq> []"
  shows "\<not> is_space (hd t)"
proof
  assume "is_space (hd t)"
  then have "length (dropWhile is_space t) < length t"
    using assms(2) length_dropWhile_le [of is_space "tl t"] by (cases t) auto
  moreover have "length (trim_space t) \<le> length (dropWhile is_space t)"
    using length_dropWhile_le [of is_space "rev (dropWhile is_space t)"] by (simp add: trim_space_def)
  ultimately show False using assms(1) by simp
qed

lemma dir_name_trim: "trim_space s \<noteq> [] \<Longrightarrow> dir_name (trim_space s)"
  using trimmed_hd [of "trim_space s"] by (simp add: dir_name_def)

lemma trim_join: "dir_name d \<Longrightarrow> n \<noteq> [] \<Longrightarrow> \<not> is_space (last n) \<Longrightarrow> trim_space (join_path d n) = join_path d n"
  by (intro trim_space_id) (auto simp: dir_name_def join_path_def is_space_def)

text \<open>The two files of the server in a directory of the node.\<close>

definition http_cert :: "string \<Rightarrow> path" where "http_cert d = (d, ''http_tls_cert.pem'')"
definition http_key :: "string \<Rightarrow> path" where "http_key d = (d, ''http_tls_key.pem'')"

lemma http_names: "http_cert d \<noteq> http_key d"
  by (simp add: http_cert_def http_key_def)

lemma validate_own:
  assumes "dir_name d" and "n = ''http_tls_cert.pem'' \<or> n = ''http_tls_key.pem''"
  shows "validateTLSFile l e fs label (join_path d n) priv =
    (case (if is_dir l (d, n) \<and> \<not> io_fails e StatFile (d, n) then None else os_Stat e fs (d, n)) of
       Some err \<Rightarrow> Some (TlsNotAccessible label err)
     | None \<Rightarrow> if is_dir l (d, n) then Some (TlsDirectory label)
         else case os_ReadFile e fs (d, n) of Inl err \<Rightarrow> Some (TlsUnreadable label err)
           | Inr _ \<Rightarrow> if priv \<and> broad_mode l (d, n) then Some (TlsBroadMode label) else None)"
proof -
  have n: "n \<noteq> []" "\<not> is_space (last n)" "CHR ''/'' \<notin> set n" using assms(2) by (auto simp: is_space_def)
  have "join_path d n \<noteq> []" using n(1) by (simp add: join_path_def)
  then show ?thesis
    using assms(1) trim_join [OF assms(1) n(1,2)] path_of_join [of d n] n(3)
    by (simp add: validateTLSFile_def dir_name_def Let_def)
qed

text \<open>What the files hold once they are made.\<close>

lemma made_pair:
  assumes "make_http_pair l e fs d host (http_cert d) (http_key d) = (fs1, Inr r)"
    and io: "io_ok e"
  obtains c k ca cak where "new_leaf l host ca cak = Some (c, k)" "r = (http_cert d, http_key d)"
    "fmlookup fs1 (http_cert d) = Some c" "fmlookup fs1 (http_key d) = Some k"
proof -
  obtain fs0 x where ca: "(case sharedHTTPCAPaths d of (caCert, caKey) \<Rightarrow> loadOrCreateSharedHTTPCA l e fs caCert caKey) = (fs0, x)"
    by fastforce
  then show thesis
    using assms http_names [of d] that
    by (auto simp: make_http_pair_def encode_file_def split: sum.splits option.splits prod.splits)
qed

lemma present_pair:
  assumes "dir_name d" and io: "io_ok e" and "\<not> is_dir l (http_cert d)" "\<not> is_dir l (http_key d)"
    and "\<not> broad_mode l (http_key d)"
    and "fmlookup fs (http_cert d) = Some c" "fmlookup fs (http_key d) = Some k" "key_pair_loads l c k"
  shows "own_http_pair l e fs d host = (fs, Inr (http_cert d, http_key d))"
proof -
  have "os_Stat e fs (http_cert d) = None" "os_Stat e fs (http_key d) = None"
    using io assms(6,7) by (auto simp: os_Stat_def intro: fmdomI)
  moreover have "os_ReadFile e fs (http_cert d) = Inr c" "os_ReadFile e fs (http_key d) = Inr k"
    using io assms(6,7) by (simp_all add: os_ReadFile_def)
  ultimately show ?thesis
    using assms validate_own [OF assms(1), of _ l e fs]
    by (simp add: own_http_pair_def http_cert_def http_key_def pair_loads_def dir_name_def)
qed

lemma accepted_pair:
  assumes "own_http_pair l e fs d host = (fs1, Inr r)" and "dir_name d" and "io_ok e"
    and made: "\<And>ca cak c k. new_leaf l host ca cak = Some (c, k) \<Longrightarrow> key_pair_loads l c k"
  shows "\<exists>c k. r = (http_cert d, http_key d) \<and> fmlookup fs1 (http_cert d) = Some c \<and>
    fmlookup fs1 (http_key d) = Some k \<and> key_pair_loads l c k"
proof (cases "os_Stat e fs (http_cert d) = None")
  case True
  then show ?thesis
    using assms(1)
    by (auto simp: own_http_pair_def http_cert_def http_key_def pair_loads_def os_ReadFile_def Let_def
        split: if_splits option.splits sum.splits)
next
  case False
  then have "make_http_pair l e fs d host (http_cert d) (http_key d) = (fs1, Inr r)"
    using assms(1) by (auto simp: own_http_pair_def http_cert_def http_key_def Let_def split: if_splits)
  from made_pair [OF this assms(3)] made show ?thesis by metis
qed

section \<open>Properties\<close>

text \<open>
  A node makes the certificate of its HTTP server once: when a start has found or
  made a usable pair, every later one - the second look of the same start included - takes
  the same files and writes nothing.
\<close>

theorem http_pair_reused:
  assumes "ensureHTTPServerTLSFiles l e fs d host None = (fs1, Inr r)" and "dir_name d" and "io_ok e"
    and "\<And>ca cak c k. new_leaf l host ca cak = Some (c, k) \<Longrightarrow> key_pair_loads l c k"
    and "\<not> is_dir l (http_cert d)" "\<not> is_dir l (http_key d)" "\<not> broad_mode l (http_key d)"
  shows "ensureHTTPServerTLSFiles l e fs1 d host' None = (fs1, Inr r)"
proof -
  from assms(1) have "own_http_pair l e fs d host = (fs1, Inr r)" by (simp add: ensureHTTPServerTLSFiles_def)
  then obtain c k where "r = (http_cert d, http_key d)" "fmlookup fs1 (http_cert d) = Some c"
    "fmlookup fs1 (http_key d) = Some k" "key_pair_loads l c k"
    using accepted_pair [OF _ assms(2,3)] assms(4) by metis
  then show ?thesis using present_pair [OF assms(2,3,5-7)] by (simp add: ensureHTTPServerTLSFiles_def)
qed

text \<open>
  A first start that cannot open the key file after it has written the certificate leaves
  half of the pair, and no later start repairs it: each refuses the incomplete pair and
  changes nothing, on however healthy a disk, until the operator removes the file.
\<close>

theorem half_made_pair_sticks:
  assumes "dir_name d" and "\<And>opr p. io_fails e opr p \<longleftrightarrow> opr = OpenFile \<and> p = http_key d"
    and "fmlookup fs (http_cert d) = None" and "fmlookup fs (http_key d) = None"
    and "new_ca l = Some ck" and "\<And>ca cak. new_leaf l host ca cak \<noteq> None" and "fst (path_of d) \<noteq> d"
    and "io_ok e'"
  shows "\<exists>fs1 err. ensureHTTPServerTLSFiles l e fs d host None = (fs1, Inl err) \<and>
    ensureHTTPServerTLSFiles l e' fs1 d host' None = (fs1, Inl (TlsIncomplete True False))"
proof -
  let ?ca = "(fst (path_of d), ''http_ca.pem'')" and ?cak = "(fst (path_of d), ''http_ca.key'')"
  have other: "?ca \<noteq> http_key d" "?cak \<noteq> http_key d" using assms(7) by (simp_all add: http_key_def)
  obtain fs0 c k where ca: "loadOrCreateSharedHTTPCA l e fs ?ca ?cak = (fs0, Inr (c, k))"
    and fs0: "fmlookup fs0 (http_key d) = None"
  proof -
    obtain c0 k0 where "ck = (c0, k0)" by fastforce
    then have "\<exists>fs0 c k. loadOrCreateSharedHTTPCA l e fs ?ca ?cak = (fs0, Inr (c, k)) \<and> fmlookup fs0 (http_key d) = None"
      using assms(2,4,5) other
      by (auto simp: loadOrCreateSharedHTTPCA_def os_WriteFile_def split: sum.split)
    then show thesis using that by blast
  qed
  obtain lc lk where leaf: "new_leaf l host c k = Some (lc, lk)" using assms(6) by fastforce
  let ?fs1 = "fmupd (http_cert d) lc fs0"
  have "make_http_pair l e fs d host (http_cert d) (http_key d) = (?fs1, Inl (TlsIO (IOFailure OpenFile)))"
    using assms(2) ca leaf http_names [of d]
    by (simp add: make_http_pair_def sharedHTTPCAPaths_def Let_def encode_file_def)
  then have "own_http_pair l e fs d host = (?fs1, Inl (TlsIO (IOFailure OpenFile)))"
    using assms(1-4) by (simp add: own_http_pair_def http_cert_def http_key_def os_Stat_def dir_name_def fmdom_notI)
  moreover have "own_http_pair l e' ?fs1 d host' = (?fs1, Inl (TlsIncomplete True False))"
    using assms(1,8) fs0 by (simp add: own_http_pair_def http_cert_def http_key_def os_Stat_def dir_name_def fmdom_notI)
  ultimately show ?thesis by (simp add: ensureHTTPServerTLSFiles_def)
qed

end
