(* ===== verification/Mesh.thy ===== *)
theory Mesh
  imports Votes Addr
begin

text \<open>
  The daemon around the chain (\<open>meshDaemon\<close> of \<open>internal/mesh/daemon_bridge.go\<close>): the table
  of peers with their back-off (\<open>peer_touch.go\<close>, the end of \<open>chain_sync.go\<close>, \<open>liveness.go\<close>), the
  message ids already seen (\<open>seen.go\<close>), reputation and utility credits (\<open>reputation.go\<close>).
  Times are nanoseconds; \<open>time_zero\<close> is Go's zero time.
\<close>

section \<open>State\<close>

record peer =
  pAddr :: string
  pLastSeen :: int
  pConnected :: bool
  pReachable :: bool
  pFailureCount :: int
  pSyncFailures :: int
  pSuppressedUntil :: int
  pLastSyncErr :: string
  pLastTip :: string
  pLastHeight :: int
  pTrafficRecently :: bool
  pLastSeenAgeSec :: int
  pObservedState :: string

definition new_peer :: "string \<Rightarrow> peer" where
  "new_peer addr = \<lparr>pAddr = addr, pLastSeen = time_zero, pConnected = False, pReachable = False,
     pFailureCount = 0, pSyncFailures = 0, pSuppressedUntil = time_zero, pLastSyncErr = [],
     pLastTip = [], pLastHeight = 0, pTrafficRecently = False, pLastSeenAgeSec = 0, pObservedState = []\<rparr>"

record reputation =
  rNodeID :: string
  rPubKey :: string
  rVerifiedCount :: int
  rInvalidCount :: int
  rForwardedCount :: int
  rScore :: int
  rLastSeen :: int

record uc_record =
  ucNodeID :: string
  ucPubKey :: string
  ucUC :: int

record message =
  msgFrom :: string
  msgTo :: string
  msgBody :: string
  msgTime :: int

record wire_message =
  wmID :: string
  wmType :: string
  wmFrom :: string
  wmVia :: string
  wmTo :: string
  wmBody :: string
  wmTopic :: string
  wmTime :: int
  wmTTL :: int
  wmPubKey :: string

record discovered_peer =
  dpAddr :: string
  dpFirstSeen :: int
  dpLastSeen :: int
  dpViaIP :: string
  dpCount :: int

text \<open>The chain holds the daemon's node id, wallet address, announcements and status.\<close>

record mesh_daemon =
  mChain :: chain
  mID :: string
  mNodeID :: string
  mBootstrapPeers :: "string list"
  mPeerAPI :: "(string, string) fmap"
  mPeers :: "(string, peer) fmap"
  mInbox :: "message list"
  mSeen :: "(string, int) fmap"
  mReputation :: "(string, reputation) fmap"
  mUC :: "(string, uc_record) fmap"
  mDiscoPeers :: "(string, discovered_peer) fmap"

definition on_status :: "(status \<Rightarrow> status) \<Rightarrow> mesh_daemon \<Rightarrow> mesh_daemon" where
  "on_status f m = (case chDaemon (mChain m) of None \<Rightarrow> m
     | Some d \<Rightarrow> m\<lparr>mChain := (mChain m)\<lparr>chDaemon := Some (d\<lparr>dStatus := f (dStatus d)\<rparr>)\<rparr>\<rparr>)"

section \<open>The peer table\<close>

definition second :: int where "second = 10 ^ 9"
definition peerFailureSuppressAfter :: int where "peerFailureSuppressAfter = 3"
definition peerFailureSuppressStep :: int where "peerFailureSuppressStep = 15 * second"
definition peerFailureSuppressMax :: int where "peerFailureSuppressMax = 60 * second"
definition syncFailureSuppressStep :: int where "syncFailureSuppressStep = 2 * second"
definition syncFailureSuppressMax :: int where "syncFailureSuppressMax = 30 * second"
definition syncRetryBaseDelay :: int where "syncRetryBaseDelay = 300 * 10 ^ 6"
definition syncRetryMaxDelay :: int where "syncRetryMaxDelay = 5 * second"
definition LivenessWindow :: int where "LivenessWindow = 10 * second"

lemmas backoff_defs = second_def peerFailureSuppressAfter_def peerFailureSuppressStep_def
  peerFailureSuppressMax_def syncFailureSuppressStep_def syncFailureSuppressMax_def
  syncRetryBaseDelay_def syncRetryMaxDelay_def

definition peer_at :: "mesh_daemon \<Rightarrow> string \<Rightarrow> peer" where
  "peer_at m addr = fmget (new_peer addr) (mPeers m) addr"

definition set_peer :: "string \<Rightarrow> peer \<Rightarrow> mesh_daemon \<Rightarrow> mesh_daemon" where
  "set_peer addr p m = m\<lparr>mPeers := fmupd addr p (mPeers m)\<rparr>"

definition TouchPeer :: "env \<Rightarrow> string \<Rightarrow> mesh_daemon \<Rightarrow> mesh_daemon" where
  "TouchPeer e addr0 m =
     (let addr = trim_space addr0
      in if addr = [] then m
         else set_peer addr ((peer_at m addr)\<lparr>pConnected := True, pLastSeen := now e,
           pFailureCount := 0, pSuppressedUntil := time_zero\<rparr>) m)"

definition TouchReachable :: "env \<Rightarrow> string \<Rightarrow> bool \<Rightarrow> mesh_daemon \<Rightarrow> mesh_daemon" where
  "TouchReachable e addr0 ok m =
     (let addr = trim_space addr0; p = (peer_at m addr)\<lparr>pReachable := ok\<rparr>
      in if addr = [] then m
         else if ok
         then set_peer addr (p\<lparr>pFailureCount := 0, pSyncFailures := 0, pLastSyncErr := [],
           pSuppressedUntil := time_zero\<rparr>) m
         else let p1 = p\<lparr>pFailureCount := pFailureCount p + 1\<rparr>;
                  m1 = on_status (recordPeerFailure addr ''dial/connect failure'') (set_peer addr p1 m)
              in if peerFailureSuppressAfter \<le> pFailureCount p1
                 then let steps = pFailureCount p1 - peerFailureSuppressAfter + 1;
                          suppressFor = min (steps * peerFailureSuppressStep) peerFailureSuppressMax;
                          till = now e + suppressFor
                      in on_status (recordPeerSuppression addr (fmt_time e till) ''dial failure suppression'')
                           (set_peer addr (p1\<lparr>pSuppressedUntil := till\<rparr>) m1)
                 else m1)"

text \<open>The error is its text; the result is how long the peer is left alone.\<close>

definition noteSyncFailure :: "env \<Rightarrow> string \<Rightarrow> string option \<Rightarrow> mesh_daemon \<Rightarrow> mesh_daemon \<times> int" where
  "noteSyncFailure e addr0 err m =
     (let addr = trim_space addr0; p = peer_at m addr
      in if addr = [] then (m, 0)
         else let n = pSyncFailures p + 1;
                  suppressFor = min (n * syncFailureSuppressStep) syncFailureSuppressMax;
                  till = now e + suppressFor;
                  p1 = p\<lparr>pSyncFailures := n, pLastSyncErr := (case err of None \<Rightarrow> pLastSyncErr p | Some t \<Rightarrow> t),
                    pSuppressedUntil := till\<rparr>
              in (on_status (recordPeerSuppression addr (fmt_time e till) ''sync suppression'')
                    (on_status (recordPeerFailure addr ''sync failure'') (set_peer addr p1 m)), suppressFor))"

definition noteSyncSuccess :: "string \<Rightarrow> int \<Rightarrow> string \<Rightarrow> mesh_daemon \<Rightarrow> mesh_daemon" where
  "noteSyncSuccess addr0 height tip m =
     (let addr = trim_space addr0
      in if addr = [] then m
         else set_peer addr ((peer_at m addr)\<lparr>pSyncFailures := 0, pLastSyncErr := [], pLastHeight := height,
           pLastTip := trim_space tip, pSuppressedUntil := time_zero\<rparr>) m)"

definition shouldDialPeer :: "mesh_daemon \<Rightarrow> string \<Rightarrow> int \<Rightarrow> bool" where
  "shouldDialPeer m addr0 t =
     (let addr = trim_space addr0
      in if addr = [] then False
         else case fmlookup (mPeers m) addr of None \<Rightarrow> True
           | Some p \<Rightarrow> pSuppressedUntil p = time_zero \<or> \<not> t < pSuppressedUntil p)"

definition reachablePeers :: "mesh_daemon \<Rightarrow> string list" where
  "reachablePeers m = filter (\<lambda>a. pReachable (peer_at m a)) (sorted_list_of_fset (fmdom (mPeers m)))"

definition reachablePeersForSync :: "mesh_daemon \<Rightarrow> int \<Rightarrow> string list" where
  "reachablePeersForSync m t = filter (\<lambda>a. pReachable (peer_at m a) \<and>
     \<not> (pSuppressedUntil (peer_at m a) \<noteq> time_zero \<and> t < pSuppressedUntil (peer_at m a)))
     (sorted_list_of_fset (fmdom (mPeers m)))"

datatype sample_error = EmptyPeerAddr | NegativeHeight int | MissingTip int | ConflictingTip int string string
  | StaleHeight int int

definition notePeerHeightSample :: "string \<Rightarrow> int \<Rightarrow> string \<Rightarrow> mesh_daemon \<Rightarrow> mesh_daemon \<times> sample_error option" where
  "notePeerHeightSample addr0 height tip0 m =
     (let addr = trim_space addr0; tip = trim_space tip0; p = peer_at m addr; m1 = set_peer addr p m
      in if addr = [] then (m, Some EmptyPeerAddr)
         else if height < 0 then (m, Some (NegativeHeight height))
         else if 0 < height \<and> tip = [] then (m, Some (MissingTip height))
         else if 0 < pLastHeight p \<and> height = pLastHeight p \<and> tip \<noteq> [] \<and> pLastTip p \<noteq> [] \<and> pLastTip p \<noteq> tip
         then (m1, Some (ConflictingTip height (pLastTip p) tip))
         else if 0 < pLastHeight p \<and> height < pLastHeight p then (m1, Some (StaleHeight height (pLastHeight p)))
         else (set_peer addr (p\<lparr>pLastHeight := height, pLastTip := tip\<rparr>) m, None))"

definition nextRetryDelay :: "int \<Rightarrow> int" where
  "nextRetryDelay failures =
     (if failures \<le> 0 then syncRetryBaseDelay else min (failures * syncRetryBaseDelay) syncRetryMaxDelay)"

text \<open>One tick of the liveness loop, and the view of the table the \<open>/peers\<close> endpoint gives.\<close>

definition liveness_tick :: "int \<Rightarrow> mesh_daemon \<Rightarrow> mesh_daemon" where
  "liveness_tick t m = m\<lparr>mPeers := fmmap (\<lambda>p.
     if pConnected p \<and> LivenessWindow < t - pLastSeen p then p\<lparr>pConnected := False\<rparr> else p) (mPeers m)\<rparr>"

definition observed_peer :: "int \<Rightarrow> peer \<Rightarrow> peer" where
  "observed_peer t p0 =
     (let p = (if pLastSeen p0 \<noteq> time_zero
            then p0\<lparr>pLastSeenAgeSec := max 0 ((t - pLastSeen p0) div second),
                    pTrafficRecently := (t - pLastSeen p0 \<le> LivenessWindow)\<rparr> else p0)
      in p\<lparr>pObservedState :=
           (if pConnected p \<and> pReachable p \<and> pTrafficRecently p then ''healthy''
            else if pReachable p \<and> pTrafficRecently p then ''reachable_recent_traffic''
            else if pReachable p then ''reachable_no_recent_traffic''
            else if pConnected p then ''connected_state_only''
            else ''stale_or_unreachable'')\<rparr>)"

definition peers_view :: "int \<Rightarrow> mesh_daemon \<Rightarrow> (string, peer) fmap" where
  "peers_view t m = fmmap (observed_peer t) (mPeers m)"

datatype learn_error = LearnedEmpty | LearnedInvalid addr_error | LearnedNoPort | LearnedWildcard | LearnedSelf

text \<open>Of several known spellings Go returns whichever it visits first, the model the least.\<close>

definition sanitizeLearnedPeerAddr :: "string \<Rightarrow> string \<Rightarrow> string fset \<Rightarrow> learn_error + string" where
  "sanitizeLearnedPeerAddr addr0 selfAddr existing =
     (let addr = trim_space addr0
      in if addr = [] then Inl LearnedEmpty
         else case validateTCPAddress addr of Inl err \<Rightarrow> Inl (LearnedInvalid err)
           | Inr n \<Rightarrow>
               (case splitHostPortLoose n of None \<Rightarrow> Inl LearnedNoPort
                | Some (host, port) \<Rightarrow>
                    if port = [] then Inl LearnedNoPort
                    else if host = [] then Inl LearnedWildcard
                    else let normalized = JoinHostPort host port
                         in if selfAddr \<noteq> [] \<and> equivalentPeerAddr normalized selfAddr then Inl LearnedSelf
                            else case filter (equivalentPeerAddr normalized) (sorted_list_of_fset existing) of
                                known # _ \<Rightarrow> Inr known | [] \<Rightarrow> Inr normalized))"

section \<open>Message ids already seen\<close>

definition SeenTTL :: int where "SeenTTL = 120 * second"
definition SeenMax :: nat where "SeenMax = 5000"

text \<open>The oldest entry; of several, Go deletes whichever it visits first, the model the least.\<close>

definition oldest :: "(string, int) fmap \<Rightarrow> string" where
  "oldest s = hd (sort_key (fmget 0 s) (sorted_list_of_fset (fmdom s)))"

lemma oldest_min:
  assumes "s \<noteq> fmempty"
  shows "oldest s |\<in>| fmdom s" and "k |\<in>| fmdom s \<Longrightarrow> fmget 0 s (oldest s) \<le> fmget 0 s k"
proof -
  let ?xs = "sort_key (fmget 0 s) (sorted_list_of_fset (fmdom s))"
  have "fmdom s \<noteq> {||}" using assms by (metis fmrestrict_fset_dom fmrestrict_fset_null)
  then have ne: "?xs \<noteq> []" by (metis fset_of_list_simps(1) set_empty set_sort sorted_list_of_fset_simps(1) fset_of_list.rep_eq fset_inverse)
  then have "oldest s \<in> set ?xs" unfolding oldest_def by (rule hd_in_set)
  then show "oldest s |\<in>| fmdom s" by simp
  have "sorted (map (fmget 0 s) ?xs)" by simp
  then have "\<forall>x \<in> set ?xs. fmget 0 s (hd ?xs) \<le> fmget 0 s x" using ne by (cases ?xs) auto
  then show "k |\<in>| fmdom s \<Longrightarrow> fmget 0 s (oldest s) \<le> fmget 0 s k"
    unfolding oldest_def by simp
qed

lemma fcard_fmdrop_dom: "k |\<in>| fmdom m \<Longrightarrow> fcard (fmdom (fmdrop k m)) < fcard (fmdom m)"
  using fcard_fminus1_less [of k "fmdom m"] by (simp only: fmdom_drop)

function drop_oldest :: "nat \<Rightarrow> (string, int) fmap \<Rightarrow> (string, int) fmap" where
  "drop_oldest limit s =
     (if fcard (fmdom s) \<le> limit then s
      else if oldest s = [] then s
      else drop_oldest limit (fmdrop (oldest s) s))"
  by pat_completeness auto
termination
proof (relation "measure (\<lambda>(limit, s). fcard (fmdom s))", goal_cases)
  case (2 limit s)
  then have "s \<noteq> fmempty" by (auto simp: fcard_fempty)
  then show ?case using fcard_fmdrop_dom [OF oldest_min(1)] by simp
qed simp

declare drop_oldest.simps [simp del]

definition pruneSeenLocked :: "int \<Rightarrow> (string, int) fmap \<Rightarrow> (string, int) fmap" where
  "pruneSeenLocked t s = drop_oldest SeenMax (fmfilter (\<lambda>k. \<not> fmget 0 s k < t - SeenTTL) s)"

definition markSeen :: "env \<Rightarrow> string \<Rightarrow> mesh_daemon \<Rightarrow> mesh_daemon" where
  "markSeen e msgid m = (if msgid = [] then m
     else m\<lparr>mSeen := pruneSeenLocked (now e) (fmupd msgid (now e) (mSeen m))\<rparr>)"

section \<open>Reputation and credits\<close>

text \<open>Counters are Go \<open>int64\<close>s that grow by one per message; the model keeps them as integers.\<close>

definition new_reputation :: "string \<Rightarrow> reputation" where
  "new_reputation n = \<lparr>rNodeID = n, rPubKey = n, rVerifiedCount = 0, rInvalidCount = 0,
     rForwardedCount = 0, rScore = 0, rLastSeen = time_zero\<rparr>"

definition rescore :: "reputation \<Rightarrow> reputation" where
  "rescore r = r\<lparr>rScore := rVerifiedCount r + rForwardedCount r - rInvalidCount r\<rparr>"

definition credit_uc :: "string \<Rightarrow> mesh_daemon \<Rightarrow> mesh_daemon" where
  "credit_uc n m = (let u = fmget \<lparr>ucNodeID = n, ucPubKey = n, ucUC = 0\<rparr> (mUC m) n
     in m\<lparr>mUC := fmupd n (u\<lparr>ucUC := ucUC u + 1\<rparr>) (mUC m)\<rparr>)"

definition noteReputationFromWire :: "env \<Rightarrow> wire_message option \<Rightarrow> bool \<Rightarrow> mesh_daemon \<Rightarrow> mesh_daemon" where
  "noteReputationFromWire e wm verified m =
     (case wm of None \<Rightarrow> m
      | Some w \<Rightarrow>
          if wmPubKey w = [] then m
          else let n = wmPubKey w;
                   r0 = (fmget (new_reputation n) (mReputation m) n)\<lparr>rLastSeen := now e\<rparr>;
                   r1 = (if verified then r0\<lparr>rVerifiedCount := rVerifiedCount r0 + 1\<rparr>
                         else r0\<lparr>rInvalidCount := rInvalidCount r0 + 1\<rparr>);
                   m1 = m\<lparr>mReputation := fmupd n (rescore r1) (mReputation m)\<rparr>
               in if verified then credit_uc n m1 else m1)"

definition noteForwardCredit :: "env \<Rightarrow> mesh_daemon \<Rightarrow> mesh_daemon" where
  "noteForwardCredit e m =
     (if mNodeID m = [] then m
      else let n = mNodeID m; r = fmget (new_reputation n) (mReputation m) n
           in credit_uc n (m\<lparr>mReputation := fmupd n
                (rescore (r\<lparr>rForwardedCount := rForwardedCount r + 1, rLastSeen := now e\<rparr>)) (mReputation m)\<rparr>))"

text \<open>The copies for HTTP; Go lists the map in any order, the model by node id.\<close>

definition snapshotReputation :: "mesh_daemon \<Rightarrow> reputation list" where
  "snapshotReputation m = List.map_filter (fmlookup (mReputation m)) (sorted_list_of_fset (fmdom (mReputation m)))"

definition snapshotUC :: "mesh_daemon \<Rightarrow> uc_record list" where
  "snapshotUC m = List.map_filter (fmlookup (mUC m)) (sorted_list_of_fset (fmdom (mUC m)))"

end
