(* ===== verification/Startup.thy ===== *)
theory Startup
  imports Snapshot Certificates Mesh Proposer
begin

text \<open>
  The start of the daemon (\<open>StartMeshDaemon\<close> and its helpers, \<open>internal/mesh/daemon_bridge.go\<close>):
  from the configuration file, the bootstrap list and the files of the data directory to a
  daemon that reports ready, or to the error that stopped it. The loops it starts afterwards
  are the steps of the running daemon.
\<close>

section \<open>Steps that may fail\<close>

text \<open>A result with the state it leaves, and the step after it if there is no error.\<close>

definition and_then :: "'s \<times> ('e + 'a) \<Rightarrow> ('s \<Rightarrow> 'a \<Rightarrow> 't \<times> ('e + 'b)) \<Rightarrow> ('s \<Rightarrow> 't) \<Rightarrow> 't \<times> ('e + 'b)" where
  "and_then r f leave = (case r of (s, Inl err) \<Rightarrow> (leave s, Inl err) | (s, Inr x) \<Rightarrow> f s x)"

definition fail_with :: "('c \<Rightarrow> 'e) \<Rightarrow> 'c option \<Rightarrow> 'e + unit" where
  "fail_with mk err = (case err of None \<Rightarrow> Inr () | Some c \<Rightarrow> Inl (mk c))"

named_theorems step_iff

lemma and_then_Inr [step_iff]:
  "and_then r f leave = (t, Inr y) \<longleftrightarrow> (\<exists>s x. r = (s, Inr x) \<and> f s x = (t, Inr y))"
  by (cases r; cases "snd r") (auto simp: and_then_def)

lemma fail_with_Inr [step_iff]: "fail_with mk err = Inr u \<longleftrightarrow> err = None"
  by (simp add: fail_with_def split: option.split)

lemma map_sum_Inr [step_iff]: "map_sum f id r = Inr x \<longleftrightarrow> r = Inr x"
  by (cases r) simp_all

lemma apsnd_Inr [step_iff]: "apsnd (map_sum f id) r = (s, Inr x) \<longleftrightarrow> r = (s, Inr x)"
  by (cases r) (auto simp: step_iff)

lemma and_then_ok [simp]: "and_then (s, Inr x) f leave = f s x"
  by (simp add: and_then_def)

section \<open>Operations\<close>

datatype dir_error = DirEmpty string | DirNotDirectory string | DirStat string | DirCreate string | DirNotWritable string

datatype start_error = StartConfig config_error | StartAddressBusy string | StartDir dir_error
  | StartTLS tls_error | StartHTTPFiles tls_error | StartBootstrap peer_list_error | StartListen
  | StartWallet wallet_error | StartPeers addr_error | StartHTTPListen
  | StartSnapshot "snapshot_cause startup_error" | StartBlocks "replay_cause startup_error"
  | StartIdentity identity_error

text \<open>
  The machine: the JSON decoders, the TLS library, which addresses \<open>net.Listen\<close> gives out while
  others are held, and whether the two listeners of the daemon open.
\<close>

record host =
  hCodec :: config_codec
  hBootstrapJSON :: "string \<Rightarrow> string list option"
  hTLS :: tls_lib
  hFree :: "string list \<Rightarrow> string \<Rightarrow> bool"
  hMeshListen :: "string \<Rightarrow> mesh_tls option \<Rightarrow> bool"
  hHTTPListen :: "string \<Rightarrow> bool"

text \<open>All addresses are held until the last is tried; the first that is taken is the error.\<close>

fun preflightBindCheck :: "(string list \<Rightarrow> string \<Rightarrow> bool) \<Rightarrow> string list \<Rightarrow> string list \<Rightarrow> string option" where
  "preflightBindCheck free held [] = None"
| "preflightBindCheck free held (addr # addrs) =
     (if free held addr then preflightBindCheck free (held @ [addr]) addrs else Some addr)"

text \<open>
  A path is a directory, a file, or missing; \<open>os.MkdirAll\<close> makes a missing one, so that the second
  look finds a directory.
\<close>

definition ensureDirAccessible :: "tls_lib \<Rightarrow> env \<Rightarrow> files \<Rightarrow> string \<Rightarrow> string \<Rightarrow> dir_error option" where
  "ensureDirAccessible l e fs label dir0 =
     (let dir = trim_space dir0; p = path_of dir
      in if dir = [] then Some (DirEmpty label)
         else if io_fails e StatFile p then Some (DirStat label)
         else if \<not> is_dir l p \<and> p |\<in>| fmdom fs then Some (DirNotDirectory label)
         else if io_fails e MkdirAll (dir, []) then Some (DirCreate label)
         else if io_fails e OpenFile (dir, ''.startup-check-*'') then Some (DirNotWritable label)
         else None)"

definition validateRuntimePaths :: "tls_lib \<Rightarrow> env \<Rightarrow> files \<Rightarrow> string \<Rightarrow> string \<Rightarrow> dir_error option" where
  "validateRuntimePaths l e fs dataDir persistDir =
     (case ensureDirAccessible l e fs ''data_dir'' dataDir of Some err \<Rightarrow> Some err
      | None \<Rightarrow> if trim_space persistDir \<noteq> [] then ensureDirAccessible l e fs ''persist_dir'' persistDir else None)"

definition validateStartupDependencies ::
  "host \<Rightarrow> env \<Rightarrow> files \<Rightarrow> mesh_config \<Rightarrow> string \<Rightarrow> files \<times> (start_error + unit)" where
  "validateStartupDependencies h e fs cfg dataDir =
     and_then (fs, fail_with StartDir (validateRuntimePaths (hTLS h) e fs dataDir (cfPersistDir cfg))) (\<lambda>fs _.
     and_then (fs, fail_with StartTLS (case cfTLS cfg of None \<Rightarrow> None | Some t \<Rightarrow> validate_mesh_tls (hTLS h) e fs t)) (\<lambda>fs _.
     and_then (apsnd (map_sum StartHTTPFiles id) (ensureHTTPServerTLSFiles (hTLS h) e fs dataDir
         (httpHostForListen (cfHttpListen cfg) (cfHost cfg)) (cfTLS cfg))) (\<lambda>fs _.
     (fs, Inr ())) id) id) id"

definition node_name :: "mesh_config \<Rightarrow> string" where
  "node_name cfg = (if trim_space (cfNodeID cfg) = [] then ''node1'' else trim_space (cfNodeID cfg))"

text \<open>The directory of the command line, of the configuration, or \<open>data/<node>\<close>.\<close>

definition data_dir_of :: "string \<Rightarrow> mesh_config \<Rightarrow> string" where
  "data_dir_of opt cfg =
     (if trim_space opt \<noteq> [] then trim_space opt
      else if trim_space (cfDataDir cfg) \<noteq> [] then trim_space (cfDataDir cfg)
      else join_path ''data'' (node_name cfg))"

text \<open>An empty address of the HTTP server is replaced in the configuration itself.\<close>

definition http_default :: "mesh_config \<Rightarrow> mesh_config" where
  "http_default cfg = (if trim_space (cfHttpListen cfg) = [] then cfg\<lparr>cfHttpListen := '':6060''\<rparr> else cfg)"

definition startHTTPServer :: "host \<Rightarrow> env \<Rightarrow> files \<Rightarrow> mesh_config \<Rightarrow> string \<Rightarrow> files \<times> (start_error + mesh_config)" where
  "startHTTPServer h e fs cfg0 dataDir =
     (let cfg = http_default cfg0
      in and_then (apsnd (map_sum StartHTTPFiles id) (ensureHTTPServerTLSFiles (hTLS h) e fs dataDir
           (httpHostForListen (cfHttpListen cfg) (cfHost cfg)) (cfTLS cfg))) (\<lambda>fs _.
         (fs, if hHTTPListen h (cfHttpListen cfg) then Inr cfg else Inl StartHTTPListen)) id)"

text \<open>The record made by \<open>StartMeshDaemon\<close>, with the chain bound to it.\<close>

definition peer_table :: "string list \<Rightarrow> (string, peer) fmap" where
  "peer_table ps = fold (\<lambda>p tab. fmupd p (new_peer p) tab) ps fmempty"

definition init_chain :: "mesh_config \<Rightarrow> string \<Rightarrow> wallet \<Rightarrow> files \<Rightarrow> chain" where
  "init_chain cfg dataDir w fs =
     newProductionChain\<lparr>chDaemon := Some \<lparr>dWalletAddr = wAddress w, dNodeID = node_name cfg, dPeerState = fmempty,
         dStatus = setStartupPhase ''replay_snapshot'' (setStartupPhase ''config_loaded'' new_status)\<rparr>,
       chDataDir := dataDir, chPersistDir := cfPersistDir cfg, chDisk := fs\<rparr>"

definition init_daemon :: "mesh_config \<Rightarrow> string list \<Rightarrow> chain \<Rightarrow> mesh_daemon" where
  "init_daemon cfg ps c =
     \<lparr>mChain = c, mID = cfListen cfg, mNodeID = node_name cfg, mBootstrapPeers = ps,
      mPeerAPI = normalizePeerAPIMap (cfPeerAPI cfg), mPeers = peer_table ps, mInbox = [], mSeen = fmempty,
      mReputation = fmempty, mUC = fmempty, mDiscoPeers = fmempty\<rparr>"

definition chain_status :: "(status \<Rightarrow> status) \<Rightarrow> chain \<Rightarrow> chain" where
  "chain_status f c = (case chDaemon c of None \<Rightarrow> c
     | Some d \<Rightarrow> c\<lparr>chDaemon := Some (d\<lparr>dStatus := f (dStatus d)\<rparr>)\<rparr>)"

text \<open>
  The chain from the disk: the snapshot, then the block files, then the identity. A failure is
  also recorded in the status of the daemon, which is shut down and dropped with it.
\<close>

definition load_state :: "env \<Rightarrow> chain \<Rightarrow> chain \<times> (start_error + unit)" where
  "load_state e c =
     and_then (apsnd (map_sum StartSnapshot id) (LoadSnapshotFromDisk e c)) (\<lambda>c _.
     and_then (apsnd (fail_with StartBlocks) (loadFromDisk e (chain_status (setStartupPhase ''replay_blocks'') c))) (\<lambda>c _.
     and_then (apsnd (map_sum StartIdentity id)
       (EnsureValidatorIdentityLocked e (chain_status (setStartupPhase ''validator_identity'') c))) (\<lambda>c localID.
     (chain_status (markStartupReady \<circ> setStartupPhase ''runtime_starting'')
        (if localID \<noteq> [] \<and> localID \<noteq> ErrNoValidator then observeValidatorLocked c localID else c), Inr ())) id) id) id"

definition default_bootstrap :: string where "default_bootstrap = ''config/bootstrap.json''"

definition StartMeshDaemon ::
  "host \<Rightarrow> env \<Rightarrow> string \<Rightarrow> string option \<Rightarrow> bool + string \<Rightarrow> files \<Rightarrow> files \<times> (start_error + mesh_daemon \<times> mesh_config)" where
  "StartMeshDaemon h e dataOpt cfgFile bootFile fs0 =
     and_then (fs0, map_sum StartConfig id
         (LoadMeshConfig ((hCodec h)\<lparr>tls_files := \<lambda>t. validate_mesh_tls (hTLS h) e fs0 t = None\<rparr>) cfgFile)) (\<lambda>fs cfg.
     and_then (fs, fail_with StartAddressBusy (preflightBindCheck (hFree h) [] [cfListen cfg, cfHttpListen cfg])) (\<lambda>fs _.
     let dataDir = data_dir_of dataOpt cfg in
     and_then (validateStartupDependencies h e fs cfg dataDir) (\<lambda>fs _.
     and_then (fs, map_sum StartBootstrap id
         (loadBootstrapPeersFromFile (hBootstrapJSON h) default_bootstrap bootFile (candidateSelfAddresses cfg))) (\<lambda>fs bootPeers.
     and_then (fs, if hMeshListen h (cfListen cfg) (cfTLS cfg) then Inr () else Inl StartListen) (\<lambda>fs _.
     and_then (apsnd (map_sum StartWallet id) (LoadOrCreateWallet e fs (dataDir, ''wallet.json''))) (\<lambda>fs w.
     and_then (fs, map_sum StartPeers id (buildStartupPeerSet (cfPeers cfg) bootPeers)) (\<lambda>fs peerSet.
     and_then (startHTTPServer h e fs cfg dataDir) (\<lambda>fs cfg1.
     and_then (load_state e (init_chain cfg dataDir w fs)) (\<lambda>c _.
     (chDisk c, Inr (init_daemon cfg (sorted_list_of_fset peerSet) c, cfg1))) chDisk) id) id) id) id) id) id) id) id"

section \<open>What the start writes before it reads the chain\<close>

definition cert_names :: "string set" where
  "cert_names = {''http_tls_cert.pem'', ''http_tls_key.pem'', ''http_ca.pem'', ''http_ca.key''}"

definition wallet_names :: "string set" where
  "wallet_names = {''wallet.json'', ''wallet.json.tmp''}"

abbreviation start_names :: "string set" where
  "start_names \<equiv> cert_names \<union> wallet_names"

lemmas start_names_def = cert_names_def wallet_names_def

definition same_but :: "string set \<Rightarrow> files \<Rightarrow> files \<Rightarrow> bool" where
  "same_but N fs fs' \<longleftrightarrow> (\<forall>q. snd q \<notin> N \<longrightarrow> fmlookup fs' q = fmlookup fs q)"

lemma same_but_refl [simp]: "same_but N fs fs"
  by (simp add: same_but_def)

lemma same_but_trans [trans]: "same_but N fs fs1 \<Longrightarrow> same_but N fs1 fs2 \<Longrightarrow> same_but N fs fs2"
  by (simp add: same_but_def)

lemma same_but_more: "same_but cert_names fs fs1 \<Longrightarrow> same_but start_names fs fs1"
  "same_but wallet_names fs fs1 \<Longrightarrow> same_but start_names fs fs1"
  by (simp_all add: same_but_def)

lemma same_but_write:
  "snd p \<in> N \<Longrightarrow> same_but N fs (snd (os_WriteFile e fs p raw))"
  "snd p \<in> N \<Longrightarrow> same_but N fs (snd (encode_file e fs p raw))"
  by (auto simp: os_WriteFile_def encode_file_def same_but_def)

lemma same_but_rename:
  "snd p \<in> N \<Longrightarrow> snd q \<in> N \<Longrightarrow> same_but N fs (snd (os_Rename e fs p q))"
  by (auto simp: os_Rename_def same_but_def split: option.split)

lemma same_but_ca: "same_but cert_names fs (fst (loadOrCreateSharedHTTPCA l e fs (d, ''http_ca.pem'') (d, ''http_ca.key'')))"
proof -
  have n: "snd (d, ''http_ca.pem'') \<in> cert_names" "snd (d, ''http_ca.key'') \<in> cert_names"
    by (simp_all add: cert_names_def)
  have w: "same_but cert_names fs (snd (os_WriteFile e fs (d, ''http_ca.pem'') c))"
    "same_but cert_names fs (snd (os_WriteFile e (snd (os_WriteFile e fs (d, ''http_ca.pem'') c)) (d, ''http_ca.key'') k))" for c k
    using same_but_write(1) [OF n(1)] same_but_write(1) [OF n(2)] same_but_trans by blast+
  then show ?thesis
    by (auto simp: loadOrCreateSharedHTTPCA_def split: sum.splits option.splits prod.splits) (metis snd_conv)+
qed

lemma same_but_leaf:
  "same_but cert_names fs (fst (make_http_pair l e fs d host (http_cert d) (http_key d)))"
proof -
  obtain fs1 x where ca: "loadOrCreateSharedHTTPCA l e fs (fst (path_of d), ''http_ca.pem'') (fst (path_of d), ''http_ca.key'') = (fs1, x)"
    by fastforce
  have n: "snd (http_cert d) \<in> cert_names" "snd (http_key d) \<in> cert_names"
    by (simp_all add: cert_names_def http_cert_def http_key_def)
  have s1: "same_but cert_names fs fs1" using same_but_ca ca by (metis fst_conv)
  have s2: "same_but cert_names fs fs2" if "encode_file e fs1 (http_cert d) c = (r, fs2)" for c r fs2
    using same_but_trans [OF s1 same_but_write(2) [OF n(1)]] that by (metis snd_conv)
  have s3: "same_but cert_names fs fs3" if "encode_file e fs1 (http_cert d) c = (r, fs2)" "encode_file e fs2 (http_key d) k = (r', fs3)"
    for c k r r' fs2 fs3
    using same_but_trans [OF s2 [OF that(1)] same_but_write(2) [OF n(2)]] that(2) by (metis snd_conv)
  show ?thesis
    by (auto simp: make_http_pair_def sharedHTTPCAPaths_def Let_def ca s1 dest: s2 s3
        split: sum.split option.split prod.split)
qed

lemma same_but_ensure: "same_but cert_names fs (fst (ensureHTTPServerTLSFiles l e fs d host t))"
proof -
  have "same_but cert_names fs (fst (own_http_pair l e fs d host))"
    using same_but_leaf [of fs l e d host, unfolded http_cert_def http_key_def]
    by (auto simp: own_http_pair_def Let_def split: option.split)
  then show ?thesis by (auto simp: ensureHTTPServerTLSFiles_def split: option.split)
qed

lemma same_but_wallet: "same_but wallet_names fs (fst (LoadOrCreateWallet e fs (d, ''wallet.json'')))"
proof -
  let ?p = "(d, ''wallet.json'')"
  have n: "snd ?p \<in> wallet_names" "snd (tmp_of ?p) \<in> wallet_names" by (simp_all add: wallet_names_def tmp_of_def)
  have w: "same_but wallet_names fs fs1" if "os_WriteFile e fs (tmp_of ?p) raw = (r, fs1)" for raw r fs1
    using same_but_write(1) [OF n(2)] that by (metis snd_conv)
  have s: "same_but wallet_names fs fs2" if "os_WriteFile e fs (tmp_of ?p) raw = (r, fs1)" "os_Rename e fs1 (tmp_of ?p) ?p = (r', fs2)"
    for raw r r' fs1 fs2
    using same_but_trans [OF w [OF that(1)] same_but_rename [OF n(2,1)]] that(2) by (metis snd_conv)
  have "same_but wallet_names fs (fst (SaveWallet e fs ?p x))" for x
    by (auto simp: SaveWallet_def Let_def dest: w s split: sum.split option.split prod.split)
  then show ?thesis
    by (auto simp: LoadOrCreateWallet_def split: sum.split prod.split option.split) (metis fst_conv)+
qed

section \<open>The chain that is loaded\<close>

text \<open>The invariant of a chain that comes from block files: all of the node's but the order of the times.\<close>

definition bound_wallet :: "chain \<Rightarrow> string option" where
  "bound_wallet c = map_option dWalletAddr (chDaemon c)"

definition loaded_wf :: "env \<Rightarrow> string \<Rightarrow> chain \<Rightarrow> bool" where
  "loaded_wf e a c \<longleftrightarrow> linked e 0 c \<and> final_wf c \<and> mempool_wf e c \<and> chPending c = fmempty \<and>
     bound_wallet c = Some a"

lemma loaded_node_wf: "loaded_wf e a c \<Longrightarrow> times_increase c \<Longrightarrow> node_wf e c"
  by (simp add: loaded_wf_def node_wf_def core_wf_def chain_wf_iff pending_wf_def)

lemma loaded_cong:
  "core_fields c' = core_fields c \<Longrightarrow> chPending c' = chPending c \<Longrightarrow> bound_wallet c' = bound_wallet c \<Longrightarrow>
     loaded_wf e a c' = loaded_wf e a c"
  by (simp add: loaded_wf_def linked_def final_wf_def mempool_wf_def core_fields_def)

lemma loaded_frames [simp]:
  "loaded_wf e a (c\<lparr>chDisk := d\<rparr>) = loaded_wf e a c" "loaded_wf e a (chain_status f c) = loaded_wf e a c"
  "loaded_wf e a (record_recovery k t c) = loaded_wf e a c" "loaded_wf e a (observeValidatorLocked c v) = loaded_wf e a c"
  by (rule loaded_cong; simp add: bound_wallet_def core_fields_def chain_status_def record_recovery_def observeValidatorLocked_def split: option.split)+

lemma loaded_applied:
  assumes "loaded_wf e a c"
  shows "loaded_wf e a (fst (applyBlockLocked e c b))"
proof -
  obtain c' r where ap: "applyBlockLocked e c b = (c', r)" by fastforce
  show ?thesis
  proof (cases r)
    case None
    then have ap: "applyBlockLocked e c b = (c', None)" using ap by simp
    then show ?thesis
      using assms applied_linked [OF _ ap] applied_final_wf [OF _ _ ap] applied_mempool_wf [OF ap]
        applyBlock_pending [of e c b] applied_fields(4) [OF ap]
      by (simp add: loaded_wf_def bound_wallet_def mempool_wf_def [of e c])
  next
    case (Some err)
    then show ?thesis using ap assms loaded_cong [of c' c e a] refused_core [of e c b c' err] applyBlock_Some [of e c b c' err]
      by (auto simp: bound_wallet_def)
  qed
qed

lemma loaded_promote: "loaded_wf e a c \<Longrightarrow> loaded_wf e a (fst (promote_tmps e' dir names c))"
proof (induction e' dir names c rule: promote_tmps.induct)
  case (2 e' dir name names c)
  then show ?case
    by (auto simp: Let_def split: option.split io_error.split sum.split prod.split)
qed simp

lemma loaded_replay: "loaded_wf e a c \<Longrightarrow> loaded_wf e a (fst (replay_files e dir maxH fs c))"
proof (induction e dir maxH fs c rule: replay_files.induct)
  case (2 e dir maxH h name fs c)
  show ?case
  proof (cases "os_ReadFile e (chDisk c) (dir, name)")
    case (Inr raw)
    note read = this
    show ?thesis
    proof (cases "decodePersistedBlock e raw h")
      case (Inl derr)
      then show ?thesis using 2(1) [OF read Inl] 2(3) read
        by (auto split: prod.split option.split)
    next
      case (Inr b)
      obtain c1 r where ap: "applyBlockLocked e c b = (c1, r)" by fastforce
      then have c1: "loaded_wf e a c1" using loaded_applied [OF 2(3), of b] by simp
      show ?thesis using 2(2) [OF read Inr, of c1] read Inr ap c1
        by (cases r) (auto split: prod.split option.split)
    qed
  qed (use 2(3) in simp)
qed simp

lemma loaded_from_disk: "loaded_wf e a c \<Longrightarrow> loaded_wf e a (fst (loadFromDisk e c))"
proof -
  assume wf: "loaded_wf e a c"
  obtain c1 r where rec: "recoverInterruptedBlockWrites e c (blockDir c) = (c1, r)" by fastforce
  then have "loaded_wf e a c1"
    using wf loaded_promote [OF wf, of e "blockDir c"]
    by (auto simp: recoverInterruptedBlockWrites_def split: sum.splits io_error.splits) (metis fst_conv)
  then have "loaded_wf e a (fst (replay_dir e (-1) c1))"
    using loaded_replay by (auto simp: replay_dir_def Let_def split: sum.split io_error.split)
  with \<open>loaded_wf e a c1\<close> show ?thesis
    by (auto simp: loadFromDisk_def rec split: option.split prod.split replay_end.split)
qed

text \<open>Without a snapshot the chain of the start is the empty one.\<close>

lemma no_snapshot:
  assumes "LoadSnapshotFromDisk e c = (c1, Inr x)"
    and "fmlookup (chDisk c) (snapshotPath c) = None" "fmlookup (chDisk c) (tmp_of (snapshotPath c)) = None"
  shows "c1 = c"
  using assms
  by (auto simp: LoadSnapshotFromDisk_def recoverInterruptedSnapshotWrite_def os_Stat_def os_ReadFile_def Let_def
      fmlookup_dom_iff split: if_splits)

lemma init_loaded: "loaded_wf e (wAddress w) (init_chain cfg d w fs)"
  by (auto simp: bound_wallet_def loaded_wf_def linked_def final_wf_def mempool_wf_def mempool_index_def init_chain_def newProductionChain_def
      finalityDepth_def)

lemma init_paths:
  "snd (snapshotPath c) = ''snapshot.json''" "chDisk (init_chain cfg d w fs) = fs"
  "snapshotPath (init_chain cfg d w fs) = snapshotPath (init_chain cfg d w' fs')"
  by (simp_all add: snapshotPath_def init_chain_def data_root_def Let_def)

section \<open>A start that succeeds\<close>

lemma same_but_server: "startHTTPServer h e fs cfg d = (fs1, Inr r) \<Longrightarrow> same_but start_names fs fs1"
  using same_but_more(1) [OF same_but_ensure [of fs "hTLS h" e d]]
  by (auto simp: startHTTPServer_def step_iff Let_def split: if_splits) (metis fst_conv)

lemma same_but_deps: "validateStartupDependencies h e fs cfg d = (fs1, Inr u) \<Longrightarrow> same_but start_names fs fs1"
  using same_but_more(1) [OF same_but_ensure [of fs "hTLS h" e d]]
  by (auto simp: validateStartupDependencies_def step_iff) (metis fst_conv)

lemma start_parts:
  assumes "StartMeshDaemon h e opt cfgFile bootFile fs = (fs', Inr (m, cfg1))"
  obtains cfg ps w fs1 fs2 fs3 c where "same_but start_names fs fs3"
    "LoadMeshConfig ((hCodec h)\<lparr>tls_files := \<lambda>t. validate_mesh_tls (hTLS h) e fs t = None\<rparr>) cfgFile = Inr cfg"
    "cfg1 = http_default cfg" "LoadOrCreateWallet e fs1 (data_dir_of opt cfg, ''wallet.json'') = (fs2, Inr w)"
    "load_state e (init_chain cfg (data_dir_of opt cfg) w fs3) = (c, Inr ())"
    "m = init_daemon cfg ps c" "fs' = chDisk c"
proof -
  obtain cfg fs1 boot fs2 w peerSet fs3 c where
    cfg: "LoadMeshConfig ((hCodec h)\<lparr>tls_files := \<lambda>t. validate_mesh_tls (hTLS h) e fs t = None\<rparr>) cfgFile = Inr cfg"
    and deps: "validateStartupDependencies h e fs cfg (data_dir_of opt cfg) = (fs1, Inr boot)"
    and w: "LoadOrCreateWallet e fs1 (data_dir_of opt cfg, ''wallet.json'') = (fs2, Inr w)"
    and srv: "startHTTPServer h e fs2 cfg (data_dir_of opt cfg) = (fs3, Inr cfg1)"
    and c: "load_state e (init_chain cfg (data_dir_of opt cfg) w fs3) = (c, Inr ())"
    and m: "m = init_daemon cfg (sorted_list_of_fset peerSet) c" "fs' = chDisk c"
    using assms unfolding StartMeshDaemon_def Let_def by (auto simp: step_iff split: if_splits)
  have "same_but start_names fs fs1" by (rule same_but_deps [OF deps])
  moreover have "same_but start_names fs1 fs2" using same_but_more(2) [OF same_but_wallet] w by (metis fst_conv)
  moreover have "same_but start_names fs2 fs3" by (rule same_but_server [OF srv])
  ultimately have "same_but start_names fs fs3" using same_but_trans by blast
  moreover have "cfg1 = http_default cfg" using srv by (auto simp: startHTTPServer_def step_iff Let_def split: if_splits)
  ultimately show thesis using that cfg w c m by blast
qed

lemma load_parts:
  assumes "load_state e c = (c', Inr u)"
  obtains c1 x c2 c3 v where "LoadSnapshotFromDisk e c = (c1, Inr x)"
    "loadFromDisk e (chain_status (setStartupPhase ''replay_blocks'') c1) = (c2, None)"
    "EnsureValidatorIdentityLocked e (chain_status (setStartupPhase ''validator_identity'') c2) = (c3, Inr v)"
    "c' = chain_status (markStartupReady \<circ> setStartupPhase ''runtime_starting'')
       (if v \<noteq> [] \<and> v \<noteq> ErrNoValidator then observeValidatorLocked c3 v else c3)"
  using assms unfolding load_state_def
  by (auto simp: step_iff apsnd_def map_prod_def split: prod.splits)

lemma identity_status [simp]: "has_identity e (chain_status f c) = has_identity e c"
  "has_identity e (observeValidatorLocked c v) = has_identity e c"
  by (simp_all add: has_identity_def cached_pair_check_def chain_status_def observeValidatorLocked_def split: option.split)

lemma load_sound:
  assumes "crypto_ok e" "gen_key_ok e" and "load_state e c = (c', Inr u)" and "loaded_wf e a c"
    and "fmlookup (chDisk c) (snapshotPath c) = None" "fmlookup (chDisk c) (tmp_of (snapshotPath c)) = None"
  shows "loaded_wf e a c' \<and> has_identity e c' \<and> (\<exists>d. chDaemon c' = Some d \<and> reported_state (dStatus d) \<noteq> Starting)"
proof (rule load_parts [OF assms(3)])
  fix c1 x c2 c3 v
  assume s: "LoadSnapshotFromDisk e c = (c1, Inr x)"
    and l: "loadFromDisk e (chain_status (setStartupPhase ''replay_blocks'') c1) = (c2, None)"
    and i: "EnsureValidatorIdentityLocked e (chain_status (setStartupPhase ''validator_identity'') c2) = (c3, Inr v)"
    and c': "c' = chain_status (markStartupReady \<circ> setStartupPhase ''runtime_starting'')
       (if v \<noteq> [] \<and> v \<noteq> ErrNoValidator then observeValidatorLocked c3 v else c3)"
  have "c1 = c" by (rule no_snapshot [OF s assms(5,6)])
  then have "loaded_wf e a c2" using loaded_from_disk [of e a "chain_status (setStartupPhase ''replay_blocks'') c1"] assms(4) l by simp
  then have "loaded_wf e a c3"
    using loaded_cong [of c3 "chain_status (setStartupPhase ''validator_identity'') c2" e a]
      ensure_core [of e "chain_status (setStartupPhase ''validator_identity'') c2"] i by (simp add: bound_wallet_def)
  moreover have "has_identity e c3" using Ensure_has_identity [OF assms(1,2) i] by simp
  ultimately have wf: "loaded_wf e a c'" "has_identity e c'" by (simp_all add: c')
  then obtain d where d: "chDaemon c' = Some d" by (auto simp: loaded_wf_def bound_wallet_def)
  then have "startupReady (dStatus d)"
    by (auto simp: c' chain_status_def markStartupReady_def split: option.splits)
  then have "reported_state (dStatus d) \<noteq> Starting"
    by (simp add: reported_state_def runtimeStateSnapshot_def Let_def)
  with wf d show ?thesis by blast
qed

section \<open>The first start of a machine\<close>

lemma start_names_no_blocks:
  "n \<in> start_names \<Longrightarrow> block_name_height n = None \<and> tmp_name_height n = None"
proof -
  have "list_all (\<lambda>n. block_name_height n = None \<and> tmp_name_height n = None)
    [''http_tls_cert.pem'', ''http_tls_key.pem'', ''http_ca.pem'', ''http_ca.key'', ''wallet.json'', ''wallet.json.tmp'']"
    by code_simp
  then show "n \<in> start_names \<Longrightarrow> block_name_height n = None \<and> tmp_name_height n = None"
    by (auto simp: start_names_def)
qed

lemma only_start_files:
  assumes "same_but start_names fmempty fs" and "n \<in> set (dir_names fs dir)"
  shows "n \<in> start_names"
proof (rule ccontr)
  assume "n \<notin> start_names"
  then have "fmlookup fs (dir, n) = None" using assms(1) by (simp add: same_but_def)
  then show False using assms(2) by (auto simp: fmlookup_dom_iff)
qed

lemma load_no_blocks:
  assumes "io_ok e" and "same_but start_names fmempty (chDisk c)"
  shows "loadFromDisk e c = (c, None)"
proof -
  let ?names = "dir_names (chDisk c) (blockDir c)"
  have n: "\<forall>n \<in> set ?names. block_name_height n = None \<and> tmp_name_height n = None"
    using only_start_files [OF assms(2)] start_names_no_blocks by blast
  then have "List.map_filter (\<lambda>name. case block_name_height name of None \<Rightarrow> None
      | Some h \<Rightarrow> if -1 < h then Some (h, name) else None) ?names = []"
    by (auto simp: List.map_filter_def filter_empty_conv)
  then have "block_files (-1) ?names = []" by (simp add: block_files_def)
  then show ?thesis
    using assms(1) n promote_none [of ?names e "blockDir c" c]
    by (simp add: loadFromDisk_def recoverInterruptedBlockWrites_def os_ReadDir_def replay_dir_def)
qed

lemma fresh_snapshot:
  assumes "io_ok e" and "same_but start_names fmempty (chDisk c)"
  shows "LoadSnapshotFromDisk e c = (c, Inr False)"
proof -
  have "fmlookup (chDisk c) (snapshotPath c) = None" "fmlookup (chDisk c) (tmp_of (snapshotPath c)) = None"
    using assms(2) by (auto simp: same_but_def start_names_def snapshotPath_def tmp_of_def)
  then show ?thesis
    using assms(1) by (simp add: LoadSnapshotFromDisk_def recoverInterruptedSnapshotWrite_def os_Stat_def os_ReadFile_def
        fmdom_notI Let_def)
qed

lemma fresh_identity:
  assumes "io_ok e" and "same_but start_names fmempty (chDisk c)" and "chValidatorPubHex c = []" and "gen_key e \<noteq> None"
  obtains c' v where "EnsureValidatorIdentityLocked e c = (c', Inr v)"
proof -
  have "fmlookup (chDisk c) (validatorKeyPathLocked c) = None"
    using assms(2) by (simp add: same_but_def start_names_def validatorKeyPathLocked_def Let_def)
  then show thesis
    using assms that by (auto simp: EnsureValidatorIdentityLocked_def os_ReadFile_def create_identity_def os_WriteFile_def
        os_Rename_def Let_def)
qed

lemma status_disk [simp]: "chDisk (chain_status f c) = chDisk c" "core_fields (chain_status f c) = core_fields c"
  "chValidatorPubHex (chain_status f c) = chValidatorPubHex c" "chPending (chain_status f c) = chPending c"
  by (simp_all add: chain_status_def core_fields_def split: option.split)

lemma fresh_load:
  assumes io: "io_ok e" and fs: "same_but start_names fmempty fs" and key: "gen_key e \<noteq> None"
  obtains c where "load_state e (init_chain cfg d w fs) = (c, Inr ())"
    "core_fields c = core_fields (init_chain cfg d w fs)"
proof -
  let ?c = "init_chain cfg d w fs"
  have d: "same_but start_names fmempty (chDisk ?c)" "chValidatorPubHex ?c = []" using fs by (simp_all add: init_paths init_chain_def newProductionChain_def)
  have l: "loadFromDisk e (chain_status f ?c) = (chain_status f ?c, None)" for f
    using load_no_blocks [OF io, of "chain_status f ?c"] d by simp
  obtain c3 v where i: "EnsureValidatorIdentityLocked e (chain_status (setStartupPhase ''validator_identity'')
      (chain_status (setStartupPhase ''replay_blocks'') ?c)) = (c3, Inr v)"
    using fresh_identity [OF io _ _ key, of "chain_status (setStartupPhase ''validator_identity'')
      (chain_status (setStartupPhase ''replay_blocks'') ?c)"] d by auto
  then have "core_fields c3 = core_fields ?c"
    using ensure_core(1) [of e "chain_status (setStartupPhase ''validator_identity'')
      (chain_status (setStartupPhase ''replay_blocks'') ?c)"] by simp
  moreover have "load_state e ?c = (chain_status (markStartupReady \<circ> setStartupPhase ''runtime_starting'')
       (if v \<noteq> [] \<and> v \<noteq> ErrNoValidator then observeValidatorLocked c3 v else c3), Inr ())"
    by (simp add: load_state_def fresh_snapshot [OF io d(1)] l i fail_with_def)
  ultimately show thesis using that by (simp add: observe_core)
qed

text \<open>A machine on which nothing is in the way of a node with a configuration of its own.\<close>

definition machine_ready :: "host \<Rightarrow> env \<Rightarrow> string \<Rightarrow> string option \<Rightarrow> mesh_config \<Rightarrow> bool" where
  "machine_ready h e opt cfgFile cfg \<longleftrightarrow>
     LoadMeshConfig ((hCodec h)\<lparr>tls_files := \<lambda>t. validate_mesh_tls (hTLS h) e fmempty t = None\<rparr>) cfgFile = Inr cfg \<and>
     cfTLS cfg = None \<and> hFree h [] (cfListen cfg) \<and> hFree h [cfListen cfg] (cfHttpListen cfg) \<and>
     hMeshListen h (cfListen cfg) None \<and> hHTTPListen h (cfHttpListen (http_default cfg)) \<and>
     new_ca (hTLS h) \<noteq> None \<and>
     (\<forall>hst ca cak. \<exists>c k. new_leaf (hTLS h) hst ca cak = Some (c, k) \<and> key_pair_loads (hTLS h) c k) \<and>
     \<not> is_dir (hTLS h) (http_cert (data_dir_of opt cfg)) \<and> \<not> is_dir (hTLS h) (http_key (data_dir_of opt cfg)) \<and>
     \<not> broad_mode (hTLS h) (http_key (data_dir_of opt cfg))"

lemma data_dir_name: "dir_name (data_dir_of opt cfg)"
  using dir_name_trim by (auto simp: data_dir_of_def dir_name_def join_path_def is_space_def)

lemma fresh_pair:
  assumes io: "io_ok e" and ca: "new_ca l \<noteq> None" and d: "d \<noteq> []"
    and leaf: "\<And>hst ca cak. \<exists>c k. new_leaf l hst ca cak = Some (c, k) \<and> key_pair_loads l c k"
  obtains fs c k where "ensureHTTPServerTLSFiles l e fmempty d host None = (fs, Inr (http_cert d, http_key d))"
    "fmlookup fs (http_cert d) = Some c" "fmlookup fs (http_key d) = Some k" "key_pair_loads l c k"
proof -
  obtain ca0 cak0 where n: "new_ca l = Some (ca0, cak0)" using ca by fastforce
  obtain fs1 where l: "loadOrCreateSharedHTTPCA l e fmempty (fst (path_of d), ''http_ca.pem'') (fst (path_of d), ''http_ca.key'')
      = (fs1, Inr (ca0, cak0))"
    using io n by (simp add: loadOrCreateSharedHTTPCA_def os_ReadFile_def os_WriteFile_def)
  obtain c k where k: "new_leaf l host ca0 cak0 = Some (c, k)" "key_pair_loads l c k" using leaf by blast
  have "make_http_pair l e fmempty d host (http_cert d) (http_key d) =
      (fmupd (http_key d) k (fmupd (http_cert d) c fs1), Inr (http_cert d, http_key d))"
    using io l k by (simp add: make_http_pair_def sharedHTTPCAPaths_def encode_file_def Let_def)
  then show thesis
    using io d k http_names [of d] that
    by (simp add: ensureHTTPServerTLSFiles_def own_http_pair_def os_Stat_def flip: http_cert_def http_key_def)
qed

lemma fresh_wallet:
  assumes "io_ok e" "crypto_ok e" "gen_key_ok e" "gen_key e \<noteq> None" and "fmlookup fs (d, ''wallet.json'') = None"
  obtains fs1 w where "LoadOrCreateWallet e fs (d, ''wallet.json'') = (fs1, Inr w)"
    "\<And>q. snd q \<notin> {''wallet.json'', ''wallet.json.tmp''} \<Longrightarrow> fmlookup fs1 q = fmlookup fs q"
proof -
  obtain w where w: "GenerateWallet e = Inr w"
    using assms(4) by (auto simp: GenerateWallet_def AddressFromPubHex_def hex_decode_encode split: prod.splits)
  then have "check_wallet e w = Inr w" using generated_ok [OF assms(2,3)] by (simp add: check_ok)
  then have "LoadOrCreateWallet e fs (d, ''wallet.json'') =
      (let raw = marshalWallet e w @ [CHR 0x0A]; p = (d, ''wallet.json'')
       in (fmupd p raw (fmdrop (tmp_of p) (fmupd (tmp_of p) raw fs)), Inr w))"
    using assms(1,5) w
    by (simp add: LoadOrCreateWallet_def LoadWallet_def os_ReadFile_def SaveWallet_def os_WriteFile_def os_Rename_def Let_def)
  then show thesis unfolding Let_def by (rule that) (auto simp: tmp_of_def)
qed

lemma dir_name_nonblank: "dir_name d \<Longrightarrow> trim_space d \<noteq> []"
  by (cases d) (auto simp: dir_name_def trim_space_def)

lemma fresh_start:
  assumes ok: "io_ok e" "crypto_ok e" "gen_key_ok e" "gen_key e \<noteq> None" and rdy: "machine_ready h e opt cfgFile cfg"
  obtains fs m cfg1 where "StartMeshDaemon h e opt cfgFile (Inl True) fmempty = (fs, Inr (m, cfg1))"
    "core_fields (mChain m) = core_fields newProductionChain"
proof -
  let ?d = "data_dir_of opt cfg" and ?l = "hTLS h"
  let ?host = "httpHostForListen (cfHttpListen cfg) (cfHost cfg)"
  have d: "dir_name ?d" by (rule data_dir_name)
  have r: "LoadMeshConfig ((hCodec h)\<lparr>tls_files := \<lambda>t. validate_mesh_tls ?l e fmempty t = None\<rparr>) cfgFile = Inr cfg"
    "cfTLS cfg = None" "hFree h [] (cfListen cfg)" "hFree h [cfListen cfg] (cfHttpListen cfg)"
    "hMeshListen h (cfListen cfg) None" "hHTTPListen h (cfHttpListen (http_default cfg))" "new_ca ?l \<noteq> None"
    and leaf: "\<And>hst ca cak. \<exists>c k. new_leaf ?l hst ca cak = Some (c, k) \<and> key_pair_loads ?l c k"
    and files: "\<not> is_dir ?l (http_cert ?d)" "\<not> is_dir ?l (http_key ?d)" "\<not> broad_mode ?l (http_key ?d)"
    using rdy unfolding machine_ready_def by blast+
  have ne: "?d \<noteq> []" using d by (simp add: dir_name_def)
  obtain fs1 c k where p: "ensureHTTPServerTLSFiles ?l e fmempty ?d ?host None = (fs1, Inr (http_cert ?d, http_key ?d))"
    and ck: "fmlookup fs1 (http_cert ?d) = Some c" "fmlookup fs1 (http_key ?d) = Some k" "key_pair_loads ?l c k"
    using fresh_pair [OF ok(1) r(7) ne leaf] by blast
  have s0: "same_but cert_names fmempty fs1" using same_but_ensure p by (metis fst_conv)
  note s1 = same_but_more(1) [OF s0]
  have acc: "ensureDirAccessible ?l e fmempty lab dir = None" if "trim_space dir \<noteq> []" for lab dir
    using ok(1) that by (simp add: ensureDirAccessible_def Let_def)
  have "validateRuntimePaths ?l e fmempty ?d (cfPersistDir cfg) = None"
    using acc dir_name_nonblank [OF d] by (simp add: validateRuntimePaths_def)
  then have deps: "validateStartupDependencies h e fmempty cfg ?d = (fs1, Inr ())"
    by (simp add: validateStartupDependencies_def fail_with_def r(2) p)
  have boot: "loadBootstrapPeersFromFile (hBootstrapJSON h) default_bootstrap (Inl True) (candidateSelfAddresses cfg) = Inr []"
    by (simp add: loadBootstrapPeersFromFile_def default_bootstrap_def trim_space_def is_space_def)
  obtain S where S: "buildStartupPeerSet (cfPeers cfg) [] = Inr S"
    using startup_peer_set [OF r(1) boot] by blast
  have "fmlookup fs1 (?d, ''wallet.json'') = None"
    using s0 by (simp add: same_but_def cert_names_def)
  then obtain fs2 w where w: "LoadOrCreateWallet e fs1 (?d, ''wallet.json'') = (fs2, Inr w)"
    and keep: "\<And>q. snd q \<notin> {''wallet.json'', ''wallet.json.tmp''} \<Longrightarrow> fmlookup fs2 q = fmlookup fs1 q"
    using fresh_wallet [OF ok] by blast
  have "own_http_pair ?l e fs2 ?d hst = (fs2, Inr (http_cert ?d, http_key ?d))" for hst
    using present_pair [OF d ok(1) files _ _ ck(3)] ck keep by (simp add: http_cert_def http_key_def)
  then have srv: "startHTTPServer h e fs2 cfg ?d = (fs2, Inr (http_default cfg))"
    using r(2,6) by (simp add: startHTTPServer_def http_default_def ensureHTTPServerTLSFiles_def Let_def)
  have "same_but start_names fmempty fs2" using same_but_trans [OF s1] same_but_more(2) [OF same_but_wallet] w by (metis fst_conv)
  then obtain c where c: "load_state e (init_chain cfg ?d w fs2) = (c, Inr ())"
    "core_fields c = core_fields (init_chain cfg ?d w fs2)" using fresh_load [OF ok(1) _ ok(4)] by blast
  have "StartMeshDaemon h e opt cfgFile (Inl True) fmempty =
      (chDisk c, Inr (init_daemon cfg (sorted_list_of_fset S) c, http_default cfg))"
    using r deps boot w S srv c(1) by (simp add: StartMeshDaemon_def fail_with_def Let_def)
  moreover have "core_fields c = core_fields newProductionChain" using c(2) by (simp add: init_chain_def core_fields_def)
  ultimately show thesis using that by (simp add: init_daemon_def)
qed

section \<open>What a started node is\<close>

lemma space_not_hex: "is_space ch \<Longrightarrow> hex_val ch = None"
  by (auto simp: is_space_def hex_val_def Let_def)

lemma hex_not_space: "d < 16 \<Longrightarrow> \<not> is_space (hex_digit d)"
  using space_not_hex [of "hex_digit d"] by auto

lemma wallet_address_nonblank:
  assumes "crypto_ok e" and "wallet_ok e w"
  shows "trim_space (wAddress w) \<noteq> []"
proof -
  obtain pub where a: "wAddress w = hex_encode (take 20 (sha256 e pub))"
    using assms(2) by (auto simp: wallet_ok_def AddressFromPubHex_def dest: sym split: option.splits)
  have "sha256 e pub \<noteq> []" using crypto_okD(1) [OF assms(1), of pub] by auto
  then obtain x xs where x: "take 20 (sha256 e pub) = x # xs" by (cases "sha256 e pub") auto
  then have "dir_name (wAddress w)" using hex_not_space by (simp add: a dir_name_def hex_encode_def hex_byte_def)
  then show ?thesis by (rule dir_name_nonblank)
qed

definition no_snapshot_files :: "files \<Rightarrow> bool" where
  "no_snapshot_files fs \<longleftrightarrow> (\<forall>p. p |\<in>| fmdom fs \<longrightarrow> snd p \<noteq> ''snapshot.json'' \<and> snd p \<noteq> ''snapshot.json.tmp'')"

lemma started_sound:
  assumes ok: "crypto_ok e" "gen_key_ok e" and st: "StartMeshDaemon h e opt cfgFile bootFile fs = (fs', Inr (m, cfg1))"
    and snap: "no_snapshot_files fs"
  shows "\<exists>a. loaded_wf e a (mChain m) \<and> trim_space a \<noteq> [] \<and> has_identity e (mChain m) \<and>
    (\<exists>d. chDaemon (mChain m) = Some d \<and> reported_state (dStatus d) \<noteq> Starting)"
proof (rule start_parts [OF st])
  fix cfg ps w fs1 fs2 fs3 c
  assume fs: "same_but start_names fs fs3"
    and w: "LoadOrCreateWallet e fs1 (data_dir_of opt cfg, ''wallet.json'') = (fs2, Inr w)"
    and l: "load_state e (init_chain cfg (data_dir_of opt cfg) w fs3) = (c, Inr ())"
    and m: "m = init_daemon cfg ps c"
  let ?c = "init_chain cfg (data_dir_of opt cfg) w fs3"
  have q: "fmlookup fs3 q = None" if "snd q = ''snapshot.json'' \<or> snd q = ''snapshot.json.tmp''" for q
  proof -
    have "q |\<notin>| fmdom fs" using snap that unfolding no_snapshot_files_def by blast
    moreover have "snd q \<notin> start_names" using that by (auto simp: start_names_def)
    ultimately show ?thesis using fs fmdom_notD [of q fs] unfolding same_but_def by metis
  qed
  have "fmlookup (chDisk ?c) (snapshotPath ?c) = None" "fmlookup (chDisk ?c) (tmp_of (snapshotPath ?c)) = None"
    by (simp_all add: q init_paths(1,2) tmp_of_def)
  from load_sound [OF ok l init_loaded this] wallet_address_nonblank [OF ok(1) found_wallet_ok [OF ok w]] m
  show ?thesis by (auto simp: init_daemon_def)
qed

section \<open>A snapshot beside its blocks\<close>

lemma in_map_filter: "y \<in> set (List.map_filter f xs) \<longleftrightarrow> (\<exists>x \<in> set xs. f x = Some y)"
  by (induction xs) (auto simp: List.map_filter_simps split: option.split)

lemma lowest_block_first:
  assumes "block_file h \<in> set names" and "0 \<le> h" "h < 2 ^ 63"
    and "\<And>n k. n \<in> set names \<Longrightarrow> block_name_height n = Some k \<Longrightarrow> k \<le> h \<Longrightarrow> n = block_file h"
  obtains rest where "block_files (-1) names = (h, block_file h) # rest"
proof -
  let ?xs = "block_files (-1) names"
  have set: "(k, n) \<in> set ?xs \<longleftrightarrow> n \<in> set names \<and> block_name_height n = Some k \<and> -1 < k" for k n
    unfolding block_files_def set_sort in_map_filter by (auto split: option.splits if_splits)
  have mem: "(h, block_file h) \<in> set ?xs" using assms(1-3) by (simp add: set)
  then obtain k n rest where xs: "?xs = (k, n) # rest" by (cases ?xs) auto
  have "sorted (map fst ?xs)" by (simp add: block_files_def)
  then have "k \<le> h" using mem xs by auto
  moreover have "n \<in> set names" "block_name_height n = Some k" using set [of k n] xs by simp_all
  ultimately have n: "n = block_file h" using assms(4) by blast
  then have "k = h" using \<open>block_name_height n = Some k\<close> assms(2,3) by simp
  with n xs show thesis using that by simp
qed

lemma wrong_height_refused:
  assumes "bHeight b \<le> chHeight c"
  obtains err where "applyBlockLocked e c b = (c, Some err)"
proof (cases "check_header e c b")
  case (Inl err)
  then show thesis using that by (simp add: applyBlockLocked_def)
next
  case (Inr fees)
  then show thesis using check_header_Inr [OF Inr] assms by simp
qed

lemma quarantine_halts:
  assumes "io_ok e" and "\<not> allow_corrupt e" and "fmlookup fs p = Some raw"
  obtains fs' where "handleReplayCorruption e fs p cause best = (Some (StartupHalted cause), fs')"
    "fmlookup fs' p = None" "fmlookup fs' (quarantine_target e p) = Some raw"
proof -
  have "snd (quarantine_target e p) \<noteq> snd p" by (simp add: quarantine_target_def)
  then have ne: "quarantine_target e p \<noteq> p" by auto
  let ?fs = "fmupd (quarantine_target e p) raw (fmdrop p fs)"
  have "handleReplayCorruption e fs p cause best = (Some (StartupHalted cause), ?fs)"
    using assms by (simp add: handleReplayCorruption_def quarantineCorruptFile_def os_Rename_def Let_def)
  then show thesis by (rule that) (use ne in simp_all)
qed

section \<open>Properties\<close>

text \<open>
  C10 (error): a node that has saved a snapshot and still has a block file from below it does not
  start: after the snapshot the replay begins again at the lowest file, which does not fit
  on the snapshot's height, and the good file is moved to quarantine. Each further start
  loses the next one.
\<close>

theorem snapshot_beside_blocks_stops_start:
  assumes "io_ok e" and "\<not> allow_corrupt e" and snap: "LoadSnapshotFromDisk e c = (c1, Inr x)"
    and b: "block_codec e b" "bHeight b = h" "0 \<le> h" "h < 2 ^ 63" "h \<le> chHeight c1"
    and onDisk: "fmlookup (chDisk c1) (blockPath c1 h) = Some (marshalBlock e b)"
    and names: "\<And>n. n \<in> set (dir_names (chDisk c1) (blockDir c1)) \<Longrightarrow> tmp_name_height n = None"
    and lowest: "\<And>n k. n \<in> set (dir_names (chDisk c1) (blockDir c1)) \<Longrightarrow> block_name_height n = Some k \<Longrightarrow>
      k \<le> h \<Longrightarrow> n = block_file h"
  shows "\<exists>c' err. load_state e c = (c', Inl (StartBlocks (StartupHalted (ApplyBlockAt h err)))) \<and>
    fmlookup (chDisk c') (blockPath c1 h) = None \<and>
    fmlookup (chDisk c') (quarantine_target e (blockPath c1 h)) = Some (marshalBlock e b)"
proof -
  let ?c = "chain_status (setStartupPhase ''replay_blocks'') c1"
  have f: "chDisk ?c = chDisk c1" "blockDir ?c = blockDir c1" "blockPath ?c = blockPath c1" "chHeight ?c = chHeight c1"
    by (simp_all add: chain_status_def blockPath_def blockDir_def data_root_def fun_eq_iff Let_def split: option.split)
  have p: "blockPath c1 h = (blockDir c1, block_file h)" by (simp add: blockPath_def)
  have "block_file h \<in> set (dir_names (chDisk c1) (blockDir c1))" using onDisk p by (auto intro: fmdomI)
  then obtain rest where rest: "block_files (-1) (dir_names (chDisk c1) (blockDir c1)) = (h, block_file h) # rest"
    using lowest_block_first [OF _ b(3,4)] lowest by metis
  obtain err where ap: "applyBlockLocked e ?c b = (?c, Some err)"
    using wrong_height_refused [of b ?c e] b(2,5) f(4) by metis
  let ?best = "h = max_height ((h, block_file h) # rest)"
  obtain fs where q: "handleReplayCorruption e (chDisk c1) (blockPath c1 h) (ApplyBlockAt h err) ?best =
      (Some (StartupHalted (ApplyBlockAt h err)), fs)"
    "fmlookup fs (blockPath c1 h) = None"
    "fmlookup fs (quarantine_target e (blockPath c1 h)) = Some (marshalBlock e b)"
    by (rule quarantine_halts [OF assms(1,2) onDisk])
  have "os_ReadFile e (chDisk c1) (blockDir c1, block_file h) = Inr (marshalBlock e b)"
    using assms(1) onDisk by (simp add: os_ReadFile_def p)
  then have "replay_dir e (-1) ?c = (?c\<lparr>chDisk := fs\<rparr>, ReplayFailed (StartupHalted (ApplyBlockAt h err)))"
    using assms(1) b(2) decode_persisted [OF b(1)] ap q(1)
    by (simp add: replay_dir_def os_ReadDir_def f rest p)
  then have "loadFromDisk e ?c = (?c\<lparr>chDisk := fs\<rparr>, Some (StartupHalted (ApplyBlockAt h err)))"
    using assms(1) promote_none [of "dir_names (chDisk c1) (blockDir c1)" e "blockDir c1" ?c] names
    by (simp add: loadFromDisk_def recoverInterruptedBlockWrites_def os_ReadDir_def f)
  then have "load_state e c = (?c\<lparr>chDisk := fs\<rparr>, Inl (StartBlocks (StartupHalted (ApplyBlockAt h err))))"
    by (simp add: load_state_def snap fail_with_def and_then_def)
  then show ?thesis using q(2,3) by (intro exI conjI) auto
qed

text \<open>
  C6 (liveness): on a machine where nothing is in the way - an accepted configuration, free
  addresses, a working disk - the first start of a node succeeds, and the node it gives can
  at once commit the first block.
\<close>

theorem first_start_commits:
  assumes "io_ok e" and "crypto_ok e" and "gen_key_ok e" and "gen_key e \<noteq> None" and "now e \<noteq> time_zero"
    and "machine_ready h e opt cfgFile cfg"
  shows "\<exists>fs m cfg1 c'. StartMeshDaemon h e opt cfgFile (Inl True) fmempty = (fs, Inr (m, cfg1)) \<and>
    proposeBlock e (mChain m) = Some (c', None) \<and> chHeight c' = 1"
proof -
  obtain fs m cfg1 where st: "StartMeshDaemon h e opt cfgFile (Inl True) fmempty = (fs, Inr (m, cfg1))"
    and core: "core_fields (mChain m) = core_fields newProductionChain"
    using fresh_start [OF assms(1-4,6)] by blast
  let ?c = "mChain m"
  have c: "chHeight ?c = 0" "chBlocks ?c = fmempty" "chMempool ?c = []"
    using core by (simp_all add: core_fields_def newProductionChain_def)
  obtain a where a: "loaded_wf e a ?c" "trim_space a \<noteq> []" "has_identity e ?c"
    using started_sound [OF assms(2,3) st] by (auto simp: no_snapshot_files_def)
  have "node_wf e ?c" using loaded_node_wf [OF a(1)] c(2) by (simp add: times_increase_def)
  moreover have "daemon_wallet ?c \<noteq> []" using a(1,2) by (auto simp: loaded_wf_def bound_wallet_def daemon_wallet_def)
  moreover have "chMempool (fst (compactMempoolLocked e ?c)) = []"
    by (simp add: compactMempoolLocked_def resetMempoolLocked_def c(3))
  moreover have "sle 0 (expectedReward 1 0)"
    by (simp add: expectedReward_def feeSplitActive_def FeeSplitForkHeight_def blockRewardForHeight_def)
  ultimately have "proposer_ready e ?c" using a(1,3) assms(5) c(1,2) by (simp add: proposer_ready_def loaded_wf_def)
  from propose_ready [OF assms(2,1) this] st c(1) show ?thesis by fastforce
qed

end
