(* ===== verification/Environments.thy ===== *)
theory Environments
  imports Proposer
begin

text \<open>
  Environments that differ from another in the clock and the block decoder only: application of
  a block reads neither, so a block that applies in one applies in the other.
\<close>

definition other_env :: "env \<Rightarrow> int \<Rightarrow> (string \<Rightarrow> block option) \<Rightarrow> env" where
  "other_env e t u = e\<lparr>now := t, unmarshalBlock := u\<rparr>"

lemma other_env_frame [simp]:
  "sha256 (other_env e t u) = sha256 e" "ed_verify (other_env e t u) = ed_verify e"
  "ed_sign (other_env e t u) = ed_sign e" "ed_public (other_env e t u) = ed_public e"
  "now (other_env e t u) = t" "unmarshalBlock (other_env e t u) = u" "marshalBlock (other_env e t u) = marshalBlock e"
  "io_fails (other_env e t u) = io_fails e" "io_short (other_env e t u) = io_short e"
  by (simp_all add: other_env_def)

lemma io_ok_frame [simp]: "io_ok (other_env e t u) = io_ok e"
  by (simp only: io_ok_def other_env_frame)

lemmas frame_congs = option.case_cong sum.case_cong if_cong

lemma tx_frame [simp]:
  "txID (other_env e t u) = txID e" "txSignBytes (other_env e t u) = txSignBytes e"
  "addrFromPubHex (other_env e t u) = addrFromPubHex e"
  by (simp_all add: fun_eq_iff txID_def txSignBytes_def addrFromPubHex_def cong: frame_congs)

lemma VerifyTx_frame [simp]: "VerifyTx (other_env e t u) = VerifyTx e"
  by (simp add: fun_eq_iff VerifyTx_def cong: frame_congs)

lemma VerifyTxSignature_frame [simp]: "VerifyTxSignature (other_env e t u) = VerifyTxSignature e"
  by (simp add: fun_eq_iff VerifyTxSignature_def)

lemma decode_key_pair_frame [simp]: "decode_key_pair (other_env e t u) = decode_key_pair e"
  by (simp add: fun_eq_iff decode_key_pair_def cong: frame_congs)

lemma merkle_frame [simp]: "merkleBalancesRoot (other_env e t u) = merkleBalancesRoot e"
proof -
  have level: "merkle_level (other_env e t u) xs = merkle_level e xs" for e xs
    by (induction e xs rule: merkle_level.induct) simp_all
  have "merkle_tree (other_env e t u) xs = merkle_tree e xs" for xs
  proof (induction e xs rule: merkle_tree.induct)
    case (1 e xs)
    then show ?case
      by (subst merkle_tree.simps, subst (2) merkle_tree.simps) (simp add: level)
  qed
  then show ?thesis by (simp add: fun_eq_iff merkleBalancesRoot_def merkle_leaf_def [abs_def] Let_def)
qed

lemma compact_frame [simp]: "compactMempoolLocked (other_env e t u) = compactMempoolLocked e"
proof -
  have "validateTx (other_env e t u) = validateTx e"
    by (simp add: fun_eq_iff validateTx_def cong: frame_congs)
  then have "compact_step (other_env e t u) = compact_step e"
    by (simp add: fun_eq_iff compact_step_def cong: frame_congs)
  moreover have "rebuildMempoolIndexLocked (other_env e t u) = rebuildMempoolIndexLocked e"
    by (simp add: fun_eq_iff rebuildMempoolIndexLocked_def mempool_index_def index_tx_def [abs_def])
  ultimately show ?thesis by (intro ext) (simp only: compactMempoolLocked_def compact_run_def)
qed

lemma check_txs_frame [simp]:
  "check_txs (other_env e t u) ts ids keys fees = check_txs e ts ids keys fees"
  by (induction e ts ids keys fees rule: check_txs.induct) (simp_all cong: frame_congs)

lemma apply_frame [simp]: "applyBlockLocked (other_env e t u) = applyBlockLocked e"
proof -
  have "check_header (other_env e t u) = check_header e"
    by (simp add: fun_eq_iff check_header_def cong: frame_congs)
  moreover have "check_body (other_env e t u) = check_body e"
    by (simp add: fun_eq_iff check_body_def calcBlockHash_def calcStateHashWithBlock_def
        ValidateBlockSignature_def blockSignHash_def cong: frame_congs)
  moreover have "persistBlockLocked (other_env e t u) = persistBlockLocked e"
    by (simp add: fun_eq_iff persistBlockLocked_def writeFileAtomicDurable_files os_Rename_def cong: frame_congs)
  moreover have "execBlockLocked (other_env e t u) = execBlockLocked e"
    by (simp add: fun_eq_iff execBlockLocked_def Let_def cong: frame_congs)
  ultimately show ?thesis by (intro ext) (simp only: applyBlockLocked_def)
qed

lemma valid_block_frame [simp]: "valid_block (other_env e t u) = valid_block e"
  by (simp add: fun_eq_iff valid_block_def calcBlockHash_def ValidateBlockSignature_def blockSignHash_def cong: frame_congs)

lemma node_wf_frame [simp]: "node_wf (other_env e t u) = node_wf e"
  by (simp add: fun_eq_iff node_wf_def core_wf_def chain_wf_def mempool_wf_def pending_wf_def
      mempool_index_def index_tx_def [abs_def])

end
