(* ===== verification/Interrupted.thy ===== *)
theory Interrupted
  imports Startup Environments
begin

text \<open>
  A block write that the machine did not finish (\<open>internal/mesh/chain_persist.go\<close>): what the next two
  starts make of the temporary file it left.
\<close>

lemma apply_all_frame [simp]: "apply_all (other_env e t u) c bs = apply_all e c bs"
  by (induction bs arbitrary: c) (simp_all split: prod.split option.split)

lemma block_codec_frame [simp]: "block_codec (other_env e t (unmarshalBlock e)) = block_codec e"
  by (simp add: fun_eq_iff block_codec_def)

lemma holds_blocks_frame [simp]: "holds_blocks (other_env e t u) = holds_blocks e"
  by (simp add: fun_eq_iff holds_blocks_def)

text \<open>Besides the temporary file, the directory of blocks is not touched by the quarantine.\<close>

lemma quarantine_keeps_blocks:
  assumes "holds_blocks e c bs d" and "fmlookup d (tmp_of (blockPath c h)) = None"
  shows "holds_blocks e c bs (quarantined e' (tmp_of (blockPath c h)) raw (fmupd (tmp_of (blockPath c h)) x d))"
proof -
  let ?t = "tmp_of (blockPath c h)" and ?d = "quarantined e' (tmp_of (blockPath c h)) raw (fmupd (tmp_of (blockPath c h)) x d)"
  have "fst (quarantine_target e' ?t) \<noteq> blockDir c"
    using quarantine_elsewhere [of e' ?t] by (simp add: tmp_of_def blockPath_def)
  then have "quarantine_target e' ?t \<noteq> (blockDir c, n)" for n by (metis fst_conv)
  then have same: "fmlookup ?d (blockDir c, n) = fmlookup d (blockDir c, n)" for n
    using assms(2) by (auto simp: quarantined_def)
  then have "set (dir_names ?d (blockDir c)) = set (dir_names d (blockDir c))"
    by (auto simp: fmlookup_dom_iff)
  then show ?thesis using assms(1) same by (auto simp: holds_blocks_def blockPath_def)
qed

lemma cut_block_undecodable:
  assumes "block_codec e b" and "n < length (marshalBlock e b)"
  obtains derr where "decodePersistedBlock e (take n (marshalBlock e b)) (bHeight b) = Inl derr"
  using assms
  by (cases "trim_space (take n (marshalBlock e b)) = []") (auto simp: decodePersistedBlock_def block_codec_def)

text \<open>
  C27 (error): a node that stopped while it wrote its next block, with the temporary file cut short, does
  not come up at the next start: loading the blocks ends with the demand for the operator, whatever
  the setting for corrupt files, and the bytes of the file are in quarantine, under its name and the time of
  the start; so the start of the daemon fails (\<open>load_state\<close>, whatever snapshot it took over before).
  The start after that, at whatever time, loads the whole chain up to the unfinished block.
\<close>

theorem interrupted_write_halts_once:
  assumes "io_ok e" and "chHeight c = 0" "chDisk c = fmempty" and run: "apply_all e c bs = Some c1"
    and codec: "\<forall>x \<in> set (bs @ [b]). block_codec e x" and b: "bHeight b = int (length bs) + 1" "bHeight b < 2 ^ 63"
    and n: "n < length (marshalBlock e b)" and t: "t = tmp_of (blockPath c (bHeight b))"
    and cut: "d = fmupd t (take n (marshalBlock e b)) (chDisk c1)"
  shows "\<exists>derr d1. loadFromDisk e (c\<lparr>chDisk := d\<rparr>) =
      (c\<lparr>chDisk := d1\<rparr>, Some (StartupHalted (DecodeTmp (bHeight b) derr))) \<and>
    fmlookup d1 t = None \<and> fmlookup d1 (quarantine_target e t) = Some (take n (marshalBlock e b)) \<and>
    (\<forall>c0 c0' x. LoadSnapshotFromDisk e c0 = (c0', Inr x) \<and> chain_status (setStartupPhase ''replay_blocks'') c0' = c\<lparr>chDisk := d\<rparr> \<longrightarrow>
      load_state e c0 = (c\<lparr>chDisk := d1\<rparr>, Inl (StartBlocks (StartupHalted (DecodeTmp (bHeight b) derr))))) \<and>
    (\<forall>later. \<exists>d2. loadFromDisk (other_env e later (unmarshalBlock e)) (c\<lparr>chDisk := d1\<rparr>) = (c1\<lparr>chDisk := d2\<rparr>, None))"
proof -
  let ?raw = "take n (marshalBlock e b)" and ?d1 = "quarantined e t (take n (marshalBlock e b)) d"
  note leaves = run_leaves_blocks [OF assms(1-4)]
  have names: "set (dir_names (chDisk c1) (blockDir c)) = block_file ` {1..int (length bs)}"
    using leaves(2) by (simp add: holds_blocks_def)
  have tp: "t = (blockDir c, block_file (bHeight b) @ ''.tmp'')" by (simp add: t tmp_of_def blockPath_def)
  have free: "fmlookup (chDisk c1) (blockDir c, nm) = None" if "nm \<notin> block_file ` {1..int (length bs)}" for nm
    using that names by (auto simp: fmlookup_dom_iff)
  have "tmp_name_height (block_file (bHeight b) @ ''.tmp'') = Some (bHeight b)" using b by simp
  then have "block_file (bHeight b) @ ''.tmp'' \<notin> block_file ` {1..int (length bs)}" by (metis imageE option.distinct(1) tmp_name_height_block)
  then have no_tmp: "fmlookup (chDisk c1) t = None" using free tp by simp
  have "block_file (bHeight b) \<notin> block_file ` {1..int (length bs)}" using b(1) by auto
  then have no_final: "fmlookup d (blockPath c (bHeight b)) = None" using free cut tp by (simp add: blockPath_def)
  obtain derr where derr: "decodePersistedBlock e ?raw (bHeight b) = Inl derr"
    using cut_block_undecodable [of e b n] codec n by auto
  have others: "tmp_name_height nm = None"
    if "nm \<in> set (dir_names d (blockDir c))" "nm \<noteq> block_file (bHeight b) @ ''.tmp''" for nm
  proof -
    have "nm \<in> block_file ` {1..int (length bs)}" using that names cut tp by auto
    then show ?thesis by (elim imageE) simp
  qed
  have first: "loadFromDisk e (c\<lparr>chDisk := d\<rparr>) = (c\<lparr>chDisk := ?d1\<rparr>, Some (StartupHalted (DecodeTmp (bHeight b) derr)))"
    using broken_tmp_halts [OF assms(1), of "bHeight b" "c\<lparr>chDisk := d\<rparr>" ?raw derr] b others no_final derr cut t by simp
  have elsewhere: "quarantine_target e t \<noteq> t" using quarantine_elsewhere [of e t] by auto
  have "holds_blocks e c bs ?d1" using quarantine_keeps_blocks [OF leaves(2)] no_tmp cut t by simp
  then have "\<exists>d2. loadFromDisk (other_env e later (unmarshalBlock e)) (c\<lparr>chDisk := ?d1\<rparr>) = (c1\<lparr>chDisk := d2\<rparr>, None)" for later
    using restart_on [of "other_env e later (unmarshalBlock e)" c bs c1 ?d1] assms(1) run leaves(1) codec b by simp
  moreover have "load_state e c0 = (c\<lparr>chDisk := ?d1\<rparr>, Inl (StartBlocks (StartupHalted (DecodeTmp (bHeight b) derr))))"
    if "LoadSnapshotFromDisk e c0 = (c0', Inr x)" "chain_status (setStartupPhase ''replay_blocks'') c0' = c\<lparr>chDisk := d\<rparr>" for c0 c0' x
    using that first by (simp add: load_state_def and_then_def fail_with_def)
  ultimately show ?thesis using first elsewhere by (auto simp: quarantined_def)
qed

end
