(* ===== verification/Recovery_Witnesses.thy ===== *)
theory Recovery_Witnesses
  imports Sample Interrupted Votes
begin

text \<open>
  The restart, snapshot and vote theorems applied to the sample node, with decoders that know
  the sample block and the sample snapshot.
\<close>

section \<open>Restart\<close>

definition replay_env :: env where
  "replay_env = other_env sample_env (now sample_env)
     (\<lambda>raw. if raw = marshalBlock sample_env (sample_block 100) then Some (sample_block 100) else None)"

lemma replay_env_ok: "io_ok replay_env" "block_codec replay_env (sample_block 100)"
proof -
  show "io_ok replay_env" by (simp add: replay_env_def)
  have m: "take 1 (marshalBlock sample_env b) = ''{''" for b by (simp add: sample_env_def)
  have "take n xs \<noteq> xs" if "n < length xs" for n and xs :: string
    using that by (auto dest: arg_cong [of _ _ length])
  then show "block_codec replay_env (sample_block 100)"
    using m by (simp add: block_codec_def replay_env_def)
qed

theorem restart_restores_chain_witness:
  "\<exists>c1 d. applyBlockLocked replay_env (node_with 100) (sample_block 100) = (c1, None) \<and>
     loadFromDisk replay_env ((node_with 100)\<lparr>chDisk := chDisk c1\<rparr>) = (c1\<lparr>chDisk := d\<rparr>, None)"
proof -
  obtain c1 where a: "applyBlockLocked replay_env (node_with 100) (sample_block 100) = (c1, None)"
    using sample_block_applies by (auto simp: replay_env_def)
  then have "apply_all replay_env (node_with 100) [sample_block 100] = Some c1" by simp
  from restart_restores_chain [OF replay_env_ok(1) _ _ this] a replay_env_ok(2) show ?thesis by simp
qed

text \<open>The sample block is applied; the machine stops while the next block is written.\<close>

definition next_block :: block where "next_block = (sample_block 100)\<lparr>bHeight := 2\<rparr>"

definition two_env :: env where
  "two_env = other_env sample_env (now sample_env)
     (\<lambda>raw. if raw = marshalBlock sample_env (sample_block 100) then Some (sample_block 100)
       else if raw = marshalBlock sample_env next_block then Some next_block else None)"

lemma two_env_ok: "io_ok two_env" "block_codec two_env (sample_block 100)" "block_codec two_env next_block"
  "length (marshalBlock two_env (sample_block 100)) = 3" "length (marshalBlock two_env next_block) = 3"
proof -
  show "io_ok two_env" by (simp add: two_env_def)
  have m: "marshalBlock sample_env (sample_block 100) = ''{1}''" "marshalBlock sample_env next_block = ''{2}''"
  proof -
    have "fmt_int 1 = ''1''" "fmt_int 2 = ''2''" by code_simp+
    then show "marshalBlock sample_env (sample_block 100) = ''{1}''" "marshalBlock sample_env next_block = ''{2}''"
      by (simp_all add: sample_env_def sample_block_fields next_block_def)
  qed
  then show "length (marshalBlock two_env (sample_block 100)) = 3" "length (marshalBlock two_env next_block) = 3"
    by (simp_all add: two_env_def)
  have "take n xs \<noteq> ys" if "n < 3" "length ys = 3" for n and xs ys :: string
    using that by (auto dest: arg_cong [of _ _ length])
  then show "block_codec two_env (sample_block 100)" "block_codec two_env next_block"
    using m by (simp_all add: block_codec_def two_env_def)
qed

theorem interrupted_write_halts_once_witness:
  "\<exists>c1 derr d1 d2. applyBlockLocked two_env (node_with 100) (sample_block 100) = (c1, None) \<and>
     loadFromDisk two_env ((node_with 100)\<lparr>chDisk := fmupd (tmp_of (blockPath (node_with 100) 2))
         (take 1 (marshalBlock two_env next_block)) (chDisk c1)\<rparr>) =
       ((node_with 100)\<lparr>chDisk := d1\<rparr>, Some (StartupHalted (DecodeTmp 2 derr))) \<and>
     loadFromDisk (other_env two_env 9 (unmarshalBlock two_env)) ((node_with 100)\<lparr>chDisk := d1\<rparr>) = (c1\<lparr>chDisk := d2\<rparr>, None)"
proof -
  obtain c1 where a: "applyBlockLocked two_env (node_with 100) (sample_block 100) = (c1, None)"
    using sample_block_applies by (auto simp: two_env_def)
  have run: "apply_all two_env (node_with 100) [sample_block 100] = Some c1" using a by simp
  have h: "bHeight next_block = 2" by (simp add: next_block_def)
  have codec: "\<forall>x \<in> set ([sample_block 100] @ [next_block]). block_codec two_env x" using two_env_ok by simp
  have n: "1 < length (marshalBlock two_env next_block)" using two_env_ok(5) by simp
  note once = interrupted_write_halts_once [OF two_env_ok(1) _ _ run codec _ _ n refl refl]
  from once obtain derr d1 where "loadFromDisk two_env ((node_with 100)\<lparr>chDisk := fmupd (tmp_of (blockPath (node_with 100) 2))
         (take 1 (marshalBlock two_env next_block)) (chDisk c1)\<rparr>) =
       ((node_with 100)\<lparr>chDisk := d1\<rparr>, Some (StartupHalted (DecodeTmp 2 derr)))"
    "\<exists>d2. loadFromDisk (other_env two_env 9 (unmarshalBlock two_env)) ((node_with 100)\<lparr>chDisk := d1\<rparr>) = (c1\<lparr>chDisk := d2\<rparr>, None)"
    unfolding h by auto
  then show ?thesis using a by blast
qed

section \<open>Snapshots\<close>

definition snapshot_env :: env where
  "snapshot_env = sample_env\<lparr>unmarshalSnapshot := (\<lambda>_. Some (ExportSnapshotLocked sample_env (node_with 100)))\<rparr>"

lemma snapshot_env_export: "ExportSnapshotLocked snapshot_env c = ExportSnapshotLocked sample_env c"
  by (simp add: ExportSnapshotLocked_def computeAccountsHash_def computeSnapshotHash_def snapshot_env_def Let_def)

lemma snapshot_env_crypto: "crypto_ok snapshot_env"
  by (simp add: crypto_ok_def snapshot_env_def sample_env_def)

lemma snapshot_env_reads:
  "unmarshalSnapshot snapshot_env raw = Some (ExportSnapshotLocked snapshot_env (node_with 100))"
  "trim_space (marshalSnapshot snapshot_env s) \<noteq> []"
  by (simp_all only: snapshot_env_export) (simp_all add: snapshot_env_def sample_env_def trim_space_def is_space_def)

lemma node_accounts_ok: "account_error (chAccounts (node_with 100)) = None"
  by (simp add: account_error_None node_with_account)

definition stale_node :: chain where
  "stale_node = (node_with 0)\<lparr>chHeight := 9, chTip := ''t'', chFinalizedHeight := 4\<rparr>"

theorem snapshot_roundtrip_witness:
  "\<exists>c'. LoadSnapshotFromBytes snapshot_env stale_node
       (marshalSnapshot snapshot_env (ExportSnapshotLocked snapshot_env (node_with 100))) = (c', Inr True) \<and>
     chHeight c' = 0 \<and> chTip c' = [] \<and> chAccounts c' = chAccounts (node_with 100)"
  using snapshot_roundtrip [OF snapshot_env_crypto node_accounts_ok snapshot_env_reads, of stale_node] by auto

lemma stale_node_loads:
  "\<exists>c'. LoadSnapshotFromBytes snapshot_env stale_node ''x'' = (c', Inr True) \<and> chHeight c' = 0 \<and>
     chAccounts c' = chAccounts (node_with 100)"
proof -
  have x: "trim_space ''x'' \<noteq> []" by (simp add: trim_space_def is_space_def)
  show ?thesis
    using export_valid [OF snapshot_env_crypto x node_accounts_ok] x
    by (simp add: LoadSnapshotFromBytes_def read_snapshot_def snapshot_env_reads reset_to_snapshot_def
        resetMempoolLocked_def) (simp add: ExportSnapshotLocked_def Let_def)
qed

theorem snapshot_accepted_iff_witness:
  "\<exists>c' snap. LoadSnapshotFromBytes snapshot_env stale_node ''x'' = (c', Inr True) \<and>
    unmarshalSnapshot snapshot_env ''x'' = Some snap \<and>
    snapAccountsHash snap = computeAccountsHash snapshot_env (chAccounts (node_with 100))"
proof -
  obtain c' where l: "LoadSnapshotFromBytes snapshot_env stale_node ''x'' = (c', Inr True)"
    and a: "chAccounts c' = chAccounts (node_with 100)" using stale_node_loads by blast
  from snapshot_accepted_iff [OF l] l a show ?thesis by auto
qed

theorem snapshot_keeps_finalized_height_witness:
  "\<exists>c'. LoadSnapshotFromBytes snapshot_env stale_node ''x'' = (c', Inr True) \<and>
    chHeight c' = 0 \<and> GetFinalitySnapshot c' = (4, [], finalityDepth)"
proof -
  obtain c' where l: "LoadSnapshotFromBytes snapshot_env stale_node ''x'' = (c', Inr True)"
    and h: "chHeight c' = 0" using stale_node_loads by blast
  from snapshot_keeps_finalized_height [OF l] l h show ?thesis by (simp add: stale_node_def)
qed

section \<open>Votes\<close>

definition sample_vote :: vote where
  "sample_vote = (case snd (SignVoteLocked sample_env (node_with 100) 1 ''ab'') of
     Inr v \<Rightarrow> v | Inl _ \<Rightarrow> \<lparr>vHeight = 0, vBlockHash = [], vValidatorID = [], vSignature = []\<rparr>)"

lemma sample_SignVote: "SignVoteLocked sample_env (node_with 100) 1 ''ab'' = (node_with 100, Inr sample_vote)"
proof -
  have "sample_pub_hex \<noteq> ErrNoValidator"
    using sample_keys(4) by (auto simp: ErrNoValidator_def sample_pub_hex_def dest: arg_cong [of _ _ length])
  then show ?thesis
    by (simp add: sample_vote_def SignVoteLocked_def ValidatorID_cached [OF node_with_identity]
        sample_hex_nonempty sample_keys)
qed

theorem SignVote_verifies_witness: "VerifyVote sample_env sample_vote \<and> vHeight sample_vote = 1"
  using SignVote_verifies [OF sample_crypto _ _ sample_SignVote node_with_identity] by simp

lemma sample_vote_verified: "VerifyVote sample_env sample_vote"
  using SignVote_verified [OF sample_crypto _ _ sample_SignVote node_with_identity] by simp

theorem votes_never_finalize_witness:
  "VerifyVote sample_env sample_vote \<and>
   chFinalizedHeight (fst (addVoteLocked sample_env (node_with 100) sample_vote)) = 0"
  using votes_never_finalize [of "node_with 100" sample_env "[sample_vote]"] sample_vote_verified
  by (simp add: Let_def)

lemma sample_vote_id: "vValidatorID sample_vote = sample_pub_hex"
  using SignVote_verified [OF sample_crypto _ _ sample_SignVote node_with_identity] by simp

lemma sample_pub_hex_upper: "hex_upper sample_pub_hex \<noteq> sample_pub_hex"
proof -
  have "ed_public sample_env sample_priv = CHR ''k'' # replicate 31 (CHR ''k'')"
    by (simp add: sample_env_def sample_priv_def eval_nat_numeral)
  then have "sample_pub_hex = hex_byte (CHR ''k'') @ hex_encode (replicate 31 (CHR ''k''))"
    by (simp add: sample_pub_hex_def hex_encode_def)
  moreover have "hex_byte (CHR ''k'') = ''6b''" "upper_hex_digit (CHR ''b'') = CHR ''B''" by code_simp+
  ultimately obtain xs where xs: "sample_pub_hex = CHR ''6'' # CHR ''b'' # xs" by simp
  have "hex_upper (CHR ''6'' # CHR ''b'' # xs) \<noteq> CHR ''6'' # CHR ''b'' # xs"
    using \<open>upper_hex_digit (CHR ''b'') = CHR ''B''\<close> by (simp add: hex_upper_def)
  then show ?thesis unfolding xs .
qed

theorem one_key_votes_twice_witness:
  "let u = sample_vote\<lparr>vValidatorID := hex_upper sample_pub_hex\<rparr>;
       c' = fst (addVoteLocked sample_env (fst (addVoteLocked sample_env (node_with 100) sample_vote)) u)
   in VerifyVote sample_env sample_vote \<and>
      sample_pub_hex |\<in>| chValidatorSet c' \<and> hex_upper sample_pub_hex |\<in>| chValidatorSet c'"
  using one_key_votes_twice [OF sample_vote_verified _ _ refl, of "node_with 100"] sample_vote_verified sample_pub_hex_upper
  by (auto simp: sample_vote_id Let_def)

text \<open>The node after the sample block, with one vote for it recorded.\<close>

definition voted :: "chain \<Rightarrow> chain" where
  "voted c = c\<lparr>chVotes := fmupd 1 (fmupd ''id''
     \<lparr>vHeight = 1, vBlockHash = bHash (sample_block 100), vValidatorID = ''id'', vSignature = []\<rparr> fmempty) fmempty\<rparr>"

theorem tryFinalizeHeight_marks_witness:
  "\<exists>c1 c2 b. applyBlockLocked sample_env (node_with 100) (sample_block 100) = (c1, None) \<and>
     tryFinalizeHeightLocked sample_env (voted c1) 1 = (c2, True) \<and>
     fmlookup (chBlocks c2) 1 = Some b \<and> bIsFinalized b"
proof -
  obtain c1 where a: "applyBlockLocked sample_env (node_with 100) (sample_block 100) = (c1, None)"
    using sample_block_applies by blast
  have wf0: "chain_wf sample_env 0 (node_with 100)"
    using node_with_wf [of sample_env 100] by (simp add: node_wf_def core_wf_def)
  have "chain_wf sample_env 0 c1" by (rule applied_chain_wf [OF wf0 a]) (simp add: stale_time_def)
  then have wf: "chain_wf sample_env 0 (voted c1)"
    using chain_wf_core [of "voted c1" c1] by (simp add: core_fields_def voted_def)
  have h: "chFinalizedHeight c1 = 0"
    using applied_fields(11) [OF a] by (simp add: sample_block_fields finalityDepth_def)
  have b: "fmlookup (chBlocks (voted c1)) 1 = Some (sample_block 100)"
    using applied_fields(12) [OF a, of 1] h by (simp add: voted_def sample_block_fields finalized_at_def)
  obtain c2 done1 where t: "tryFinalizeHeightLocked sample_env (voted c1) 1 = (c2, done1)" by fastforce
  have "done1"
    using t b by (auto simp: tryFinalizeHeightLocked_def matching_votes_def voted_def commitThresholdLocked_def
        defaultCommitThreshold_def Let_def split: if_splits)
  then have t': "tryFinalizeHeightLocked sample_env (voted c1) 1 = (c2, True)" using t by simp
  from tryFinalizeHeight_marks [OF wf this] a t' show ?thesis by blast
qed

end
