(* ===== verification/Startup_Witnesses.thy ===== *)
theory Startup_Witnesses
  imports Startup Recovery_Witnesses
begin

text \<open>
  The theorems of the wallet, the certificates and the start applied to the sample environment:
  a fresh machine, a machine with a half-made certificate, a machine with a snapshot.
\<close>

section \<open>Wallet\<close>

definition sample_wallet :: wallet where
  "sample_wallet = \<lparr>wAddress = sample_addr, wPubHex = sample_pub_hex, wPrivHex = sample_priv_hex\<rparr>"

definition wallet_env :: env where
  "wallet_env = sample_env\<lparr>unmarshalWallet := \<lambda>_. Some sample_wallet\<rparr>"

lemma wallet_frames:
  "sha256 wallet_env = sha256 sample_env" "ed_verify wallet_env = ed_verify sample_env"
  "ed_sign wallet_env = ed_sign sample_env" "ed_public wallet_env = ed_public sample_env"
  "gen_key wallet_env = gen_key sample_env" "io_fails wallet_env = io_fails sample_env"
  by (simp_all add: wallet_env_def)

lemma wallet_env_ok: "crypto_ok wallet_env" "gen_key_ok wallet_env" "io_ok wallet_env"
  unfolding crypto_ok_def gen_key_ok_def io_ok_def wallet_frames
  by (rule sample_crypto [unfolded crypto_ok_def] sample_gen_key [unfolded gen_key_ok_def] sample_io [unfolded io_ok_def])+

lemma wallet_env_same:
  "AddressFromPubHex wallet_env = AddressFromPubHex sample_env" "SignTx wallet_env = SignTx sample_env"
  by (simp_all only: fun_eq_iff AddressFromPubHex_def SignTx_def addrFromPubHex_def txSignBytes_def
      ed25519_Sign_def wallet_frames Let_def simp_thms)

lemma sample_address: "AddressFromPubHex sample_env sample_pub_hex = Some sample_addr"
  using sample_addr sample_keys by (auto simp: addrFromPubHex_wallet split: option.splits)

lemma sample_generated: "GenerateWallet wallet_env = Inr sample_wallet"
proof -
  have "gen_key wallet_env = Some (ed_public sample_env sample_priv, sample_priv)"
    by (simp add: wallet_env_def sample_env_def)
  then show ?thesis
    using sample_address by (simp add: GenerateWallet_def wallet_env_same sample_wallet_def sample_pub_hex_def sample_priv_hex_def)
qed

lemma sample_first_wallet: "\<exists>fs1. LoadOrCreateWallet wallet_env fmempty (''d'', ''wallet.json'') = (fs1, Inr sample_wallet)"
proof -
  have k: "gen_key wallet_env \<noteq> None" by (simp add: wallet_env_def sample_env_def)
  obtain fs1 w where w: "LoadOrCreateWallet wallet_env fmempty (''d'', ''wallet.json'') = (fs1, Inr w)"
    by (rule fresh_wallet [OF wallet_env_ok(3,1,2) k, of fmempty "''d''"]) simp_all
  then have "w = sample_wallet"
    using sample_generated
    by (auto simp: LoadOrCreateWallet_def LoadWallet_def os_ReadFile_def split: if_splits sum.splits option.splits prod.splits)
  with w show ?thesis by blast
qed

theorem wallet_survives_restart_witness:
  "\<exists>fs1. LoadOrCreateWallet wallet_env fmempty (''d'', ''wallet.json'') = (fs1, Inr sample_wallet) \<and>
     LoadOrCreateWallet wallet_env fs1 (''d'', ''wallet.json'') = (fs1, Inr sample_wallet)"
proof -
  obtain fs1 where f: "LoadOrCreateWallet wallet_env fmempty (''d'', ''wallet.json'') = (fs1, Inr sample_wallet)"
    using sample_first_wallet by blast
  have "unmarshalWallet wallet_env (marshalWallet wallet_env sample_wallet @ [CHR 0x0A]) = Some sample_wallet"
    by (simp add: wallet_env_def)
  from wallet_survives_restart [OF wallet_env_ok(1,2) f this] f show ?thesis by blast
qed

definition wallet_disk :: files where "wallet_disk = fmupd (''d'', ''wallet.json'') ''{}'' fmempty"

lemma wallet_path: "path_of ''d/wallet.json'' = (''d'', ''wallet.json'')"
  by code_simp

lemma sample_wallet_loads: "LoadWallet wallet_env wallet_disk (''d'', ''wallet.json'') = Inr sample_wallet"
proof -
  have "check_wallet wallet_env sample_wallet = Inr sample_wallet"
    using sample_address by (simp add: check_ok wallet_ok_def wallet_env_same sample_wallet_def sample_hex_nonempty)
  then show ?thesis using wallet_env_ok(3) by (simp add: LoadWallet_def os_ReadFile_def wallet_disk_def) (simp add: wallet_env_def)
qed

theorem signtx_is_admitted_witness:
  "\<exists>t c'. signtx_main wallet_env wallet_disk ''d/wallet.json'' ''bob'' 5 0 1 = Inr t \<and>
     addTxToMempoolLocked wallet_env (node_with 100) t = (c', None) \<and> t \<in> set (chMempool c')"
proof -
  have s: "signtx_main wallet_env wallet_disk ''d/wallet.json'' ''bob'' 5 0 1 = Inr sample_tx"
    using sample_SignTx by (simp add: signtx_main_def wallet_path sample_wallet_loads wallet_env_same) (simp add: sample_wallet_def)
  have k: "\<exists>priv. hex_decode (wPrivHex w) = Some priv \<and> hex_decode (wPubHex w) = Some (ed_public wallet_env priv)"
    if "LoadWallet wallet_env wallet_disk (path_of ''d/wallet.json'') = Inr w" for w
    using that sample_keys(1,2) unfolding wallet_path sample_wallet_loads wallet_frames by (auto simp: sample_wallet_def)
  have "\<exists>c'. addTxToMempoolLocked wallet_env (node_with 100) sample_tx = (c', None) \<and> sample_tx \<in> set (chMempool c')"
    using sample_tx_small sample_tx_shape(2)
    by (intro signtx_is_admitted [OF wallet_env_ok(1) s k])
      (simp_all add: sample_tx_fields BaseFee_def MaxMempoolTxs_def node_with_account)
  with s show ?thesis by blast
qed

section \<open>Certificates\<close>

definition sample_tls :: tls_lib where
  "sample_tls = \<lparr>is_dir = \<lambda>_. False, broad_mode = \<lambda>_. False, key_pair_loads = (\<lambda>c k. c = ''cert'' \<and> k = ''key''),
     leaf_window = (\<lambda>_. None), pem_ca = (\<lambda>_. True), ca_parses = (\<lambda>c k. c = ''ca'' \<and> k = ''cakey''),
     new_ca = Some (''ca'', ''cakey''), new_leaf = (\<lambda>_ _ _. Some (''cert'', ''key''))\<rparr>"

lemma sample_tls_simps [simp]:
  "new_ca sample_tls = Some (''ca'', ''cakey'')" "new_leaf sample_tls hst c k = Some (''cert'', ''key'')"
  "key_pair_loads sample_tls ''cert'' ''key''" "\<not> is_dir sample_tls p" "\<not> broad_mode sample_tls p"
  by (simp_all add: sample_tls_def)

theorem http_pair_reused_witness:
  "\<exists>fs1 r. ensureHTTPServerTLSFiles sample_tls sample_env fmempty ''data/n'' ''h'' None = (fs1, Inr r) \<and>
     ensureHTTPServerTLSFiles sample_tls sample_env fs1 ''data/n'' ''g'' None = (fs1, Inr r)"
proof -
  have d: "dir_name ''data/n''" by (simp add: dir_name_def is_space_def)
  obtain fs1 c k where p: "ensureHTTPServerTLSFiles sample_tls sample_env fmempty ''data/n'' ''h'' None =
      (fs1, Inr (http_cert ''data/n'', http_key ''data/n''))"
    by (rule fresh_pair [of sample_env sample_tls "''data/n''"]) simp_all
  from http_pair_reused [OF p d sample_io, of "''g''"] p show ?thesis by auto
qed

definition key_fails_env :: env where
  "key_fails_env = sample_env\<lparr>io_fails := \<lambda>opr p. opr = OpenFile \<and> p = http_key ''data/n''\<rparr>"

theorem half_made_pair_sticks_witness:
  "\<exists>fs1. ensureHTTPServerTLSFiles sample_tls sample_env fs1 ''data/n'' ''h'' None = (fs1, Inl (TlsIncomplete True False))"
proof -
  have d: "dir_name ''data/n''" by (simp add: dir_name_def is_space_def)
  have "fst (path_of ''data/n'') \<noteq> ''data/n''" by code_simp
  from half_made_pair_sticks [OF d, of key_fails_env fmempty sample_tls _ "''h''" sample_env "''h''"] this
  show ?thesis by (auto simp: key_fails_env_def)
qed

section \<open>Start\<close>

definition sample_host :: host where
  "sample_host = \<lparr>hCodec = sample_codec, hBootstrapJSON = (\<lambda>_. None), hTLS = sample_tls, hFree = (\<lambda>_ _. True),
     hMeshListen = (\<lambda>_ _. True), hHTTPListen = (\<lambda>_. True)\<rparr>"

lemma sample_machine: "machine_ready sample_host sample_env ''d'' (Some ''{}'') sample_config"
proof -
  have "cfTLS sample_config = None" by (simp add: sample_config_def)
  then show ?thesis by (simp add: machine_ready_def sample_host_def sample_config_loads_with)
qed

lemma sample_has_key: "gen_key sample_env \<noteq> None"
  by (simp add: sample_env_def)

theorem first_start_commits_witness:
  "\<exists>fs m cfg1 c'. StartMeshDaemon sample_host sample_env ''d'' (Some ''{}'') (Inl True) fmempty = (fs, Inr (m, cfg1)) \<and>
     proposeBlock sample_env (mChain m) = Some (c', None) \<and> chHeight c' = 1"
  by (rule first_start_commits [OF sample_io sample_crypto sample_gen_key sample_has_key sample_time sample_machine])

text \<open>A disk with a snapshot of height 1 and the block of height 1.\<close>

definition at_one :: chain where
  "at_one = (node_with 100)\<lparr>chHeight := 1, chTip := ''t''\<rparr>"

definition both_env :: env where
  "both_env = replay_env\<lparr>unmarshalSnapshot := \<lambda>_. Some (ExportSnapshotLocked sample_env at_one)\<rparr>"

definition both_node :: chain where
  "both_node = newProductionChain\<lparr>chDisk := fmupd (''data'', ''snapshot.json'') ''x''
     (fmupd (''data/blocks'', ''1.json'') (marshalBlock both_env (sample_block 100)) fmempty)\<rparr>"

lemma both_paths: "snapshotPath both_node = (''data'', ''snapshot.json'')" "blockDir both_node = ''data/blocks''"
  by (simp_all add: snapshotPath_def blockDir_def data_root_def both_node_def newProductionChain_def join_path_def)

lemma both_names: "dir_names (chDisk both_node) ''data/blocks'' = [''1.json'']"
proof (rule sorted_distinct_set_unique)
  show "set (dir_names (chDisk both_node) ''data/blocks'') = set [''1.json'']"
    by (simp add: both_node_def)
qed simp_all

lemma one_json: "block_file 1 = ''1.json''" "block_name_height ''1.json'' = Some 1" "tmp_name_height ''1.json'' = None"
proof -
  have "digit_char 1 = CHR ''1''" by code_simp
  then have "fmt_int 1 = ''1''" using fmt_nat.simps [of 1] by (simp add: fmt_int_def)
  then show f: "block_file 1 = ''1.json''" by (simp add: block_file_def)
  show "block_name_height ''1.json'' = Some 1" "tmp_name_height ''1.json'' = None"
    using block_name_height_file [of 1] tmp_name_height_block [of 1] unfolding f by simp_all
qed

lemma both_env_frames: "io_fails both_env = io_fails sample_env" "\<not> allow_corrupt both_env"
  "sha256 both_env = sha256 sample_env" "io_ok both_env"
proof -
  show i: "io_fails both_env = io_fails sample_env" and "sha256 both_env = sha256 sample_env"
    by (simp_all add: both_env_def replay_env_def other_env_def)
  have "\<not> allow_corrupt sample_env" by (simp add: sample_env_def)
  then show "\<not> allow_corrupt both_env" by (simp add: both_env_def replay_env_def other_env_def)
  show "io_ok both_env" unfolding io_ok_def i by (rule sample_io [unfolded io_ok_def])
qed

lemma both_snapshot:
  "\<exists>c1. LoadSnapshotFromDisk both_env both_node = (c1, Inr True) \<and> chHeight c1 = 1 \<and> chDisk c1 = chDisk both_node \<and>
     chDataDir c1 = [] \<and> chPersistDir c1 = []"
proof -
  let ?snap = "ExportSnapshotLocked sample_env at_one"
  have x: "trim_space ''x'' \<noteq> []" by (simp add: trim_space_def is_space_def)
  have acc: "account_error (chAccounts at_one) = None" using node_accounts_ok by (simp add: at_one_def)
  have "validateSnapshotPayload sample_env ''x'' ?snap = Inr (chAccounts at_one)"
    by (rule export_valid [OF sample_crypto x acc])
  then have "read_snapshot both_env ''x'' = Inr (?snap, chAccounts at_one)"
    unfolding read_snapshot_def validateSnapshotPayload_def computeAccountsHash_def computeSnapshotHash_def both_env_frames(3)
    by (simp add: both_env_def)
  moreover have h: "snapHeight ?snap = 1" by (simp add: ExportSnapshotLocked_def at_one_def Let_def)
  let ?c = "reset_to_snapshot ?snap (chAccounts at_one) both_node"
  have f: "chHeight ?c = 1" "chDisk ?c = chDisk both_node" "chDataDir ?c = []" "chPersistDir ?c = []"
    using h by (simp_all add: reset_to_snapshot_def resetMempoolLocked_def) (simp_all add: both_node_def newProductionChain_def)
  then have dir: "blockDir ?c = ''data/blocks''" by (simp add: blockDir_def data_root_def join_path_def)
  have "block_files 1 [''1.json''] = []" by (simp add: block_files_def one_json List.map_filter_def)
  then have "replay_dir both_env 1 ?c = (?c, Replayed)"
    using both_env_frames(4) by (simp add: replay_dir_def os_ReadDir_def dir f(2) both_names)
  moreover have "fmlookup (chDisk both_node) (''data'', ''snapshot.json'') = Some ''x''"
    "(''data'', ''snapshot.json.tmp'') |\<notin>| fmdom (chDisk both_node)" by (simp_all add: both_node_def)
  ultimately have "LoadSnapshotFromDisk both_env both_node = (?c, Inr True)"
    using both_env_frames(4) h
    by (simp add: LoadSnapshotFromDisk_def recoverInterruptedSnapshotWrite_def both_paths tmp_of_def os_Stat_def os_ReadFile_def)
  with f show ?thesis by blast
qed

theorem snapshot_beside_blocks_stops_start_witness:
  "\<exists>c' err. load_state both_env both_node = (c', Inl (StartBlocks (StartupHalted (ApplyBlockAt 1 err)))) \<and>
     fmlookup (chDisk c') (''data/blocks'', ''1.json'') = None"
proof -
  obtain c1 where c1: "LoadSnapshotFromDisk both_env both_node = (c1, Inr True)" "chHeight c1 = 1"
    "chDisk c1 = chDisk both_node" "chDataDir c1 = []" "chPersistDir c1 = []" using both_snapshot by blast
  have dir: "blockDir c1 = ''data/blocks''" using c1(4,5) by (simp add: blockDir_def data_root_def join_path_def)
  have p: "blockPath c1 1 = (''data/blocks'', ''1.json'')" by (simp add: blockPath_def dir one_json)
  have codec: "block_codec both_env (sample_block 100)"
    using replay_env_ok(2) by (simp add: block_codec_def both_env_def)
  have d: "fmlookup (chDisk c1) (blockPath c1 1) = Some (marshalBlock both_env (sample_block 100))"
    unfolding p c1(3) by (simp add: both_node_def)
  have names: "dir_names (chDisk c1) (blockDir c1) = [''1.json'']" by (simp only: dir c1(3) both_names)
  have h: "bHeight (sample_block 100) = 1" by (simp add: sample_block_fields)
  from snapshot_beside_blocks_stops_start [OF both_env_frames(4,2) c1(1) codec h _ _ _ d] c1(2) p
  show ?thesis by (simp add: names one_json) blast
qed

end
