(* ===== verification/Finalizer.thy ===== *)
theory Finalizer
  imports Identity Quorum
begin

text \<open>
  Package \<open>internal/consensus\<close>: the finalizer with its vote table and its state file, the
  votes it counts, the validator's key file and the bundle that wires them.
\<close>

section \<open>State\<close>

record finalizer =
  fzDataDir :: string
  fzValidators :: "string fset"
  fzTotalPower :: u64
  fzThreshold :: u64
  fzBlocks :: "(u64, string fset) fmap"
  fzVotes :: "(u64, (string, string fset) fmap) fmap"
  fzState :: finality_state

datatype finalizer_error = DataDirEmpty | ValidatorSetEmpty | NotAValidator string
  | BelowFinalized u64 | ReorgFinalized u64 string string

definition empty_finality :: finality_state where
  "empty_finality = \<lparr>FinalizedHeight = 0, FinalizedHash = [], UpdatedAt = []\<rparr>"

definition finality_path :: "finalizer \<Rightarrow> path" where
  "finality_path f = (join_path (fzDataDir f) ''consensus'', ''finality_state.json'')"

section \<open>Operations\<close>

text \<open>A missing file and an unreadable one both leave the state as it is.\<close>

definition load :: "env \<Rightarrow> files \<Rightarrow> finalizer \<Rightarrow> finalizer" where
  "load e fs f =
     (case os_ReadFile e fs (finality_path f) of Inl _ \<Rightarrow> f
      | Inr raw \<Rightarrow> (case unmarshalFinality e raw of None \<Rightarrow> f | Some st \<Rightarrow> f\<lparr>fzState := st\<rparr>))"

definition persist :: "env \<Rightarrow> files \<Rightarrow> finalizer \<Rightarrow> io_error option \<times> files" where
  "persist e fs f =
     (if io_fails e MkdirAll (fst (finality_path f), []) then (Some (IOFailure MkdirAll), fs)
      else os_WriteFile e fs (finality_path f) (marshalFinality e (fzState f)))"

definition NewFinalizer :: "env \<Rightarrow> files \<Rightarrow> string \<Rightarrow> string list \<Rightarrow> finalizer_error + finalizer" where
  "NewFinalizer e fs dataDir validatorIDs =
     (if dataDir = [] then Inl DataDirEmpty
      else let vset = fset_of_list (filter (\<lambda>v. v \<noteq> []) validatorIDs); n = of_nat (fcard vset)
           in if vset = {||} then Inl ValidatorSetEmpty
              else Inr (load e fs \<lparr>fzDataDir = dataDir, fzValidators = vset, fzTotalPower = n,
                  fzThreshold = 2 * n div 3 + 1, fzBlocks = fmempty, fzVotes = fmempty,
                  fzState = empty_finality\<rparr>))"

definition ObserveBlock :: "u64 \<Rightarrow> string \<Rightarrow> finalizer \<Rightarrow> finalizer" where
  "ObserveBlock height blockHashHex f =
     (if height = 0 \<or> blockHashHex = [] then f
      else f\<lparr>fzBlocks := fmupd height (finsert blockHashHex (fmget {||} (fzBlocks f) height)) (fzBlocks f)\<rparr>)"

definition voters :: "finalizer \<Rightarrow> u64 \<Rightarrow> string \<Rightarrow> string fset" where
  "voters f height blockHash = fmget {||} (fmget fmempty (fzVotes f) height) blockHash"

definition record_vote :: "consensus_vote \<Rightarrow> finalizer \<Rightarrow> finalizer" where
  "record_vote v f = f\<lparr>fzVotes := fmupd (cvHeight v)
     (fmupd (cvBlockHash v) (finsert (cvValidatorID v) (voters f (cvHeight v) (cvBlockHash v)))
        (fmget fmempty (fzVotes f) (cvHeight v))) (fzVotes f)\<rparr>"

text \<open>The result is whether the vote finalized a block, or the error; the state is returned with it.\<close>

definition AddVote :: "env \<Rightarrow> consensus_vote \<Rightarrow> finalizer \<times> files \<Rightarrow>
    (finalizer \<times> files) \<times> (finalizer_error + bool) \<times> finality_state" where
  "AddVote e v s =
     (case s of (f, fs) \<Rightarrow>
        if cvValidatorID v |\<notin>| fzValidators f
        then ((f, fs), Inl (NotAValidator (cvValidatorID v)), fzState f)
        else let f1 = record_vote v f;
                 power = of_nat (fcard (voters f1 (cvHeight v) (cvBlockHash v)))
             in if power < fzThreshold f1 then ((f1, fs), Inr False, fzState f1)
                else if FinalizedHeight (fzState f1) < cvHeight v
                then let f2 = f1\<lparr>fzState := \<lparr>FinalizedHeight = cvHeight v, FinalizedHash = cvBlockHash v,
                           UpdatedAt = fmt_time e (now e)\<rparr>\<rparr>
                     in ((f2, snd (persist e fs f2)), Inr True, fzState f2)
                else ((f1, fs), Inr False, fzState f1))"

definition EnforceNoReorg :: "u64 \<Rightarrow> string \<Rightarrow> finalizer \<Rightarrow> finalizer_error option" where
  "EnforceNoReorg height blockHashHex f =
     (let st = fzState f
      in if height = 0 then None
         else if FinalizedHeight st = 0 then None
         else if height < FinalizedHeight st then Some (BelowFinalized (FinalizedHeight st))
         else if height = FinalizedHeight st \<and> FinalizedHash st \<noteq> [] \<and> blockHashHex \<noteq> [] \<and>
             blockHashHex \<noteq> FinalizedHash st
         then Some (ReorgFinalized (FinalizedHeight st) (FinalizedHash st) blockHashHex)
         else None)"

section \<open>Votes\<close>

datatype cvote_error = MissingFields | IdMismatch | BadSigEncoding | SigInvalid

definition signingBytes :: "env \<Rightarrow> consensus_vote \<Rightarrow> string" where
  "signingBytes e v = sha256 e (json_object
     [(''height'', json_int (uint (cvHeight v))), (''round'', json_int (uint (cvRound v))),
      (''block_hash'', json_string (cvBlockHash v)), (''validator_id'', json_string (cvValidatorID v))])"

text \<open>\<open>None\<close> is the panic of the primitive on a key of the wrong size.\<close>

definition SignVote :: "env \<Rightarrow> u64 \<Rightarrow> 32 word \<Rightarrow> string \<Rightarrow> string \<Rightarrow> string \<Rightarrow> (cvote_error + consensus_vote) option" where
  "SignVote e height rnd blockHashHex validatorID priv =
     (if blockHashHex = [] \<or> validatorID = [] then Some (Inl MissingFields)
      else let v = \<lparr>cvHeight = height, cvRound = rnd, cvBlockHash = blockHashHex,
                    cvValidatorID = validatorID, cvSig = []\<rparr>
           in case ed25519_Sign e priv (signingBytes e v) of None \<Rightarrow> None
              | Some sig \<Rightarrow> Some (Inr (v\<lparr>cvSig := hex_encode sig\<rparr>)))"

definition VerifyConsensusVote :: "env \<Rightarrow> consensus_vote \<Rightarrow> string \<Rightarrow> cvote_error option option" where
  "VerifyConsensusVote e v pub =
     (if cvSig v = [] \<or> cvBlockHash v = [] \<or> cvValidatorID v = [] then Some (Some MissingFields)
      else if hex_encode pub \<noteq> cvValidatorID v then Some (Some IdMismatch)
      else case hex_decode (cvSig v) of None \<Rightarrow> Some (Some BadSigEncoding)
        | Some sig \<Rightarrow>
            (case ed25519_Verify e pub (signingBytes e v) sig of None \<Rightarrow> None
             | Some good \<Rightarrow> Some (if good then None else Some SigInvalid)))"

section \<open>The validator key\<close>

datatype ckey_error = CkDirEmpty | CkMkdir | CkSyntax | CkPubHex | CkPrivHex | CkSizes nat nat
  | CkKeyGen | CkWrite io_error | CkFinalizer finalizer_error

definition consensus_key_path :: "string \<Rightarrow> path" where
  "consensus_key_path dataDir = (join_path dataDir ''consensus'', ''validator_key.json'')"

definition decode_consensus_key :: "env \<Rightarrow> string \<Rightarrow> ckey_error + consensus_key \<times> string \<times> string" where
  "decode_consensus_key e raw =
     (case unmarshalConsensusKey e raw of None \<Rightarrow> Inl CkSyntax
      | Some vk \<Rightarrow>
          (case hex_decode (ckPubKeyHex vk) of None \<Rightarrow> Inl CkPubHex
           | Some pub \<Rightarrow>
               (case hex_decode (ckPrivKeyHex vk) of None \<Rightarrow> Inl CkPrivHex
                | Some priv \<Rightarrow>
                    if length pub \<noteq> 32 \<or> length priv \<noteq> 64 then Inl (CkSizes (length pub) (length priv))
                    else Inr (vk, pub, priv))))"

text \<open>Any error of reading, not only a missing file, makes a new key and writes it over the old.\<close>

definition LoadOrCreateValidatorKey :: "env \<Rightarrow> files \<Rightarrow> string \<Rightarrow>
    files \<times> (ckey_error + consensus_key \<times> string \<times> string)" where
  "LoadOrCreateValidatorKey e fs dataDir =
     (if dataDir = [] then (fs, Inl CkDirEmpty)
      else let p = consensus_key_path dataDir
           in if io_fails e MkdirAll (fst p, []) then (fs, Inl CkMkdir)
              else case os_ReadFile e fs p of
                  Inr raw \<Rightarrow> (fs, decode_consensus_key e raw)
                | Inl _ \<Rightarrow>
                    (case gen_key e of None \<Rightarrow> (fs, Inl CkKeyGen)
                     | Some (pub, priv) \<Rightarrow>
                         let vk = \<lparr>ckID = hex_encode pub, ckPubKeyHex = hex_encode pub,
                               ckPrivKeyHex = hex_encode priv\<rparr>
                         in case os_WriteFile e fs p (marshalConsensusKey e vk) of
                              (Some err, fs1) \<Rightarrow> (fs1, Inl (CkWrite err))
                            | (None, fs1) \<Rightarrow> (fs1, Inr (vk, pub, priv))))"

record wire_bundle =
  wbValidatorID :: string
  wbPub :: string
  wbPriv :: string
  wbFinalizer :: finalizer

definition InitConsensusFinality :: "env \<Rightarrow> files \<Rightarrow> string \<Rightarrow> string list \<Rightarrow> files \<times> (ckey_error + wire_bundle)" where
  "InitConsensusFinality e fs dataDir validatorSet =
     (case LoadOrCreateValidatorKey e fs dataDir of (fs1, Inl err) \<Rightarrow> (fs1, Inl err)
      | (fs1, Inr (vk, pub, priv)) \<Rightarrow>
          (case NewFinalizer e fs1 dataDir (if validatorSet = [] then [ckID vk] else validatorSet) of
             Inl err \<Rightarrow> (fs1, Inl (CkFinalizer err))
           | Inr f \<Rightarrow> (fs1, Inr \<lparr>wbValidatorID = ckID vk, wbPub = pub, wbPriv = priv, wbFinalizer = f\<rparr>)))"

section \<open>Lemmas\<close>

interpretation twothirds: quorum M "2 * fcard M div 3 + 1" for M :: "string fset"
  by unfold_locales presburger

text \<open>The table holds validators only, and the threshold is the one of the validator set.\<close>

definition finalizer_wf :: "finalizer \<Rightarrow> bool" where
  "finalizer_wf f \<longleftrightarrow> fcard (fzValidators f) < 2 ^ 62 \<and>
     fzThreshold f = 2 * of_nat (fcard (fzValidators f)) div 3 + 1 \<and>
     (\<forall>h a. voters f h a |\<subseteq>| fzValidators f)"

lemma voters_record [simp]:
  "voters (record_vote v f) h a =
     (if h = cvHeight v \<and> a = cvBlockHash v then finsert (cvValidatorID v) (voters f h a) else voters f h a)"
  by (auto simp: voters_def record_vote_def)

lemma voters_state [simp]: "voters (f\<lparr>fzState := st\<rparr>) = voters f"
  by (simp add: voters_def fun_eq_iff)

lemma record_vote_fields [simp]:
  "fzValidators (record_vote v f) = fzValidators f" "fzThreshold (record_vote v f) = fzThreshold f"
  "fzState (record_vote v f) = fzState f" "fzDataDir (record_vote v f) = fzDataDir f"
  by (simp_all add: record_vote_def)

lemma record_vote_wf:
  "finalizer_wf f \<Longrightarrow> cvValidatorID v |\<in>| fzValidators f \<Longrightarrow> finalizer_wf (record_vote v f)"
  by (auto simp: finalizer_wf_def)

lemma unat64_of_nat: "k < 2 ^ 64 \<Longrightarrow> unat (of_nat k :: u64) = k"
  by (simp add: unat_of_nat)

lemma threshold_nat:
  assumes "n < 2 ^ 62"
  shows "(2 * of_nat n div 3 + 1 :: u64) = of_nat (2 * n div 3 + 1)"
proof -
  have "unat (2 * of_nat n :: u64) = 2 * n"
    using assms unat64_of_nat [of "2 * n"] by simp
  then have "unat (2 * of_nat n div 3 :: u64) = 2 * n div 3" by (simp add: unat_div)
  then have "(2 * of_nat n div 3 :: u64) = of_nat (2 * n div 3)" by (metis of_nat_unat ucast_id)
  then show ?thesis by simp
qed

lemma threshold_reached:
  assumes "finalizer_wf f"
  shows "\<not> of_nat (fcard (voters f h a)) < fzThreshold f \<longleftrightarrow> twothirds.is_quorum (fzValidators f) (voters f h a)"
proof -
  have sub: "voters f h a |\<subseteq>| fzValidators f" and lim: "fcard (fzValidators f) < 2 ^ 62"
    using assms by (simp_all add: finalizer_wf_def)
  have "fcard (voters f h a) < 2 ^ 62" using fcard_mono [OF sub] lim by (rule le_less_trans)
  then have v: "unat (of_nat (fcard (voters f h a)) :: u64) = fcard (voters f h a)"
    by (intro unat64_of_nat) simp
  have "fzThreshold f = of_nat (2 * fcard (fzValidators f) div 3 + 1)"
    using assms threshold_nat [OF lim] by (simp add: finalizer_wf_def)
  moreover have "2 * fcard (fzValidators f) div 3 + 1 < 2 ^ 64" using lim by simp
  then have "unat (of_nat (2 * fcard (fzValidators f) div 3 + 1) :: u64) = 2 * fcard (fzValidators f) div 3 + 1"
    by (rule unat64_of_nat)
  ultimately show ?thesis using sub v by (simp only: word_less_nat_alt twothirds.is_quorum_def not_less simp_thms)
qed

text \<open>What one vote can do.\<close>

lemma AddVote_cases:
  assumes "AddVote e v (f, fs) = (s', res, st)"
  obtains (refused) "cvValidatorID v |\<notin>| fzValidators f" "s' = (f, fs)" "res = Inl (NotAValidator (cvValidatorID v))" "st = fzState f"
  | (counted) "cvValidatorID v |\<in>| fzValidators f" "s' = (record_vote v f, fs)" "res = Inr False" "st = fzState f"
  | (finalized) f2 where "cvValidatorID v |\<in>| fzValidators f" "s' = (f2, snd (persist e fs f2))" "res = Inr True"
      "f2 = (record_vote v f)\<lparr>fzState := st\<rparr>" "FinalizedHeight (fzState f) < cvHeight v"
      "FinalizedHeight st = cvHeight v" "FinalizedHash st = cvBlockHash v"
      "\<not> of_nat (fcard (voters (record_vote v f) (cvHeight v) (cvBlockHash v))) < fzThreshold f"
  using assms by (auto simp: AddVote_def Let_def split: if_splits)

lemma AddVote_wf: "finalizer_wf f \<Longrightarrow> AddVote e v (f, fs) = ((f', fs'), res, st) \<Longrightarrow>
    finalizer_wf f' \<and> fzValidators f' = fzValidators f"
proof (erule AddVote_cases)
  show "finalizer_wf f' \<and> fzValidators f' = fzValidators f"
    if wf: "finalizer_wf f" and "cvValidatorID v |\<in>| fzValidators f" "(f', fs') = (f2, snd (persist e fs f2))"
      "f2 = (record_vote v f)\<lparr>fzState := st\<rparr>" for f2
    using record_vote_wf [OF wf that(2)] that by (simp add: finalizer_wf_def)
qed (auto intro: record_vote_wf)

lemma voters_AddVote:
  assumes "AddVote e v (f, fs) = ((f', fs'), res, st)" and "x |\<in>| voters f' h a"
  shows "x |\<in>| voters f h a \<or> (cvValidatorID v = x \<and> cvHeight v = h \<and> cvBlockHash v = a)"
  using assms(1) by (rule AddVote_cases) (use assms(2) in \<open>auto split: if_splits\<close>)

definition add_votes :: "(env \<times> consensus_vote) list \<Rightarrow> finalizer \<times> files \<Rightarrow> finalizer \<times> files" where
  "add_votes evs s = fold (\<lambda>(e, v) s. fst (AddVote e v s)) evs s"

definition voted_for :: "string \<Rightarrow> u64 \<Rightarrow> string \<Rightarrow> (env \<times> consensus_vote) list \<Rightarrow> bool" where
  "voted_for x h a evs \<longleftrightarrow> (\<exists>(e, v) \<in> set evs. cvValidatorID v = x \<and> cvHeight v = h \<and> cvBlockHash v = a)"

lemma add_votes_Nil [simp]: "add_votes [] s = s"
  by (simp add: add_votes_def)

lemma add_votes_Cons [simp]: "add_votes ((e, v) # evs) s = add_votes evs (fst (AddVote e v s))"
  by (simp add: add_votes_def)

lemma voted_for_simps [simp]: "\<not> voted_for x h a []"
  "voted_for x h a ((e, v) # evs) \<longleftrightarrow> (cvValidatorID v = x \<and> cvHeight v = h \<and> cvBlockHash v = a) \<or> voted_for x h a evs"
  "voted_for x h a (evs @ evs') \<longleftrightarrow> voted_for x h a evs \<or> voted_for x h a evs'"
  by (auto simp: voted_for_def)

lemma voted_for_id: "voted_for x h a evs \<Longrightarrow> x \<in> (\<lambda>ev. cvValidatorID (snd ev)) ` set evs"
  unfolding voted_for_def by force

lemma add_votes_inv:
  assumes "finalizer_wf f" and "add_votes evs (f, fs) = (f', fs')"
  shows "finalizer_wf f' \<and> fzValidators f' = fzValidators f \<and>
    (\<forall>h a x. x |\<in>| voters f' h a \<longrightarrow> x |\<in>| voters f h a \<or> voted_for x h a evs)"
  using assms
proof (induction evs arbitrary: f fs)
  case (Cons ev evs)
  obtain e v where ev: "ev = (e, v)" by (cases ev)
  obtain f1 fs1 res st where a: "AddVote e v (f, fs) = ((f1, fs1), res, st)" by (metis prod.exhaust)
  have wf: "finalizer_wf f1" "fzValidators f1 = fzValidators f" using AddVote_wf [OF Cons.prems(1) a] by simp_all
  have rest: "add_votes evs (f1, fs1) = (f', fs')" using Cons.prems(2) a by (simp add: ev)
  show ?case
    using Cons.IH [OF wf(1) rest] wf(2) voters_AddVote [OF a] unfolding ev voted_for_simps by metis
qed simp

lemma NewFinalizer_Inr:
  assumes "NewFinalizer e fs d ids = Inr f" and "length ids < 2 ^ 62"
  shows "finalizer_wf f" "voters f h a = {||}" "fzDataDir f = d"
    "fset (fzValidators f) = {v \<in> set ids. v \<noteq> []}"
proof -
  let ?V = "fset_of_list (filter (\<lambda>v. v \<noteq> []) ids)"
  let ?f = "\<lparr>fzDataDir = d, fzValidators = ?V, fzTotalPower = of_nat (fcard ?V),
      fzThreshold = 2 * of_nat (fcard ?V) div 3 + 1, fzBlocks = fmempty, fzVotes = fmempty, fzState = empty_finality\<rparr>"
  have "f = load e fs ?f" using assms(1) by (simp add: NewFinalizer_def Let_def split: if_splits)
  then obtain st where f: "f = ?f\<lparr>fzState := st\<rparr>"
    by (auto simp: load_def split: sum.splits option.splits intro: that [of empty_finality] that)
  have "fcard ?V \<le> length (filter (\<lambda>v. v \<noteq> []) ids)"
    unfolding fcard.rep_eq fset_of_list.rep_eq by (rule card_length)
  also have "\<dots> \<le> length ids" by (rule length_filter_le)
  finally have "fcard ?V \<le> length ids" .
  then show "finalizer_wf f" "voters f h a = {||}" "fzDataDir f = d" "fset (fzValidators f) = {v \<in> set ids. v \<noteq> []}"
    using assms(2) by (auto simp: f finalizer_wf_def voters_def fset_of_list.rep_eq)
qed

lemma two_thirds_arith:
  "3 * q + r = 2 * n \<Longrightarrow> r < 3 \<Longrightarrow> 2 * (q + 1) \<le> n + k \<Longrightarrow> k \<le> m \<Longrightarrow> n < 3 * (m :: nat)"
  unfolding distrib_left by linarith

text \<open>A finalized height is backed by more than two thirds of the validators.\<close>

lemma finalized_quorum:
  assumes "finalizer_wf f" and "AddVote e v (f, fs) = ((f', fs'), Inr True, st)"
  shows "twothirds.is_quorum (fzValidators f) (voters f' (FinalizedHeight st) (FinalizedHash st))"
    and "FinalizedHeight st = cvHeight v" "FinalizedHash st = cvBlockHash v" "fzState f' = st"
proof -
  obtain f2 where v: "cvValidatorID v |\<in>| fzValidators f" and f2: "f' = f2" "f2 = (record_vote v f)\<lparr>fzState := st\<rparr>"
    and st: "FinalizedHeight st = cvHeight v" "FinalizedHash st = cvBlockHash v"
    and pow: "\<not> of_nat (fcard (voters (record_vote v f) (cvHeight v) (cvBlockHash v))) < fzThreshold f"
    using assms(2) by (rule AddVote_cases) auto
  have "twothirds.is_quorum (fzValidators f) (voters (record_vote v f) (cvHeight v) (cvBlockHash v))"
    using threshold_reached [OF record_vote_wf [OF assms(1) v], of "cvHeight v" "cvBlockHash v"] pow by simp
  then show "twothirds.is_quorum (fzValidators f) (voters f' (FinalizedHeight st) (FinalizedHash st))"
    unfolding f2 st voters_state .
qed (use assms(2) in \<open>auto elim: AddVote_cases\<close>)

lemma run_quorum:
  assumes new: "NewFinalizer e0 fs0 d ids = Inr f" "length ids < 2 ^ 62"
    and add: "AddVote e v (add_votes evs (f, fs)) = (s, Inr True, st)"
  obtains V where "twothirds.is_quorum (fzValidators f) V"
    "\<And>x. x |\<in>| V \<Longrightarrow> voted_for x (FinalizedHeight st) (FinalizedHash st) (evs @ [(e, v)])"
proof -
  obtain f1 fs1 where run: "add_votes evs (f, fs) = (f1, fs1)" by fastforce
  obtain f2 fs2 where a: "AddVote e v (f1, fs1) = ((f2, fs2), Inr True, st)"
    using add run by (metis prod.exhaust)
  note inv = add_votes_inv [OF NewFinalizer_Inr(1) [OF new] run]
  then have wf: "finalizer_wf f1" and vals: "fzValidators f1 = fzValidators f" by simp_all
  show thesis
  proof (rule that [of "voters f2 (FinalizedHeight st) (FinalizedHash st)"])
    show "twothirds.is_quorum (fzValidators f) (voters f2 (FinalizedHeight st) (FinalizedHash st))"
      using finalized_quorum(1) [OF wf a] vals by simp
  next
    fix x assume "x |\<in>| voters f2 (FinalizedHeight st) (FinalizedHash st)"
    from voters_AddVote [OF a this] inv NewFinalizer_Inr(2) [OF new]
    show "voted_for x (FinalizedHeight st) (FinalizedHash st) (evs @ [(e, v)])" by auto
  qed
qed

text \<open>Once a height is finalized, no later vote lets another hash through.\<close>

definition locked :: "u64 \<Rightarrow> string \<Rightarrow> finalizer \<Rightarrow> bool" where
  "locked h a f \<longleftrightarrow> h \<le> FinalizedHeight (fzState f) \<and>
     (FinalizedHeight (fzState f) = h \<longrightarrow> FinalizedHash (fzState f) = a)"

lemma locked_step: "locked h a f \<Longrightarrow> AddVote e v (f, fs) = ((f', fs'), res, st) \<Longrightarrow> locked h a f'"
  by (erule AddVote_cases) (auto simp: locked_def)

lemma locked_run: "locked h a (fst s) \<Longrightarrow> locked h a (fst (add_votes evs s))"
proof (induction evs arbitrary: s)
  case (Cons ev evs)
  obtain e v f fs where ev: "ev = (e, v)" "s = (f, fs)" by (cases ev, cases s)
  obtain f1 fs1 res st where a: "AddVote e v (f, fs) = ((f1, fs1), res, st)" by (metis prod.exhaust)
  with Cons.IH [of "(f1, fs1)"] locked_step [OF _ a, of h a] Cons.prems show ?case by (simp add: ev)
qed simp

lemma locked_rejects:
  assumes "locked h a f" and "h \<noteq> 0" and "a \<noteq> []" and "b \<noteq> []" and "b \<noteq> a"
  shows "EnforceNoReorg h b f \<noteq> None"
proof (cases "FinalizedHeight (fzState f) = h")
  case False
  then have "h < FinalizedHeight (fzState f)" using assms(1) by (simp add: locked_def order_less_le)
  moreover from this have "FinalizedHeight (fzState f) \<noteq> 0" by auto
  ultimately show ?thesis using assms(2) by (simp add: EnforceNoReorg_def Let_def)
qed (use assms in \<open>simp add: locked_def EnforceNoReorg_def\<close>)

section \<open>Properties\<close>

text \<open>
  C8 (safety): two nodes with the same validators never finalize different blocks at one height
  unless more than a third of the validators voted for both: the votes each node counted,
  in whatever order and from whatever store it started, are the proof against them.
\<close>

theorem conflicting_finality_needs_equivocation:
  assumes new1: "NewFinalizer e1 fs1 d1 ids = Inr f1" and new2: "NewFinalizer e2 fs2 d2 ids = Inr f2"
    and len: "length ids < 2 ^ 62"
    and fin1: "AddVote ea va (add_votes evs1 (f1, fs1)) = (s1, Inr True, st1)"
    and fin2: "AddVote eb vb (add_votes evs2 (f2, fs2)) = (s2, Inr True, st2)"
    and conflict: "FinalizedHeight st1 = FinalizedHeight st2"
  shows "card {v \<in> set ids. v \<noteq> []} < 3 * card {x. voted_for x (FinalizedHeight st1) (FinalizedHash st1) (evs1 @ [(ea, va)])
    \<and> voted_for x (FinalizedHeight st1) (FinalizedHash st2) (evs2 @ [(eb, vb)])}" (is "_ < 3 * card ?E")
proof -
  have same: "fzValidators f2 = fzValidators f1" "fset (fzValidators f1) = {v \<in> set ids. v \<noteq> []}"
    using NewFinalizer_Inr(4) [OF new1 len] NewFinalizer_Inr(4) [OF new2 len] by (auto simp: fset_inject)
  obtain V where V: "twothirds.is_quorum (fzValidators f1) V"
    "\<And>x. x |\<in>| V \<Longrightarrow> voted_for x (FinalizedHeight st1) (FinalizedHash st1) (evs1 @ [(ea, va)])"
    using run_quorum [OF new1 len fin1] by blast
  obtain W where W: "twothirds.is_quorum (fzValidators f1) W"
    "\<And>x. x |\<in>| W \<Longrightarrow> voted_for x (FinalizedHeight st2) (FinalizedHash st2) (evs2 @ [(eb, vb)])"
    using run_quorum [OF new2 len fin2] same(1) by auto
  have fin: "finite ?E"
    by (rule finite_subset [OF _ finite_imageI [OF finite_set]]) (blast dest: voted_for_id)
  have le: "fcard (V |\<inter>| W) \<le> card ?E"
    unfolding fcard.rep_eq using V(2) W(2) conflict by (intro card_mono [OF fin]) auto
  have arith: "2 * (2 * n div 3 + 1) \<le> n + k \<Longrightarrow> k \<le> m \<Longrightarrow> n < 3 * m" for n k m :: nat
    by (rule two_thirds_arith [of _ "2 * n mod 3"]) simp_all
  have "fcard (fzValidators f1) = card {v \<in> set ids. v \<noteq> []}" by (simp add: fcard.rep_eq same(2))
  then show ?thesis using arith [OF twothirds.overlap [OF V(1) W(1)] le] by simp
qed

text \<open>
  C17 (safety): finality is permanent: once a vote has finalized a block, every later run of
  votes leaves the finalized height at least as high and keeps refusing any other block there.
\<close>

theorem finality_is_permanent:
  assumes "AddVote e v s = (s1, Inr True, st)" and "FinalizedHash st \<noteq> []" and "add_votes evs s1 = (f2, fs2)"
  shows "FinalizedHeight st \<le> FinalizedHeight (fzState f2) \<and>
    (b \<noteq> [] \<longrightarrow> b \<noteq> FinalizedHash st \<longrightarrow> EnforceNoReorg (FinalizedHeight st) b f2 \<noteq> None)"
proof -
  obtain f fs f1 fs1 where s: "s = (f, fs)" "s1 = (f1, fs1)" by (cases s, cases s1)
  have a: "AddVote e v (f, fs) = ((f1, fs1), Inr True, st)" using assms(1) by (simp add: s)
  have st: "fzState f1 = st" "FinalizedHeight (fzState f) < FinalizedHeight st"
    using a by (auto elim: AddVote_cases)
  then have "locked (FinalizedHeight st) (FinalizedHash st) (fst s1)" by (simp add: locked_def s)
  from locked_run [OF this, of evs] assms(3) have l: "locked (FinalizedHeight st) (FinalizedHash st) f2" by simp
  have "FinalizedHeight st \<noteq> 0" using st(2) by auto
  with locked_rejects [OF l _ assms(2)] l show ?thesis by (simp add: locked_def)
qed

text \<open>
  C30 (roundtrip): the finalized height survives a restart: a finalizer started on the files the
  last finalizing vote left reports the very state that vote returned.
\<close>

theorem finality_survives_restart:
  assumes "io_ok e" and "AddVote e v (f, fs) = ((f1, fs1), Inr True, st)"
    and "unmarshalFinality e (marshalFinality e st) = Some st"
    and "NewFinalizer e fs1 (fzDataDir f) ids = Inr f'"
  shows "fzState f' = st"
proof -
  obtain f2 where f2: "(f1, fs1) = (f2, snd (persist e fs f2))" "f2 = (record_vote v f)\<lparr>fzState := st\<rparr>"
    using assms(2) by (rule AddVote_cases) auto
  then have path: "finality_path f1 = finality_path f" by (simp add: finality_path_def)
  have "fmlookup fs1 (finality_path f) = Some (marshalFinality e st)"
    using f2 assms(1) path by (simp add: persist_def os_WriteFile_def)
  then have "os_ReadFile e fs1 (finality_path f) = Inr (marshalFinality e st)"
    using assms(1) by (simp add: os_ReadFile_def)
  then show ?thesis
    using assms(3,4) by (auto simp: NewFinalizer_def load_def finality_path_def Let_def split: if_splits)
qed

text \<open>
  A node started without a list of validators is its own validator: a vote it
  signs verifies under its key and finalizes, at once, every height above the finalized one.
\<close>

theorem lone_validator_finalizes:
  assumes "crypto_ok e" and "gen_key_ok e" and "InitConsensusFinality e fs d [] = (fs1, Inr wb)"
    and "fmlookup fs (consensus_key_path d) = None" and "blockHash \<noteq> []"
    and "FinalizedHeight (fzState (wbFinalizer wb)) < h"
  shows "\<exists>v s st. SignVote e h r blockHash (wbValidatorID wb) (wbPriv wb) = Some (Inr v) \<and>
    VerifyConsensusVote e v (wbPub wb) = Some None \<and>
    AddVote e v (wbFinalizer wb, fs1) = (s, Inr True, st) \<and>
    FinalizedHeight st = h \<and> FinalizedHash st = blockHash"
proof -
  obtain vk pub priv f where init: "LoadOrCreateValidatorKey e fs d = (fs1, Inr (vk, pub, priv))"
    and new: "NewFinalizer e fs1 d [ckID vk] = Inr f"
    and wb: "wb = \<lparr>wbValidatorID = ckID vk, wbPub = pub, wbPriv = priv, wbFinalizer = f\<rparr>"
    using assms(3) by (auto simp: InitConsensusFinality_def split: prod.splits sum.splits)
  have "os_ReadFile e fs (consensus_key_path d) \<noteq> Inr x" for x
    using assms(4) by (simp add: os_ReadFile_def)
  then have key: "gen_key e = Some (pub, priv)" "ckID vk = hex_encode pub"
    using init by (auto simp: LoadOrCreateValidatorKey_def Let_def
        split: if_splits sum.splits option.splits prod.splits)
  have kp: "length priv = 64" "pub = ed_public e priv"
    using key(1) assms(2) unfolding gen_key_ok_def by blast+
  then have len: "length pub = 32" using crypto_okD(2) [OF assms(1)] by simp
  then have ne: "hex_encode pub \<noteq> []" by (intro hex_encode_nonempty) auto
  note f = NewFinalizer_Inr [OF new]
  have "fset (fzValidators f) = {v \<in> {hex_encode pub}. v \<noteq> []}" using f(4) key(2) by simp
  also have "\<dots> = fset {|hex_encode pub|}" using ne by auto
  finally have "fset (fzValidators f) = fset {|hex_encode pub|}" .
  then have vals: "fzValidators f = {|hex_encode pub|}" by (simp only: fset_inject)
  define v where "v = \<lparr>cvHeight = h, cvRound = r, cvBlockHash = blockHash, cvValidatorID = hex_encode pub,
      cvSig = hex_encode (ed_sign e priv (signingBytes e \<lparr>cvHeight = h, cvRound = r, cvBlockHash = blockHash,
        cvValidatorID = hex_encode pub, cvSig = []\<rparr>))\<rparr>"
  have sign: "SignVote e h r blockHash (wbValidatorID wb) (wbPriv wb) = Some (Inr v)"
    using assms(5) ne kp by (simp add: SignVote_def wb key(2) ed25519_Sign_def v_def Let_def)
  have "ed_sign e priv m \<noteq> []" for m using crypto_okD(3) [OF assms(1) kp(1), of m] by auto
  then have verify: "VerifyConsensusVote e v (wbPub wb) = Some None"
    using assms(5) ne kp len crypto_okD(4) [OF assms(1) kp(1)]
    by (simp add: VerifyConsensusVote_def v_def wb ed25519_Verify_def hex_encode_nonempty hex_decode_encode signingBytes_def)
  have "voters f h blockHash = {||}" using f(2) by simp
  moreover have "fzThreshold f = 1" using f(1) vals by (simp add: finalizer_wf_def fcard_finsert_disjoint fcard_fempty)
  moreover have "cvHeight v = h" "cvBlockHash v = blockHash" "cvValidatorID v = hex_encode pub"
    "FinalizedHeight (fzState f) < h"
    using assms(6) by (simp_all add: v_def wb)
  ultimately have "\<exists>s. AddVote e v (f, fs1) = (s, Inr True,
      \<lparr>FinalizedHeight = h, FinalizedHash = blockHash, UpdatedAt = fmt_time e (now e)\<rparr>)"
    using vals by (simp add: AddVote_def Let_def fcard_finsert_disjoint fcard_fempty)
  with sign verify show ?thesis by (auto simp: wb)
qed

end
