(* ===== verification/Consensus_Witnesses.thy ===== *)
theory Consensus_Witnesses
  imports Sample Finalizer
begin

text \<open>
  The theorems of the finalizer applied to a set of one validator, whose two votes for
  different blocks make two nodes finalize both.
\<close>

definition fz_env :: env where
  "fz_env = sample_env\<lparr>unmarshalFinality := (\<lambda>_. Some \<lparr>FinalizedHeight = 1, FinalizedHash = ''a'',
     UpdatedAt = fmt_time sample_env (now sample_env)\<rparr>)\<rparr>"

lemma fz_env_ok: "crypto_ok fz_env" "io_ok fz_env" "gen_key_ok fz_env"
  by (simp_all add: crypto_ok_def io_ok_def gen_key_ok_def fz_env_def sample_env_def sample_priv_def)

definition cvote :: "string \<Rightarrow> consensus_vote" where
  "cvote a = \<lparr>cvHeight = 1, cvRound = 0, cvBlockHash = a, cvValidatorID = ''v'', cvSig = []\<rparr>"

definition fz0 :: finalizer where
  "fz0 = \<lparr>fzDataDir = ''d'', fzValidators = {|''v''|}, fzTotalPower = 1, fzThreshold = 1,
     fzBlocks = fmempty, fzVotes = fmempty, fzState = empty_finality\<rparr>"

definition fz_final :: "string \<Rightarrow> finality_state" where
  "fz_final a = \<lparr>FinalizedHeight = 1, FinalizedHash = a, UpdatedAt = fmt_time fz_env (now fz_env)\<rparr>"

lemma fz0_new: "NewFinalizer fz_env fmempty ''d'' [''v''] = Inr fz0"
proof -
  have "os_ReadFile fz_env fmempty p = Inl NotExist" for p
    using fz_env_ok(2) by (simp add: os_ReadFile_def)
  moreover have "(2 * 1 div 3 + 1 :: u64) = 1" by code_simp
  ultimately show ?thesis
    by (simp add: NewFinalizer_def fz0_def load_def fcard_finsert_disjoint fcard_fempty Let_def)
qed

lemma fz0_vote: "AddVote fz_env (cvote a) (fz0, fmempty) =
    (fst (AddVote fz_env (cvote a) (fz0, fmempty)), Inr True, fz_final a)"
  by (simp add: AddVote_def cvote_def fz0_def record_vote_def voters_def fcard_finsert_disjoint fcard_fempty
      empty_finality_def fz_final_def Let_def)

theorem conflicting_finality_needs_equivocation_witness:
  "NewFinalizer fz_env fmempty ''d'' [''v''] = Inr fz0 \<and>
   (1 :: nat) < 3 * card {x. voted_for x 1 ''a'' [(fz_env, cvote ''a'')] \<and> voted_for x 1 ''b'' [(fz_env, cvote ''b'')]}"
proof -
  have "AddVote fz_env (cvote a) (add_votes [] (fz0, fmempty)) =
      (fst (AddVote fz_env (cvote a) (fz0, fmempty)), Inr True, fz_final a)" for a
    using fz0_vote by simp
  from conflicting_finality_needs_equivocation [OF fz0_new fz0_new _ this [of "''a''"] this [of "''b''"]]
  have "card {v \<in> set [''v'']. v \<noteq> []} < 3 * card {x. voted_for x 1 ''a'' [(fz_env, cvote ''a'')] \<and>
      voted_for x 1 ''b'' [(fz_env, cvote ''b'')]}"
    by (simp add: fz_final_def)
  moreover have "{v \<in> set [''v'']. v \<noteq> []} = {''v''}" by auto
  ultimately show ?thesis using fz0_new by simp
qed

theorem finality_is_permanent_witness:
  "EnforceNoReorg 1 ''b'' (fst (fst (AddVote fz_env (cvote ''b'') (fst (AddVote fz_env (cvote ''a'') (fz0, fmempty)))))) \<noteq> None"
proof -
  let ?s = "fst (AddVote fz_env (cvote ''a'') (fz0, fmempty))"
  have "add_votes [(fz_env, cvote ''b'')] ?s = (fst (fst (AddVote fz_env (cvote ''b'') ?s)), snd (fst (AddVote fz_env (cvote ''b'') ?s)))"
    by simp
  from finality_is_permanent [OF fz0_vote _ this, of "''b''"] show ?thesis by (simp add: fz_final_def)
qed

theorem finality_survives_restart_witness:
  "\<exists>f1 fs1 f'. AddVote fz_env (cvote ''a'') (fz0, fmempty) = ((f1, fs1), Inr True, fz_final ''a'') \<and>
     NewFinalizer fz_env fs1 ''d'' [''v''] = Inr f' \<and> fzState f' = fz_final ''a''"
proof -
  obtain f1 fs1 where a: "AddVote fz_env (cvote ''a'') (fz0, fmempty) = ((f1, fs1), Inr True, fz_final ''a'')"
    using fz0_vote [of "''a''"] by (metis prod.exhaust)
  obtain f' where n: "NewFinalizer fz_env fs1 ''d'' [''v''] = Inr f'"
    by (simp add: NewFinalizer_def Let_def)
  have c: "unmarshalFinality fz_env (marshalFinality fz_env (fz_final ''a'')) = Some (fz_final ''a'')"
    by (simp add: fz_env_def fz_final_def)
  have "fzDataDir fz0 = ''d''" by (simp add: fz0_def)
  then have "NewFinalizer fz_env fs1 (fzDataDir fz0) [''v''] = Inr f'" using n by simp
  from finality_survives_restart [OF fz_env_ok(2) a c this] a n show ?thesis by blast
qed

theorem lone_validator_finalizes_witness:
  "\<exists>wb fs1 v s st. InitConsensusFinality sample_env fmempty ''d'' [] = (fs1, Inr wb) \<and>
     VerifyConsensusVote sample_env v (wbPub wb) = Some None \<and>
     AddVote sample_env v (wbFinalizer wb, fs1) = (s, Inr True, st) \<and> FinalizedHeight st = 1"
proof -
  have none: "fmlookup fmempty (consensus_key_path ''d'') = None" by simp
  have ne: "hex_encode (drop 32 sample_priv) \<noteq> []"
    by (intro hex_encode_nonempty) (simp add: sample_priv_def)
  obtain fs1 vk pub priv where k: "LoadOrCreateValidatorKey sample_env fmempty ''d'' = (fs1, Inr (vk, pub, priv))"
    and ck: "ckID vk = hex_encode (drop 32 sample_priv)"
    by (simp add: LoadOrCreateValidatorKey_def os_ReadFile_def os_WriteFile_def sample_env_def Let_def)
  have "load sample_env fs1 f = f" for f
    by (simp add: load_def sample_env_def split: sum.splits)
  then obtain f where f: "NewFinalizer sample_env fs1 ''d'' [ckID vk] = Inr f"
      "FinalizedHeight (fzState f) = 0"
    using ne by (simp add: NewFinalizer_def ck empty_finality_def Let_def)
  obtain wb where i: "InitConsensusFinality sample_env fmempty ''d'' [] = (fs1, Inr wb)"
    and z: "FinalizedHeight (fzState (wbFinalizer wb)) < 1"
    using k f by (simp add: InitConsensusFinality_def)
  from lone_validator_finalizes [OF sample_crypto sample_gen_key i none _ z, of "''a''"] i
  show ?thesis by blast
qed

end
