(* ===== verification/Gossip.thy ===== *)
theory Gossip
  imports Mesh
begin

text \<open>
  Messages and synchronisation (\<open>gossip.go\<close>, \<open>messages.go\<close>, \<open>chain_sync.go\<close>): what the node
  originates, forwards and does with an incoming message, and one round of the pull of
  missing blocks. A send is the pair of the message and the address it goes to. The answers of
  the peers' HTTP interface, and the JSON decoding of message bodies, are parameters.
\<close>

section \<open>Parameters\<close>

text \<open>Why a peer gave no answer; the texts of these errors, which the status keeps, are a parameter.\<close>

datatype fetch_error = BadPeerAddr addr_error | NoApiPort int | NoAnswer | HttpStatus nat | BadAnswer
  | PeerNegativeHeight int | PeerNoTip int | HeightMismatchAnswer int int

record wire =
  wireBlock :: "string \<Rightarrow> block option"
  wireAnnouncement :: "string \<Rightarrow> announcement option"
  wireStatus :: "string \<Rightarrow> (int \<times> string \<times> string) option"
  marshalMsgBlock :: "block \<Rightarrow> string"
  marshalAnnouncement :: "announcement \<Rightarrow> string"
  fmt_stamp :: "int \<Rightarrow> string"
  http_get :: "string \<Rightarrow> (nat \<times> string) option"
  fetch_text :: "fetch_error \<Rightarrow> string"

section \<open>Originating and forwarding\<close>

definition replace_char :: "char \<Rightarrow> char \<Rightarrow> string \<Rightarrow> string" where
  "replace_char a b s = map (\<lambda>ch. if ch = a then b else ch) s"

definition fmtBlockID :: "wire \<Rightarrow> env \<Rightarrow> string \<Rightarrow> int \<Rightarrow> string" where
  "fmtBlockID w e node0 height =
     (let node = replace_char (CHR ''/'') (CHR ''_'') (replace_char (CHR '':'') (CHR ''_'') (trim_space node0))
      in ''blk-'' @ node @ ''-'' @ fmt_stamp w (now e) @ ''-'' @ itoa64 (word_of_int height))"

definition gossip_targets :: "mesh_daemon \<Rightarrow> string list" where
  "gossip_targets m = filter (\<lambda>a. a \<noteq> [] \<and> a \<noteq> mID m) (map trim_space (mBootstrapPeers m))"

definition unix :: "int \<Rightarrow> int" where "unix t = t div second"

definition send_all :: "wire_message \<Rightarrow> string list \<Rightarrow> (wire_message \<times> string) list" where
  "send_all wm addrs = map (\<lambda>a. (wm\<lparr>wmTo := a\<rparr>, a)) addrs"

definition gossipOrigin :: "env \<Rightarrow> string \<Rightarrow> string \<Rightarrow> string \<Rightarrow> int \<Rightarrow> mesh_daemon \<Rightarrow>
    mesh_daemon \<times> (wire_message \<times> string) list" where
  "gossipOrigin e body topic msgid ttl m =
     (if ttl \<le> 0 then (m, [])
      else let wm = \<lparr>wmID = msgid, wmType = ''msg'', wmFrom = mID m, wmVia = mID m, wmTo = [], wmBody = body,
                     wmTopic = topic, wmTime = unix (now e), wmTTL = ttl, wmPubKey = []\<rparr>
           in (markSeen e msgid m, send_all wm (gossip_targets m)))"

definition gossipBlock :: "wire \<Rightarrow> env \<Rightarrow> block \<Rightarrow> int \<Rightarrow> mesh_daemon \<Rightarrow>
    mesh_daemon \<times> (wire_message \<times> string) list" where
  "gossipBlock w e b ttl m =
     (if ttl \<le> 0 then (m, [])
      else let msgid = fmtBlockID w e (mID m) (bHeight b);
               wm = \<lparr>wmID = msgid, wmType = ''block'', wmFrom = mID m, wmVia = mID m, wmTo = [],
                     wmBody = marshalMsgBlock w b, wmTopic = ''block'', wmTime = unix (now e), wmTTL = ttl, wmPubKey = []\<rparr>
           in (markSeen e msgid m, send_all wm (gossip_targets m)))"

definition gossipForward :: "wire_message \<Rightarrow> mesh_daemon \<Rightarrow> (wire_message \<times> string) list" where
  "gossipForward wm m =
     (let ttl = wmTTL wm - 1; prevHop = trim_space (wmVia wm)
      in if ttl \<le> 0 then []
         else send_all (wm\<lparr>wmTTL := ttl, wmVia := mID m\<rparr>)
           (filter (\<lambda>a. \<not> (prevHop \<noteq> [] \<and> a = prevHop)) (gossip_targets m)))"

definition gossipSignedState :: "wire \<Rightarrow> env \<Rightarrow> mesh_daemon \<Rightarrow> mesh_daemon \<times> (wire_message \<times> string) list" where
  "gossipSignedState w e m =
     (case SignedStateHash e (mChain m) of (h, sh, sg) \<Rightarrow>
        gossipOrigin e (marshalAnnouncement w \<lparr>annNodeID = mNodeID m, annHeight = h, annStateHash = sh, annSig = sg\<rparr>)
          ''signed_state''
          (''st-'' @ replace_char (CHR '':'') (CHR ''_'') (trim_space (mID m)) @ ''-'' @ fmt_stamp w (now e)) 3 m)"

section \<open>Asking a peer\<close>

definition peerAPIBase :: "mesh_daemon \<Rightarrow> string \<Rightarrow> fetch_error + string" where
  "peerAPIBase m addr =
     (case validateTCPAddress (trim_space addr) of Inl err \<Rightarrow> Inl (BadPeerAddr err)
      | Inr normalized \<Rightarrow>
          if trim_space (fmget [] (mPeerAPI m) normalized) \<noteq> []
          then Inr (''https://'' @ trim_space (fmget [] (mPeerAPI m) normalized))
          else (case SplitHostPort normalized of Inl err \<Rightarrow> Inl (BadPeerAddr (BadSplit err))
            | Inr (host, portStr) \<Rightarrow>
                (case Atoi portStr of None \<Rightarrow> Inl (BadPeerAddr BadPort)
                 | Some p \<Rightarrow> if p - 1012 \<le> 0 then Inl (NoApiPort p)
                     else Inr (''https://'' @ host @ '':'' @ fmt_int (p - 1012)))))"

definition fetch :: "wire \<Rightarrow> string \<Rightarrow> fetch_error + string" where
  "fetch w url = (case http_get w url of None \<Rightarrow> Inl NoAnswer
     | Some (code, body) \<Rightarrow> if code \<noteq> 200 then Inl (HttpStatus code) else Inr body)"

definition requestPeerHeight :: "wire \<Rightarrow> mesh_daemon \<Rightarrow> string \<Rightarrow> fetch_error + int \<times> string" where
  "requestPeerHeight w m addr =
     (case peerAPIBase m addr of Inl err \<Rightarrow> Inl err
      | Inr base \<Rightarrow>
          (case fetch w (base @ ''/chain/status'') of Inl err \<Rightarrow> Inl err
           | Inr body \<Rightarrow>
               (case wireStatus w body of None \<Rightarrow> Inl BadAnswer
                | Some (height, tip0, hash) \<Rightarrow>
                    let tip = (if tip0 = [] then hash else tip0)
                    in if height < 0 then Inl (PeerNegativeHeight height)
                       else if 0 < height \<and> trim_space tip = [] then Inl (PeerNoTip height)
                       else Inr (height, tip))))"

definition block_url :: "string \<Rightarrow> int \<Rightarrow> string" where
  "block_url base h = base @ ''/chain/block?h='' @ fmt_int h"

text \<open>The blocks got before the first error are dropped by the caller, so an error gives none.\<close>

fun request_blocks :: "wire \<Rightarrow> string \<Rightarrow> int list \<Rightarrow> fetch_error + block list" where
  "request_blocks w base [] = Inr []"
| "request_blocks w base (h # hs) =
     (case fetch w (block_url base h) of Inl err \<Rightarrow> Inl err
      | Inr body \<Rightarrow>
          (case wireBlock w body of None \<Rightarrow> Inl BadAnswer
           | Some blk \<Rightarrow>
               if bHeight blk \<noteq> h then Inl (HeightMismatchAnswer (bHeight blk) h)
               else map_sum id (Cons blk) (request_blocks w base hs)))"

definition requestPeerRange :: "wire \<Rightarrow> mesh_daemon \<Rightarrow> string \<Rightarrow> int \<Rightarrow> int \<Rightarrow> fetch_error + block list" where
  "requestPeerRange w m addr from_h to_h =
     (case peerAPIBase m addr of Inl err \<Rightarrow> Inl err
      | Inr base \<Rightarrow> request_blocks w base [from_h..to_h])"

section \<open>One round of the sync loop\<close>

text \<open>A failed request: one text for the status, one for the peer.\<close>

definition sync_error :: "env \<Rightarrow> string \<Rightarrow> string \<Rightarrow> string \<Rightarrow> mesh_daemon \<Rightarrow> mesh_daemon" where
  "sync_error e addr status_text peer_text m =
     fst (noteSyncFailure e addr (Some peer_text) (on_status (recordSyncError (Some status_text)) m))"

definition sample_text :: "string \<Rightarrow> sample_error \<Rightarrow> string" where
  "sample_text addr err = (case err of EmptyPeerAddr \<Rightarrow> ''empty peer addr''
     | NegativeHeight h \<Rightarrow> ''peer '' @ trim_space addr @ '' reported negative height '' @ fmt_int h
     | MissingTip h \<Rightarrow> ''peer '' @ trim_space addr @ '' reported height '' @ fmt_int h @ '' without tip''
     | ConflictingTip h old new \<Rightarrow> ''peer '' @ trim_space addr @ '' reported conflicting tip at height='' @
         fmt_int h @ '' old='' @ old @ '' new='' @ new
     | StaleHeight h last_h \<Rightarrow> ''peer '' @ trim_space addr @ '' reported stale height='' @ fmt_int h @
         '' last_height='' @ fmt_int last_h)"

fun probe_peers :: "wire \<Rightarrow> env \<Rightarrow> string list \<Rightarrow> mesh_daemon \<Rightarrow> mesh_daemon \<times> (string \<times> int \<times> string) list" where
  "probe_peers w e [] m = (m, [])"
| "probe_peers w e (addr # addrs) m =
     (case requestPeerHeight w m addr of
        Inl err \<Rightarrow> probe_peers w e addrs
          (sync_error e addr (fetch_text w err) (''height probe: '' @ fetch_text w err) m)
      | Inr (h, tip) \<Rightarrow>
          (case notePeerHeightSample addr h tip m of
             (m1, Some err) \<Rightarrow> probe_peers w e addrs
               (sync_error e addr (sample_text addr err) (sample_text addr err) m1)
           | (m1, None) \<Rightarrow> map_prod id (Cons (addr, h, tip)) (probe_peers w e addrs (noteSyncSuccess addr h tip m1))))"

definition apply_batch :: "env \<Rightarrow> block list \<Rightarrow> chain \<Rightarrow> chain" where
  "apply_batch e bs c = fst (drainPendingLocked e (fold (\<lambda>b c. fst (applyBlockOrBufferLocked e c b)) bs c))"

definition chunk :: int where "chunk = 50"

text \<open>The chunks up to the height of the best peer; an error ends the loop.\<close>

function pull_chunks :: "wire \<Rightarrow> env \<Rightarrow> string \<Rightarrow> int \<Rightarrow> int \<Rightarrow> bool \<Rightarrow> mesh_daemon \<Rightarrow> mesh_daemon \<times> bool" where
  "pull_chunks w e addr best cur progressed m =
     (if best < cur then (m, progressed)
      else case requestPeerRange w m addr cur (min (cur + chunk - 1) best) of
          Inl err \<Rightarrow> (sync_error e addr (fetch_text w err) (''range fetch '' @ fmt_int cur @ ''-'' @
              fmt_int (min (cur + chunk - 1) best) @ '': '' @ fetch_text w err) m, progressed)
        | Inr bs \<Rightarrow>
            let c1 = apply_batch e bs (mChain m)
            in pull_chunks w e addr best (cur + chunk) (progressed \<or> chHeight (mChain m) < chHeight c1) (m\<lparr>mChain := c1\<rparr>))"
  by pat_completeness auto
termination
  by (relation "measure (\<lambda>(w, e, addr, best, cur, p, m). nat (best + 1 - cur))") (auto simp: chunk_def)

declare pull_chunks.simps [simp del]

text \<open>The candidate with the greatest height; Go's sort leaves the order of equals open.\<close>

definition best_candidate :: "(string \<times> int \<times> string) list \<Rightarrow> string \<times> int \<times> string" where
  "best_candidate cands = hd (sort_key (\<lambda>(_, h, _). - h) cands)"

definition sync_round :: "wire \<Rightarrow> env \<Rightarrow> mesh_daemon \<Rightarrow> mesh_daemon" where
  "sync_round w e m =
     (let peers = reachablePeersForSync m (now e)
      in if peers = [] then m
         else let (m1, cands) = probe_peers w e peers m
              in if cands = [] then m1
                 else let (addr, best, _) = best_candidate cands;
                          localH = chHeight (mChain m1);
                          m2 = on_status (recordSyncHeights localH best) m1
                      in if best \<le> localH then m2
                         else let (m3, progressed) = pull_chunks w e addr best (localH + 1) False m2;
                                  h = chHeight (mChain m3)
                              in if h < best \<and> \<not> progressed
                                 then let t = ''sync made no progress from peer='' @ addr @ '' local='' @
                                            fmt_int h @ '' peer='' @ fmt_int best
                                      in sync_error e addr t t m3
                                 else noteSyncSuccess addr h (chTip (mChain m3)) m3)"

section \<open>Incoming messages\<close>

text \<open>The blocks an announcement is followed by; the first error ends the pull.\<close>

fun pull_blocks :: "wire \<Rightarrow> env \<Rightarrow> string \<Rightarrow> int list \<Rightarrow> chain \<Rightarrow> chain" where
  "pull_blocks w e base [] c = c"
| "pull_blocks w e base (h # hs) c =
     (case fetch w (block_url base h) of Inl _ \<Rightarrow> c
      | Inr body \<Rightarrow>
          (case wireBlock w body of None \<Rightarrow> c
           | Some blk \<Rightarrow>
               (case applyBlockOrBufferLocked e c blk of
                  (c1, applied, Some err) \<Rightarrow> c1
                | (c1, applied, None) \<Rightarrow> pull_blocks w e base hs c1)))"

definition maybeSyncFromSignedState :: "wire \<Rightarrow> env \<Rightarrow> string \<Rightarrow> string \<Rightarrow> mesh_daemon \<Rightarrow> mesh_daemon \<times> bool" where
  "maybeSyncFromSignedState w e via body m =
     (case wireAnnouncement w body of None \<Rightarrow> (m, False)
      | Some ssa \<Rightarrow>
          if annNodeID ssa = [] \<or> annHeight ssa \<le> 0 then (m, False)
          else let localH = chHeight (mChain m)
               in if annHeight ssa \<le> localH then (m, True)
                  else case peerAPIBase m via of Inl _ \<Rightarrow> (m, True)
                    | Inr base \<Rightarrow> (m\<lparr>mChain := pull_blocks w e base [localH + 1..annHeight ssa] (mChain m)\<rparr>, True))"

datatype reply = NoReply | MeshOk

text \<open>
  The argument is the message of the line, if it decodes. The result is the daemon, the
  messages forwarded, and whether the plain greeting is answered.
\<close>

definition handleIncoming :: "wire \<Rightarrow> env \<Rightarrow> wire_message option \<Rightarrow> mesh_daemon \<Rightarrow>
    mesh_daemon \<times> (wire_message \<times> string) list \<times> reply" where
  "handleIncoming w e line m =
     (case line of None \<Rightarrow> (m, [], MeshOk)
      | Some wm0 \<Rightarrow>
          if wmType wm0 \<noteq> ''msg'' \<and> wmType wm0 \<noteq> ''block'' then (m, [], MeshOk)
          else let wm = (if wmID wm0 = [] then wm0\<lparr>wmID := ''auto-'' @ fmt_int (now e)\<rparr> else wm0)
               in if wmID wm |\<in>| fmdom (mSeen m) then (m, [], NoReply)
                  else let sender = trim_space (wmVia wm);
                           m1 = markSeen e (wmID wm) m;
                           m2 = (if sender \<noteq> [] then TouchPeer e sender m1 else m1)
                       in if wmType wm = ''msg''
                          then let m3 = m2\<lparr>mInbox := mInbox m2 @ [\<lparr>msgFrom = wmFrom wm, msgTo = wmTo wm,
                                     msgBody = wmBody wm, msgTime = wmTime wm * second\<rparr>]\<rparr>;
                                   m4 = fst (maybeSyncFromSignedState w e sender (wmBody wm) m3)
                               in (m4, if 0 < wmTTL wm then gossipForward wm m4 else [], NoReply)
                          else case wireBlock w (wmBody wm) of None \<Rightarrow> (m2, [], NoReply)
                            | Some b \<Rightarrow>
                                (case applyBlockOrBufferLocked e (mChain m2) b of
                                   (c, applied, Some err) \<Rightarrow> (m2\<lparr>mChain := c\<rparr>, [], NoReply)
                                 | (c, applied, None) \<Rightarrow>
                                     let m3 = m2\<lparr>mChain := c\<rparr>
                                     in (m3, if 0 < wmTTL wm then gossipForward wm m3 else [], NoReply)))"

end
