(* ===== verification/Locking.thy ===== *)
theory Locking
  imports Gossip
begin

text \<open>
  The lock of the daemon (\<open>meshDaemon.lock\<close>, a \<open>sync.RWMutex\<close>) and the operations that take it
  (\<open>peer_touch.go\<close>, \<open>seen.go\<close>, \<open>messages.go\<close>, \<open>liveness.go\<close>). An operation is run by one goroutine on a
  daemon with its lock; where it has to wait for a lock that no one is going to release it stays
  blocked. Run alone on a daemon whose lock is free, each operation is the atomic step of the other
  theories and leaves the lock free.
\<close>

section \<open>A read-write lock\<close>

datatype rw_state = Unlocked | Reading nat | Writing

record guarded_daemon =
  gdLock :: rw_state
  gdDaemon :: mesh_daemon

abbreviation free :: "mesh_daemon \<Rightarrow> guarded_daemon" where
  "free m \<equiv> \<lparr>gdLock = Unlocked, gdDaemon = m\<rparr>"

datatype 'a run = Done 'a guarded_daemon | Blocked guarded_daemon

definition then_run :: "'a run \<Rightarrow> ('a \<Rightarrow> guarded_daemon \<Rightarrow> 'b run) \<Rightarrow> 'b run" where
  "then_run r k = (case r of Done x g \<Rightarrow> k x g | Blocked g \<Rightarrow> Blocked g)"

lemma then_run_simps [simp]: "then_run (Done x g) k = k x g" "then_run (Blocked g) k = Blocked g"
  by (simp_all add: then_run_def)

text \<open>\<open>Lock\<close> waits for writers and readers, the caller included: the lock is not reentrant.\<close>

definition acquire :: "guarded_daemon \<Rightarrow> unit run" where
  "acquire g = (if gdLock g = Unlocked then Done () (g\<lparr>gdLock := Writing\<rparr>) else Blocked g)"

definition release :: "guarded_daemon \<Rightarrow> unit run" where
  "release g = Done () (g\<lparr>gdLock := Unlocked\<rparr>)"

definition acquire_read :: "guarded_daemon \<Rightarrow> unit run" where
  "acquire_read g = (case gdLock g of Unlocked \<Rightarrow> Done () (g\<lparr>gdLock := Reading 1\<rparr>)
     | Reading n \<Rightarrow> Done () (g\<lparr>gdLock := Reading (Suc n)\<rparr>) | Writing \<Rightarrow> Blocked g)"

definition release_read :: "guarded_daemon \<Rightarrow> unit run" where
  "release_read g = Done () (case gdLock g of Reading (Suc (Suc n)) \<Rightarrow> g\<lparr>gdLock := Reading (Suc n)\<rparr>
     | _ \<Rightarrow> g\<lparr>gdLock := Unlocked\<rparr>)"

definition update :: "(mesh_daemon \<Rightarrow> mesh_daemon) \<Rightarrow> guarded_daemon \<Rightarrow> guarded_daemon" where
  "update f g = g\<lparr>gdDaemon := f (gdDaemon g)\<rparr>"

text \<open>\<open>Lock(); defer Unlock()\<close> around an update, and \<open>RLock(); defer RUnlock()\<close> around a read.\<close>

definition writing :: "(mesh_daemon \<Rightarrow> mesh_daemon) \<Rightarrow> guarded_daemon \<Rightarrow> unit run" where
  "writing f g = then_run (acquire g) (\<lambda>_ g1. release (update f g1))"

definition reading :: "(mesh_daemon \<Rightarrow> 'a) \<Rightarrow> guarded_daemon \<Rightarrow> 'a run" where
  "reading f g = then_run (acquire_read g) (\<lambda>_ g1. then_run (release_read g1) (\<lambda>_ g2. Done (f (gdDaemon g1)) g2))"

lemma locked_free [simp]:
  "acquire (free m) = Done () \<lparr>gdLock = Writing, gdDaemon = m\<rparr>"
  "release \<lparr>gdLock = Writing, gdDaemon = m\<rparr> = Done () (free m)"
  "writing f (free m) = Done () (free (f m))" "reading f' (free m) = Done (f' m) (free m)"
  by (simp_all add: acquire_def release_def writing_def reading_def acquire_read_def release_read_def update_def)

lemma locked_held [simp]:
  "gdLock g = Writing \<Longrightarrow> acquire g = Blocked g" "gdLock g = Writing \<Longrightarrow> writing f g = Blocked g"
  "gdLock g = Writing \<Longrightarrow> reading f' g = Blocked g"
  by (simp_all add: acquire_def writing_def reading_def acquire_read_def)

section \<open>Operations under the lock\<close>

definition touch_reachable :: "env \<Rightarrow> string \<Rightarrow> bool \<Rightarrow> guarded_daemon \<Rightarrow> unit run" where
  "touch_reachable e addr ok g =
     (if trim_space addr = [] then Done () g else writing (TouchReachable e addr ok) g)"

definition touch_peer :: "env \<Rightarrow> string \<Rightarrow> guarded_daemon \<Rightarrow> unit run" where
  "touch_peer e addr g = (if trim_space addr = [] then Done () g else writing (TouchPeer e addr) g)"

definition mark_seen :: "env \<Rightarrow> string \<Rightarrow> guarded_daemon \<Rightarrow> unit run" where
  "mark_seen e msgid g = (if msgid = [] then Done () g else writing (markSeen e msgid) g)"

definition incoming :: "wire \<Rightarrow> env \<Rightarrow> wire_message option \<Rightarrow> guarded_daemon \<Rightarrow>
    ((wire_message \<times> string) list \<times> reply) run" where
  "incoming w e line g =
     (case line of None \<Rightarrow> Done ([], MeshOk) g
      | Some wm0 \<Rightarrow>
          if wmType wm0 \<noteq> ''msg'' \<and> wmType wm0 \<noteq> ''block'' then Done ([], MeshOk) g
          else let wm = (if wmID wm0 = [] then wm0\<lparr>wmID := ''auto-'' @ fmt_int (now e)\<rparr> else wm0);
                   sender = trim_space (wmVia wm)
               in then_run (reading (\<lambda>m. wmID wm |\<in>| fmdom (mSeen m)) g) (\<lambda>seen g0.
                    if seen then Done ([], NoReply) g0
                    else then_run (mark_seen e (wmID wm) g0) (\<lambda>_ g1.
                      then_run (if sender \<noteq> [] then touch_peer e sender g1 else Done () g1) (\<lambda>_ g2.
                        if wmType wm = ''msg''
                        then then_run (writing (\<lambda>m. m\<lparr>mInbox := mInbox m @ [\<lparr>msgFrom = wmFrom wm, msgTo = wmTo wm,
                                 msgBody = wmBody wm, msgTime = wmTime wm * second\<rparr>]\<rparr>) g2) (\<lambda>_ g3.
                               let g4 = update (\<lambda>m. fst (maybeSyncFromSignedState w e sender (wmBody wm) m)) g3
                               in Done (if 0 < wmTTL wm then gossipForward wm (gdDaemon g4) else [], NoReply) g4)
                        else case wireBlock w (wmBody wm) of None \<Rightarrow> Done ([], NoReply) g2
                          | Some b \<Rightarrow>
                              (case applyBlockOrBufferLocked e (mChain (gdDaemon g2)) b of
                                 (c, applied, Some err) \<Rightarrow> Done ([], NoReply) (update (\<lambda>m. m\<lparr>mChain := c\<rparr>) g2)
                               | (c, applied, None) \<Rightarrow>
                                   let g3 = update (\<lambda>m. m\<lparr>mChain := c\<rparr>) g2
                                   in Done (if 0 < wmTTL wm then gossipForward wm (gdDaemon g3) else [], NoReply) g3)))))"

section \<open>Alone, an operation is an atomic step\<close>

lemma touched_free:
  "touch_reachable e addr ok (free m) = Done () (free (TouchReachable e addr ok m))"
  "touch_peer e addr (free m) = Done () (free (TouchPeer e addr m))"
  "mark_seen e i (free m) = Done () (free (markSeen e i m))"
  by (simp_all add: touch_reachable_def touch_peer_def mark_seen_def TouchReachable_def TouchPeer_def markSeen_def Let_def)

lemma update_free [simp]: "update f (free m) = free (f m)"
  by (simp add: update_def)

theorem incoming_is_atomic:
  "incoming w e line (free m) = (case handleIncoming w e line m of (m', fwd, r) \<Rightarrow> Done (fwd, r) (free m'))"
proof (cases line)
  case None
  then show ?thesis by (simp add: incoming_def handleIncoming_def)
next
  case (Some wm0)
  let ?wm = "if wmID wm0 = [] then wm0\<lparr>wmID := ''auto-'' @ fmt_int (now e)\<rparr> else wm0"
  let ?s = "trim_space (wmVia ?wm)" and ?m1 = "markSeen e (wmID ?wm) m"
  let ?m2 = "if ?s \<noteq> [] then TouchPeer e ?s ?m1 else ?m1"
  have touch: "(if ?s \<noteq> [] then touch_peer e ?s (free ?m1) else Done () (free ?m1)) = Done () (free ?m2)"
    by (simp add: touched_free)
  show ?thesis unfolding Some incoming_def handleIncoming_def option.case Let_def locked_free then_run_simps touched_free touch
    by (simp split: option.split prod.split)
qed

section \<open>A lock that is held\<close>

lemma incoming_blocks:
  "gdLock g = Writing \<Longrightarrow> wmType wm = ''msg'' \<or> wmType wm = ''block'' \<Longrightarrow> incoming w e (Some wm) g = Blocked g"
  by (auto simp: incoming_def Let_def)

end
