(* ===== verification/Api.thy ===== *)
theory Api
  imports Locking Config
begin

text \<open>
  The HTTP interface of the daemon: \<open>http_guardrails.go\<close>, the middleware of
  \<open>http_ratelimit.go\<close>, the handlers of \<open>chain_handlers.go\<close> and those of \<open>daemon_bridge.go\<close>
  (\<open>/peers\<close>, \<open>/routes\<close>), and the proposer loop of \<open>proposer_native.go\<close>. A handler gives the
  daemon afterwards and the response. JSON decoding of bodies is a parameter; so is the verdict of
  the rate limiter, which \<open>RateLimit\<close> computes.
\<close>

section \<open>Requests and responses\<close>

record request =
  rqMethod :: string
  rqPath :: string
  rqQueryH :: string
  rqBody :: string
  rqRemoteAddr :: string

datatype body_error = BodyEmpty | BodyTooLarge nat | BodyInvalid

record api_codec =
  decTx :: "string \<Rightarrow> tx option"
  decBlock :: "string \<Rightarrow> block option"
  decAddr :: "string \<Rightarrow> string option"
  allow :: "string \<Rightarrow> nat \<Rightarrow> bool"

datatype propose_failure = NotReady action_error | ProposeFailed propose_error

text \<open>Messages of errors: fixed texts, or the error they render.\<close>

datatype api_message = Message string | BodyMessage body_error | AddrMessage addr_error
  | TxMessage mempool_error | BlockMessage proposal_error | ProposeMessage propose_failure

text \<open>The report of the operator status; the fields of the status record stand for themselves.\<close>

record ops =
  opState :: daemon_state
  opReasons :: "string list"
  opLive :: bool
  opReady :: bool
  opStartedAt :: string
  opStatus :: status
  opSyncLag :: int
  opReachable :: nat
  opTotal :: nat

datatype block_info = NoHeight | BadHeight string | BlockMissing int | BlockInfo int string bool

datatype payload = OkTrue | ApiError string api_message | PlainError string | NotFound | RateLimited
  | HeightBody int | HealthBody bool ops | NotReadyBody ops | StatusBody int string int string int ops
  | FinalityBody int string int | BlockBody block | BalancesBody accounts | MempoolBody nat "tx list"
  | WalletBody string bool string string | NodeIdBody string string | DebugFinality int string int nat block_info
  | OpsBody ops | PeersBody "(string, peer) fmap" | RoutesBody "(string \<times> int) list" | PeerStatus string string

record response =
  rsCode :: nat
  rsPayload :: payload

abbreviation reply :: "nat \<Rightarrow> payload \<Rightarrow> response" where
  "reply code p \<equiv> \<lparr>rsCode = code, rsPayload = p\<rparr>"

text \<open>A handler that panics or waits for a lock it holds never answers, and the lock stays taken.\<close>

datatype outcome = Answer mesh_daemon response | Hangs

record api =
  apConfig :: mesh_config
  apStartedAt :: string
  apWalletAddr :: string
  apCodec :: api_codec

definition maxJSONBodyBytes :: nat where "maxJSONBodyBytes = 65536"

definition writeAPIError :: "nat \<Rightarrow> string \<Rightarrow> api_message \<Rightarrow> response" where
  "writeAPIError code err msg = reply code (ApiError err msg)"

definition requireMethod :: "string \<Rightarrow> request \<Rightarrow> response option" where
  "requireMethod expected rq = (if rqMethod rq = expected then None
     else Some (writeAPIError 405 ''method_not_allowed''
       (Message (''method '' @ rqMethod rq @ '' not allowed; expected '' @ expected))))"

definition decodeJSONBody :: "(string \<Rightarrow> 'a option) \<Rightarrow> nat \<Rightarrow> request \<Rightarrow> body_error + 'a" where
  "decodeJSONBody dec limit rq =
     (if limit < length (rqBody rq) then Inl (BodyTooLarge limit)
      else if rqBody rq = [] then Inl BodyEmpty
      else case dec (rqBody rq) of None \<Rightarrow> Inl BodyInvalid | Some x \<Rightarrow> Inr x)"

definition debug_enabled :: "api \<Rightarrow> bool" where
  "debug_enabled a = resolveHTTPSurfaceEnabled (cfDebugEndpointsEnabled (apConfig a)) (cfHttpListen (apConfig a))"

definition admin_enabled :: "api \<Rightarrow> bool" where
  "admin_enabled a = resolveHTTPSurfaceEnabled (cfAdminEndpointsEnabled (apConfig a)) (cfHttpListen (apConfig a))"

definition requireDebugSurface :: "api \<Rightarrow> response option" where
  "requireDebugSurface a = (if debug_enabled a then None
     else Some (reply 403 (PlainError ''debug endpoints disabled on this node'')))"

definition requireAdminSurface :: "api \<Rightarrow> response option" where
  "requireAdminSurface a = (if admin_enabled a then None
     else Some (reply 403 (PlainError ''admin endpoints disabled on this node'')))"

section \<open>Reading\<close>

definition daemon_status :: "mesh_daemon \<Rightarrow> status" where
  "daemon_status m = (case chDaemon (mChain m) of None \<Rightarrow> new_status | Some d \<Rightarrow> dStatus d)"

definition operatorStatusSnapshot :: "api \<Rightarrow> mesh_daemon \<Rightarrow> ops" where
  "operatorStatusSnapshot a m =
     (case runtimeStateSnapshot (daemon_status m) of (state, reasons, live, ready) \<Rightarrow>
        \<lparr>opState = state, opReasons = reasons, opLive = live, opReady = ready, opStartedAt = apStartedAt a,
         opStatus = daemon_status m, opSyncLag = syncLag (daemon_status m),
         opReachable = length (reachablePeers m), opTotal = fcard (fmdom (mPeers m))\<rparr>)"

definition get_height :: "mesh_daemon \<Rightarrow> response" where
  "get_height m = reply 200 (HeightBody (chHeight (mChain m)))"

definition get_healthz :: "api \<Rightarrow> mesh_daemon \<Rightarrow> response" where
  "get_healthz a m = (let st = operatorStatusSnapshot a m
     in if opLive st then reply 200 (HealthBody True st) else reply 503 (HealthBody False st))"

definition get_readyz :: "api \<Rightarrow> mesh_daemon \<Rightarrow> response" where
  "get_readyz a m = (let st = operatorStatusSnapshot a m
     in if opReady st then reply 200 (HealthBody True st) else reply 503 (NotReadyBody st))"

definition get_status :: "api \<Rightarrow> mesh_daemon \<Rightarrow> response" where
  "get_status a m =
     (let c = mChain m;
          finalizedTip = (if 0 < chFinalizedHeight c
            then (case fmlookup (chBlocks c) (chFinalizedHeight c) of None \<Rightarrow> [] | Some b \<Rightarrow> bHash b) else [])
      in reply 200 (StatusBody (chHeight c) (chTip c) (chFinalizedHeight c) finalizedTip finalityDepth
           (operatorStatusSnapshot a m)))"

definition get_finality :: "mesh_daemon \<Rightarrow> response" where
  "get_finality m = (case GetFinalitySnapshot (mChain m) of (h, tip, depth) \<Rightarrow> reply 200 (FinalityBody h tip depth))"

definition get_block :: "request \<Rightarrow> mesh_daemon \<Rightarrow> response" where
  "get_block rq m =
     (if rqQueryH rq = [] then writeAPIError 400 ''missing_height'' (Message ''missing height'')
      else case Atoi (rqQueryH rq) of None \<Rightarrow> writeAPIError 400 ''bad_height'' (Message ''bad height'')
        | Some h \<Rightarrow>
            (case fmlookup (chBlocks (mChain m)) h of
               None \<Rightarrow> writeAPIError 404 ''not_found'' (Message ''block not found'')
             | Some b \<Rightarrow> reply 200 (BlockBody b)))"

definition get_balances :: "mesh_daemon \<Rightarrow> response" where
  "get_balances m = reply 200 (BalancesBody (chAccounts (mChain m)))"

definition get_mempool :: "mesh_daemon \<Rightarrow> response" where
  "get_mempool m = reply 200 (MempoolBody (length (chMempool (mChain m))) (chMempool (mChain m)))"

definition debug_wallet :: "api \<Rightarrow> mesh_daemon \<Rightarrow> response" where
  "debug_wallet a m = reply 200 (WalletBody (apWalletAddr a) (chDaemon (mChain m) \<noteq> None)
     (case chDaemon (mChain m) of None \<Rightarrow> [] | Some d \<Rightarrow> dWalletAddr d) (chDataDir (mChain m)))"

definition debug_finality :: "request \<Rightarrow> mesh_daemon \<Rightarrow> response" where
  "debug_finality rq m =
     (let c = mChain m
      in reply 200 (DebugFinality (chHeight c) (chTip c) (chFinalizedHeight c) (fcard (chValidatorSet c))
           (if rqQueryH rq = [] then NoHeight
            else case Atoi (rqQueryH rq) of None \<Rightarrow> BadHeight (rqQueryH rq)
              | Some h \<Rightarrow> (case fmlookup (chBlocks c) h of None \<Rightarrow> BlockMissing h
                  | Some b \<Rightarrow> BlockInfo h (bHash b) (bIsFinalized b)))))"

text \<open>Go lists the routes in any order, the model by peer.\<close>

definition get_routes :: "env \<Rightarrow> mesh_daemon \<Rightarrow> response" where
  "get_routes e m = reply 200 (RoutesBody (map (\<lambda>addr. (addr,
       if pLastSeen (peer_at m addr) = time_zero then now e else pLastSeen (peer_at m addr)))
     (sorted_list_of_fset (fmdom (mPeers m)))))"

section \<open>Writing\<close>

definition set_chain :: "chain \<Rightarrow> mesh_daemon \<Rightarrow> mesh_daemon" where
  "set_chain c m = m\<lparr>mChain := c\<rparr>"

definition post_tx :: "api \<Rightarrow> env \<Rightarrow> request \<Rightarrow> mesh_daemon \<Rightarrow> mesh_daemon \<times> response" where
  "post_tx a e rq m =
     (case decodeJSONBody (decTx (apCodec a)) maxJSONBodyBytes rq of
        Inl err \<Rightarrow> (m, writeAPIError 400 ''invalid_json'' (BodyMessage err))
      | Inr t \<Rightarrow>
          (case addTxToMempoolLocked e (mChain m) t of
             (c, Some err) \<Rightarrow> (set_chain c m, writeAPIError 400 ''tx_rejected'' (TxMessage err))
           | (c, None) \<Rightarrow> (set_chain c m, reply 200 OkTrue)))"

definition post_apply :: "api \<Rightarrow> env \<Rightarrow> request \<Rightarrow> mesh_daemon \<Rightarrow> mesh_daemon \<times> response" where
  "post_apply a e rq m =
     (case decodeJSONBody (decBlock (apCodec a)) maxJSONBodyBytes rq of
        Inl err \<Rightarrow> (m, writeAPIError 400 ''invalid_json'' (BodyMessage err))
      | Inr b \<Rightarrow>
          let fh = chFinalizedHeight (mChain m)
          in if 0 < fh \<and> bHeight b \<le> fh
             then (m, writeAPIError 409 ''finalized_guard'' (Message (''finalized guard: height='' @
               fmt_int (bHeight b) @ '' finalized='' @ fmt_int fh)))
             else (case applyBlockOrBufferLocked e (mChain m) b of
                 (c, applied, Some err) \<Rightarrow> (set_chain c m, writeAPIError 400 ''block_rejected'' (BlockMessage err))
               | (c, applied, None) \<Rightarrow> (set_chain c m, reply 200 OkTrue)))"

text \<open>\<open>None\<close> is the panic of signing with a key of the wrong size.\<close>

definition propose_now :: "env \<Rightarrow> mesh_daemon \<Rightarrow> (mesh_daemon \<times> propose_failure option) option" where
  "propose_now e m =
     (case requireValidatorActionReadyLocked e (mChain m) (mNodeID m) of
        (c1, Some err) \<Rightarrow> Some (set_chain c1 m, Some (NotReady err))
      | (c1, None) \<Rightarrow>
          (case proposeBlock e c1 of None \<Rightarrow> None
           | Some (c2, None) \<Rightarrow> Some (set_chain c2 m, None)
           | Some (c2, Some err) \<Rightarrow> Some (set_chain c2 m, Some (ProposeFailed err))))"

definition post_propose :: "api \<Rightarrow> env \<Rightarrow> mesh_daemon \<Rightarrow> outcome" where
  "post_propose a e m =
     (case requireAdminSurface a of Some r \<Rightarrow> Answer m r
      | None \<Rightarrow>
          (case propose_now e m of None \<Rightarrow> Hangs
           | Some (m1, Some err) \<Rightarrow> Answer m1 (writeAPIError 400 ''proposal_rejected'' (ProposeMessage err))
           | Some (m1, None) \<Rightarrow> Answer m1 (reply 200 OkTrue)))"

definition reject_mutation :: "string \<Rightarrow> mesh_daemon \<Rightarrow> mesh_daemon" where
  "reject_mutation reason m = on_status (recordRejectedPeerMutation reason) m"

text \<open>
  \<open>POST /peers\<close>, on the daemon with its lock. The body of the handler that changes the tables runs
  under the lock; what it returns is whether the address was among the peers and among the
  bootstrap peers before.
\<close>

definition add_peer :: "env \<Rightarrow> string \<Rightarrow> guarded_daemon \<Rightarrow> (bool \<times> bool) run" where
  "add_peer e n g = then_run (acquire g) (\<lambda>_ g1.
     let existsPeer = n |\<in>| fmdom (mPeers (gdDaemon g1));
         existsBootstrap = n \<in> set (mBootstrapPeers (gdDaemon g1))
     in then_run (if existsPeer then Done () g1 else touch_reachable e n True g1) (\<lambda>_ g2.
          let g3 = (if existsBootstrap then g2
                    else update (\<lambda>m. m\<lparr>mBootstrapPeers := mBootstrapPeers m @ [n]\<rparr>) g2)
          in then_run (release g3) (\<lambda>_ g4. Done (existsPeer, existsBootstrap) g4)))"

definition post_peers_run :: "api \<Rightarrow> env \<Rightarrow> request \<Rightarrow> guarded_daemon \<Rightarrow> response run" where
  "post_peers_run a e rq g =
     (let refuse = (\<lambda>reason r. Done r (update (reject_mutation reason) g))
      in if \<not> admin_enabled a
         then refuse ''admin_surface_disabled'' (reply 403 (PlainError ''admin endpoints disabled on this node''))
         else if \<not> cfAllowRuntimePeerMutation (apConfig a)
         then refuse ''disabled'' (reply 403 (PlainError
           ''runtime peer mutation disabled; set allow_runtime_peer_mutation=true for explicit opt-in''))
         else case decodeJSONBody (decAddr (apCodec a)) maxJSONBodyBytes rq of
             Inl err \<Rightarrow> refuse ''bad_json'' (writeAPIError 400 ''invalid_json'' (BodyMessage err))
           | Inr addr0 \<Rightarrow>
               let addr = trim_space addr0
               in if addr = []
                  then refuse ''empty_addr'' (writeAPIError 400 ''missing_addr'' (Message ''missing addr''))
                  else case validateTCPAddress addr of
                      Inl err \<Rightarrow> refuse ''invalid_addr'' (writeAPIError 400 ''invalid_addr'' (AddrMessage err))
                    | Inr normalized \<Rightarrow>
                        if normalized = mID (gdDaemon g)
                        then refuse ''self'' (writeAPIError 400 ''self_peer''
                          (Message ''peer mutation rejected: self address not allowed''))
                        else then_run (add_peer e normalized g) (\<lambda>(existsPeer, existsBootstrap) g1.
                          if existsPeer \<and> existsBootstrap
                          then Done (reply 200 (PeerStatus ''unchanged'' normalized)) g1
                          else Done (reply 200 (PeerStatus ''added'' normalized)) g1))"

text \<open>The request alone, on a daemon whose lock is free.\<close>

definition alone :: "response run \<Rightarrow> outcome" where
  "alone r = (case r of Done x g \<Rightarrow> Answer (gdDaemon g) x | Blocked _ \<Rightarrow> Hangs)"

lemma alone_simps [simp]: "alone (Done x g) = Answer (gdDaemon g) x" "alone (Blocked g) = Hangs"
  by (simp_all add: alone_def)

definition post_peers :: "api \<Rightarrow> env \<Rightarrow> request \<Rightarrow> mesh_daemon \<Rightarrow> outcome" where
  "post_peers a e rq m = alone (post_peers_run a e rq (free m))"

section \<open>Dispatch\<close>

definition guarded :: "string \<Rightarrow> request \<Rightarrow> mesh_daemon \<Rightarrow> outcome \<Rightarrow> outcome" where
  "guarded expected rq m out = (case requireMethod expected rq of Some r \<Rightarrow> Answer m r | None \<Rightarrow> out)"

definition debug_guarded :: "api \<Rightarrow> request \<Rightarrow> mesh_daemon \<Rightarrow> response \<Rightarrow> outcome" where
  "debug_guarded a rq m r = guarded ''GET'' rq m
     (case requireDebugSurface a of Some r' \<Rightarrow> Answer m r' | None \<Rightarrow> Answer m r)"

definition answer_pair :: "mesh_daemon \<times> response \<Rightarrow> outcome" where
  "answer_pair p = Answer (fst p) (snd p)"

text \<open>The routes that \<open>registerChainHandlers\<close> and \<open>startHTTPServer\<close> mount; the mux matches whole paths.\<close>

definition route :: "api \<Rightarrow> env \<Rightarrow> request \<Rightarrow> mesh_daemon \<Rightarrow> outcome" where
  "route a e rq m =
     (let get = (\<lambda>r. guarded ''GET'' rq m (Answer m r)); path = rqPath rq
      in if path = ''/debug/wallet'' then debug_guarded a rq m (debug_wallet a m)
         else if path = ''/chain/height'' then get (get_height m)
         else if path = ''/healthz'' then get (get_healthz a m)
         else if path = ''/readyz'' then get (get_readyz a m)
         else if path = ''/chain/status'' then get (get_status a m)
         else if path = ''/chain/finality'' then get (get_finality m)
         else if path = ''/chain/block'' then get (get_block rq m)
         else if path = ''/chain/tx'' then guarded ''POST'' rq m (answer_pair (post_tx a e rq m))
         else if path = ''/chain/balances'' then get (get_balances m)
         else if path = ''/chain/mempool'' then get (get_mempool m)
         else if path = ''/chain/apply'' then guarded ''POST'' rq m (answer_pair (post_apply a e rq m))
         else if path = ''/chain/propose'' \<or> path = ''/chain/propose_broadcast''
         then guarded ''POST'' rq m (post_propose a e m)
         else if path = ''/debug/nodeid'' then debug_guarded a rq m (reply 200 (NodeIdBody (mNodeID m) (mID m)))
         else if path = ''/debug/finality'' then debug_guarded a rq m (debug_finality rq m)
         else if path = ''/debug/ops'' then debug_guarded a rq m (reply 200 (OpsBody (operatorStatusSnapshot a m)))
         else if path = ''/peers''
         then (if rqMethod rq = ''POST'' then post_peers a e rq m else get (reply 200 (PeersBody (peers_view (now e) m))))
         else if path = ''/routes'' then Answer m (get_routes e m)
         else Answer m (reply 404 NotFound))"

text \<open>
  The same routes with the lock: the operator's status (\<open>operatorStatusSnapshot\<close>), the list of peers
  and the routes are read under it, a request to add a peer takes it, and the other handlers do
  not need it.
\<close>

definition route_run :: "api \<Rightarrow> env \<Rightarrow> request \<Rightarrow> guarded_daemon \<Rightarrow> response run" where
  "route_run a e rq g =
     (let path = rqPath rq;
          get = (\<lambda>f. case requireMethod ''GET'' rq of Some r \<Rightarrow> Done r g | None \<Rightarrow> reading f g)
      in if path = ''/healthz'' then get (get_healthz a)
         else if path = ''/readyz'' then get (get_readyz a)
         else if path = ''/chain/status'' then get (get_status a)
         else if path = ''/debug/ops''
         then (case requireMethod ''GET'' rq of Some r \<Rightarrow> Done r g
               | None \<Rightarrow> (case requireDebugSurface a of Some r \<Rightarrow> Done r g
                   | None \<Rightarrow> reading (\<lambda>m. reply 200 (OpsBody (operatorStatusSnapshot a m))) g))
         else if path = ''/peers''
         then (if rqMethod rq = ''POST'' then post_peers_run a e rq g
               else get (\<lambda>m. reply 200 (PeersBody (peers_view (now e) m))))
         else if path = ''/routes'' then reading (get_routes e) g
         else case route a e rq (gdDaemon g) of Answer m r \<Rightarrow> Done r (g\<lparr>gdDaemon := m\<rparr>) | Hangs \<Rightarrow> Blocked g)"

lemma get_alone:
  "guarded ''GET'' rq m (Answer m (f m)) =
     alone (case requireMethod ''GET'' rq of Some r \<Rightarrow> Done r (free m) | None \<Rightarrow> reading f (free m))"
  by (simp add: guarded_def split: option.split)

lemma route_alone: "route a e rq m = alone (route_run a e rq (free m))"
proof -
  have ops: "debug_guarded a rq m (f m) = alone (case requireMethod ''GET'' rq of Some r \<Rightarrow> Done r (free m)
      | None \<Rightarrow> (case requireDebugSurface a of Some r \<Rightarrow> Done r (free m) | None \<Rightarrow> reading f (free m)))" for f
    by (simp add: debug_guarded_def guarded_def split: option.split)
  consider "rqPath rq \<in> {''/healthz'', ''/readyz'', ''/chain/status'', ''/debug/ops'', ''/peers'', ''/routes''}"
    | "rqPath rq \<notin> {''/healthz'', ''/readyz'', ''/chain/status'', ''/debug/ops'', ''/peers'', ''/routes''}" by blast
  then show ?thesis
  proof cases
    case 1
    then show ?thesis
      by (elim insertE) (simp_all add: route_run_def route_def get_alone [of rq m "get_healthz a"] get_alone [of rq m "get_readyz a"]
        get_alone [of rq m "get_status a"] get_alone [of rq m "\<lambda>m. reply 200 (PeersBody (peers_view (now e) m))"]
        ops [of "\<lambda>m. reply 200 (OpsBody (operatorStatusSnapshot a m))"] post_peers_def)
  next
    case 2
    then have "route_run a e rq (free m) =
        (case route a e rq m of Answer m r \<Rightarrow> Done r (free m) | Hangs \<Rightarrow> Blocked (free m))"
      by (simp add: route_run_def split: outcome.split)
    then show ?thesis by (simp split: outcome.split)
  qed
qed

text \<open>
  Adding a peer: one that is known is done with; for a new one the handler waits for the lock it
  holds.
\<close>

lemma add_peer_known:
  "n |\<in>| fmdom (mPeers m) \<Longrightarrow> add_peer e n (free m) = Done (True, n \<in> set (mBootstrapPeers m))
     (free (if n \<in> set (mBootstrapPeers m) then m else m\<lparr>mBootstrapPeers := mBootstrapPeers m @ [n]\<rparr>))"
  by (simp add: add_peer_def update_def)

lemma add_peer_new:
  "n |\<notin>| fmdom (mPeers m) \<Longrightarrow> trim_space n \<noteq> [] \<Longrightarrow>
     add_peer e n (free m) = Blocked \<lparr>gdLock = Writing, gdDaemon = m\<rparr>"
  by (simp add: add_peer_def touch_reachable_def)

lemma add_peer_Done:
  assumes "add_peer e n (free m) = Done x g"
  shows "\<exists>bs. g = free (m\<lparr>mBootstrapPeers := bs\<rparr>)"
proof -
  have m: "\<exists>bs. m = m\<lparr>mBootstrapPeers := bs\<rparr>" by (rule exI [of _ "mBootstrapPeers m"]) simp
  have "\<exists>bs. g = free (m\<lparr>mBootstrapPeers := bs\<rparr>)" if "n |\<in>| fmdom (mPeers m)"
    using assms m by (auto simp: add_peer_known that)
  moreover have "\<exists>bs. g = free (m\<lparr>mBootstrapPeers := bs\<rparr>)" if "n |\<notin>| fmdom (mPeers m)" "trim_space n = []"
    using assms m by (auto simp: add_peer_def that touch_reachable_def update_def Let_def split: if_splits)
  moreover have "trim_space n = []" if "n |\<notin>| fmdom (mPeers m)"
    using assms add_peer_new [OF that] by fastforce
  ultimately show ?thesis by blast
qed

lemma post_peers_Answer:
  assumes "post_peers a e rq m = Answer m' r"
  shows "(\<exists>reason. m' = reject_mutation reason m) \<or> (admin_enabled a \<and> (\<exists>bs. m' = m\<lparr>mBootstrapPeers := bs\<rparr>))"
proof -
  have add: "\<exists>bs. m' = m\<lparr>mBootstrapPeers := bs\<rparr>"
    if "alone (then_run (add_peer e n (free m)) (\<lambda>(p, b) g. if p \<and> b then Done (x p b) g else Done (y p b) g)) = Answer m' r" for n x y
    using that add_peer_Done [of e n m] by (cases "add_peer e n (free m)") (fastforce split: if_splits)+
  show ?thesis
    using assms by (auto simp: post_peers_def post_peers_run_def Let_def dest: add split: if_splits sum.splits)
qed

section \<open>A lock that is held\<close>

lemma route_blocks:
  "gdLock g = Writing \<Longrightarrow> rqPath rq \<in> {''/healthz'', ''/readyz'', ''/chain/status'', ''/peers''} \<Longrightarrow> rqMethod rq = ''GET'' \<Longrightarrow>
     route_run a e rq g = Blocked g"
  "gdLock g = Writing \<Longrightarrow> rqPath rq = ''/routes'' \<Longrightarrow> route_run a e rq g = Blocked g"
  by (auto simp: route_run_def requireMethod_def)

section \<open>Middleware\<close>

definition clientIP :: "request \<Rightarrow> string" where
  "clientIP rq = (case SplitHostPort (rqRemoteAddr rq) of
     Inr (host, _) \<Rightarrow> if host \<noteq> [] then host else rqRemoteAddr rq | Inl _ \<Rightarrow> rqRemoteAddr rq)"

definition isLoopbackIP :: "string \<Rightarrow> bool" where
  "isLoopbackIP ip0 \<longleftrightarrow> (let ip = trim_space ip0 in ip = ''127.0.0.1'' \<or> ip = ''::1'' \<or> has_prefix ''127.'' ip)"

definition rateCost :: "string \<Rightarrow> nat" where
  "rateCost path =
     (if has_prefix ''/chain/status'' path \<or> has_prefix ''/chain/height'' path \<or> has_prefix ''/chain/block'' path then 1
      else if has_prefix ''/chain/tx'' path then 5
      else if has_prefix ''/chain/apply'' path \<or> has_prefix ''/chain/snapshot/apply'' path then 8
      else if has_prefix ''/chain/propose'' path then 10
      else 1)"

definition limited_path :: "string \<Rightarrow> bool" where
  "limited_path path \<longleftrightarrow> has_prefix ''/chain/'' path \<or> has_prefix ''/debug/'' path \<or>
     path \<in> set [''/peers'', ''/routes'', ''/reputation'', ''/uc'']"

definition serve :: "api \<Rightarrow> env \<Rightarrow> request \<Rightarrow> mesh_daemon \<Rightarrow> outcome" where
  "serve a e rq m =
     (if \<not> cfHttpRateLimitEnabled (apConfig a) then route a e rq m
      else let ip = clientIP rq; cost = rateCost (rqPath rq)
           in if has_prefix ''/debug/'' (rqPath rq) \<and> \<not> isLoopbackIP ip
              then Answer m (writeAPIError 403 ''debug_surface_forbidden''
                (Message ''debug endpoints are restricted to loopback clients''))
              else if isLoopbackIP ip \<and> 5 \<le> cost then route a e rq m
              else if limited_path (rqPath rq) \<and> \<not> allow (apCodec a) ip cost then Answer m (reply 429 RateLimited)
              else route a e rq m)"

section \<open>The proposer loop\<close>

text \<open>The zero value of a block, which reading a missing height of the map gives.\<close>

definition zero_block :: block where
  "zero_block = \<lparr>bProducer = [], bProducerAddr = [], bReward = 0, bProducerPubKey = [], bSignature = [],
     bBalancesRoot = [], bIsFinalized = False, bValidatorID = [], bHeight = 0, bPrevHash = [], bHash = [],
     bTimeUTC = time_zero, bTxs = None\<rparr>"

text \<open>
  One tick of \<open>startProposerLoop\<close>: what it gossips goes out with three hops. A panic ends the
  process.
\<close>

definition proposer_tick :: "wire \<Rightarrow> env \<Rightarrow> mesh_daemon \<Rightarrow> (mesh_daemon \<times> (wire_message \<times> string) list) option" where
  "proposer_tick w e m =
     (if mNodeID m \<noteq> ''node1'' then Some (m, [])
      else case propose_now e m of None \<Rightarrow> None
        | Some (m1, Some _) \<Rightarrow> Some (m1, [])
        | Some (m1, None) \<Rightarrow>
            let after = chHeight (mChain m1); out = fmget zero_block (chBlocks (mChain m1)) after
            in if chHeight (mChain m) < after then Some (gossipBlock w e out 3 m1) else Some (m1, []))"

end
