(* ===== verification/Discovery.thy ===== *)
theory Discovery
  imports Api
begin

text \<open>
  Discovery of peers (\<open>discovery.go\<close>, \<open>dial.go\<close>): the table of discovered peers that beacons,
  registrations and the answers of a leader fill, their promotion into the list of bootstrap
  peers and the eviction of unreachable ones. Nothing in the repository calls
  \<open>enableDiscoveryIfConfigured\<close> or mounts the handlers; the promotion and eviction loops are
  started with the daemon.
\<close>

section \<open>Configuration\<close>

record discovery_config =
  dcEnabled :: bool
  dcUDPPort :: int
  dcListenAddr :: string
  dcAnnounceEvery :: int
  dcLogEvery :: int
  dcMaxPeers :: int
  dcAllowCIDR :: string
  dcPersist :: bool
  dcPersistFile :: string
  dcDisableUDP :: bool
  dcLeaderURL :: string
  dcPollEvery :: int
  dcIsLeader :: bool

definition no_discovery :: discovery_config where
  "no_discovery = \<lparr>dcEnabled = False, dcUDPPort = 0, dcListenAddr = [], dcAnnounceEvery = 0, dcLogEvery = 0,
     dcMaxPeers = 0, dcAllowCIDR = [], dcPersist = False, dcPersistFile = [], dcDisableUDP = False,
     dcLeaderURL = [], dcPollEvery = 0, dcIsLeader = False\<rparr>"

definition millisecond :: int where "millisecond = 10 ^ 6"

definition or_default :: "int \<Rightarrow> int \<Rightarrow> int" where
  "or_default d x = (if x \<le> 0 then d else x)"

definition enableDiscoveryIfConfigured :: "mesh_config \<Rightarrow> discovery_config" where
  "enableDiscoveryIfConfigured cfg =
     (if \<not> cfDiscoveryEnabled cfg then no_discovery
      else let leaderURL = trim_space (cfDiscoveryLeaderURL cfg)
           in \<lparr>dcEnabled = True,
               dcUDPPort = (if cfDiscoveryUDPPort cfg = 0 then 9797 else cfDiscoveryUDPPort cfg),
               dcListenAddr = trim_space (cfListen cfg),
               dcAnnounceEvery = or_default (900 * millisecond) (cfDiscoveryAnnounceEveryMs cfg * millisecond),
               dcLogEvery = or_default (5 * second) (cfDiscoveryLogEveryMs cfg * millisecond),
               dcMaxPeers = or_default 256 (cfDiscoveryMaxPeers cfg),
               dcAllowCIDR = trim_space (cfDiscoveryAllowCIDR cfg), dcPersist = cfDiscoveryPersist cfg,
               dcPersistFile = trim_space (cfDiscoveryPersistFile cfg),
               dcDisableUDP = cfDiscoveryDisableUDP cfg, dcLeaderURL = leaderURL,
               dcPollEvery = or_default (1200 * millisecond) (cfDiscoveryPollEveryMs cfg * millisecond),
               dcIsLeader = (leaderURL = [] \<and> \<not> cfDiscoveryDisableUDP cfg)\<rparr>)"

definition discoveryPersistPath :: "discovery_config \<Rightarrow> string" where
  "discoveryPersistPath c = (if trim_space (dcPersistFile c) \<noteq> [] then dcPersistFile c
     else ''/tmp/blackchain_discovery_peers.json'')"

section \<open>The table of discovered peers\<close>

definition sighting :: "int \<Rightarrow> string \<Rightarrow> string \<Rightarrow> (string, discovered_peer) fmap \<Rightarrow> (string, discovered_peer) fmap" where
  "sighting t addr via tab = fmupd addr
     (case fmlookup tab addr of
        None \<Rightarrow> \<lparr>dpAddr = addr, dpFirstSeen = t, dpLastSeen = t, dpViaIP = via, dpCount = 1\<rparr>
      | Some cur \<Rightarrow> cur\<lparr>dpLastSeen := t, dpCount := dpCount cur + 1,
          dpFirstSeen := (if dpFirstSeen cur = time_zero then t else dpFirstSeen cur),
          dpViaIP := (if via \<noteq> [] then via else dpViaIP cur)\<rparr>) tab"

definition on_disco :: "((string, discovered_peer) fmap \<Rightarrow> (string, discovered_peer) fmap) \<Rightarrow> mesh_daemon \<Rightarrow> mesh_daemon" where
  "on_disco f m = m\<lparr>mDiscoPeers := f (mDiscoPeers m)\<rparr>"

definition discoveryLearnPeer :: "env \<Rightarrow> string \<Rightarrow> string \<Rightarrow> mesh_daemon \<Rightarrow> mesh_daemon" where
  "discoveryLearnPeer e listen via m =
     (let addr = trim_space listen
      in if addr = [] \<or> addr = mID m then m else on_disco (sighting (now e) addr via) m)"

definition handleDiscoveryRegister :: "api \<Rightarrow> env \<Rightarrow> request \<Rightarrow> mesh_daemon \<Rightarrow> mesh_daemon \<times> response" where
  "handleDiscoveryRegister a e rq m =
     (case requireMethod ''POST'' rq of Some r \<Rightarrow> (m, r)
      | None \<Rightarrow>
          (case decodeJSONBody (decAddr (apCodec a)) maxJSONBodyBytes rq of
             Inl err \<Rightarrow> (m, writeAPIError 400 ''invalid_json'' (BodyMessage err))
           | Inr addr0 \<Rightarrow>
               let addr = trim_space addr0
               in if addr = [] then (m, writeAPIError 400 ''missing_addr'' (Message ''missing addr''))
                  else if CHR '':'' \<notin> set addr then (m, writeAPIError 400 ''bad_addr'' (Message ''bad addr''))
                  else (on_disco (sighting (now e) addr (trim_space (rqRemoteAddr rq))) m, reply 200 OkTrue)))"

text \<open>The answer of a leader, entry by entry; a new entry keeps the way and count it came with.\<close>

definition merge_entry :: "env \<Rightarrow> string \<Rightarrow> discovered_peer \<Rightarrow> (string, discovered_peer) fmap \<Rightarrow> (string, discovered_peer) fmap" where
  "merge_entry e self p tab =
     (let a = trim_space (dpAddr p)
      in if a = [] \<or> a = self then tab
         else if fmlookup tab a = None
         then fmupd a (p\<lparr>dpAddr := a, dpFirstSeen := now e, dpLastSeen := now e,
           dpCount := (if dpCount p \<le> 0 then 1 else dpCount p)\<rparr>) tab
         else sighting (now e) a (dpViaIP p) tab)"

definition client_poll :: "env \<Rightarrow> discovered_peer list \<Rightarrow> mesh_daemon \<Rightarrow> mesh_daemon" where
  "client_poll e ps m = on_disco (fold (merge_entry e (mID m)) ps) m"

definition discoveryLoadPersisted :: "env \<Rightarrow> discovered_peer list option \<Rightarrow> mesh_daemon \<Rightarrow> mesh_daemon" where
  "discoveryLoadPersisted e content m =
     (case content of None \<Rightarrow> m
      | Some arr \<Rightarrow> on_disco (fold (\<lambda>p tab. if trim_space (dpAddr p) = [] \<or> dpAddr p = mID m then tab
          else fmupd (dpAddr p) (if dpFirstSeen p = time_zero then p\<lparr>dpFirstSeen := now e\<rparr> else p) tab) arr) m)"

section \<open>Beacons\<close>

record beacon =
  bcV :: int
  bcID :: string
  bcListen :: string
  bcTime :: int

definition private_v4 :: "nat list \<Rightarrow> bool" where
  "private_v4 ip \<longleftrightarrow> (case ip of [a, b, c, d] \<Rightarrow>
     a = 10 \<or> (a = 192 \<and> b = 168) \<or> (a = 172 \<and> 16 \<le> b \<and> b \<le> 31) | _ \<Rightarrow> False)"

definition to_v4 :: "nat list \<Rightarrow> nat list" where
  "to_v4 ip = (if length ip = 16 \<and> take 12 ip = v4_in_v6 then drop 12 ip else ip)"

text \<open>
  The sender, if the packet has one, must lie in the configured network, or be loopback or
  private. The network is that of \<open>net.ParseCIDR\<close>, a parameter; text it does not accept is
  ignored by the code.
\<close>

definition sender_allowed :: "(nat list \<Rightarrow> bool) option \<Rightarrow> nat list option \<Rightarrow> bool" where
  "sender_allowed allowNet raddr =
     (case allowNet of
        Some net \<Rightarrow> (case raddr of None \<Rightarrow> False | Some ip \<Rightarrow> net ip)
      | None \<Rightarrow> (case raddr of None \<Rightarrow> True | Some ip \<Rightarrow> IsLoopback ip \<or> private_v4 (to_v4 ip)))"

definition receive_beacon ::
  "env \<Rightarrow> (nat list \<Rightarrow> bool) option \<Rightarrow> (nat list \<Rightarrow> string) \<Rightarrow> beacon \<Rightarrow> nat list option \<Rightarrow>
   (string, int) fmap \<times> mesh_daemon \<Rightarrow> (string, int) fmap \<times> mesh_daemon" where
  "receive_beacon e allowNet show_ip b raddr s =
     (case s of (seen, m) \<Rightarrow>
        if bcV b \<noteq> 1 \<or> trim_space (bcListen b) = [] \<or> bcListen b = mID m then (seen, m)
        else if \<not> sender_allowed allowNet raddr then (seen, m)
        else if (case fmlookup seen (bcListen b) of None \<Rightarrow> False | Some last_t \<Rightarrow> now e - last_t < 800 * millisecond)
        then (seen, m)
        else (fmupd (bcListen b) (now e) seen,
              discoveryLearnPeer e (bcListen b) (case raddr of None \<Rightarrow> [] | Some ip \<Rightarrow> show_ip ip) m))"

definition prune_beacons :: "int \<Rightarrow> (string, int) fmap \<Rightarrow> (string, int) fmap" where
  "prune_beacons t seen = fmfilter (\<lambda>k. \<not> 30 * second < t - fmget 0 seen k) seen"

definition announce_beacon :: "env \<Rightarrow> discovery_config \<Rightarrow> mesh_daemon \<Rightarrow> beacon" where
  "announce_beacon e c m = \<lparr>bcV = 1, bcID = mID m,
     bcListen = (if trim_space (dcListenAddr c) = [] then mID m else trim_space (dcListenAddr c)), bcTime = unix (now e)\<rparr>"

section \<open>Dialing\<close>

text \<open>
  One turn of the loop that \<open>ConnectToPeers\<close> starts for its list; \<open>dial\<close> tells which peers
  answer and \<open>fmt_clock\<close> renders the time of day. A peer that answers is sent the greeting.
\<close>

definition hello :: "env \<Rightarrow> (int \<Rightarrow> string) \<Rightarrow> string \<Rightarrow> mesh_daemon \<Rightarrow> wire_message" where
  "hello e fmt_clock addr m = \<lparr>wmID = ''hello-'' @ fmt_clock (now e), wmType = ''msg'', wmFrom = mID m, wmVia = mID m,
     wmTo = addr, wmBody = ''mesh-hello'', wmTopic = ''hello'', wmTime = unix (now e), wmTTL = 1, wmPubKey = []\<rparr>"

definition dial_peer :: "env \<Rightarrow> (int \<Rightarrow> string) \<Rightarrow> (string \<Rightarrow> bool) \<Rightarrow> string \<Rightarrow> mesh_daemon \<Rightarrow>
    mesh_daemon \<times> (wire_message \<times> string) list" where
  "dial_peer e fmt_clock dial addr0 m =
     (let addr = trim_space addr0
      in if addr = [] \<or> addr = mID m then (m, [])
         else if \<not> shouldDialPeer m addr (now e) then (m, [])
         else if \<not> dial addr then (TouchReachable e addr False m, [])
         else (TouchReachable e addr True m, [(hello e fmt_clock addr m, addr)]))"

section \<open>Promotion and eviction\<close>

text \<open>
  One tick of the promotion loop: the daemon, and the addresses for which a dial loop that never
  ends was started.
\<close>

fun promote :: "nat \<Rightarrow> discovered_peer list \<Rightarrow> mesh_daemon \<Rightarrow> mesh_daemon \<times> string list" where
  "promote maxPeers [] m = (m, [])"
| "promote maxPeers (p # ps) m =
     (case sanitizeLearnedPeerAddr (dpAddr p) (mID m) (fmdom (mPeers m)) of
        Inl _ \<Rightarrow> promote maxPeers ps m
      | Inr addr \<Rightarrow>
          if addr \<in> set (mBootstrapPeers m) then promote maxPeers ps m
          else if maxPeers \<le> length (mBootstrapPeers m) then (m, [])
          else let m1 = (if pReachable (peer_at m addr)
                   then m\<lparr>mBootstrapPeers := mBootstrapPeers m @ [addr]\<rparr> else m)
               in map_prod id (Cons addr) (promote maxPeers ps m1))"

text \<open>Go visits the table in any order, the model by address.\<close>

definition promote_tick :: "discovery_config \<Rightarrow> mesh_daemon \<Rightarrow> mesh_daemon \<times> string list" where
  "promote_tick c m =
     (if \<not> dcEnabled c then (m, [])
      else promote (nat (dcMaxPeers c))
        (List.map_filter (fmlookup (mDiscoPeers m)) (sorted_list_of_fset (fmdom (mDiscoPeers m)))) m)"

definition evict_tick :: "mesh_daemon \<Rightarrow> mesh_daemon" where
  "evict_tick m = m\<lparr>mBootstrapPeers := filter (\<lambda>addr. pReachable (peer_at m addr)) (mBootstrapPeers m)\<rparr>"

end
