(* ===== verification/Flood.thy ===== *)
theory Flood
  imports Gossip "HOL-Library.Multiset"
begin

text \<open>
  What holds of the message layer: the table of seen ids is bounded and keeps the newest ids, a
  message whose id is in it is dropped, a forwarded message loses a hop, a flood of messages through a
  network ends, and a failing peer is left alone for a bounded time.
\<close>

section \<open>The table of seen ids\<close>

text \<open>What is left keeps its times, and nothing that was dropped is newer than it.\<close>

definition kept_newest :: "(string, int) fmap \<Rightarrow> (string, int) fmap \<Rightarrow> bool" where
  "kept_newest s s' \<longleftrightarrow> fmdom s' |\<subseteq>| fmdom s \<and>
     (\<forall>k. k |\<in>| fmdom s' \<longrightarrow> fmlookup s' k = fmlookup s k) \<and>
     (\<forall>k k'. k |\<in>| fmdom s \<and> k |\<notin>| fmdom s' \<and> k' |\<in>| fmdom s' \<longrightarrow> fmget 0 s k \<le> fmget 0 s k')"

lemma fmget_drop: "k \<noteq> x \<Longrightarrow> fmget d (fmdrop x s) k = fmget d s k"
  by (simp add: fmget_def)

lemma kept_newest_drop:
  assumes "s \<noteq> fmempty" and "kept_newest (fmdrop (oldest s) s) s'"
  shows "kept_newest s s'"
proof -
  note old = oldest_min [OF assms(1)]
  let ?s = "fmdrop (oldest s) s"
  have sub: "fmdom s' |\<subseteq>| fmdom ?s" and same: "\<And>k. k |\<in>| fmdom s' \<Longrightarrow> fmlookup s' k = fmlookup ?s k"
    and le: "\<And>k k'. k |\<in>| fmdom ?s \<Longrightarrow> k |\<notin>| fmdom s' \<Longrightarrow> k' |\<in>| fmdom s' \<Longrightarrow> fmget 0 ?s k \<le> fmget 0 ?s k'"
    using assms(2) unfolding kept_newest_def by blast+
  have ne: "k \<noteq> oldest s \<and> k |\<in>| fmdom s" if "k |\<in>| fmdom s'" for k using sub that by auto
  have "fmget 0 s k \<le> fmget 0 s k'"
    if k: "k |\<in>| fmdom s" "k |\<notin>| fmdom s'" "k' |\<in>| fmdom s'" for k k'
  proof (cases "k = oldest s")
    case True
    then show ?thesis using old(2) ne [OF k(3)] by simp
  next
    case False
    then have "fmget 0 ?s k \<le> fmget 0 ?s k'" using le [OF _ k(2,3)] k(1) by simp
    then show ?thesis using False ne [OF k(3)] by (simp add: fmget_drop)
  qed
  moreover have "fmlookup s' k = fmlookup s k" if "k |\<in>| fmdom s'" for k
    using same [OF that] ne [OF that] by simp
  moreover have "fmdom s' |\<subseteq>| fmdom s" using ne by blast
  ultimately show ?thesis unfolding kept_newest_def by blast
qed

lemma drop_oldest_newest:
  "[] |\<notin>| fmdom s \<Longrightarrow> fcard (fmdom (drop_oldest n s)) \<le> n \<and> kept_newest s (drop_oldest n s)"
proof (induction n s rule: drop_oldest.induct)
  case (1 n s)
  show ?case
  proof (cases "fcard (fmdom s) \<le> n")
    case True
    then show ?thesis by (simp add: drop_oldest.simps kept_newest_def) blast
  next
    case False
    then have s: "s \<noteq> fmempty" by (auto simp: fcard_fempty)
    have ne: "oldest s \<noteq> []" using oldest_min(1) [OF s] 1(2) by metis
    have step: "drop_oldest n s = drop_oldest n (fmdrop (oldest s) s)"
      by (subst drop_oldest.simps) (simp add: False ne)
    have "fcard (fmdom (drop_oldest n (fmdrop (oldest s) s))) \<le> n \<and>
        kept_newest (fmdrop (oldest s) s) (drop_oldest n (fmdrop (oldest s) s))"
      using 1(1) [OF False ne] 1(2) by simp
    then show ?thesis using kept_newest_drop [OF s] step by simp
  qed
qed

lemma drop_oldest_small: "fcard (fmdom s) \<le> n \<Longrightarrow> drop_oldest n s = s"
  by (simp add: drop_oldest.simps)

text \<open>No more is dropped than the bound asks for.\<close>

lemma drop_oldest_enough:
  "[] |\<notin>| fmdom s \<Longrightarrow> n \<le> fcard (fmdom s) \<Longrightarrow> n \<le> fcard (fmdom (drop_oldest n s))"
proof (induction n s rule: drop_oldest.induct)
  case (1 n s)
  show ?case
  proof (cases "fcard (fmdom s) \<le> n")
    case True
    then show ?thesis using 1(3) by (simp add: drop_oldest_small)
  next
    case False
    then have s: "s \<noteq> fmempty" by (auto simp: fcard_fempty)
    have ne: "oldest s \<noteq> []" using oldest_min(1) [OF s] 1(2) by metis
    have "n \<le> fcard (fmdom (fmdrop (oldest s) s))"
      using False fcard_Suc_fminus1 [OF oldest_min(1) [OF s]] by simp
    then have "n \<le> fcard (fmdom (drop_oldest n (fmdrop (oldest s) s)))"
      using 1(1) [OF False ne] 1(2) by simp
    then show ?thesis by (subst drop_oldest.simps) (simp add: False ne)
  qed
qed

definition alive :: "int \<Rightarrow> (string, int) fmap \<Rightarrow> (string, int) fmap" where
  "alive t s = fmfilter (\<lambda>k. \<not> fmget 0 s k < t - SeenTTL) s"

lemma alive_lookup: "fmlookup (alive t s) k = (case fmlookup s k of None \<Rightarrow> None
    | Some x \<Rightarrow> if x < t - SeenTTL then None else Some x)"
  by (auto simp: alive_def fmget_def split: option.split)

lemma markSeen_table:
  "msgid \<noteq> [] \<Longrightarrow> mSeen (markSeen e msgid m) = drop_oldest SeenMax (alive (now e) (fmupd msgid (now e) (mSeen m)))"
  unfolding markSeen_def pruneSeenLocked_def alive_def by (cases m) (simp only: if_False mesh_daemon.select_convs mesh_daemon.update_convs)

lemma marked:
  fixes e :: env and m :: mesh_daemon
  assumes "msgid \<noteq> []" and "[] |\<notin>| fmdom (mSeen m)"
  defines "s \<equiv> alive (now e) (fmupd msgid (now e) (mSeen m))" and "s' \<equiv> mSeen (markSeen e msgid m)"
  shows "fcard (fmdom s') \<le> SeenMax" "kept_newest s s'"
    "fmlookup s k = (if k = msgid then Some (now e) else fmlookup (alive (now e) (mSeen m)) k)"
proof -
  have look: "fmlookup s k = (if k = msgid then Some (now e) else fmlookup (alive (now e) (mSeen m)) k)" for k
    by (simp add: s_def alive_lookup SeenTTL_def second_def)
  then show "fmlookup s k = (if k = msgid then Some (now e) else fmlookup (alive (now e) (mSeen m)) k)" .
  have "fmlookup (mSeen m) [] = None" using assms(2) by (simp add: fmdom_notI fmdom_notD)
  then have "fmlookup s [] = None" using look [of "[]"] assms(1) by (simp add: alive_lookup)
  then have "[] |\<notin>| fmdom s" by (simp add: fmlookup_dom_iff)
  from drop_oldest_newest [OF this, of SeenMax] show "fcard (fmdom s') \<le> SeenMax" "kept_newest s s'"
    using markSeen_table [OF assms(1), of e m] by (simp_all add: s_def s'_def)
qed

lemma marked_table:
  fixes e :: env and m :: mesh_daemon
  assumes "msgid \<noteq> []" and "[] |\<notin>| fmdom (mSeen m)"
  defines "s' \<equiv> mSeen (markSeen e msgid m)"
  shows "fcard (fmdom s') \<le> SeenMax" and "[] |\<notin>| fmdom s'"
    and "\<forall>k t. fmlookup s' k = Some t \<longrightarrow> now e - SeenTTL \<le> t \<and> (if k = msgid then t = now e else fmlookup (mSeen m) k = Some t)"
    and "\<forall>k t. fmlookup (mSeen m) k = Some t \<and> k \<noteq> msgid \<and> k |\<notin>| fmdom s' \<longrightarrow>
      t < now e - SeenTTL \<or> (\<forall>k' t'. fmlookup s' k' = Some t' \<longrightarrow> t \<le> t')"
proof -
  let ?s = "alive (now e) (fmupd msgid (now e) (mSeen m))"
  note mk = marked [OF assms(1,2), of e]
  have sub: "fmdom s' |\<subseteq>| fmdom ?s" and same: "\<And>k. k |\<in>| fmdom s' \<Longrightarrow> fmlookup s' k = fmlookup ?s k"
    and le: "\<And>k k'. k |\<in>| fmdom ?s \<Longrightarrow> k |\<notin>| fmdom s' \<Longrightarrow> k' |\<in>| fmdom s' \<Longrightarrow> fmget 0 ?s k \<le> fmget 0 ?s k'"
    using mk(2) unfolding kept_newest_def s'_def by blast+
  show "fcard (fmdom s') \<le> SeenMax" using mk(1) by (simp add: s'_def)
  have look: "fmlookup ?s k = Some t" if "fmlookup s' k = Some t" for k t
    using same [of k] that by (metis fmdomI)
  show "[] |\<notin>| fmdom s'"
    using look mk(3) [of "[]"] assms(1,2) by (fastforce simp: alive_lookup fmlookup_dom_iff split: option.splits)
  show "\<forall>k t. fmlookup s' k = Some t \<longrightarrow> now e - SeenTTL \<le> t \<and> (if k = msgid then t = now e else fmlookup (mSeen m) k = Some t)"
  proof (intro allI impI)
    fix k t
    assume "fmlookup s' k = Some t"
    from look [OF this] mk(3) [of k]
    show "now e - SeenTTL \<le> t \<and> (if k = msgid then t = now e else fmlookup (mSeen m) k = Some t)"
      by (auto simp: alive_lookup SeenTTL_def second_def split: option.splits if_splits)
  qed
  show "\<forall>k t. fmlookup (mSeen m) k = Some t \<and> k \<noteq> msgid \<and> k |\<notin>| fmdom s' \<longrightarrow>
      t < now e - SeenTTL \<or> (\<forall>k' t'. fmlookup s' k' = Some t' \<longrightarrow> t \<le> t')"
  proof (intro allI impI)
    fix k t
    assume k: "fmlookup (mSeen m) k = Some t \<and> k \<noteq> msgid \<and> k |\<notin>| fmdom s'"
    show "t < now e - SeenTTL \<or> (\<forall>k' t'. fmlookup s' k' = Some t' \<longrightarrow> t \<le> t')"
    proof (rule disjCI)
      assume "\<not> (\<forall>k' t'. fmlookup s' k' = Some t' \<longrightarrow> t \<le> t')"
      then obtain k' t' where k': "fmlookup s' k' = Some t'" "t' < t" by force
      show "t < now e - SeenTTL"
      proof (rule ccontr)
        assume "\<not> t < now e - SeenTTL"
        then have lk: "fmlookup ?s k = Some t" using mk(3) [of k] k by (simp add: alive_lookup)
        then have "fmget 0 ?s k \<le> fmget 0 ?s k'" using le [of k k'] k k'(1) by (metis fmdomI)
        then show False using lk look [OF k'(1)] k'(2) by (simp add: fmget_def)
      qed
    qed
  qed
qed

text \<open>
  C33 (bounds): marking a message id leaves at most \<open>SeenMax\<close> ids in the table, none older than
  \<open>SeenTTL\<close>; an id that is forgotten had expired or is no newer than any id that is kept.
\<close>

theorem seen_stays_bounded:
  "msgid \<noteq> [] \<Longrightarrow> [] |\<notin>| fmdom (mSeen m) \<Longrightarrow> mSeen (markSeen e msgid m) = s' \<Longrightarrow>
     fcard (fmdom s') \<le> SeenMax \<and> [] |\<notin>| fmdom s' \<and>
     (\<forall>k t. fmlookup s' k = Some t \<longrightarrow>
        now e - SeenTTL \<le> t \<and> (if k = msgid then t = now e else fmlookup (mSeen m) k = Some t)) \<and>
     (\<forall>k t. fmlookup (mSeen m) k = Some t \<and> k \<noteq> msgid \<and> k |\<notin>| fmdom s' \<longrightarrow>
        t < now e - SeenTTL \<or> (\<forall>k' t'. fmlookup s' k' = Some t' \<longrightarrow> t \<le> t'))"
  using marked_table [of msgid m e] by blast

section \<open>Incoming messages\<close>

lemma frame_seen [simp]:
  "mSeen (TouchPeer e a m) = mSeen m"
  "mSeen (fst (maybeSyncFromSignedState w e a body m)) = mSeen m"
  by (auto simp: TouchPeer_def set_peer_def maybeSyncFromSignedState_def Let_def split: option.split sum.split)

definition wire_type :: "wire_message \<Rightarrow> bool" where
  "wire_type wm \<longleftrightarrow> wmType wm = ''msg'' \<or> wmType wm = ''block''"

lemma seen_message_ignored:
  "wire_type wm \<Longrightarrow> wmID wm \<noteq> [] \<Longrightarrow> wmID wm |\<in>| fmdom (mSeen m) \<Longrightarrow>
     handleIncoming w e (Some wm) m = (m, [], NoReply)"
  by (auto simp: handleIncoming_def wire_type_def)

lemma handled_seen:
  assumes "wire_type wm" and "wmID wm \<noteq> []" and "wmID wm |\<notin>| fmdom (mSeen m)"
  shows "mSeen (fst (handleIncoming w e (Some wm) m)) = mSeen (markSeen e (wmID wm) m)"
  using assms
  by (auto simp: handleIncoming_def wire_type_def Let_def split: option.splits prod.splits)

text \<open>What is forwarded has one hop less, at least one left, and goes to another neighbour.\<close>

lemma forwarded:
  assumes "(x, a) \<in> set (gossipForward wm m)"
  shows "wmTTL x = wmTTL wm - 1" "0 < wmTTL x" "wmVia x = mID m" "wmTo x = a" "a \<noteq> []" "a \<noteq> mID m"
    "a \<noteq> trim_space (wmVia wm)" "a \<in> trim_space ` set (mBootstrapPeers m)"
    "wmID x = wmID wm" "wmBody x = wmBody wm" "wmFrom x = wmFrom wm"
  using assms by (auto simp: gossipForward_def Let_def send_all_def gossip_targets_def split: if_splits)

lemma forward_frame:
  "mID (markSeen e i m) = mID m" "mID (TouchPeer e a m) = mID m" "mID (fst (maybeSyncFromSignedState w e a body m)) = mID m"
  "mBootstrapPeers (markSeen e i m) = mBootstrapPeers m" "mBootstrapPeers (TouchPeer e a m) = mBootstrapPeers m"
  "mBootstrapPeers (fst (maybeSyncFromSignedState w e a body m)) = mBootstrapPeers m"
  by (auto simp: markSeen_def TouchPeer_def set_peer_def maybeSyncFromSignedState_def Let_def split: option.split sum.split)

lemma handled_forward:
  assumes "handleIncoming w e (Some wm) m = (m', fwd, r)" and "(x, a) \<in> set fwd"
  shows "0 < wmTTL wm" "wmTTL x = wmTTL wm - 1" "0 < wmTTL x" "wmVia x = mID m" "a \<noteq> mID m"
    "a \<noteq> trim_space (wmVia wm)" "a \<in> trim_space ` set (mBootstrapPeers m)"
proof -
  let ?wm = "if wmID wm = [] then wm\<lparr>wmID := ''auto-'' @ fmt_int (now e)\<rparr> else wm"
  obtain m2 where f: "0 < wmTTL wm" "(x, a) \<in> set (gossipForward ?wm m2)" and id: "mID m2 = mID m" "mBootstrapPeers m2 = mBootstrapPeers m"
    using assms
    by (force simp: handleIncoming_def Let_def forward_frame split: if_splits option.splits prod.splits)
  show "0 < wmTTL wm" "wmTTL x = wmTTL wm - 1" "0 < wmTTL x" "wmVia x = mID m" "a \<noteq> mID m"
    "a \<noteq> trim_space (wmVia wm)" "a \<in> trim_space ` set (mBootstrapPeers m)"
    using f(1) forwarded [OF f(2)] id by (simp_all split: if_splits)
qed

section \<open>A network of nodes\<close>

text \<open>
  The nodes by address and the messages in flight with their destinations. A step hands one
  message to its destination, at whatever time that node reads, or loses it.
\<close>

type_synonym network = "(string \<Rightarrow> mesh_daemon) \<times> (wire_message \<times> string) multiset"

inductive net_step :: "wire \<Rightarrow> network \<Rightarrow> network \<Rightarrow> bool" for w :: wire where
  net_handle: "handleIncoming w e (Some wm) (N a) = (m', fwd, r) \<Longrightarrow>
     net_step w (N, add_mset (wm, a) F) (N(a := m'), F + mset fwd)"
| net_lose: "net_step w (N, add_mset (wm, a) F) (N, F)"

inductive_cases net_stepE: "net_step w s s'"

definition hops :: "network \<Rightarrow> nat multiset" where
  "hops s = image_mset (\<lambda>(wm, _). nat (wmTTL wm)) (snd s)"

lemma net_step_hops:
  assumes "net_step w s s'"
  shows "(hops s', hops s) \<in> mult1 {(x, y). x < y}"
  using assms
proof cases
  case (net_handle e wm N a m' fwd r F)
  have less: "(b, nat (wmTTL wm)) \<in> {(x, y). x < y}"
    if "b \<in># image_mset (\<lambda>(wm, _). nat (wmTTL wm)) (mset fwd)" for b
    using handled_forward(1,2) [OF net_handle(3)] that by force
  have "hops s = add_mset (nat (wmTTL wm)) (hops (N, F))"
    and "hops s' = hops (N, F) + image_mset (\<lambda>(wm, _). nat (wmTTL wm)) (mset fwd)"
    using net_handle(1,2) by (simp_all add: hops_def)
  then show ?thesis by (rule mult1I) (rule less)
next
  case (net_lose N wm a F)
  then show ?thesis by (intro mult1I [where K = "{#}"]) (simp_all add: hops_def)
qed

text \<open>
  C12 (termination): a flood ends. From any state of a network, however its nodes are connected,
  whatever their tables of seen ids hold or forget and in whatever order messages arrive, only
  finitely many deliveries can follow.
\<close>

theorem flood_ends: "wf {(s', s). net_step w s s'}"
proof (rule wf_subset)
  show "wf (inv_image (mult1 {(x, y :: nat). x < y}) hops)"
    by (intro wf_inv_image wf_mult1) (rule wf_less)
qed (auto simp: net_step_hops)

section \<open>Back-off\<close>

lemma on_status_peers [simp]: "mPeers (on_status f m) = mPeers m"
  by (simp add: on_status_def split: option.split)

lemma peer_at_set: "peer_at (set_peer a p m) b = (if b = a then p else peer_at m b)"
  by (simp add: peer_at_def set_peer_def fmget_def)

lemma peer_at_status: "peer_at (on_status f m) = peer_at m"
  by (simp add: fun_eq_iff peer_at_def)

text \<open>
  After the n-th failed sync in a row a peer is neither dialed nor asked for blocks
  for 2n seconds, at most 30, and then dialed again.
\<close>

theorem failed_peer_left_alone:
  assumes "noteSyncFailure e addr err m = (m', d)" and "trim_space addr \<noteq> []" and "time_zero < now e"
    and "0 \<le> pSyncFailures (peer_at m (trim_space addr))"
  shows "d = min (2 * second * (pSyncFailures (peer_at m (trim_space addr)) + 1)) (30 * second) \<and>
    2 * second \<le> d \<and>
    (\<forall>t < now e + d. \<not> shouldDialPeer m' addr t \<and> trim_space addr \<notin> set (reachablePeersForSync m' t)) \<and>
    (\<forall>t \<ge> now e + d. shouldDialPeer m' addr t)"
proof -
  let ?a = "trim_space addr"
  have d: "d = min ((pSyncFailures (peer_at m ?a) + 1) * syncFailureSuppressStep) syncFailureSuppressMax"
    and till: "pSuppressedUntil (peer_at m' ?a) = now e + d" and dom: "?a |\<in>| fmdom (mPeers m')"
    using assms(1,2)
    by (auto simp: noteSyncFailure_def Let_def peer_at_status peer_at_set) (simp_all add: set_peer_def)
  have d': "d = min (2 * second * (pSyncFailures (peer_at m ?a) + 1)) (30 * second)"
    using d by (simp add: syncFailureSuppressStep_def syncFailureSuppressMax_def mult_ac)
  have "2 * second \<le> d" using assms(4) unfolding d' by (simp add: second_def)
  moreover have ne: "now e + d \<noteq> time_zero" using assms(3) calculation by (simp add: second_def)
  obtain p where p: "fmlookup (mPeers m') ?a = Some p" "pSuppressedUntil p = now e + d"
    using dom till by (auto simp: peer_at_def fmget_def fmlookup_dom_iff)
  then have "shouldDialPeer m' addr t \<longleftrightarrow> \<not> t < now e + d" for t
    using assms(2) ne by (simp add: shouldDialPeer_def)
  moreover have "?a \<notin> set (reachablePeersForSync m' t)" if "t < now e + d" for t
    using that till ne by (simp add: reachablePeersForSync_def)
  ultimately show ?thesis using d' by auto
qed

end
