(* ===== verification/Delivery.thy ===== *)
theory Delivery
  imports Proposer Replay
begin

text \<open>
  Delivery of blocks: what the network path of a block (screening, buffering, draining) does
  compared with applying it directly. Nothing of a node beside its chain state - buffered
  proposals, known validators, the daemon it belongs to - steers the application.
\<close>

section \<open>The rest of the node does not steer the chain\<close>

abbreviation beside :: "(int, block) fmap \<Rightarrow> string fset \<Rightarrow> daemon option \<Rightarrow> chain \<Rightarrow> chain" where
  "beside p v d c \<equiv> c\<lparr>chPending := p, chValidatorSet := v, chDaemon := d\<rparr>"

lemma beside_fields:
  "chAccounts (beside p v d c) = chAccounts c" "chMempool (beside p v d c) = chMempool c"
  "chHeight (beside p v d c) = chHeight c" "chTip (beside p v d c) = chTip c"
  "chBlocks (beside p v d c) = chBlocks c" "chFinalizedHeight (beside p v d c) = chFinalizedHeight c"
  by simp_all

lemma compact_beside: "fst (compactMempoolLocked e (beside p v d c)) = beside p v d (fst (compactMempoolLocked e c))"
proof -
  have "validateTx e (beside p v d c) = validateTx e c"
    by (rule ext) (simp only: validateTx_def requiredFeeLocked_def beside_fields)
  then have "compact_step e (beside p v d c) = compact_step e c"
    by (intro ext) (simp only: compact_step_def beside_fields)
  then show ?thesis
    by (simp add: compactMempoolLocked_def compact_run_def resetMempoolLocked_def rebuildMempoolIndexLocked_def Let_def)
qed

lemma finality_beside: "advanceFinalityLocked (beside p v d c) = beside p v d (advanceFinalityLocked c)"
  by (simp add: advanceFinalityLocked_def Let_def)

lemma checks_beside:
  "check_header e (beside p v d c) b = check_header e c b"
  "check_body e (beside p v d c) b fees = check_body e c b fees"
  by (simp_all only: check_header_def check_body_def calcStateHashWithBlock_def beside_fields)

lemma exec_beside:
  "execBlockLocked e (beside p v d c) b fees = (case execBlockLocked e c b fees of (c', r) \<Rightarrow> (beside p v d c', r))"
proof -
  obtain err k f2 where x: "exec_txs (block_txs b) (chAccounts c, fmempty) fees = (err, k, f2)"
    using prod_cases3 by blast
  let ?c1 = "c\<lparr>chAccounts := pay_rewards b f2 (write_back k), chBlocks := fmupd (bHeight b) b (chBlocks c),
    chHeight := bHeight b, chTip := bHash b\<rparr>"
  have "(beside p v d c)\<lparr>chAccounts := pay_rewards b f2 (write_back k), chBlocks := fmupd (bHeight b) b (chBlocks c),
    chHeight := bHeight b, chTip := bHash b\<rparr> = beside p v d ?c1" by (rule chain.equality) simp_all
  then have "advanceFinalityLocked (fst (compactMempoolLocked e ((beside p v d c)\<lparr>chAccounts := pay_rewards b f2 (write_back k),
      chBlocks := fmupd (bHeight b) b (chBlocks c), chHeight := bHeight b, chTip := bHash b\<rparr>)))
      = beside p v d (advanceFinalityLocked (fst (compactMempoolLocked e ?c1)))"
    by (simp only: compact_beside finality_beside)
  then show ?thesis by (cases err) (simp_all add: execBlockLocked_def x Let_def)
qed

lemma persist_beside:
  "persistBlockLocked e (beside p v d c) b = (case persistBlockLocked e c b of (c', r) \<Rightarrow> (beside p v d c', r))"
  by (simp add: persistBlockLocked_def blockPath_def blockDir_def data_root_def Let_def split: prod.split)

text \<open>The validators a chain knows after one or two more were observed.\<close>

definition know :: "string \<Rightarrow> string fset \<Rightarrow> string fset" where
  "know vid S = (if vid = [] \<or> vid = ''GENESIS'' then S else finsert vid S)"

lemma observe_know: "observeValidatorLocked c vid = c\<lparr>chValidatorSet := know vid (chValidatorSet c)\<rparr>"
  by (simp add: observeValidatorLocked_def know_def)

lemma know_know [simp]: "know a (know a S) = know a S"
  by (simp add: know_def)

lemma know_commute: "know a (know b S) = know b (know a S)"
  by (auto simp: know_def)

definition know_block :: "block \<Rightarrow> string fset \<Rightarrow> string fset" where
  "know_block b S = know (bProducer b) (know (bValidatorID b) S)"

lemma observed_know: "observed c b = c\<lparr>chValidatorSet := know_block b (chValidatorSet c)\<rparr>"
  by (simp add: observed_def observe_know know_block_def)

lemma know_block_producer [simp]: "know_block b (know (bProducer b) S) = know_block b S"
  by (metis know_block_def know_commute know_know)

lemma know_block_commute: "know a (know_block b S) = know_block b (know a S)"
  by (metis know_block_def know_commute)

lemma applied_beside:
  assumes "applyBlockLocked e c b = (c', None)"
  shows "applyBlockLocked e (beside p v d c) b = (beside p (know_block b v) d c', None)"
    and "chValidatorSet c' = know_block b (chValidatorSet c)" "chPending c' = chPending c" "chDaemon c' = chDaemon c"
proof -
  obtain fees where f: "check_header e c b = Inr fees" "check_body e (observed c b) b fees = None"
    using assms by (rule applyBlock_None)
  obtain c2 where p: "persistBlockLocked e (observed c b) b = (c2, None)"
    using assms by (rule applyBlock_None)
  have x: "execBlockLocked e c2 b fees = (c', None)"
    using assms f p by (simp add: applyBlockLocked_def Let_def flip: observed_def)
  have o: "observed (beside p v d c) b = beside p (know_block b v) d (observed c b)"
    by (simp add: observed_know)
  show "applyBlockLocked e (beside p v d c) b = (beside p (know_block b v) d c', None)"
    using f p x
    by (simp add: applyBlockLocked_def checks_beside Let_def o persist_beside exec_beside flip: observed_def)
  obtain d2 where "c2 = (observed c b)\<lparr>chDisk := d2\<rparr>"
    using p persistBlock_frame [of e "observed c b" b] by auto
  then have "chValidatorSet c2 = know_block b (chValidatorSet c)" by (simp add: observed_know)
  moreover have "chValidatorSet c' = chValidatorSet c2"
    using x by (auto simp: execBlockLocked_def frame_simps Let_def split: prod.splits option.splits)
  ultimately show "chValidatorSet c' = know_block b (chValidatorSet c)" by simp
  show "chPending c' = chPending c" "chDaemon c' = chDaemon c" by (rule applied_fields(3,4) [OF assms])+
qed

section \<open>Delivery of the next block, and of the one after it\<close>

text \<open>
  A node that takes blocks from others: it has its identity, no announcement speaks against a
  block, and its finality is behind its height.
\<close>

definition receiver_ok :: "env \<Rightarrow> chain \<Rightarrow> bool" where
  "receiver_ok e c \<longleftrightarrow> 0 \<le> chHeight c \<and> chFinalizedHeight c \<le> chHeight c \<and>
     (case chDaemon c of None \<Rightarrow> True | Some d \<Rightarrow> has_identity e c \<and> dPeerState d = fmempty)"

definition not_future :: "env \<Rightarrow> block \<Rightarrow> bool" where
  "not_future e b \<longleftrightarrow> bTimeUTC b \<le> now e + maxProposalFutureSkew"

lemma receiver_beside:
  "receiver_ok e c \<Longrightarrow> (case d of None \<Rightarrow> True | Some d' \<Rightarrow> has_identity e c \<and> dPeerState d' = fmempty) \<Longrightarrow>
     receiver_ok e (beside p v d c)"
  by (simp add: receiver_ok_def has_identity_def cached_pair_check_def cong: option.case_cong)

lemma receiver_applied: "receiver_ok e c \<Longrightarrow> applyBlockLocked e c b = (c', None) \<Longrightarrow> receiver_ok e c'"
  using applied_fields(1,4,7,8,11) [of e c b c'] applied_checks(3) [of e c b c']
  by (auto simp: receiver_ok_def has_identity_def cached_pair_check_def finalityDepth_def cong: option.case_cong)

lemma quorum_receiver: "receiver_ok e c \<Longrightarrow> quorum_check e c b = (c, None)"
  by (auto simp: quorum_check_def receiver_ok_def ValidatorID_cached hasQuorum_def fcard_fempty split: option.splits)

text \<open>What an applied block has passed is enough for the screening.\<close>

lemma applied_content:
  assumes ap: "applyBlockLocked e c0 b = (c', None)" and "not_future e b"
    and "bHeight b = chHeight c + 1 \<Longrightarrow> \<not> stale_time c b"
  shows "content_check e c b = None"
proof -
  obtain L where "ledger_run (block_txs b) (getAccount (chAccounts c0)) = Inr L"
    using applied_accounts [OF ap] by blast
  then have "\<forall>t \<in> set (block_txs b). tx_shape t = None" using ledger_run_shapes by blast
  then have shapes: "\<not> (\<exists>t \<in> set (block_txs b). txFrom t = [] \<or> txTo t = [] \<or> txFrom t = txTo t \<or> sle (txAmount t) 0)"
    by (fastforce simp: tx_shape_def split: if_splits)
  have future: "\<not> now e + maxProposalFutureSkew < bTimeUTC b" using assms(2) by (simp add: not_future_def)
  have stale: "\<not> (bHeight b = chHeight c + 1 \<and> stale_time c b)" using assms(3) by blast
  have hash: "\<not> (bHash b = [] \<or> bHash b \<noteq> calcBlockHash e b)" using applied_checks(7,8) [OF ap] by simp
  show ?thesis
    by (simp only: content_check_def shapes future stale hash applied_checks(5,9) [OF ap] if_False option.case)
qed

lemma screened:
  assumes ok: "receiver_ok e c" and h: "chHeight c < bHeight b" and content: "content_check e c b = None"
  shows "screen_block e c b = place_block e (c\<lparr>chValidatorSet := know (bProducer b) (chValidatorSet c)\<rparr>) b"
proof -
  let ?c1 = "c\<lparr>chValidatorSet := know (bProducer b) (chValidatorSet c)\<rparr>"
  have "?c1 = beside (chPending c) (know (bProducer b) (chValidatorSet c)) (chDaemon c) c"
    by (rule chain.equality) simp_all
  moreover have "receiver_ok e (beside (chPending c) (know (bProducer b) (chValidatorSet c)) (chDaemon c) c)"
    by (rule receiver_beside [OF ok]) (use ok in \<open>simp add: receiver_ok_def\<close>)
  ultimately have "receiver_ok e ?c1" by simp
  moreover have "content_check e ?c1 b = content_check e c b"
  proof -
    have "chHeight ?c1 = chHeight c" "stale_time ?c1 b = stale_time c b" by (simp_all add: stale_time_def)
    then show ?thesis by (simp only: content_check_def)
  qed
  moreover have "reorg_check ?c1 b = None" "committed_check ?c1 b = None"
    using ok h by (auto simp: reorg_check_def committed_check_def receiver_ok_def)
  moreover note content
  ultimately show ?thesis using quorum_receiver [of e ?c1 b]
    by (simp add: screen_block_def observe_know Let_def)
qed

lemma delivered_next:
  assumes ap: "applyBlockLocked e c b = (c1, None)" and ok: "receiver_ok e c"
    and "not_future e b" and "\<not> stale_time c b"
  shows "applyBlockOrBufferLocked e c b =
    (let c2 = fst (drainPendingLocked e c1) in (record_failure c2 None, True, None))"
proof -
  have h: "bHeight b = chHeight c + 1" using applied_checks(3) [OF ap] .
  note side = applied_beside [OF ap]
  have "c\<lparr>chValidatorSet := know (bProducer b) (chValidatorSet c)\<rparr> =
      beside (chPending c) (know (bProducer b) (chValidatorSet c)) (chDaemon c) c" by (rule chain.equality) simp_all
  moreover have "beside (chPending c) (know_block b (know (bProducer b) (chValidatorSet c))) (chDaemon c) c1 = c1"
    using side(2-4) by (intro chain.equality) simp_all
  ultimately have "applyBlockLocked e (c\<lparr>chValidatorSet := know (bProducer b) (chValidatorSet c)\<rparr>) b = (c1, None)"
    using side(1) by metis
  then have "place_block e (c\<lparr>chValidatorSet := know (bProducer b) (chValidatorSet c)\<rparr>) b =
      (fst (drainPendingLocked e c1), True, None)"
    using h chain_set_same [OF ap] by (simp add: place_block_def)
  then show ?thesis
    using screened [OF ok _ applied_content [OF ap assms(3)]] h assms(4)
    by (simp add: applyBlockOrBufferLocked_def)
qed

lemma record_nothing [simp]: "record_failure c None = c"
  by (simp add: record_failure_def)

lemma drain_empty: "fmlookup (chPending c) (chHeight c + 1) = None \<Longrightarrow> drainPendingLocked e c = (c, 0)"
  by (subst drainPendingLocked.simps) simp

text \<open>A list of blocks that applies, with increasing times, is delivered as it is applied.\<close>

definition timely :: "env \<Rightarrow> chain \<Rightarrow> block list \<Rightarrow> bool" where
  "timely e c bs \<longleftrightarrow> (\<forall>b \<in> set bs. not_future e b) \<and> sorted_wrt (<) (map bTimeUTC bs) \<and>
     (bs \<noteq> [] \<longrightarrow> \<not> stale_time c (hd bs))"

lemma timely_ConsD:
  assumes "timely e c (b # bs)" and ap: "applyBlockLocked e c b = (c1, None)"
  shows "not_future e b" "\<not> stale_time c b" "timely e c1 bs"
proof -
  have tip: "\<exists>v. fmlookup (chBlocks c1) (chHeight c1) = Some (b\<lparr>bIsFinalized := v\<rparr>)"
    using applied_lookup [OF ap, of "chHeight c1"] finalized_at_is by auto metis
  show "timely e c1 bs"
    using assms(1) tip by (cases bs) (auto simp: timely_def stale_time_def)
qed (use assms(1) in \<open>simp_all add: timely_def\<close>)

text \<open>A block two heights ahead is kept until its predecessor is in.\<close>

lemma delivered_ahead:
  assumes h: "bHeight b = chHeight c + 2" and ok: "receiver_ok e c" and "not_future e b"
    and ap: "applyBlockLocked e c0 b = (c1, None)" and "fmlookup (chPending c) (bHeight b) = None"
  shows "applyBlockOrBufferLocked e c b =
    (c\<lparr>chPending := fmupd (bHeight b) b (chPending c), chValidatorSet := know (bProducer b) (chValidatorSet c)\<rparr>, False, None)"
proof -
  have "content_check e c b = None" by (rule applied_content [OF ap assms(3)]) (simp add: h)
  from screened [OF ok _ this] h assms(5) show ?thesis
    by (simp add: applyBlockOrBufferLocked_def place_block_def maxProposalBufferDistance_def)
qed

lemma swapped_pair:
  assumes ap1: "applyBlockLocked e c b1 = (c1, None)" and ap2: "applyBlockLocked e c1 b2 = (c2, None)"
    and ok: "receiver_ok e c" and time: "timely e c [b1, b2]" and pend: "chPending c = fmempty"
  shows "fst (applyBlockOrBufferLocked e (fst (applyBlockOrBufferLocked e c b2)) b1) = c2"
proof -
  let ?k = "know (bProducer b2) (chValidatorSet c)"
  let ?p = "fmupd (bHeight b2) b2 fmempty"
  have h: "bHeight b1 = chHeight c + 1" "bHeight b2 = chHeight c + 2" "chHeight c1 = chHeight c + 1"
    using applied_checks(3) [OF ap1] applied_checks(3) [OF ap2] applied_fields(1) [OF ap1] by simp_all
  note t1 = timely_ConsD [OF time ap1] and t2 = timely_ConsD(1,2) [OF timely_ConsD(3) [OF time ap1] ap2]
  let ?c0 = "beside ?p ?k (chDaemon c) c"
  have first: "fst (applyBlockOrBufferLocked e c b2) = ?c0"
  proof -
    have "c\<lparr>chPending := ?p, chValidatorSet := ?k\<rparr> = ?c0" by (rule chain.equality) simp_all
    then show ?thesis using delivered_ahead [OF h(2) ok t2(1) ap2] pend by simp
  qed
  have ok0: "receiver_ok e ?c0"
    by (rule receiver_beside [OF ok]) (use ok in \<open>simp add: receiver_ok_def\<close>)
  let ?d1 = "beside ?p (know_block b1 ?k) (chDaemon c) c1"
  have ap1': "applyBlockLocked e ?c0 b1 = (?d1, None)" by (rule applied_beside(1) [OF ap1])
  have stale: "\<not> stale_time ?c0 b1" "\<not> stale_time ?d1 b2" using t1(2) t2(2) by (simp_all add: stale_time_def)
  have "beside fmempty (know_block b2 (know_block b1 ?k)) (chDaemon c) c2 = c2"
  proof (rule chain.equality)
    have "chValidatorSet c2 = know_block b2 (know_block b1 (chValidatorSet c))"
      using applied_beside(2) [OF ap1] applied_beside(2) [OF ap2] by simp
    then show "chValidatorSet (beside fmempty (know_block b2 (know_block b1 ?k)) (chDaemon c) c2) = chValidatorSet c2"
      by simp (metis know_block_commute know_block_producer)
  qed (use applied_beside(3,4) [OF ap1] applied_beside(3,4) [OF ap2] pend in simp_all)
  moreover have "?d1\<lparr>chPending := fmempty\<rparr> = beside fmempty (know_block b1 ?k) (chDaemon c) c1"
    by (rule chain.equality) simp_all
  ultimately have "applyBlockLocked e (?d1\<lparr>chPending := fmempty\<rparr>) b2 = (c2, None)"
    using applied_beside(1) [OF ap2, where p = fmempty and v = "know_block b1 ?k" and d = "chDaemon c"] by argo
  moreover have "fmdrop (chHeight c1 + 1) ?p = fmempty" using h by (intro fmap_ext) simp
  moreover have "bPrevHash b2 = chTip c1" using applied_checks(4) [OF ap2] .
  moreover have "chPending c2 = fmempty"
    using applied_beside(3) [OF ap1] applied_beside(3) [OF ap2] pend by simp
  ultimately have "fst (drainPendingLocked e ?d1) = c2"
    using h stale(2) drain_empty [of c2 e] chain_set_same [OF ap2]
    by (subst drainPendingLocked.simps) (simp split: prod.split)
  then show ?thesis
    using delivered_next [OF ap1' ok0 t1(1) stale(1)] by (simp add: first)
qed

text \<open>
  The order of a network that swaps neighbours: every block arrives where it was sent, or
  exchanged with the one next to it.
\<close>

inductive nearly :: "'a list \<Rightarrow> 'a list \<Rightarrow> bool" where
  nearly_Nil: "nearly [] []"
| nearly_keep: "nearly bs ds \<Longrightarrow> nearly (b # bs) (b # ds)"
| nearly_swap: "nearly bs ds \<Longrightarrow> nearly (b1 # b2 # bs) (b2 # b1 # ds)"

code_pred nearly .

lemma nearly_refl: "nearly bs bs"
  by (induction bs) (auto intro: nearly.intros)

definition deliver :: "env \<Rightarrow> block list \<Rightarrow> chain \<Rightarrow> chain" where
  "deliver e bs c = fold (\<lambda>b c. fst (applyBlockOrBufferLocked e c b)) bs c"

lemma deliver_simps [simp]:
  "deliver e [] c = c" "deliver e (b # bs) c = deliver e bs (fst (applyBlockOrBufferLocked e c b))"
  by (simp_all add: deliver_def)

lemma delivered_one:
  assumes "applyBlockLocked e c b = (c1, None)" and "receiver_ok e c" and "timely e c (b # bs)"
    and "chPending c = fmempty"
  shows "fst (applyBlockOrBufferLocked e c b) = c1" "receiver_ok e c1" "timely e c1 bs" "chPending c1 = fmempty"
proof -
  note t = timely_ConsD [OF assms(3,1)]
  show p: "chPending c1 = fmempty" using applied_fields(3) [OF assms(1)] assms(4) by simp
  show "fst (applyBlockOrBufferLocked e c b) = c1"
    using delivered_next [OF assms(1,2) t(1,2)] drain_empty [of c1 e] p by simp
qed (rule receiver_applied [OF assms(2,1)] timely_ConsD(3) [OF assms(3,1)])+

lemma delivered_nearly:
  assumes "nearly bs ds"
  shows "apply_all e c bs = Some c' \<Longrightarrow> receiver_ok e c \<Longrightarrow> timely e c bs \<Longrightarrow> chPending c = fmempty \<Longrightarrow>
     deliver e ds c = c'"
  using assms
proof (induction arbitrary: c)
  case (nearly_keep bs ds b)
  obtain c1 where ap: "applyBlockLocked e c b = (c1, None)" and rest: "apply_all e c1 bs = Some c'"
    using nearly_keep.prems(1) by (rule apply_all_ConsD)
  note one = delivered_one [OF ap nearly_keep.prems(2-4)]
  show ?case using nearly_keep.IH [OF rest one(2-4)] one(1) by simp
next
  case (nearly_swap bs ds b1 b2)
  obtain c1 where ap1: "applyBlockLocked e c b1 = (c1, None)" and rest1: "apply_all e c1 (b2 # bs) = Some c'"
    using nearly_swap.prems(1) by (rule apply_all_ConsD)
  obtain c2 where ap2: "applyBlockLocked e c1 b2 = (c2, None)" and rest: "apply_all e c2 bs = Some c'"
    using rest1 by (rule apply_all_ConsD)
  note one = delivered_one [OF ap1 nearly_swap.prems(2-4)]
  note two = delivered_one [OF ap2 one(2-4)]
  have pair: "timely e c [b1, b2]" using nearly_swap.prems(3) by (simp add: timely_def)
  show ?case
    using swapped_pair [OF ap1 ap2 nearly_swap.prems(2) pair nearly_swap.prems(4)]
      nearly_swap.IH [OF rest two(2-4)] by simp
qed simp

text \<open>
  C2 (equivalence): a run of blocks that applies one after the other, with increasing times
  none of which lies too far ahead of the clock, leads a node to the same chain - accounts,
  blocks, mempool, finality, validators, files - when the network delivers it, each block
  through screening, buffer and drain, even if neighbouring blocks arrive in the wrong order.
\<close>

theorem delivery_equals_application:
  "apply_all e c bs = Some c' \<Longrightarrow> receiver_ok e c \<Longrightarrow> timely e c bs \<Longrightarrow> chPending c = fmempty \<Longrightarrow>
     nearly bs ds \<Longrightarrow> deliver e ds c = c'"
  by (rule delivered_nearly)

end
