(* ===== verification/Sync.thy ===== *)
theory Sync
  imports Flood Delivery
begin

text \<open>
  The sync loop of \<open>chain_sync.go\<close> against an honest peer: one round brings a node that is any
  number of blocks behind to the peer's chain, chunk by chunk, whatever the daemon's status
  fields record on the way.
\<close>

section \<open>The status of the daemon does not steer the chain\<close>

definition with_status :: "status \<Rightarrow> chain \<Rightarrow> chain" where
  "with_status s c = c\<lparr>chDaemon := map_option (dStatus_update (\<lambda>_. s)) (chDaemon c)\<rparr>"

definition status_of :: "chain \<Rightarrow> status" where
  "status_of c = (case chDaemon c of None \<Rightarrow> new_status | Some d \<Rightarrow> dStatus d)"

lemma with_status_simps [simp]:
  "with_status s (with_status t c) = with_status s c" "with_status (status_of c) c = c"
  "chHeight (with_status s c) = chHeight c" "chPending (with_status s c) = chPending c"
  "chTip (with_status s c) = chTip c" "chBlocks (with_status s c) = chBlocks c"
  by (cases "chDaemon c"; simp add: with_status_def status_of_def)+

lemma status_beside: "with_status s c =
    beside (chPending c) (chValidatorSet c) (map_option (dStatus_update (\<lambda>_. s)) (chDaemon c)) c"
  by (rule chain.equality) (simp_all add: with_status_def)

lemma applied_status:
  assumes "applyBlockLocked e c b = (c', None)"
  shows "applyBlockLocked e (with_status s c) b = (with_status s c', None)"
  using applied_beside [OF assms] by (simp only: status_beside)

lemma apply_all_status:
  "apply_all e c bs = Some c' \<Longrightarrow> apply_all e (with_status s c) bs = Some (with_status s c')"
proof (induction bs arbitrary: c)
  case (Cons b bs)
  obtain c1 where ap: "applyBlockLocked e c b = (c1, None)" and rest: "apply_all e c1 bs = Some c'"
    using Cons.prems by (rule apply_all_ConsD)
  show ?case using Cons.IH [OF rest] applied_status [OF ap, of s] by simp
qed simp

lemma receiver_status [simp]: "receiver_ok e (with_status s c) = receiver_ok e c"
  by (cases "chDaemon c") (simp_all add: receiver_ok_def with_status_def has_identity_def cached_pair_check_def)

lemma timely_status [simp]: "timely e (with_status s c) bs = timely e c bs"
  by (simp add: timely_def stale_time_def)

definition same_chain :: "chain \<Rightarrow> mesh_daemon \<Rightarrow> bool" where
  "same_chain c m \<longleftrightarrow> (\<exists>s. mChain m = with_status s c)"

lemma same_chain_refl: "same_chain (mChain m) m"
  unfolding same_chain_def by (metis with_status_simps(2))

lemma same_on_status: "same_chain c m \<Longrightarrow> same_chain c (on_status f m)"
proof -
  assume "same_chain c m"
  then obtain s where s: "mChain m = with_status s c" unfolding same_chain_def by blast
  have "mChain (on_status f m) = with_status (f (status_of (mChain m))) (mChain m)"
    by (cases "chDaemon (mChain m)") (simp_all add: on_status_def with_status_def status_of_def)
  then show ?thesis unfolding same_chain_def by (metis s with_status_simps(1))
qed

lemma same_set_peer: "same_chain c m \<Longrightarrow> same_chain c (set_peer a p m)"
  by (simp add: same_chain_def set_peer_def)

lemmas same_intros = same_on_status same_set_peer

lemma same_failure: "same_chain c m \<Longrightarrow> same_chain c (fst (noteSyncFailure e a err m))"
  by (simp add: noteSyncFailure_def Let_def same_intros)

lemma same_steps:
  "same_chain c m \<Longrightarrow> same_chain c (noteSyncSuccess a h tip m)"
  "same_chain c m \<Longrightarrow> same_chain c (fst (notePeerHeightSample a h tip m))"
  "same_chain c m \<Longrightarrow> same_chain c (sync_error e a r msg m)"
  by (simp_all add: noteSyncSuccess_def notePeerHeightSample_def sync_error_def Let_def same_intros same_failure)

text \<open>What is set up once and, but for the list of peers, never changes; and the ids seen, which no peer request touches.\<close>

definition fixed_part where
  "fixed_part m = (mID m, mNodeID m, mPeerAPI m, mBootstrapPeers m, mSeen m)"

lemma fixed_frame [simp]:
  "fixed_part (on_status f m) = fixed_part m" "fixed_part (set_peer a p m) = fixed_part m"
  "fixed_part (m\<lparr>mChain := c\<rparr>) = fixed_part m"
  by (simp_all add: fixed_part_def on_status_def set_peer_def split: option.split)

lemma fixed_steps:
  "fixed_part (noteSyncSuccess a h tip m) = fixed_part m"
  "fixed_part (fst (notePeerHeightSample a h tip m)) = fixed_part m"
  "fixed_part (sync_error e a r msg m) = fixed_part m"
  by (simp_all add: noteSyncSuccess_def notePeerHeightSample_def sync_error_def noteSyncFailure_def Let_def)

lemma api_base: "fixed_part m = fixed_part m' \<Longrightarrow> peerAPIBase m addr = peerAPIBase m' addr"
proof -
  assume "fixed_part m = fixed_part m'"
  then have "mPeerAPI m = mPeerAPI m'" by (simp add: fixed_part_def)
  then show ?thesis by (simp only: peerAPIBase_def)
qed

lemma probe_step:
  obtains m1 where "fst (probe_peers w e (addr # addrs) m) = fst (probe_peers w e addrs m1)"
    and "same_chain c m \<Longrightarrow> same_chain c m1" and "fixed_part m1 = fixed_part m"
proof (cases "requestPeerHeight w m addr")
  case (Inl err)
  show thesis by (rule that [of "sync_error e addr (fetch_text w err) (''height probe: '' @ fetch_text w err) m"]) (simp_all add: Inl same_steps fixed_steps)
next
  case (Inr hp)
  obtain h tip where ht: "hp = (h, tip)" by (cases hp)
  obtain m1 r where n: "notePeerHeightSample addr h tip m = (m1, r)" by (cases "notePeerHeightSample addr h tip m")
  have s: "same_chain c m \<Longrightarrow> same_chain c m1" and a: "fixed_part m1 = fixed_part m"
    using same_steps(2) [of c m addr h tip] fixed_steps(2) [of addr h tip m] by (simp_all add: n)
  show thesis
  proof (cases r)
    case None
    show thesis
      by (rule that [of "noteSyncSuccess addr h tip m1"]) (simp_all add: Inr ht n None same_steps s fixed_steps a)
  next
    case (Some err)
    show thesis
      by (rule that [of "sync_error e addr (sample_text addr err) (sample_text addr err) m1"]) (simp_all add: Inr ht n Some same_steps s fixed_steps a)
  qed
qed

lemma probes:
  "same_chain c m \<Longrightarrow> same_chain c (fst (probe_peers w e addrs m)) \<and> fixed_part (fst (probe_peers w e addrs m)) = fixed_part m"
proof (induction addrs arbitrary: m)
  case (Cons addr addrs)
  then show ?case by (rule_tac probe_step [of w e addr addrs m c]) simp
qed simp

section \<open>One round\<close>

text \<open>The first blocks of a run that applies are delivered, and the rest is ready to follow.\<close>

lemma delivered_prefix:
  "apply_all e c (xs @ ys) = Some c' \<Longrightarrow> receiver_ok e c \<Longrightarrow> timely e c (xs @ ys) \<Longrightarrow> chPending c = fmempty \<Longrightarrow>
     apply_all e (deliver e xs c) ys = Some c' \<and> receiver_ok e (deliver e xs c) \<and>
     timely e (deliver e xs c) ys \<and> chPending (deliver e xs c) = fmempty \<and>
     chHeight (deliver e xs c) = chHeight c + int (length xs)"
proof (induction xs arbitrary: c)
  case (Cons b xs)
  obtain c1 where ap: "applyBlockLocked e c b = (c1, None)" and rest: "apply_all e c1 (xs @ ys) = Some c'"
    using Cons.prems(1) unfolding append_Cons by (rule apply_all_ConsD)
  note one = delivered_one [OF ap Cons.prems(2) _ Cons.prems(4), of "xs @ ys"]
  have "chHeight c1 = chHeight c + 1" using applied_fields(1) [OF ap] applied_checks(3) [OF ap] by simp
  then show ?case using Cons.IH [OF rest] one Cons.prems(3) by simp
qed simp

text \<open>A peer that answers for each of the blocks asked for.\<close>

definition serves :: "wire \<Rightarrow> string \<Rightarrow> block list \<Rightarrow> bool" where
  "serves w base bs \<longleftrightarrow> (\<forall>b \<in> set bs. \<exists>body. http_get w (block_url base (bHeight b)) = Some (200, body) \<and>
     wireBlock w body = Some b)"

lemma served: "serves w base bs \<Longrightarrow> request_blocks w base (map bHeight bs) = Inr bs"
proof (induction bs)
  case (Cons b bs)
  then show ?case by (fastforce simp: serves_def fetch_def)
qed simp

lemma served_range:
  assumes "peerAPIBase m addr = Inr base" and "serves w base bs" and "map bHeight bs = [from_h..to_h]"
  shows "requestPeerRange w m addr from_h to_h = Inr bs"
  using served [OF assms(2)] assms(1,3) by (simp add: requestPeerRange_def)

lemma upto_take: "int n \<le> j - i + 1 \<Longrightarrow> take n [i..j] = [i..i + int n - 1]"
  by (rule nth_equalityI) simp_all

lemma batch_delivered: "chPending (deliver e bs c) = fmempty \<Longrightarrow> apply_batch e bs c = deliver e bs c"
  by (simp add: apply_batch_def drain_empty flip: deliver_def)

lemma pulled:
  assumes "apply_all e (mChain m) bs = Some c'" and "receiver_ok e (mChain m)" and "timely e (mChain m) bs"
    and "chPending (mChain m) = fmempty" and "peerAPIBase m addr = Inr base" and "serves w base bs"
    and "cur = chHeight (mChain m) + 1" and "best = chHeight (mChain m) + int (length bs)"
  shows "fst (pull_chunks w e addr best cur p m) = m\<lparr>mChain := c'\<rparr> \<and>
    (snd (pull_chunks w e addr best cur p m) \<longleftrightarrow> p \<or> bs \<noteq> [])"
  using assms
proof (induction "length bs" arbitrary: bs cur p m rule: less_induct)
  case less
  show ?case
  proof (cases "bs = []")
    case True
    then show ?thesis using less.prems(1,7,8) by (subst pull_chunks.simps, subst (2) pull_chunks.simps) simp
  next
    case False
    let ?n = "min 50 (length bs)"
    let ?xs = "take ?n bs" and ?ys = "drop ?n bs" and ?c1 = "deliver e (take ?n bs) (mChain m)"
    let ?m1 = "m\<lparr>mChain := ?c1\<rparr>"
    have h: "map bHeight bs = [chHeight (mChain m) + 1..chHeight (mChain m) + int (length bs)]"
      by (rule apply_all_heights [OF less.prems(1)])
    have stop: "min (cur + chunk - 1) best = chHeight (mChain m) + int ?n"
      using less.prems(7,8) by (simp add: chunk_def)
    have "map bHeight ?xs = [cur..min (cur + chunk - 1) best]"
      unfolding stop using h less.prems(7) upto_take [of ?n "chHeight (mChain m) + int (length bs)" cur]
      by (simp only: flip: take_map) simp
    moreover have "serves w base ?xs" "serves w base ?ys"
      using less.prems(6) by (auto simp: serves_def dest: in_set_takeD in_set_dropD)
    ultimately have range: "requestPeerRange w m addr cur (min (cur + chunk - 1) best) = Inr ?xs"
      using served_range [OF less.prems(5)] by blast
    have pre: "apply_all e ?c1 ?ys = Some c'" "receiver_ok e ?c1" "timely e ?c1 ?ys" "chPending ?c1 = fmempty"
      "chHeight ?c1 = chHeight (mChain m) + int ?n"
      using delivered_prefix [of e "mChain m" ?xs ?ys c'] less.prems(1-4) by simp_all
    have "pull_chunks w e addr best cur p m = pull_chunks w e addr best (cur + chunk) True ?m1"
      using False less.prems(7,8) range pre(5)
      by (subst pull_chunks.simps) (simp add: batch_delivered [OF pre(4)])
    moreover have "fst (pull_chunks w e addr best (cur + chunk) True ?m1) = ?m1\<lparr>mChain := c'\<rparr> \<and>
        snd (pull_chunks w e addr best (cur + chunk) True ?m1)"
    proof (cases "length bs \<le> 50")
      case True
      then have "?c1 = c'" using pre(1) by simp
      then show ?thesis using True less.prems(7,8) by (subst (1 2) pull_chunks.simps) (simp add: chunk_def)
    next
      case long: False
      then show ?thesis
        using less.hyps [of ?ys ?m1 "cur + chunk" True] pre less.prems(5,7,8) \<open>serves w base ?ys\<close>
          api_base [of ?m1 m addr]
        by (simp add: chunk_def)
    qed
    ultimately show ?thesis using False by simp
  qed
qed

text \<open>
  C3 (liveness): one round of the sync loop brings a node to its best candidate's chain: if that
  peer serves a run of blocks - of any length - that applies on top of the local chain and ends
  at the height it announced, the node's chain after the round is the one the run leads to,
  apart from the status fields of the daemon.
\<close>

theorem sync_round_catches_up:
  assumes "reachablePeersForSync m (now e) = peers" and "probe_peers w e peers m = (m1, cands)"
    and "cands \<noteq> []" and "best_candidate cands = (addr, best, tip)"
    and "bs \<noteq> []" and "best = chHeight (mChain m) + int (length bs)"
    and "apply_all e (mChain m) bs = Some c'" and "receiver_ok e (mChain m)" and "timely e (mChain m) bs"
    and "chPending (mChain m) = fmempty" and "peerAPIBase m addr = Inr base" and "serves w base bs"
  shows "\<exists>s. mChain (sync_round w e m) = with_status s c'"
proof -
  have peers: "peers \<noteq> []" using assms(2,3) by auto
  have probe: "same_chain (mChain m) m1" "fixed_part m1 = fixed_part m"
    using probes [OF same_chain_refl, of m w e peers] assms(2) by simp_all
  define m2 where "m2 = on_status (recordSyncHeights (chHeight (mChain m1)) best) m1"
  obtain s where s: "mChain m2 = with_status s (mChain m)"
    using same_on_status [OF probe(1)] unfolding same_chain_def m2_def by blast
  have h1: "chHeight (mChain m1) = chHeight (mChain m)" using probe(1) unfolding same_chain_def by auto
  have "peerAPIBase m2 addr = Inr base" 
    using assms(11) api_base [of m2 m addr] probe(2) by (simp add: m2_def)
  then have "fst (pull_chunks w e addr best (chHeight (mChain m1) + 1) False m2)
        = m2\<lparr>mChain := with_status s c'\<rparr> \<and> snd (pull_chunks w e addr best (chHeight (mChain m1) + 1) False m2)"
    using pulled [of e m2 bs "with_status s c'" addr base w "chHeight (mChain m1) + 1" best False]
      apply_all_status [OF assms(7), of s] assms(5,6,8-10,12) by (simp add: s h1)
  then obtain m3 where m3: "pull_chunks w e addr best (chHeight (mChain m1) + 1) False m2 = (m3, True)"
      "mChain m3 = with_status s c'"
    by (cases "pull_chunks w e addr best (chHeight (mChain m1) + 1) False m2") simp
  have "sync_round w e m = noteSyncSuccess addr (chHeight (mChain m3)) (chTip (mChain m3)) m3"
    using peers assms(1-6) m3(1) h1 unfolding m2_def by (simp add: sync_round_def Let_def)
  moreover have "same_chain c' m3" unfolding same_chain_def using m3(2) by blast
  ultimately show ?thesis using same_steps(1) unfolding same_chain_def by metis
qed

end
