(* ===== verification/System.thy ===== *)
theory System
  imports Environments Discovery Sync
begin

text \<open>
  The running daemon: the loops and handlers of the components as steps on one state, each at a
  time of its own. Whatever arrives, in whatever order, the committed chain is only extended.
\<close>

section \<open>Steps\<close>

text \<open>The environment at a time.\<close>

definition at_time :: "env \<Rightarrow> int \<Rightarrow> env" where
  "at_time e t = other_env e t (unmarshalBlock e)"

inductive daemon_step_at :: "wire \<Rightarrow> api \<Rightarrow> env \<Rightarrow> int \<Rightarrow> mesh_daemon \<Rightarrow> mesh_daemon \<Rightarrow> bool"
  for w :: wire and a :: api and e :: env and t :: int where
  step_http: "serve a (at_time e t) rq m = Answer m' r \<Longrightarrow> daemon_step_at w a e t m m'"
| step_incoming: "handleIncoming w (at_time e t) line m = (m', fwd, r) \<Longrightarrow> daemon_step_at w a e t m m'"
| step_sync: "daemon_step_at w a e t m (sync_round w (at_time e t) m)"
| step_propose: "proposer_tick w (at_time e t) m = Some (m', sent) \<Longrightarrow> daemon_step_at w a e t m m'"
| step_announce: "gossipSignedState w (at_time e t) m = (m', sent) \<Longrightarrow> daemon_step_at w a e t m m'"
| step_dial: "daemon_step_at w a e t m (TouchReachable (at_time e t) addr ok m)"
| step_liveness: "daemon_step_at w a e t m (liveness_tick t m)"
| step_evict: "daemon_step_at w a e t m (evict_tick m)"

definition daemon_step :: "wire \<Rightarrow> api \<Rightarrow> env \<Rightarrow> mesh_daemon \<Rightarrow> mesh_daemon \<Rightarrow> bool" where
  "daemon_step w a e m m' \<longleftrightarrow> (\<exists>t. daemon_step_at w a e t m m')"

lemma daemon_stepI: "daemon_step_at w a e t m m' \<Longrightarrow> daemon_step w a e m m'"
  by (auto simp: daemon_step_def)

section \<open>Every step extends the chain\<close>

definition grows :: "env \<Rightarrow> chain \<Rightarrow> chain \<Rightarrow> bool" where
  "grows e c c' \<longleftrightarrow> (node_wf e c \<longrightarrow> node_wf e c' \<and> extends c c')"

lemma grows_refl [simp]: "grows e c c"
  by (simp add: grows_def extends_refl)

lemma grows_trans: "grows e c c1 \<Longrightarrow> grows e c1 c2 \<Longrightarrow> grows e c c2"
  unfolding grows_def using extends_trans by blast

lemma grows_core: "core_fields c' = core_fields c \<Longrightarrow> chPending c' = chPending c \<Longrightarrow> grows e c c'"
  using node_wf_cong [of c' c e] extends_refl [of c' c] by (simp add: grows_def)

lemma grows_at [simp]: "grows (at_time e t) = grows e"
  by (simp add: fun_eq_iff grows_def at_time_def)

lemma grows_deliver: "grows e c (fst (applyBlockOrBufferLocked e c b))"
  using apply_or_buffer_ok [of e c b] by (metis grows_def prod.collapse)

lemma grows_deliver_pair: "applyBlockOrBufferLocked e c b = (c', r) \<Longrightarrow> grows e c c'"
  using grows_deliver [of e c b] by simp

lemma grows_same_chain: "same_chain c m \<Longrightarrow> grows e c (mChain m)"
  unfolding same_chain_def by (auto intro!: grows_core simp: core_fields_def with_status_def)

lemma grows_status: "grows e (mChain m) (mChain (on_status f m))"
  by (rule grows_same_chain) (rule same_on_status [OF same_chain_refl])

lemma wf_drained:
  assumes "node_wf e c"
  shows "drainPendingLocked e c = (c, 0)"
proof (rule drain_empty, rule ccontr)
  assume "fmlookup (chPending c) (chHeight c + 1) \<noteq> None"
  then obtain b where "fmlookup (chPending c) (chHeight c + 1) = Some b" by blast
  then have "chHeight c + 1 = chHeight c + 2" using assms unfolding node_wf_def pending_wf_def by blast
  then show False by simp
qed

lemma grows_fold: "grows e c (fold (\<lambda>b c. fst (applyBlockOrBufferLocked e c b)) bs c)"
proof (induction bs arbitrary: c)
  case (Cons b bs)
  show ?case using grows_trans [OF grows_deliver Cons.IH] by simp
qed simp

lemma grows_batch: "grows e c (apply_batch e bs c)"
proof -
  let ?c1 = "fold (\<lambda>b c. fst (applyBlockOrBufferLocked e c b)) bs c"
  have "grows e ?c1 (fst (drainPendingLocked e ?c1))" using wf_drained by (simp add: grows_def extends_refl)
  then show ?thesis unfolding apply_batch_def by (rule grows_trans [OF grows_fold])
qed

lemma sync_error_same: "same_chain (mChain m) (sync_error e addr t1 t2 m)"
  by (rule same_steps(3) [OF same_chain_refl])

lemma grows_pull: "grows e (mChain m) (mChain (fst (pull_chunks w e addr best cur p m)))"
proof (induction w e addr best cur p m rule: pull_chunks.induct)
  case (1 w e addr best cur p m)
  show ?case
  proof (cases "best < cur")
    case True
    then show ?thesis by (subst pull_chunks.simps) simp
  next
    case False
    show ?thesis
    proof (cases "requestPeerRange w m addr cur (min (cur + chunk - 1) best)")
      case (Inl err)
      then show ?thesis using False grows_same_chain [OF sync_error_same]
        by (subst pull_chunks.simps) simp
    next
      case (Inr bs)
      let ?c1 = "apply_batch e bs (mChain m)"
      have "grows e ?c1 (mChain (fst (pull_chunks w e addr best (cur + chunk)
          (p \<or> chHeight (mChain m) < chHeight ?c1) (m\<lparr>mChain := ?c1\<rparr>))))"
        using 1 [OF False Inr refl] by simp
      then show ?thesis using False Inr grows_trans [OF grows_batch]
        by (subst pull_chunks.simps) (simp add: Let_def)
    qed
  qed
qed

lemma grows_sync: "grows e (mChain m) (mChain (sync_round w e m))"
proof -
  obtain m1 cands where p: "probe_peers w e (reachablePeersForSync m (now e)) m = (m1, cands)" by fastforce
  have g1: "grows e (mChain m) (mChain m1)"
    using probes [OF same_chain_refl, of m w e] p grows_same_chain by (metis fst_conv)
  obtain addr best tip where b: "best_candidate cands = (addr, best, tip)" using prod_cases3 by blast
  define m2 where "m2 = on_status (recordSyncHeights (chHeight (mChain m1)) best) m1"
  have g2: "grows e (mChain m) (mChain m2)" unfolding m2_def by (rule grows_trans [OF g1 grows_status])
  obtain m3 pr where q: "pull_chunks w e addr best (chHeight (mChain m1) + 1) False m2 = (m3, pr)" by fastforce
  have g3: "grows e (mChain m) (mChain m3)" using grows_trans [OF g2 grows_pull] q by (metis fst_conv)
  have ends: "grows e (mChain m) (mChain (sync_error e a t1 t2 m3))" "grows e (mChain m) (mChain (noteSyncSuccess a h t m3))"
    for a t1 t2 h t
    using grows_trans [OF g3] grows_same_chain same_steps(1,3) same_chain_refl by blast+
  show ?thesis using g1 g2 ends
    by (auto simp: sync_round_def Let_def p b q simp flip: m2_def)
qed

lemma grows_pulled: "grows e c (pull_blocks w e base hs c)"
proof (induction hs arbitrary: c)
  case (Cons h hs)
  have "grows e c (case applyBlockOrBufferLocked e c blk of
      (c1, applied, Some err) \<Rightarrow> c1 | (c1, applied, None) \<Rightarrow> pull_blocks w e base hs c1)" for blk
    using grows_trans [OF grows_deliver_pair Cons.IH] grows_deliver_pair
    by (auto split: prod.split option.split)
  then show ?case by (auto split: sum.split option.split)
qed simp

lemma grows_announced: "grows e (mChain m) (mChain (fst (maybeSyncFromSignedState w e via body m)))"
  by (auto simp: maybeSyncFromSignedState_def Let_def grows_pulled split: option.split sum.split)

lemma touched_chain: "mChain (markSeen e i m) = mChain m" "mChain (TouchPeer e addr m) = mChain m"
  by (auto simp: markSeen_def TouchPeer_def set_peer_def Let_def)

lemma grows_incoming:
  assumes "handleIncoming w e line m = (m', fwd, r)"
  shows "grows e (mChain m) (mChain m')"
proof -
  have "grows e (mChain m) (mChain (fst (handleIncoming w e (Some wm) m)))" for wm
  proof -
    have t: "mChain (TouchPeer e s (markSeen e i m)) = mChain m" "mChain (markSeen e i m) = mChain m" for s i
      by (simp_all add: touched_chain)
    have msg: "grows e (mChain m) (mChain (fst (maybeSyncFromSignedState w e via body (m2\<lparr>mInbox := x\<rparr>))))"
      if "mChain m2 = mChain m" for via body m2 x
      using grows_announced [of e "m2\<lparr>mInbox := x\<rparr>" w via body] that by simp
    show ?thesis
      by (auto simp: handleIncoming_def Let_def t msg intro: grows_deliver_pair
          split: option.split prod.split)
  qed
  moreover have "handleIncoming w e None m = (m, [], MeshOk)" by (simp add: handleIncoming_def)
  ultimately have "grows e (mChain m) (mChain (fst (handleIncoming w e line m)))" by (cases line) simp_all
  then show ?thesis using assms by simp
qed

lemma grows_proposed: "propose_now e m = Some (m', r) \<Longrightarrow> grows e (mChain m) (mChain m')"
proof -
  assume p: "propose_now e m = Some (m', r)"
  obtain c1 err where a: "requireValidatorActionReadyLocked e (mChain m) (mNodeID m) = (c1, err)" by fastforce
  have "c1 \<in> {mChain m, fst (EnsureValidatorIdentityLocked e (mChain m))}"
    using a by (auto simp: requireValidatorActionReadyLocked_def split: if_splits prod.splits sum.splits)
  then have g: "grows e (mChain m) c1" using grows_core [of _ _ e] ensure_core(1,2) by auto
  show ?thesis
  proof (cases err)
    case None
    then obtain c2 x where q: "proposeBlock e c1 = Some (c2, x)" "mChain m' = c2"
      using p a by (auto simp: propose_now_def set_chain_def split: option.splits)
    have "grows e c1 c2" using propose_ok [of e c1 c2 x] q(1) by (auto simp: grows_def)
    then show ?thesis using grows_trans [OF g] q(2) by blast
  next
    case (Some er)
    then show ?thesis using p a g by (auto simp: propose_now_def set_chain_def)
  qed
qed

lemma gossip_chain:
  "mChain (fst (gossipBlock w e b ttl m)) = mChain m" "mChain (fst (gossipSignedState w e m)) = mChain m"
  by (auto simp: gossipBlock_def gossipSignedState_def gossipOrigin_def touched_chain Let_def split: prod.split)

lemma grows_tick: "proposer_tick w e m = Some (m', sent) \<Longrightarrow> grows e (mChain m) (mChain m')"
  using grows_proposed [of e m] gossip_chain(1) [of w e]
  by (auto simp: proposer_tick_def Let_def split: if_splits option.splits) (metis fst_conv)

lemma grows_tx: "grows e c (fst (addTxToMempoolLocked e c t))"
proof (cases rule: addTx_cases [of e c t])
  case (refused err)
  then show ?thesis by simp
next
  case admitted
  let ?c = "fst (addTxToMempoolLocked e c t)"
  have f: "chHeight ?c = chHeight c" "chTip ?c = chTip c" "chBlocks ?c = chBlocks c"
    "chFinalizedHeight ?c = chFinalizedHeight c" "chPending ?c = chPending c"
    by (simp_all add: admitted)
  have "extends c ?c" unfolding extends_def f by (rule extends_refl [OF refl, of c, unfolded extends_def])
  moreover have "mempool_wf e c \<Longrightarrow> mempool_wf e ?c" using addTx_wf_aux [OF _ admitted] admitted by simp
  then have "node_wf e c \<Longrightarrow> node_wf e ?c"
    unfolding node_wf_def core_wf_def chain_wf_def final_wf_def pending_wf_def f by blast
  ultimately show ?thesis unfolding grows_def by blast
qed

lemma grows_answers:
  "grows e (mChain m) (mChain (fst (post_tx a e rq m)))"
  "grows e (mChain m) (mChain (fst (post_apply a e rq m)))"
  "post_propose a e m = Answer m' r \<Longrightarrow> grows e (mChain m) (mChain m')"
  "post_peers a e rq m = Answer m' r \<Longrightarrow> grows e (mChain m) (mChain m')"
proof -
  have tx: "addTxToMempoolLocked e (mChain m) t = (c, x) \<Longrightarrow> grows e (mChain m) c" for t c x
    using grows_tx [of e "mChain m" t] by simp
  show "grows e (mChain m) (mChain (fst (post_tx a e rq m)))"
    by (auto simp: post_tx_def set_chain_def intro: tx split: sum.split option.split prod.split)
  show "grows e (mChain m) (mChain (fst (post_apply a e rq m)))"
    by (auto simp: post_apply_def Let_def set_chain_def intro: grows_deliver_pair split: sum.split option.split prod.split)
  show "post_propose a e m = Answer m' r \<Longrightarrow> grows e (mChain m) (mChain m')"
    using grows_proposed [of e m] by (auto simp: post_propose_def split: option.splits)
  show "post_peers a e rq m = Answer m' r \<Longrightarrow> grows e (mChain m) (mChain m')"
    by (drule post_peers_Answer) (auto simp: reject_mutation_def grows_status)
qed

lemma guarded_Answer: "guarded x rq m out = Answer m' r \<Longrightarrow> m' = m \<or> out = Answer m' r"
  by (auto simp: guarded_def split: option.splits)

lemma debug_Answer: "debug_guarded a rq m x = Answer m' r \<Longrightarrow> m' = m"
  by (auto simp: debug_guarded_def guarded_def split: option.splits)

lemma route_Answer:
  assumes "route a e rq m = Answer m' r"
  shows "m' = m \<or> m' = fst (post_tx a e rq m) \<or> m' = fst (post_apply a e rq m) \<or>
    post_propose a e m = Answer m' r \<or> post_peers a e rq m = Answer m' r"
proof -
  have get: "m' = m" if "guarded ''GET'' rq m (Answer m x) = Answer m' r" for x
    using guarded_Answer [OF that] by auto
  have post: "m' = fst p \<or> m' = m" if "guarded ''POST'' rq m (answer_pair p) = Answer m' r" for p
    using guarded_Answer [OF that] by (auto simp: answer_pair_def)
  show ?thesis
    using assms unfolding route_def Let_def
    by (simp only: split: if_split_asm) (auto dest: get post debug_Answer guarded_Answer)
qed

lemma grows_route: "route a e rq m = Answer m' r \<Longrightarrow> grows e (mChain m) (mChain m')"
  by (drule route_Answer, elim disjE) (simp_all add: grows_answers)

lemma grows_serve: "serve a e rq m = Answer m' r \<Longrightarrow> grows e (mChain m) (mChain m')"
  using grows_route by (auto simp: serve_def Let_def split: if_splits)

lemma grows_dial: "grows e (mChain m) (mChain (TouchReachable e' addr ok m))"
proof -
  have "same_chain (mChain m) (TouchReachable e' addr ok m)"
    unfolding TouchReachable_def Let_def by (simp add: same_intros same_chain_refl)
  then show ?thesis by (rule grows_same_chain)
qed

lemma step_grows:
  assumes "daemon_step_at w a e t m m'"
  shows "grows e (mChain m) (mChain m')"
  using assms
proof cases
  case (step_http rq r)
  then show ?thesis using grows_serve by (metis grows_at)
next
  case (step_incoming line fwd r)
  then show ?thesis using grows_incoming by (metis grows_at)
next
  case step_sync
  then show ?thesis using grows_sync by (metis grows_at)
next
  case (step_propose sent)
  then show ?thesis using grows_tick by (metis grows_at)
next
  case (step_announce sent)
  then have "mChain m' = mChain m" using gossip_chain(2) by (metis fst_conv)
  then show ?thesis by simp
next
  case (step_dial addr ok)
  then show ?thesis using grows_dial by simp
next
  case step_liveness
  then show ?thesis by (simp add: liveness_tick_def)
next
  case step_evict
  then show ?thesis by (simp add: evict_tick_def)
qed

lemma run_grows: "(daemon_step w a e)\<^sup>*\<^sup>* m m' \<Longrightarrow> grows e (mChain m) (mChain m')"
  by (induction rule: rtranclp_induct) (auto simp: daemon_step_def intro: grows_trans step_grows)

lemma finalized_kept:
  assumes "extends c c'" and "fmlookup (chBlocks c) h = Some b" and "bIsFinalized b"
  shows "fmlookup (chBlocks c') h = Some b"
proof -
  obtain v where "fmlookup (chBlocks c') h = Some (b\<lparr>bIsFinalized := v\<rparr>)" "v"
    using assms unfolding extends_def by blast
  moreover have "b\<lparr>bIsFinalized := True\<rparr> = b" using assms(3) by (simp add: block.equality)
  ultimately show ?thesis by simp
qed

section \<open>Endpoints for the operator\<close>

definition privileged :: "request \<Rightarrow> bool" where
  "privileged rq \<longleftrightarrow> rqPath rq \<in> set [''/debug/wallet'', ''/debug/nodeid'', ''/debug/finality'', ''/debug/ops'',
      ''/chain/propose'', ''/chain/propose_broadcast''] \<or> (rqPath rq = ''/peers'' \<and> rqMethod rq = ''POST'')"

text \<open>A refusal changes nothing but the counter of refused peer changes.\<close>

definition refusal :: "mesh_daemon \<Rightarrow> outcome \<Rightarrow> bool" where
  "refusal m out \<longleftrightarrow> (\<exists>m' r. out = Answer m' r \<and> rsCode r \<in> {403, 405, 429} \<and>
     (m' = m \<or> (\<exists>reason. m' = reject_mutation reason m)))"

lemma refusals:
  "rsCode r \<in> {403, 405, 429} \<Longrightarrow> refusal m (Answer m r)"
  "rsCode r \<in> {403, 405, 429} \<Longrightarrow> refusal m (Answer (reject_mutation reason m) r)"
  by (auto simp: refusal_def)

lemma refusal_guarded: "refusal m out \<Longrightarrow> refusal m (guarded expected rq m out)"
  by (auto simp: guarded_def requireMethod_def writeAPIError_def intro: refusals)

lemma privileged_refused:
  assumes "\<not> debug_enabled a" and "\<not> admin_enabled a" and "privileged rq"
  shows "refusal m (route a e rq m)"
proof -
  have debug: "refusal m (debug_guarded a rq m r)" for r
    unfolding debug_guarded_def by (rule refusal_guarded) (simp add: requireDebugSurface_def assms(1) refusals)
  have propose: "refusal m (guarded x rq m (post_propose a e m))" for x
    by (rule refusal_guarded) (simp add: post_propose_def requireAdminSurface_def assms(2) refusals)
  have peers: "refusal m (post_peers a e rq m)" by (simp add: post_peers_def post_peers_run_def assms(2) refusals)
  show ?thesis using assms(3) unfolding privileged_def
    by (auto simp: route_def Let_def debug propose peers)
qed

lemma privileged_served:
  assumes "\<not> debug_enabled a" and "\<not> admin_enabled a" and "privileged rq"
  shows "refusal m (serve a e rq m)"
  using privileged_refused [OF assms] by (auto simp: serve_def Let_def writeAPIError_def intro: refusals)

section \<open>The list of bootstrap peers and the ids seen\<close>

text \<open>A step that leaves the fixed part alone but for at most one message id, which it marks.\<close>

definition marks_one :: "env \<Rightarrow> mesh_daemon \<Rightarrow> mesh_daemon \<Rightarrow> bool" where
  "marks_one e m m' \<longleftrightarrow> fixed_part m' = fixed_part m \<or> (\<exists>i. fixed_part m' = fixed_part (markSeen e i m))"

lemma marks_none: "fixed_part m' = fixed_part m \<Longrightarrow> marks_one e m m'"
  by (simp add: marks_one_def)

lemma marks_id: "fixed_part m' = fixed_part (markSeen e i m) \<Longrightarrow> marks_one e m m'"
  by (auto simp: marks_one_def)

lemma fixed_touch [simp]:
  "fixed_part (TouchPeer e addr m) = fixed_part m"
  "fixed_part (TouchReachable e addr ok m) = fixed_part m" "fixed_part (m\<lparr>mInbox := x\<rparr>) = fixed_part m"
  "fixed_part (set_chain c m) = fixed_part m" "fixed_part (reject_mutation reason m) = fixed_part m"
  "fixed_part (liveness_tick t m) = fixed_part m"
  by (auto simp: fixed_part_def TouchPeer_def TouchReachable_def set_peer_def set_chain_def
      reject_mutation_def liveness_tick_def on_status_def Let_def split: option.split)

lemma fixed_pull: "fixed_part (fst (pull_chunks w e addr best cur p m)) = fixed_part m"
proof (induction w e addr best cur p m rule: pull_chunks.induct)
  case (1 w e addr best cur p m)
  show ?case
  proof (cases "best < cur")
    case True
    then show ?thesis by (subst pull_chunks.simps) simp
  next
    case False
    show ?thesis
    proof (cases "requestPeerRange w m addr cur (min (cur + chunk - 1) best)")
      case (Inl err)
      then show ?thesis using False by (subst pull_chunks.simps) (simp add: fixed_steps)
    next
      case (Inr bs)
      then show ?thesis using False 1 [OF False Inr refl] by (subst pull_chunks.simps) (simp add: Let_def)
    qed
  qed
qed

lemma fixed_sync: "fixed_part (sync_round w e m) = fixed_part m"
proof -
  obtain m1 cands where p: "probe_peers w e (reachablePeersForSync m (now e)) m = (m1, cands)" by fastforce
  obtain addr best tip where b: "best_candidate cands = (addr, best, tip)" using prod_cases3 by blast
  define m2 where "m2 = on_status (recordSyncHeights (chHeight (mChain m1)) best) m1"
  obtain m3 pr where q: "pull_chunks w e addr best (chHeight (mChain m1) + 1) False m2 = (m3, pr)" by fastforce
  have f: "fixed_part m1 = fixed_part m" "fixed_part m2 = fixed_part m" "fixed_part m3 = fixed_part m"
    using probes [OF same_chain_refl, of m w e "reachablePeersForSync m (now e)"] p
      fixed_pull [of w e addr best "chHeight (mChain m1) + 1" False m2] q by (simp_all add: m2_def)
  show ?thesis using f by (auto simp: sync_round_def Let_def p b q fixed_steps simp flip: m2_def)
qed

lemma incoming_marks: "marks_one e m (fst (handleIncoming w e line m))"
proof -
  have sync: "fixed_part (fst (maybeSyncFromSignedState w e via body m2)) = fixed_part m2" for via body m2
    by (auto simp: maybeSyncFromSignedState_def Let_def split: option.split sum.split)
  show ?thesis
  proof (cases line)
    case None
    then show ?thesis by (simp add: handleIncoming_def marks_none)
  next
    case (Some wm0)
    let ?wm = "if wmID wm0 = [] then wm0\<lparr>wmID := ''auto-'' @ fmt_int (now e)\<rparr> else wm0"
    have "fixed_part (fst (handleIncoming w e line m)) = fixed_part m \<or>
        fixed_part (fst (handleIncoming w e line m)) = fixed_part (markSeen e (wmID ?wm) m)"
      unfolding Some by (auto simp: handleIncoming_def Let_def sync split: option.split prod.split)
    then show ?thesis by (auto simp: marks_one_def)
  qed
qed

lemma fixed_propose: "propose_now e m = Some (m', r) \<Longrightarrow> fixed_part m' = fixed_part m"
  by (auto simp: propose_now_def split: prod.splits option.splits)

lemma gossip_marks:
  "marks_one e m (fst (gossipBlock w e b ttl m))" "marks_one e m (fst (gossipSignedState w e m))"
  by (auto simp: gossipBlock_def gossipSignedState_def gossipOrigin_def Let_def marks_one_def split: prod.split)

lemma fixed_mark_cong: "fixed_part m1 = fixed_part m \<Longrightarrow> fixed_part (markSeen e i m1) = fixed_part (markSeen e i m)"
  by (cases "i = []") (simp_all add: fixed_part_def markSeen_def)

lemma marks_one_after: "fixed_part m1 = fixed_part m \<Longrightarrow> marks_one e m1 m' \<Longrightarrow> marks_one e m m'"
  unfolding marks_one_def using fixed_mark_cong by metis

lemma tick_marks:
  assumes "proposer_tick w e m = Some (m', sent)"
  shows "marks_one e m m'"
proof (cases "mNodeID m = ''node1''")
  case False
  then show ?thesis using assms by (simp add: proposer_tick_def marks_none)
next
  case True
  then obtain m1 x where p: "propose_now e m = Some (m1, x)" using assms by (auto simp: proposer_tick_def split: option.splits)
  note f = fixed_propose [OF p]
  have "marks_one e m1 m'"
  proof (cases "x = None \<and> chHeight (mChain m) < chHeight (mChain m1)")
    case True': True
    then show ?thesis using assms True p gossip_marks(1) by (auto simp: proposer_tick_def Let_def) (metis fst_conv)
  next
    case False
    then have "m' = m1" using assms True p by (cases x) (auto simp: proposer_tick_def Let_def)
    then show ?thesis by (simp add: marks_none)
  qed
  then show ?thesis by (rule marks_one_after [OF f])
qed

lemma fixed_route:
  assumes "route a e rq m = Answer m' r"
  shows "fixed_part m' = fixed_part m \<or> post_peers a e rq m = Answer m' r"
proof -
  have tx: "fixed_part (fst (post_tx a e rq m)) = fixed_part m" "fixed_part (fst (post_apply a e rq m)) = fixed_part m"
    by (auto simp: post_tx_def post_apply_def Let_def split: sum.split option.split prod.split)
  have "post_propose a e m = Answer m' r \<Longrightarrow> fixed_part m' = fixed_part m"
    using fixed_propose [of e m] by (auto simp: post_propose_def split: option.splits)
  then show ?thesis using route_Answer [OF assms] tx by (elim disjE) simp_all
qed

lemma fixed_serve:
  "serve a e rq m = Answer m' r \<Longrightarrow> fixed_part m' = fixed_part m \<or> post_peers a e rq m = Answer m' r"
  using fixed_route [of a e rq m m' r] by (auto simp: serve_def Let_def split: if_splits)

lemma evict_seen: "mSeen (evict_tick m) = mSeen m"
  by (simp add: evict_tick_def)

lemma reject_seen [simp]: "mSeen (reject_mutation reason m) = mSeen m"
  by (simp add: reject_mutation_def on_status_def split: option.split)

lemma peers_seen: "post_peers a e rq m = Answer m' r \<Longrightarrow> mSeen m' = mSeen m"
  by (drule post_peers_Answer) auto

lemma fixed_mark:
  "mID (markSeen e i m) = mID m" "mBootstrapPeers (markSeen e i m) = mBootstrapPeers m"
  by (simp_all add: markSeen_def)

lemma marks_fields: "marks_one e m m' \<Longrightarrow> mID m' = mID m \<and> mBootstrapPeers m' = mBootstrapPeers m"
  by (auto simp: marks_one_def fixed_part_def fixed_mark)

lemma marks_seen: "marks_one e m m' \<Longrightarrow> mSeen m' = mSeen m \<or> (\<exists>i. mSeen m' = mSeen (markSeen e i m))"
  by (auto simp: marks_one_def fixed_part_def)

text \<open>What is not a request or an eviction marks at most one id.\<close>

lemma step_marks:
  assumes "daemon_step_at w a e t m m'" and "\<nexists>rq r. serve a (at_time e t) rq m = Answer m' r" and "m' \<noteq> evict_tick m"
  shows "marks_one (at_time e t) m m'"
  using assms(1)
proof cases
  case (step_http rq r)
  then show ?thesis using assms(2) by blast
next
  case (step_incoming line fwd r)
  then show ?thesis using incoming_marks by (metis fst_conv)
next
  case (step_propose sent)
  then show ?thesis by (rule tick_marks)
next
  case (step_announce sent)
  then show ?thesis using gossip_marks(2) by (metis fst_conv)
qed (simp_all add: fixed_sync marks_none assms(3))

lemma serve_seen: "serve a e rq m = Answer m' r \<Longrightarrow> mSeen m' = mSeen m"
  using peers_seen [of a e rq m m' r] by (auto simp: fixed_part_def dest: fixed_serve)

lemma serve_fields:
  assumes "serve a e rq m = Answer m' r" and "\<not> admin_enabled a"
  shows "mID m' = mID m \<and> mBootstrapPeers m' = mBootstrapPeers m"
proof -
  have "fixed_part m' = fixed_part m" using fixed_serve [OF assms(1)] assms(2) by (auto dest: post_peers_Answer)
  then show ?thesis by (simp add: fixed_part_def)
qed

lemma step_bootstrap:
  assumes "daemon_step w a e m m'" and "\<not> admin_enabled a"
  shows "mID m' = mID m" "set (mBootstrapPeers m') \<subseteq> set (mBootstrapPeers m)"
proof -
  obtain t where t: "daemon_step_at w a e t m m'" using assms(1) by (auto simp: daemon_step_def)
  have "(mID m' = mID m \<and> mBootstrapPeers m' = mBootstrapPeers m) \<or> m' = evict_tick m"
    using step_marks [OF t] serve_fields [OF _ assms(2)] marks_fields by blast
  then show "mID m' = mID m" "set (mBootstrapPeers m') \<subseteq> set (mBootstrapPeers m)"
    by (auto simp: evict_tick_def)
qed

lemma step_seen:
  "daemon_step_at w a e t m m' \<Longrightarrow> mSeen m' = mSeen m \<or> (\<exists>i. mSeen m' = mSeen (markSeen (at_time e t) i m))"
  using step_marks [of w a e t m m'] serve_seen marks_seen by (metis evict_seen)

lemma run_bootstrap:
  assumes "(daemon_step w a e)\<^sup>*\<^sup>* m m'" and "\<not> admin_enabled a"
  shows "set (mBootstrapPeers m') \<subseteq> set (mBootstrapPeers m)"
  using assms(1) by (induction rule: rtranclp_induct) (use step_bootstrap(2) [OF _ assms(2)] in blast)+

lemma silent:
  assumes "mBootstrapPeers m = []"
  shows "snd (gossipBlock w e b ttl m) = []" "snd (gossipSignedState w e m) = []" "gossipForward wm m = []"
  using assms by (auto simp: gossipBlock_def gossipSignedState_def gossipOrigin_def gossipForward_def
      gossip_targets_def send_all_def Let_def split: prod.split)

end
