(* ===== verification/Dedup.thy ===== *)
theory Dedup
  imports System Flood
begin

text \<open>
  How long a message id protects against duplicates. The table of seen ids forgets: ids expire after
  \<open>SeenTTL\<close>, and when there are more than \<open>SeenMax\<close> the oldest are dropped (\<open>seen.go\<close>). Every step of
  the daemon marks at most one id, so an id stays while its time to live runs and fewer than
  \<open>SeenMax\<close> steps were made.
\<close>

section \<open>Runs with their times\<close>

inductive run_at :: "wire \<Rightarrow> api \<Rightarrow> env \<Rightarrow> int list \<Rightarrow> mesh_daemon \<Rightarrow> mesh_daemon \<Rightarrow> bool"
  for w :: wire and a :: api and e :: env where
  run_nil: "run_at w a e [] m m"
| run_step: "daemon_step_at w a e t m m1 \<Longrightarrow> run_at w a e ts m1 m' \<Longrightarrow> run_at w a e (t # ts) m m'"

lemma run_at_steps: "run_at w a e ts m m' \<Longrightarrow> (daemon_step w a e)\<^sup>*\<^sup>* m m'"
  by (induction rule: run_at.induct) (auto intro: converse_rtranclp_into_rtranclp daemon_stepI)

section \<open>An id in the table\<close>

text \<open>The ids marked at a time or later.\<close>

definition newer :: "int \<Rightarrow> (string, int) fmap \<Rightarrow> string fset" where
  "newer t s = ffilter (\<lambda>k. t \<le> fmget 0 s k) (fmdom s)"

text \<open>The id \<open>i\<close> is in the table since \<open>t\<close>, and at most \<open>n\<close> ids are as new.\<close>

definition remembers :: "string \<Rightarrow> int \<Rightarrow> nat \<Rightarrow> (string, int) fmap \<Rightarrow> bool" where
  "remembers i t n s \<longleftrightarrow> i |\<in>| newer t s \<and> [] |\<notin>| fmdom s \<and> fcard (newer t s) \<le> n"

lemma in_newer: "k |\<in>| newer t s \<longleftrightarrow> (\<exists>x. fmlookup s k = Some x \<and> t \<le> x)"
  by (auto simp: newer_def fmget_def fmlookup_dom_iff)

lemma newer_alive:
  assumes "t \<le> t'" and "t' \<le> t + SeenTTL"
  shows "newer t (alive t' (fmupd j t' s)) = finsert j (newer t s)"
proof (rule fset_eqI)
  fix k
  show "k |\<in>| newer t (alive t' (fmupd j t' s)) \<longleftrightarrow> k |\<in>| finsert j (newer t s)"
    using assms by (auto simp: in_newer alive_lookup SeenTTL_def second_def split: option.split)
qed

text \<open>An id is dropped only together with all ids that are older.\<close>

lemma newest_stay:
  assumes "[] |\<notin>| fmdom s" and "fcard (newer t s) \<le> n"
  shows "newer t (drop_oldest n s) = newer t s"
proof -
  let ?s = "drop_oldest n s"
  have kept: "fmdom ?s |\<subseteq>| fmdom s" "\<And>k. k |\<in>| fmdom ?s \<Longrightarrow> fmlookup ?s k = fmlookup s k"
    "\<And>k k'. k |\<in>| fmdom s \<Longrightarrow> k |\<notin>| fmdom ?s \<Longrightarrow> k' |\<in>| fmdom ?s \<Longrightarrow> fmget 0 s k \<le> fmget 0 s k'"
    using drop_oldest_newest [OF assms(1), of n] unfolding kept_newest_def by blast+
  have "k |\<in>| fmdom ?s" if k: "k |\<in>| newer t s" for k
  proof (rule ccontr)
    assume out: "k |\<notin>| fmdom ?s"
    have kd: "k |\<in>| fmdom s" "t \<le> fmget 0 s k" using k by (auto simp: newer_def)
    have "k' |\<in>| newer t s" if "k' |\<in>| fmdom ?s" for k'
      using kept(1) kept(3) [OF kd(1) out that] kd(2) that by (auto simp: newer_def)
    then have "finsert k (fmdom ?s) |\<subseteq>| newer t s" using k by blast
    then have "fcard (finsert k (fmdom ?s)) \<le> n" using fcard_mono assms(2) le_trans by blast
    then have small: "fcard (fmdom ?s) < n" using out by (simp add: fcard_finsert_disjoint)
    then have "\<not> n \<le> fcard (fmdom s)" using drop_oldest_enough [OF assms(1), of n] by (meson not_le)
    then show False using out kd(1) by (simp add: drop_oldest_small)
  qed
  moreover have "k |\<in>| newer t ?s \<longleftrightarrow> k |\<in>| newer t s" if "k |\<in>| fmdom ?s" for k
    using kept(2) [OF that] by (simp add: in_newer)
  moreover have "k |\<in>| fmdom ?s" if "k |\<in>| newer t ?s" for k using that by (simp add: newer_def)
  ultimately show ?thesis by blast
qed

lemma mark_remembers:
  assumes "[] |\<notin>| fmdom (mSeen m)" and "fcard (newer t (mSeen m)) < SeenMax"
    and "t \<le> now e" and "now e \<le> t + SeenTTL" and "j \<noteq> []"
  shows "newer t (mSeen (markSeen e j m)) = finsert j (newer t (mSeen m))" and "[] |\<notin>| fmdom (mSeen (markSeen e j m))"
proof -
  let ?s = "alive (now e) (fmupd j (now e) (mSeen m))"
  show "[] |\<notin>| fmdom (mSeen (markSeen e j m))" using marked_table(2) [OF assms(5,1)] .
  have "[] |\<notin>| fmdom ?s" using assms(1,5) by (auto simp: fmlookup_dom_iff alive_lookup)
  moreover have "newer t ?s = finsert j (newer t (mSeen m))" by (rule newer_alive [OF assms(3,4)])
  moreover from this have "fcard (newer t ?s) \<le> SeenMax" using assms(2) by (simp add: fcard_finsert_if)
  ultimately show "newer t (mSeen (markSeen e j m)) = finsert j (newer t (mSeen m))"
    unfolding markSeen_table [OF assms(5)] using newest_stay [of ?s t SeenMax] by simp
qed

lemma step_remembers:
  assumes "daemon_step_at w a e t' m m'" and "remembers i t n (mSeen m)" and "n < SeenMax"
    and "t \<le> t'" and "t' \<le> t + SeenTTL"
  shows "remembers i t (Suc n) (mSeen m')"
  using step_seen [OF assms(1)]
proof (elim disjE exE)
  assume "mSeen m' = mSeen m"
  then show ?thesis using assms(2) by (simp add: remembers_def)
next
  fix j
  assume j: "mSeen m' = mSeen (markSeen (at_time e t') j m)"
  show ?thesis
  proof (cases "j = []")
    case True
    then show ?thesis using assms(2) j by (simp add: remembers_def markSeen_def)
  next
    case False
    have "newer t (mSeen m') = finsert j (newer t (mSeen m))" "[] |\<notin>| fmdom (mSeen m')"
      using mark_remembers [of m t "at_time e t'" j] False assms(2-5)
      by (simp_all add: j remembers_def at_time_def)
    then show ?thesis using assms(2) by (auto simp: remembers_def fcard_finsert_if)
  qed
qed

lemma run_remembers:
  "run_at w a e ts m m' \<Longrightarrow> remembers i t n (mSeen m) \<Longrightarrow> n + length ts \<le> SeenMax \<Longrightarrow>
     \<forall>t'\<in>set ts. t \<le> t' \<and> t' \<le> t + SeenTTL \<Longrightarrow> remembers i t (n + length ts) (mSeen m')"
proof (induction arbitrary: n rule: run_at.induct)
  case (run_step t' m m1 ts m')
  then have "remembers i t (Suc n) (mSeen m1)" using step_remembers [OF run_step(1), of i t n] by simp
  then show ?case using run_step(3) [of "Suc n"] run_step(5,6) by simp
qed simp

section \<open>Duplicates\<close>

text \<open>
  C15 (safety): a message whose id the daemon has not seen is handled; and from then on, through
  whatever steps the daemon makes, every further message with its id is dropped - nothing of the
  daemon changes, nothing is forwarded - as long as those steps happen within \<open>SeenTTL\<close> of the
  arrival and their number, with the ids marked no earlier than the arrival, stays under \<open>SeenMax\<close>.
  (Each arrival is one step, and the table does not hold the empty id, which \<open>markSeen\<close> never enters.)
\<close>

theorem message_handled_once:
  assumes "wire_type wm" and "wmID wm \<noteq> []" and "wmID wm |\<notin>| fmdom (mSeen m)" and "[] |\<notin>| fmdom (mSeen m)"
    and "handleIncoming w (at_time e t) (Some wm) m = (m1, fwd, r)"
    and "run_at w a e ts m1 m2" and "\<forall>t'\<in>set ts. t \<le> t' \<and> t' \<le> t + SeenTTL"
    and "fcard (newer t (mSeen m)) + length ts < SeenMax"
    and "wire_type dup" and "wmID dup = wmID wm"
  shows "handleIncoming w' e' (Some dup) m2 = (m2, [], NoReply)"
proof -
  let ?i = "wmID wm" and ?n = "Suc (fcard (newer t (mSeen m)))"
  have "mSeen m1 = mSeen (markSeen (at_time e t) ?i m)"
    using handled_seen [OF assms(1-3), of w "at_time e t"] assms(5) by simp
  moreover have "newer t (mSeen (markSeen (at_time e t) ?i m)) = finsert ?i (newer t (mSeen m))"
    "[] |\<notin>| fmdom (mSeen (markSeen (at_time e t) ?i m))"
    using mark_remembers [of m t "at_time e t" ?i] assms(2,4,8) by (simp_all add: at_time_def SeenTTL_def second_def)
  ultimately have "remembers ?i t ?n (mSeen m1)" by (simp add: remembers_def fcard_finsert_if)
  from run_remembers [OF assms(6) this] have "remembers ?i t (?n + length ts) (mSeen m2)" using assms(7,8) by simp
  then have "wmID dup |\<in>| fmdom (mSeen m2)" by (simp add: remembers_def newer_def assms(10))
  then show ?thesis using seen_message_ignored [OF assms(9)] assms(2,10) by metis
qed

text \<open>
  The protection ends with the time to live: marking another id later than \<open>SeenTTL\<close> after an id
  was marked forgets it.
\<close>

lemma expired_forgotten:
  assumes "fmlookup (mSeen m) i = Some t" and "t + SeenTTL < now e" and "j \<noteq> []" and "j \<noteq> i" and "[] |\<notin>| fmdom (mSeen m)"
  shows "i |\<notin>| fmdom (mSeen (markSeen e j m))"
proof
  assume "i |\<in>| fmdom (mSeen (markSeen e j m))"
  then obtain x where "fmlookup (mSeen (markSeen e j m)) i = Some x" by (auto simp: fmlookup_dom_iff)
  then show False using marked_table(3) [OF assms(3,5), of e] assms(1,2,4) by fastforce
qed

end
