(* ===== verification/Delivery_Witnesses.thy ===== *)
theory Delivery_Witnesses
  imports Sample Environments Delivery
begin

text \<open>The delivery theorem applied to two blocks of the sample node that arrive exchanged.\<close>

definition later_env :: env where
  "later_env = other_env sample_env (now sample_env + 1) (unmarshalBlock sample_env)"

lemma later_env_ok: "crypto_ok later_env" "io_ok later_env" "now later_env \<noteq> time_zero"
  "key_ready later_env sample_pub_hex sample_priv"
proof -
  show "crypto_ok later_env"
    unfolding crypto_ok_def later_env_def other_env_frame by (rule sample_crypto [unfolded crypto_ok_def])
  show "io_ok later_env" by (simp add: later_env_def)
  show "now later_env \<noteq> time_zero" by (simp add: later_env_def) (simp add: sample_env_def time_zero_def)
  show "key_ready later_env sample_pub_hex sample_priv"
    using sample_key_ready by (simp add: key_ready_def later_env_def)
qed

text \<open>The sample block, then an empty block sealed on top of it one tick later.\<close>

lemma two_blocks:
  obtains c1 b c2 where "applyBlockLocked later_env (node_with 100) (sample_block 100) = (c1, None)"
    "applyBlockLocked later_env c1 b = (c2, None)" "bTimeUTC b = now sample_env + 1"
proof -
  obtain c1 where a: "applyBlockLocked later_env (node_with 100) (sample_block 100) = (c1, None)"
    using sample_block_applies by (auto simp: later_env_def)
  have h: "chHeight c1 = 1" using applied_fields(1) [OF a] by (simp add: sample_block_fields)
  have ts: "txs_ready later_env c1 []"
    by (simp add: txs_ready_def txs_checked_def h expectedReward_def feeSplitActive_def FeeSplitForkHeight_def
        blockRewardForHeight_def)
  obtain s where v: "ValidateBlockSignature later_env
      ((new_block later_env c1 ''w'' sample_pub_hex [])\<lparr>bSignature := s\<rparr>) = None"
    by (rule sealed_block [OF later_env_ok(1,4), of c1 "''w''" "[]"])
  obtain c2 where "applyBlockLocked later_env c1 ((new_block later_env c1 ''w'' sample_pub_hex [])\<lparr>bSignature := s\<rparr>) = (c2, None)"
    using sealed_block_applies [OF later_env_ok(1,2) ts later_env_ok(3) refl v refl refl refl] by blast
  from that [OF a this] show thesis
    by (simp add: seal_simps new_block_fields) (simp add: later_env_def)
qed

lemma node_with_receiver: "receiver_ok later_env (node_with bal)"
  using node_with_identity [of bal]
  by (simp add: receiver_ok_def sample_daemon_def has_identity_def cached_pair_check_def later_env_def cong: option.case_cong sum.case_cong)

theorem delivery_equals_application_witness:
  "\<exists>b c'. apply_all later_env (node_with 100) [sample_block 100, b] = Some c' \<and>
     deliver later_env [b, sample_block 100] (node_with 100) = c'"
proof -
  obtain c1 b c2 where a: "applyBlockLocked later_env (node_with 100) (sample_block 100) = (c1, None)"
      "applyBlockLocked later_env c1 b = (c2, None)" and t: "bTimeUTC b = now sample_env + 1"
    by (rule two_blocks)
  have all: "apply_all later_env (node_with 100) [sample_block 100, b] = Some c2" using a by simp
  have "timely later_env (node_with 100) [sample_block 100, b]"
    by (simp add: timely_def not_future_def stale_time_def t sample_block_fields maxProposalFutureSkew_def)
      (simp add: later_env_def)
  from delivery_equals_application [OF all node_with_receiver this _ nearly_swap [OF nearly_Nil]] all
  show ?thesis by auto
qed

end
