(* ===== verification/Sync_Witnesses.thy ===== *)
theory Sync_Witnesses
  imports Sync Delivery_Witnesses
begin

text \<open>The message layer and the sync loop on the sample node with one peer that is a block ahead.\<close>

section \<open>A daemon with one reachable peer\<close>

definition mesh_node :: mesh_daemon where
  "mesh_node = \<lparr>mChain = node_with 100, mID = ''b:2'', mNodeID = ''n'', mBootstrapPeers = [''a:1''],
     mPeerAPI = fmupd ''a:1'' ''h'' fmempty, mPeers = fmupd ''a:1'' ((new_peer ''a:1'')\<lparr>pReachable := True\<rparr>) fmempty,
     mInbox = [], mSeen = fmempty, mReputation = fmempty, mUC = fmempty, mDiscoPeers = fmempty\<rparr>"

definition sample_wire :: wire where
  "sample_wire = \<lparr>wireBlock = (\<lambda>_. Some (sample_block 100)), wireAnnouncement = (\<lambda>_. None),
     wireStatus = (\<lambda>_. Some (1, ''t'', [])), marshalMsgBlock = (\<lambda>_. ''{}''), marshalAnnouncement = (\<lambda>_. ''{}''),
     fmt_stamp = (\<lambda>_. ''0''), http_get = (\<lambda>_. Some (200, ''{}'')), fetch_text = (\<lambda>_. ''no answer'')\<rparr>"

lemma peer_name: "trim_space ''a:1'' = ''a:1''" "validateTCPAddress ''a:1'' = Inr ''a:1''" "trim_space ''h'' = ''h''" "trim_space ''t'' = ''t''"
  by code_simp+

lemma mesh_node_base: "peerAPIBase mesh_node ''a:1'' = Inr ''https://h''"
  by (simp add: peerAPIBase_def peer_name fmget_def mesh_node_def)

lemma mesh_node_peers: "reachablePeersForSync mesh_node t = [''a:1'']"
proof -
  have "sorted_list_of_fset {|''a:1''|} = [''a:1'']" by (simp add: sorted_list_of_fset.rep_eq)
  then show ?thesis by (simp add: reachablePeersForSync_def mesh_node_def peer_at_def fmget_def new_peer_def)
qed

lemma mesh_node_probe:
  "snd (probe_peers sample_wire e [''a:1''] mesh_node) = [(''a:1'', 1, ''t'')]"
proof -
  have r: "requestPeerHeight sample_wire mesh_node ''a:1'' = Inr (1, ''t'')"
    by (simp add: requestPeerHeight_def mesh_node_base fetch_def peer_name) (simp add: sample_wire_def peer_name)
  obtain m1 where "notePeerHeightSample ''a:1'' 1 ''t'' mesh_node = (m1, None)"
    by (simp add: notePeerHeightSample_def Let_def peer_name peer_at_def mesh_node_def new_peer_def fmget_def)
  then show ?thesis by (simp add: r)
qed

theorem sync_round_catches_up_witness:
  "\<exists>c' s. apply_all sample_env (node_with 100) [sample_block 100] = Some c' \<and>
     mChain (sync_round sample_wire sample_env mesh_node) = with_status s c'"
proof -
  obtain c' where a: "applyBlockLocked sample_env (node_with 100) (sample_block 100) = (c', None)"
    using sample_block_applies by auto
  then have all: "apply_all sample_env (mChain mesh_node) [sample_block 100] = Some c'"
    by (simp add: mesh_node_def)
  obtain m1 where p: "probe_peers sample_wire sample_env [''a:1''] mesh_node = (m1, [(''a:1'', 1, ''t'')])"
    using mesh_node_probe by (metis prod.collapse)
  have "best_candidate [(''a:1'', 1, ''t'')] = (''a:1'', 1, ''t'')" by (simp add: best_candidate_def)
  moreover have "receiver_ok sample_env (mChain mesh_node)"
    using node_with_identity [of 100] by (simp add: receiver_ok_def mesh_node_def sample_daemon_def)
  moreover have "timely sample_env (mChain mesh_node) [sample_block 100]"
    by (simp add: timely_def not_future_def stale_time_def sample_block_fields maxProposalFutureSkew_def mesh_node_def)
  moreover have "serves sample_wire ''https://h'' [sample_block 100]" by (simp add: serves_def sample_wire_def)
  ultimately show ?thesis
    using sync_round_catches_up [OF mesh_node_peers p _ _ _ _ all _ _ _ mesh_node_base] a
    by (simp add: mesh_node_def)
qed

section \<open>Messages\<close>

definition sample_msg :: wire_message where
  "sample_msg = \<lparr>wmID = ''1'', wmType = ''msg'', wmFrom = ''c'', wmVia = [], wmTo = [], wmBody = ''x'', wmTopic = [],
     wmTime = 0, wmTTL = 3, wmPubKey = []\<rparr>"

theorem seen_stays_bounded_witness:
  "fcard (fmdom (mSeen (markSeen sample_env ''1'' mesh_node))) \<le> SeenMax"
  using seen_stays_bounded [of "''1''" mesh_node sample_env, OF _ _ refl] by (simp add: mesh_node_def)

theorem failed_peer_left_alone_witness:
  "\<exists>m'. noteSyncFailure sample_env ''a:1'' None mesh_node = (m', 2 * second) \<and>
     \<not> shouldDialPeer m' ''a:1'' (now sample_env + second)"
proof -
  obtain m' d where n: "noteSyncFailure sample_env ''a:1'' None mesh_node = (m', d)"
    by (cases "noteSyncFailure sample_env ''a:1'' None mesh_node")
  have f: "pSyncFailures (peer_at mesh_node ''a:1'') = 0" by (simp add: peer_at_def fmget_def mesh_node_def new_peer_def)
  have t: "time_zero < now sample_env" by (simp add: sample_env_def time_zero_def)
  note alone = failed_peer_left_alone [OF n, unfolded peer_name f]
  have d: "d = 2 * second" using alone t by (simp add: second_def)
  moreover have "\<not> shouldDialPeer m' ''a:1'' (now sample_env + second)" using alone t d by (simp add: second_def)
  ultimately show ?thesis using n by blast
qed

end
