(* ===== verification/System_Sample.thy ===== *)
theory System_Sample
  imports Dedup Sync_Witnesses
begin

text \<open>The sample daemon behind its HTTP interface.\<close>

definition sample_api :: api where
  "sample_api = \<lparr>apConfig = sample_config, apStartedAt = ''t'', apWalletAddr = ''w'',
     apCodec = \<lparr>decTx = (\<lambda>_. None), decBlock = (\<lambda>_. None), decAddr = (\<lambda>_. Some ''c:3''), allow = (\<lambda>_ _. True)\<rparr>\<rparr>"

text \<open>The same node configured for its operator.\<close>

definition operator_api :: api where
  "operator_api = sample_api\<lparr>apConfig := sample_config\<lparr>cfHttpRateLimitEnabled := False,
     cfAdminEndpointsEnabled := Some True, cfAllowRuntimePeerMutation := True\<rparr>\<rparr>"

definition sample_request :: "string \<Rightarrow> request" where
  "sample_request path = \<lparr>rqMethod = ''POST'', rqPath = path, rqQueryH = [], rqBody = ''{}'', rqRemoteAddr = ''d:4''\<rparr>"

lemma sample_not_admin: "\<not> admin_enabled sample_api"
  by (simp add: admin_enabled_def resolveHTTPSurfaceEnabled_def sample_api_def sample_config_def)

text \<open>
  A message arrives, the liveness loop ticks two seconds later, and the message comes again with more
  hops.
\<close>

theorem message_handled_once_witness:
  "\<exists>m1 fwd r m2. handleIncoming sample_wire (at_time sample_env 5) (Some sample_msg) mesh_node = (m1, fwd, r) \<and>
     run_at sample_wire sample_api sample_env [5 + 2 * second] m1 m2 \<and> mChain m2 = mChain m1 \<and>
     handleIncoming sample_wire (at_time sample_env (5 + 3 * second)) (Some (sample_msg\<lparr>wmTTL := 9\<rparr>)) m2 = (m2, [], NoReply)"
proof -
  obtain m1 fwd r where h: "handleIncoming sample_wire (at_time sample_env 5) (Some sample_msg) mesh_node = (m1, fwd, r)"
    using prod_cases3 by blast
  let ?m2 = "liveness_tick (5 + 2 * second) m1"
  have run: "run_at sample_wire sample_api sample_env [5 + 2 * second] m1 ?m2"
    by (rule run_step [OF step_liveness run_nil])
  have "wire_type sample_msg" "wire_type (sample_msg\<lparr>wmTTL := 9\<rparr>)" "wmID sample_msg \<noteq> []"
    "wmID sample_msg |\<notin>| fmdom (mSeen mesh_node)" "[] |\<notin>| fmdom (mSeen mesh_node)"
    "fcard (newer 5 (mSeen mesh_node)) + length [5 + 2 * second] < SeenMax"
    by (simp_all add: wire_type_def sample_msg_def mesh_node_def newer_def SeenMax_def fcard_fempty)
  note hyps = this
  have times: "\<forall>t'\<in>set [5 + 2 * second]. 5 \<le> t' \<and> t' \<le> 5 + SeenTTL" by (simp add: SeenTTL_def second_def)
  have "handleIncoming sample_wire (at_time sample_env (5 + 3 * second)) (Some (sample_msg\<lparr>wmTTL := 9\<rparr>)) ?m2 = (?m2, [], NoReply)"
    by (rule message_handled_once [OF hyps(1,3,4,5) h run times hyps(6,2)]) simp
  moreover have "mChain ?m2 = mChain m1" by (simp add: liveness_tick_def)
  ultimately show ?thesis using h run by blast
qed

text \<open>The daemon before its first dial: its one peer is not known to be reachable.\<close>

definition lonely_node :: mesh_daemon where
  "lonely_node = mesh_node\<lparr>mPeers := fmupd ''a:1'' (new_peer ''a:1'') fmempty\<rparr>"

end
