(* ===== verification/Float64.thy ===== *)
theory Float64
  imports Complex_Main "HOL-Library.Log_Nat" "HOL-Library.Signed_Division"
begin

text \<open>
  Go's \<open>float64\<close> as far as the rate limiter of \<open>http_ratelimit.go\<close> computes with it: a value is
  the rational number it denotes and every operation rounds its exact result to the nearest number
  of 53 bits, ties to even. Results beyond the largest finite number and NaN do not occur there:
  the largest product is a rate below \<open>2 ^ 63\<close> times fewer than \<open>2 ^ 34\<close> seconds.
\<close>

section \<open>Rounding\<close>

definition half_even :: "rat \<Rightarrow> int" where
  "half_even x = (let f = \<lfloor>x\<rfloor>; r = x - of_int f in if r < 1 / 2 \<or> r = 1 / 2 \<and> even f then f else f + 1)"

text \<open>The binade of a positive number: the exponent of the largest power of two up to it.\<close>

definition binade :: "rat \<Rightarrow> int" where
  "binade x = (case quotient_of x of (n, d) \<Rightarrow>
     let k = int (floorlog 2 (nat n)) - int (floorlog 2 (nat d)) in if 2 powi k \<le> x then k else k - 1)"

definition ulp :: "rat \<Rightarrow> rat" where
  "ulp x = 2 powi (max (binade \<bar>x\<bar> - 52) (- 1074))"

definition rnd64 :: "rat \<Rightarrow> rat" where
  "rnd64 x = (if x = 0 then 0 else of_int (half_even (x / ulp x)) * ulp x)"

text \<open>\<open>Duration.Seconds\<close> of a number of nanoseconds.\<close>

definition Seconds :: "int \<Rightarrow> rat" where
  "Seconds d = rnd64 (rnd64 (of_int (d sdiv 10 ^ 9)) + rnd64 (rnd64 (of_int (d smod 10 ^ 9)) / 10 ^ 9))"

section \<open>What rounding keeps\<close>

lemma half_even_bounds: "\<lfloor>x\<rfloor> \<le> half_even x" "half_even x \<le> \<lfloor>x\<rfloor> + 1"
  by (simp_all add: half_even_def Let_def)

lemma half_even_of_int [simp]: "half_even (of_int k) = k"
  by (simp add: half_even_def)

lemma half_even_mono: "x \<le> y \<Longrightarrow> half_even x \<le> half_even y"
proof -
  assume le: "x \<le> y"
  show ?thesis
  proof (cases "\<lfloor>x\<rfloor> = \<lfloor>y\<rfloor>")
    case True
    with le show ?thesis by (auto simp: half_even_def Let_def)
  next
    case False
    with floor_mono [OF le] half_even_bounds(2) [of x] half_even_bounds(1) [of y] show ?thesis by linarith
  qed
qed

lemma half_even_between: "of_int i \<le> x \<Longrightarrow> i \<le> half_even x" "x \<le> of_int i \<Longrightarrow> half_even x \<le> i"
  using half_even_mono [of "of_int i" x] half_even_mono [of x "of_int i"] by simp_all

lemma powi_2_pos [simp, intro]: "0 < (2 :: rat) powi k"
  by (simp add: zero_less_power_int)

lemma powi_2_le: "i \<le> j \<Longrightarrow> (2 :: rat) powi i \<le> 2 powi j"
  by (rule power_int_increasing) simp_all

lemma powi_2_less: "i < j \<Longrightarrow> (2 :: rat) powi i < 2 powi j"
  by (rule power_int_strict_increasing) simp_all

lemma powi_2_less_D: "(2 :: rat) powi i < 2 powi j \<Longrightarrow> i < j"
  using powi_2_le [of j i] by (meson not_le)

lemma binade_bounds:
  assumes "0 < x"
  shows "2 powi (binade x) \<le> x \<and> x < 2 powi (binade x + 1)"
proof -
  obtain n d where q: "quotient_of x = (n, d)" by (meson surj_pair)
  have d: "0 < d" and x: "x = of_int n / of_int d"
    using quotient_of_denom_pos [OF q] quotient_of_div [OF q] by simp_all
  have n: "0 < n" using assms d by (simp add: x zero_less_divide_iff)
  define a where "a = floorlog 2 (nat n)"
  define b where "b = floorlog 2 (nat d)"
  have nb: "2 ^ (a - 1) \<le> nat n" "nat n < 2 ^ a" and db: "2 ^ (b - 1) \<le> nat d" "nat d < 2 ^ b"
    using floorlog_bounds [of "nat n" 2] floorlog_bounds [of "nat d" 2] n d by (simp_all add: a_def b_def)
  have ab: "0 < a" "0 < b" using n d by (auto simp: a_def b_def floorlog_eq_zero_iff intro: Nat.gr0I)
  have rat_of: "of_int n = (of_nat (nat n) :: rat)" "of_int d = (of_nat (nat d) :: rat)" using n d by simp_all
  have nq: "2 ^ (a - 1) \<le> (of_int n :: rat)" "(of_int n :: rat) < 2 ^ a"
    using nb unfolding rat_of by (metis of_nat_le_iff of_nat_numeral of_nat_power, metis of_nat_less_iff of_nat_numeral of_nat_power)
  have dq: "2 ^ (b - 1) \<le> (of_int d :: rat)" "(of_int d :: rat) < 2 ^ b"
    using db unfolding rat_of by (metis of_nat_le_iff of_nat_numeral of_nat_power, metis of_nat_less_iff of_nat_numeral of_nat_power)
  have "2 powi (int a - int b - 1) * of_int d \<le> (2 :: rat) powi (int a - int b - 1) * 2 powi int b"
    using dq(2) by (intro mult_left_mono) simp_all
  also have "\<dots> = (2 :: rat) ^ (a - 1)"
    using ab by (simp add: power_int_add [symmetric] of_nat_diff flip: power_int_of_nat)
  also note nq(1)
  finally have lo: "2 powi (int a - int b - 1) \<le> x"
    using d by (simp add: x le_divide_eq)
  have "(2 :: rat) ^ a = 2 powi (int a - int b + 1) * 2 ^ (b - 1)"
    using ab by (simp add: power_int_add [symmetric] of_nat_diff flip: power_int_of_nat)
  also have "\<dots> \<le> 2 powi (int a - int b + 1) * of_int d"
    using dq(1) by (intro mult_left_mono) (simp_all add: less_imp_le)
  finally have "of_int n < 2 powi (int a - int b + 1) * (of_int d :: rat)" using nq(2) by linarith
  then have hi: "x < 2 powi (int a - int b + 1)"
    using d by (simp add: x divide_less_eq)
  show ?thesis using lo hi by (simp add: binade_def q Let_def a_def [symmetric] b_def [symmetric])
qed

lemma binade_eqI: "0 < x \<Longrightarrow> 2 powi k \<le> x \<Longrightarrow> x < 2 powi (k + 1) \<Longrightarrow> binade x = k"
  using binade_bounds [of x] powi_2_less_D [of k "binade x + 1"] powi_2_less_D [of "binade x" "k + 1"]
  by fastforce

lemma binade_mono: "0 < x \<Longrightarrow> x \<le> y \<Longrightarrow> binade x \<le> binade y"
  using binade_bounds [of x] binade_bounds [of y] powi_2_less_D [of "binade x" "binade y + 1"] by fastforce

lemma ulp_pos [simp, intro]: "0 < ulp x" "ulp x \<noteq> 0"
  by (simp_all add: ulp_def)

lemma ulp_mono: "0 < x \<Longrightarrow> x \<le> y \<Longrightarrow> ulp x \<le> ulp y"
  using binade_mono [of x y] by (simp add: ulp_def powi_2_le)

text \<open>A number is representable if it is a multiple of its unit in the last place.\<close>

definition is_float64 :: "rat \<Rightarrow> bool" where
  "is_float64 x \<longleftrightarrow> x = 0 \<or> (\<exists>k. x = of_int k * ulp x)"

lemma rnd64_representable [simp]: "is_float64 x \<Longrightarrow> rnd64 x = x"
proof (cases "x = 0")
  case False
  assume "is_float64 x"
  with False obtain k where k: "x = of_int k * ulp x" by (auto simp: is_float64_def)
  then have "x / ulp x = of_int k" by (simp add: nonzero_divide_eq_eq)
  with False k show ?thesis by (simp add: rnd64_def)
qed (simp add: rnd64_def)

text \<open>Multiples of a small enough power of two are representable below its binade.\<close>

lemma is_float64_multiple:
  assumes "0 \<le> x" and "x \<le> 2 powi (j + 53)" and "x = of_int k * 2 powi j" and "- 1074 \<le> j"
  shows "is_float64 x"
proof (cases "x = 0 \<or> x = 2 powi (j + 53)")
  case False
  with assms(1,2) have x: "0 < x" "x < 2 powi (j + 53)" by linarith+
  then have "binade x < j + 53" using binade_bounds [of x] powi_2_less_D [of "binade x" "j + 53"] by fastforce
  with assms(4) have "max (binade \<bar>x\<bar> - 52) (- 1074) \<le> j" using x by simp
  then obtain i where "j = max (binade \<bar>x\<bar> - 52) (- 1074) + int i" using zle_iff_zadd by blast
  then have "2 powi j = 2 ^ i * ulp x" by (simp add: ulp_def power_int_add)
  with assms(3) have "x = of_int (k * 2 ^ i) * ulp x" by simp
  then show ?thesis unfolding is_float64_def by blast
next
  case True
  moreover have "is_float64 (2 powi (j + 53))"
  proof -
    have "binade (2 powi (j + 53)) = j + 53" by (rule binade_eqI) (simp_all add: powi_2_less)
    then have "ulp (2 powi (j + 53)) = 2 powi (j + 1)" using assms(4) by (simp add: ulp_def add.commute)
    moreover have "(2 :: rat) powi (j + 53) = of_int (2 ^ 52) * 2 powi (j + 1)"
      by (simp add: power_int_add)
    ultimately show ?thesis unfolding is_float64_def by metis
  qed
  ultimately show ?thesis by (auto simp: is_float64_def)
qed

lemma ulp_eq: "0 < x \<Longrightarrow> ulp x = 2 powi (max (binade x - 52) (- 1074))"
  by (simp add: ulp_def)

lemma below_top: "0 < x \<Longrightarrow> x < 2 powi (max (binade x - 52) (- 1074) + 53)"
  using binade_bounds [of x] powi_2_le [of "binade x + 1" "max (binade x - 52) (- 1074) + 53"] by fastforce

lemma rnd64_le: "0 < x \<Longrightarrow> x \<le> of_int m * ulp x \<Longrightarrow> rnd64 x \<le> of_int m * ulp x"
  by (auto simp: rnd64_def divide_le_eq intro!: mult_right_mono half_even_between)

lemma rnd64_ge: "0 < x \<Longrightarrow> of_int m * ulp x \<le> x \<Longrightarrow> of_int m * ulp x \<le> rnd64 x"
  by (auto simp: rnd64_def le_divide_eq intro!: mult_right_mono half_even_between)

lemma rnd64_nonneg: "0 \<le> x \<Longrightarrow> 0 \<le> rnd64 x"
  using rnd64_ge [of x 0] by (cases "x = 0") (simp_all add: rnd64_def)

lemma powi_2_multiple: "i \<le> j \<Longrightarrow> (2 :: rat) powi j = of_int (2 ^ nat (j - i)) * 2 powi i"
  by (simp add: power_int_add [symmetric] flip: power_int_of_nat)

lemma rnd64_le_power:
  assumes "0 < x" and "x \<le> 2 powi k" and "max (binade x - 52) (- 1074) \<le> k"
  shows "rnd64 x \<le> 2 powi k"
  using rnd64_le [of x "2 ^ nat (k - max (binade x - 52) (- 1074))"] assms
  by (simp add: ulp_eq powi_2_multiple [OF assms(3)])

lemma rnd64_ge_power:
  assumes "0 < x" and "2 powi k \<le> x" and "max (binade x - 52) (- 1074) \<le> k"
  shows "2 powi k \<le> rnd64 x"
  using rnd64_ge [of x "2 ^ nat (k - max (binade x - 52) (- 1074))"] assms
  by (simp add: ulp_eq powi_2_multiple [OF assms(3)])

lemma rnd64_mono:
  assumes "0 \<le> x" and "x \<le> y"
  shows "rnd64 x \<le> rnd64 y"
proof (cases "x = 0 \<or> ulp x = ulp y")
  case True
  show ?thesis
  proof (cases "x = 0")
    case True
    with assms show ?thesis using rnd64_nonneg [of y] by (simp add: rnd64_def)
  next
    case False
    with True have "ulp x = ulp y" by simp
    with assms False show ?thesis
      by (auto simp: rnd64_def less_imp_le intro!: mult_right_mono half_even_mono divide_right_mono)
  qed
next
  case False
  with assms have pos: "0 < x" "0 < y" by auto
  from False have "max (binade x - 52) (- 1074) \<noteq> max (binade y - 52) (- 1074)" by (auto simp: ulp_eq pos)
  with binade_mono [OF pos(1) assms(2)]
  have less: "binade x + 1 \<le> binade y" and j: "- 1074 \<le> binade y - 52" by linarith+
  have "x \<le> 2 powi binade y"
    using binade_bounds [OF pos(1)] powi_2_le [OF less] by linarith
  then have "rnd64 x \<le> 2 powi binade y" by (rule rnd64_le_power [OF pos(1)]) (use less j in simp)
  also have "\<dots> \<le> rnd64 y"
    by (rule rnd64_ge_power [OF pos(2)]) (use binade_bounds [OF pos(2)] j in simp_all)
  finally show ?thesis .
qed

lemma is_float64_rnd64: "0 \<le> x \<Longrightarrow> is_float64 (rnd64 x)"
proof (cases "x = 0")
  case False
  assume "0 \<le> x"
  with False have x: "0 < x" by simp
  let ?j = "max (binade x - 52) (- 1074)"
  have "rnd64 x \<le> 2 powi (?j + 53)"
    using below_top [OF x] by (intro rnd64_le_power [OF x]) simp_all
  moreover have "rnd64 x = of_int (half_even (x / ulp x)) * 2 powi ?j" using x by (simp add: rnd64_def ulp_eq)
  ultimately show ?thesis using rnd64_nonneg [of x] x by (intro is_float64_multiple [of _ ?j]) simp_all
qed (simp add: rnd64_def is_float64_def)

lemma is_float64_0 [simp]: "is_float64 0"
  by (simp add: is_float64_def)

lemma is_float64_int: "0 \<le> k \<Longrightarrow> k \<le> 2 ^ 53 \<Longrightarrow> is_float64 (of_int k)"
proof -
  assume "0 \<le> k" "k \<le> 2 ^ 53"
  then have "(of_int k :: rat) \<le> of_int (2 ^ 53)" unfolding of_int_le_iff by simp
  with \<open>0 \<le> k\<close> show ?thesis by (intro is_float64_multiple [of _ 0 k]) simp_all
qed

lemma rnd64_numeral [simp]: "numeral n \<le> (2 ^ 53 :: int) \<Longrightarrow> rnd64 (numeral n) = numeral n"
  using is_float64_int [of "numeral n"] by simp

lemma rnd64_0 [simp]: "rnd64 0 = 0"
  by simp

lemma rnd64_1 [simp]: "rnd64 1 = 1"
  using is_float64_int [of 1] by simp

text \<open>Taking a whole number off is exact.\<close>

lemma is_float64_diff:
  assumes "is_float64 t" and "t < 2 ^ 53" and "of_int c \<le> t" and "0 \<le> c"
  shows "is_float64 (t - of_int c)"
proof (cases "t = 0")
  case True
  with assms show ?thesis by simp
next
  case False
  with assms have t: "0 < t" using of_int_0_le_iff [of c, where 'a = rat] by linarith
  let ?j = "max (binade t - 52) (- 1074)"
  from False assms(1) obtain k where k: "t = of_int k * 2 powi ?j" by (auto simp: is_float64_def ulp_eq t)
  have "(2 :: rat) powi binade t < 2 powi 53" using binade_bounds [OF t] assms(2) by simp
  then have j: "?j \<le> 0" using powi_2_less_D by fastforce
  then have one: "of_int (2 ^ nat (- ?j)) * 2 powi ?j = (1 :: rat)" using powi_2_multiple [of ?j 0] by simp
  have "t - of_int c = of_int k * 2 powi ?j - of_int c * (of_int (2 ^ nat (- ?j)) * 2 powi ?j)"
    unfolding one using k by simp
  also have "\<dots> = of_int (k - c * 2 ^ nat (- ?j)) * 2 powi ?j"
    unfolding of_int_diff of_int_mult by (simp only: left_diff_distrib mult.assoc)
  finally have "t - of_int c = of_int (k - c * 2 ^ nat (- ?j)) * 2 powi ?j" .
  moreover have "t - of_int c \<le> 2 powi (?j + 53)"
    using below_top [OF t] assms(4) of_int_0_le_iff [of c, where 'a = rat] by linarith
  moreover have "0 \<le> t - of_int c" "- 1074 \<le> ?j" using assms(3) by simp_all
  ultimately show ?thesis using is_float64_multiple by blast
qed

section \<open>Seconds\<close>

lemma sdiv_smod_nonneg:
  "0 \<le> d \<Longrightarrow> d sdiv (10 ^ 9 :: int) = d div 10 ^ 9" "0 \<le> d \<Longrightarrow> d smod (10 ^ 9 :: int) = d mod 10 ^ 9"
  by (cases "d = 0"; simp add: signed_divide_int_def signed_modulo_int_def sgn_if)+

lemma is_float64_power: "0 \<le> k + 1074 \<Longrightarrow> is_float64 (2 powi k)"
  by (rule is_float64_multiple [of _ k 1]) (simp_all add: powi_2_le less_imp_le)

lemma Seconds_0 [simp]: "Seconds 0 = 0"
  by (simp add: Seconds_def rnd64_def)

lemma Seconds_ge:
  assumes "k * 10 ^ 9 \<le> d" and "0 \<le> k" and "k \<le> 2 ^ 53"
  shows "of_int k \<le> Seconds d"
proof -
  have d: "0 \<le> d" using assms by (meson mult_nonneg_nonneg order_trans zero_le_numeral zero_le_power)
  have "k \<le> d div 10 ^ 9" using zdiv_mono1 [OF assms(1), of "10 ^ 9"] by simp
  then have "rnd64 (of_int k) \<le> rnd64 (of_int (d div 10 ^ 9))" using assms(2) by (intro rnd64_mono) simp_all
  moreover have "0 \<le> rnd64 (rnd64 (of_int (d mod 10 ^ 9)) / 10 ^ 9)" by (simp add: rnd64_nonneg)
  ultimately have "rnd64 (of_int k) \<le> Seconds d"
    using d assms(2,3) unfolding Seconds_def sdiv_smod_nonneg [OF d]
    by (intro rnd64_mono) (simp_all add: is_float64_int)
  then show ?thesis using assms by (simp add: is_float64_int)
qed

lemma Seconds_pos:
  assumes "0 < d"
  shows "0 < Seconds d"
proof (cases "10 ^ 9 \<le> d")
  case True
  then show ?thesis using Seconds_ge [of 1 d] by simp
next
  case False
  with assms have d: "d div 10 ^ 9 = 0" "d mod 10 ^ 9 = d" by simp_all
  have p: "is_float64 (2 powi (- 30))" by (rule is_float64_power) simp
  have "rnd64 (2 powi (- 30)) \<le> rnd64 (of_int d / 10 ^ 9)"
    using assms by (intro rnd64_mono) (simp_all add: power_int_minus field_simps)
  with p have q: "2 powi (- 30) \<le> rnd64 (of_int d / 10 ^ 9)" by simp
  have "rnd64 (2 powi (- 30)) \<le> rnd64 (rnd64 (of_int d / 10 ^ 9))"
    by (rule rnd64_mono [OF _ q]) simp
  moreover have "rnd64 (of_int d) = of_int d" using assms False by (simp add: is_float64_int)
  moreover have "Seconds d = rnd64 (rnd64 (rnd64 (of_int d) / 10 ^ 9))"
    unfolding Seconds_def sdiv_smod_nonneg [OF less_imp_le [OF assms]] d by simp
  ultimately have "2 powi (- 30) \<le> Seconds d" using p by simp
  then show ?thesis using powi_2_pos [of "- 30"] by linarith
qed

end
