(* ===== verification/RateLimit.thy ===== *)
theory RateLimit
  imports Float64 Api
begin

text \<open>
  The token bucket of \<open>http_ratelimit.go\<close>: one bucket per client address, refilled at a rate up to a
  cap, and dropped when its client was not seen for ten minutes. The verdict is what \<open>Api.serve\<close>
  takes as a parameter; \<open>serve_limited\<close> puts the two together. Theorems: requests at one moment
  cost a client at most the cap, clients do not affect each other's verdicts, and dropping
  buckets makes no difference as long as the cap is at most what ten minutes refill.
\<close>

section \<open>The limiter\<close>

record ip_bucket =
  bkTokens :: rat
  bkLast :: int
  bkSeen :: int

record rate_limiter =
  rlRps :: rat
  rlBurst :: rat
  rlTtl :: int
  rlBucket :: "(string, ip_bucket) fmap"

definition newHTTPRateLimiter :: "int \<Rightarrow> int \<Rightarrow> rate_limiter" where
  "newHTTPRateLimiter rps burst =
     \<lparr>rlRps = rnd64 (of_int (if rps \<le> 0 then 25 else rps)), rlBurst = rnd64 (of_int (if burst \<le> 0 then 50 else burst)),
      rlTtl = 10 * 60 * 10 ^ 9, rlBucket = fmempty\<rparr>"

text \<open>Buckets of clients not seen for longer than the limit go.\<close>

definition collect :: "int \<Rightarrow> rate_limiter \<Rightarrow> rate_limiter" where
  "collect t rl = rl\<lparr>rlBucket := fmfilter (\<lambda>k. case fmlookup (rlBucket rl) k of None \<Rightarrow> True
     | Some b \<Rightarrow> \<not> rlTtl rl < t - bkSeen b) (rlBucket rl)\<rparr>"

definition fresh_bucket :: "int \<Rightarrow> rate_limiter \<Rightarrow> ip_bucket" where
  "fresh_bucket t rl = \<lparr>bkTokens = rlBurst rl, bkLast = t, bkSeen = t\<rparr>"

definition refill :: "int \<Rightarrow> rate_limiter \<Rightarrow> ip_bucket \<Rightarrow> ip_bucket" where
  "refill t rl b = (let elapsed = Seconds (t - bkLast b) in
     (if 0 < elapsed
      then let tokens = rnd64 (bkTokens b + rnd64 (elapsed * rlRps rl))
           in b\<lparr>bkTokens := if rlBurst rl < tokens then rlBurst rl else tokens, bkLast := t\<rparr>
      else b)\<lparr>bkSeen := t\<rparr>)"

definition spend :: "nat \<Rightarrow> ip_bucket \<Rightarrow> ip_bucket \<times> bool" where
  "spend cost0 b = (let cost = of_nat (if cost0 \<le> 0 then 1 else cost0) in
     if bkTokens b < cost then (b, False) else (b\<lparr>bkTokens := rnd64 (bkTokens b - cost)\<rparr>, True))"

text \<open>The method \<open>allow\<close>, at the time the clock shows.\<close>

definition rl_allow :: "int \<Rightarrow> string \<Rightarrow> nat \<Rightarrow> rate_limiter \<Rightarrow> rate_limiter \<times> bool" where
  "rl_allow t ip cost rl0 =
     (let rl = collect t rl0;
          b = (case fmlookup (rlBucket rl) ip of None \<Rightarrow> fresh_bucket t rl | Some b \<Rightarrow> b);
          (b', ok) = spend cost (refill t rl b)
      in (rl\<lparr>rlBucket := fmupd ip b' (rlBucket rl)\<rparr>, ok))"

text \<open>
  The middleware with its limiter: the bucket is only asked for a limited path, and not for a
  local write.
\<close>

definition asks_limiter :: "request \<Rightarrow> bool" where
  "asks_limiter rq \<longleftrightarrow>
     (let ip = clientIP rq; cost = rateCost (rqPath rq)
      in \<not> (has_prefix ''/debug/'' (rqPath rq) \<and> \<not> isLoopbackIP ip) \<and> \<not> (isLoopbackIP ip \<and> 5 \<le> cost) \<and>
         limited_path (rqPath rq))"

definition serve_limited :: "api \<Rightarrow> env \<Rightarrow> request \<Rightarrow> rate_limiter \<Rightarrow> mesh_daemon \<Rightarrow> rate_limiter \<times> outcome" where
  "serve_limited a e rq rl m =
     (if cfHttpRateLimitEnabled (apConfig a) \<and> asks_limiter rq
      then let (rl', ok) = rl_allow (now e) (clientIP rq) (rateCost (rqPath rq)) rl
           in (rl', serve (a\<lparr>apCodec := (apCodec a)\<lparr>allow := \<lambda>_ _. ok\<rparr>\<rparr>) e rq m)
      else (rl, serve a e rq m))"

text \<open>A sequence of requests with their times, clients and costs, and the verdicts on it.\<close>

fun verdicts :: "(int \<times> string \<times> nat) list \<Rightarrow> rate_limiter \<Rightarrow> bool list" where
  "verdicts [] rl = []"
| "verdicts ((t, ip, cost) # rs) rl = (case rl_allow t ip cost rl of (rl', ok) \<Rightarrow> ok # verdicts rs rl')"

text \<open>The limiter without collection: what an observer of one bucket sees.\<close>

definition keep_allow :: "int \<Rightarrow> string \<Rightarrow> nat \<Rightarrow> rate_limiter \<Rightarrow> rate_limiter \<times> bool" where
  "keep_allow t ip cost rl =
     (let b = (case fmlookup (rlBucket rl) ip of None \<Rightarrow> fresh_bucket t rl | Some b \<Rightarrow> b);
          (b', ok) = spend cost (refill t rl b)
      in (rl\<lparr>rlBucket := fmupd ip b' (rlBucket rl)\<rparr>, ok))"

fun keep_verdicts :: "(int \<times> string \<times> nat) list \<Rightarrow> rate_limiter \<Rightarrow> bool list" where
  "keep_verdicts [] rl = []"
| "keep_verdicts ((t, ip, cost) # rs) rl = (case keep_allow t ip cost rl of (rl', ok) \<Rightarrow> ok # keep_verdicts rs rl')"

lemma rl_allow_keep: "rl_allow t ip cost rl = keep_allow t ip cost (collect t rl)"
  by (simp add: rl_allow_def keep_allow_def Let_def)

section \<open>One bucket\<close>

lemma collect_frame [simp]:
  "rlRps (collect t rl) = rlRps rl" "rlBurst (collect t rl) = rlBurst rl" "rlTtl (collect t rl) = rlTtl rl"
  by (simp_all add: collect_def)

lemma collect_lookup:
  "fmlookup (rlBucket (collect t rl)) k =
     (case fmlookup (rlBucket rl) k of None \<Rightarrow> None | Some b \<Rightarrow> if rlTtl rl < t - bkSeen b then None else Some b)"
  by (simp add: collect_def split: option.splits)

lemma collect_again: "t \<le> t' \<Longrightarrow>
  fmlookup (rlBucket (collect t' (collect t rl))) k = fmlookup (rlBucket (collect t' rl)) k"
  by (simp add: collect_lookup split: option.splits)

text \<open>The bucket a request finds after refilling.\<close>

definition bucket_at :: "int \<Rightarrow> string \<Rightarrow> rate_limiter \<Rightarrow> ip_bucket" where
  "bucket_at t ip rl = refill t rl (case fmlookup (rlBucket rl) ip of None \<Rightarrow> fresh_bucket t rl | Some b \<Rightarrow> b)"

lemma keep_allow_eq: "keep_allow t ip cost rl =
  (rl\<lparr>rlBucket := fmupd ip (fst (spend cost (bucket_at t ip rl))) (rlBucket rl)\<rparr>, snd (spend cost (bucket_at t ip rl)))"
  by (simp add: keep_allow_def bucket_at_def Let_def split: prod.splits)

lemma keep_allow_frame [simp]:
  "rlRps (fst (keep_allow t ip cost rl)) = rlRps rl" "rlBurst (fst (keep_allow t ip cost rl)) = rlBurst rl"
  "rlTtl (fst (keep_allow t ip cost rl)) = rlTtl rl"
  by (simp_all add: keep_allow_eq)

lemma refill_params: "rlRps rl = rlRps rl' \<Longrightarrow> rlBurst rl = rlBurst rl' \<Longrightarrow> refill t rl b = refill t rl' b"
  by (simp add: refill_def Let_def)

lemma spend_frame [simp]: "bkLast (fst (spend c b)) = bkLast b" "bkSeen (fst (spend c b)) = bkSeen b"
  by (simp_all add: spend_def Let_def)

definition bucket_ok :: "int \<Rightarrow> rate_limiter \<Rightarrow> ip_bucket \<Rightarrow> bool" where
  "bucket_ok t rl b \<longleftrightarrow> 0 \<le> bkTokens b \<and> bkTokens b \<le> rlBurst rl \<and> is_float64 (bkTokens b) \<and>
     bkLast b = bkSeen b \<and> bkSeen b \<le> t"

definition limiter_ok :: "int \<Rightarrow> rate_limiter \<Rightarrow> bool" where
  "limiter_ok t rl \<longleftrightarrow> 0 < rlRps rl \<and> 0 \<le> rlBurst rl \<and> is_float64 (rlBurst rl) \<and> rlBurst rl < 2 ^ 53 \<and> 0 < rlTtl rl \<and>
     (\<forall>k b. fmlookup (rlBucket rl) k = Some b \<longrightarrow> bucket_ok t rl b)"

lemma fresh_bucket_ok: "limiter_ok t rl \<Longrightarrow> bucket_ok t' rl (fresh_bucket t' rl)"
  by (simp add: limiter_ok_def bucket_ok_def fresh_bucket_def)

lemma refill_ok:
  assumes ok: "limiter_ok t0 rl" and b: "bucket_ok t rl b" and le: "t \<le> t'"
  shows "bucket_ok t' rl (refill t' rl b)" and "bkSeen (refill t' rl b) = t'"
proof -
  have grown: "0 \<le> rnd64 (bkTokens b + rnd64 (Seconds (t' - bkLast b) * rlRps rl)) \<and>
    is_float64 (rnd64 (bkTokens b + rnd64 (Seconds (t' - bkLast b) * rlRps rl)))" if "0 < Seconds (t' - bkLast b)"
    using that ok b by (simp add: limiter_ok_def bucket_ok_def rnd64_nonneg is_float64_rnd64)
  show "bucket_ok t' rl (refill t' rl b)"
  proof (cases "0 < Seconds (t' - bkLast b)")
    case True
    with grown ok b show ?thesis by (simp add: refill_def Let_def bucket_ok_def limiter_ok_def)
  next
    case False
    then have "t' \<le> bkLast b" using Seconds_pos [of "t' - bkLast b"] by linarith
    with b le have "bkLast b = t'" by (simp add: bucket_ok_def)
    with False b show ?thesis by (simp add: refill_def Let_def bucket_ok_def)
  qed
  show "bkSeen (refill t' rl b) = t'" by (simp add: refill_def Let_def)
qed

lemma refill_again: "bucket_ok t rl b \<Longrightarrow> bkSeen b = t \<Longrightarrow> refill t rl b = b"
  by (simp add: refill_def bucket_ok_def)

lemma spend_ok:
  assumes "bucket_ok t rl b" and "limiter_ok t0 rl"
  shows "bucket_ok t rl (fst (spend c b))"
    and "bkTokens (fst (spend c b)) = bkTokens b - (if snd (spend c b) then of_nat (max 1 c) else 0)"
proof -
  let ?c = "of_int (int (max 1 c)) :: rat"
  have c: "of_nat (if c \<le> 0 then 1 else c) = ?c" by (simp add: max_def)
  have "is_float64 (bkTokens b - ?c)" if "\<not> bkTokens b < ?c"
    using that assms by (intro is_float64_diff) (auto simp: bucket_ok_def limiter_ok_def)
  then have r: "\<not> bkTokens b < ?c \<Longrightarrow> rnd64 (bkTokens b - ?c) = bkTokens b - ?c \<and> is_float64 (bkTokens b - ?c)"
    by simp
  show "bucket_ok t rl (fst (spend c b))"
    using assms(1) r unfolding spend_def c Let_def by (auto simp: bucket_ok_def)
  show "bkTokens (fst (spend c b)) = bkTokens b - (if snd (spend c b) then of_nat (max 1 c) else 0)"
    using r unfolding spend_def c Let_def by auto
qed

section \<open>The limiter keeps its buckets in bounds\<close>

lemma limiter_ok_later: "limiter_ok t rl \<Longrightarrow> t \<le> t' \<Longrightarrow> limiter_ok t' rl"
  by (fastforce simp: limiter_ok_def bucket_ok_def)

lemma limiter_ok_new: "burst < 2 ^ 53 \<Longrightarrow> limiter_ok t (newHTTPRateLimiter rps burst)"
proof -
  assume "burst < 2 ^ 53"
  let ?r = "if rps \<le> 0 then 25 else rps" and ?b = "if burst \<le> 0 then 50 else burst"
  have b: "rnd64 (of_int ?b) = of_int ?b" "is_float64 (of_int ?b)" "(of_int ?b :: rat) < of_int (2 ^ 53)"
    using \<open>burst < 2 ^ 53\<close> by (simp_all add: is_float64_int del: of_int_power)
  have "rnd64 (of_int 1) \<le> rnd64 (of_int ?r)" by (intro rnd64_mono) simp_all
  moreover have "rnd64 (of_int 1) = of_int 1" by (rule rnd64_representable, rule is_float64_int) simp_all
  ultimately have r: "0 < rnd64 (of_int ?r)" by simp
  show ?thesis unfolding newHTTPRateLimiter_def limiter_ok_def using b r by simp
qed

lemma bucket_at_ok:
  assumes "limiter_ok t rl" and "t \<le> t'"
  shows "bucket_ok t' rl (bucket_at t' ip rl)" and "bkSeen (bucket_at t' ip rl) = t'"
  using refill_ok [OF assms(1) _ assms(2)] refill_ok [OF assms(1) fresh_bucket_ok [OF assms(1)] order_refl, of t']
    assms(1) by (auto simp: bucket_at_def limiter_ok_def split: option.splits)

lemma collect_ok: "limiter_ok t rl \<Longrightarrow> limiter_ok t (collect t' rl)"
  by (auto simp: limiter_ok_def collect_lookup bucket_ok_def split: option.splits if_splits)

lemma keep_allow_ok:
  assumes "limiter_ok t rl" and "t \<le> t'"
  shows "limiter_ok t' (fst (keep_allow t' ip cost rl))"
proof -
  have "bucket_ok t' rl (fst (spend cost (bucket_at t' ip rl)))"
    by (rule spend_ok(1) [OF bucket_at_ok(1) [OF assms] assms(1)])
  with limiter_ok_later [OF assms] show ?thesis
    by (auto simp: keep_allow_eq limiter_ok_def bucket_ok_def)
qed

lemma rl_allow_ok: "limiter_ok t rl \<Longrightarrow> t \<le> t' \<Longrightarrow> limiter_ok t' (fst (rl_allow t' ip cost rl))"
  unfolding rl_allow_keep by (rule keep_allow_ok [OF collect_ok])

section \<open>What a client gets at one moment\<close>

text \<open>The cost of the requests of a client that were let through.\<close>

fun granted :: "string \<Rightarrow> (int \<times> string \<times> nat) list \<Rightarrow> bool list \<Rightarrow> nat" where
  "granted ip ((t, i, c) # rs) (ok # oks) = (if i = ip \<and> ok then max 1 c else 0) + granted ip rs oks"
| "granted ip _ _ = 0"

lemma rl_allow_lookup:
  "fmlookup (rlBucket (fst (rl_allow t j c rl))) ip =
     (if ip = j then Some (fst (spend c (bucket_at t j (collect t rl)))) else fmlookup (rlBucket (collect t rl)) ip)"
  "rlRps (fst (rl_allow t j c rl)) = rlRps rl" "rlBurst (fst (rl_allow t j c rl)) = rlBurst rl"
  "rlTtl (fst (rl_allow t j c rl)) = rlTtl rl"
  "snd (rl_allow t j c rl) = snd (spend c (bucket_at t j (collect t rl)))"
  by (simp_all add: rl_allow_keep keep_allow_eq)

lemma allowed_now:
  assumes "limiter_ok t rl" and "t \<le> t'"
  shows "bkTokens (bucket_at t' ip (collect t' (fst (rl_allow t' j c rl)))) =
    bkTokens (bucket_at t' ip (collect t' rl)) - (if j = ip \<and> snd (rl_allow t' j c rl) then of_nat (max 1 c) else 0)"
proof -
  note ok = collect_ok [OF assms(1), of t']
  let ?b = "fst (spend c (bucket_at t' j (collect t' rl)))"
  note b = spend_ok [OF bucket_at_ok(1) [OF ok assms(2)] ok, of c j]
  have seen: "bkSeen ?b = t'" using bucket_at_ok(2) [OF ok assms(2)] by simp
  have ttl: "0 < rlTtl rl" using assms(1) by (simp add: limiter_ok_def)
  have again: "refill t' rl' ?b = ?b" if "rlRps rl' = rlRps rl" "rlBurst rl' = rlBurst rl" for rl'
    using refill_again [OF b(1) seen] that refill_params [of rl' "collect t' rl" t' ?b] by simp
  have look: "fmlookup (rlBucket (collect t' (fst (rl_allow t' j c rl)))) ip =
      (if ip = j then Some ?b else fmlookup (rlBucket (collect t' rl)) ip)"
    using seen ttl by (simp add: collect_lookup rl_allow_keep keep_allow_eq split: option.splits)
  show ?thesis
  proof (cases "ip = j")
    case True
    then have "bucket_at t' ip (collect t' (fst (rl_allow t' j c rl))) = ?b"
      unfolding bucket_at_def [of t' ip "collect t' (fst (rl_allow t' j c rl))"] look
      by (simp add: again rl_allow_lookup)
    with True b(2) show ?thesis by (simp add: rl_allow_lookup)
  next
    case False
    then show ?thesis using look
      by (auto simp: bucket_at_def rl_allow_lookup fresh_bucket_def intro!: arg_cong [where f = bkTokens] refill_params
        split: option.splits)
  qed
qed

lemma granted_within_tokens:
  "limiter_ok t rl \<Longrightarrow> (\<forall>r\<in>set rs. fst r = t) \<Longrightarrow>
   of_nat (granted ip rs (verdicts rs rl)) \<le> bkTokens (bucket_at t ip (collect t rl))"
proof (induction rs arbitrary: rl)
  case Nil
  then show ?case using bucket_at_ok(1) [OF collect_ok [OF Nil(1)] order_refl] by (simp add: bucket_ok_def)
next
  case (Cons r rs)
  obtain j c where r: "r = (t, j, c)" using Cons.prems(2) by (cases r) auto
  have "of_nat (granted ip rs (verdicts rs (fst (rl_allow t j c rl)))) \<le>
      bkTokens (bucket_at t ip (collect t (fst (rl_allow t j c rl))))"
    using Cons.prems(2) by (intro Cons.IH rl_allow_ok [OF Cons.prems(1) order_refl]) simp
  then show ?case unfolding allowed_now [OF Cons.prems(1) order_refl] by (auto simp: r split_beta split: if_splits)
qed

text \<open>
  C39 (bounds): however many requests a client makes at one moment, and whatever others ask for in
  between, those that the limiter lets through cost no more than the burst it was configured with.
\<close>

theorem burst_bounds_requests:
  assumes "limiter_ok t0 rl" and "t0 \<le> t" and "\<forall>r\<in>set rs. fst r = t"
  shows "of_nat (granted ip rs (verdicts rs rl)) \<le> rlBurst rl"
proof -
  note ok = limiter_ok_later [OF assms(1,2)]
  have "bkTokens (bucket_at t ip (collect t rl)) \<le> rlBurst rl"
    using bucket_at_ok(1) [OF collect_ok [OF ok] order_refl] by (simp add: bucket_ok_def)
  with granted_within_tokens [OF ok assms(3)] show ?thesis by (rule order_trans)
qed

text \<open>A request the limiter turns down is answered 429 and changes nothing else.\<close>

lemma limited_request_refused:
  assumes "cfHttpRateLimitEnabled (apConfig a)" and "asks_limiter rq"
    and "\<not> snd (rl_allow (now e) (clientIP rq) (rateCost (rqPath rq)) rl)"
  shows "snd (serve_limited a e rq rl m) = Answer m (reply 429 RateLimited)"
  using assms by (auto simp: serve_limited_def serve_def asks_limiter_def Let_def split_beta)

section \<open>Clients do not interfere\<close>

fun verdicts_of :: "string \<Rightarrow> (int \<times> string \<times> nat) list \<Rightarrow> bool list \<Rightarrow> bool list" where
  "verdicts_of ip ((t, i, c) # rs) (ok # oks) = (if i = ip then [ok] else []) @ verdicts_of ip rs oks"
| "verdicts_of ip _ _ = []"

definition same_view :: "int \<Rightarrow> string \<Rightarrow> rate_limiter \<Rightarrow> rate_limiter \<Rightarrow> bool" where
  "same_view t ip rl rl' \<longleftrightarrow> rlRps rl = rlRps rl' \<and> rlBurst rl = rlBurst rl' \<and> rlTtl rl = rlTtl rl' \<and>
     fmlookup (rlBucket (collect t rl)) ip = fmlookup (rlBucket (collect t rl')) ip"

lemma same_view_later: "same_view t ip rl rl' \<Longrightarrow> t \<le> t' \<Longrightarrow> same_view t' ip rl rl'"
  unfolding same_view_def
  by (simp add: collect_again [of t t' rl ip, symmetric] collect_again [of t t' rl' ip, symmetric]
      collect_lookup [of t' "collect t _"] split: option.split)

lemma same_view_bucket: "same_view t ip rl rl' \<Longrightarrow> bucket_at t ip (collect t rl) = bucket_at t ip (collect t rl')"
  by (auto simp: same_view_def bucket_at_def fresh_bucket_def intro!: refill_params split: option.splits)

lemma same_view_allow:
  assumes "same_view t ip rl rl'"
  shows "same_view t ip (fst (rl_allow t ip c rl)) (fst (rl_allow t ip c rl'))"
    and "snd (rl_allow t ip c rl) = snd (rl_allow t ip c rl')"
  using assms same_view_bucket [OF assms] by (simp_all add: same_view_def rl_allow_lookup collect_lookup [of t "fst _"])

lemma same_view_other: "j \<noteq> ip \<Longrightarrow> same_view t ip rl rl' \<Longrightarrow> same_view t ip (fst (rl_allow t j c rl)) rl'"
  by (auto simp: same_view_def rl_allow_lookup collect_lookup split: option.splits)

lemma verdicts_of_alone:
  "sorted (t # map fst rs) \<Longrightarrow> same_view t ip rl rl' \<Longrightarrow>
   verdicts_of ip rs (verdicts rs rl) = verdicts (filter (\<lambda>(_, i, _). i = ip) rs) rl'"
proof (induction rs arbitrary: t rl rl')
  case (Cons r rs)
  obtain t' j c where r: "r = (t', j, c)" by (cases r)
  have view: "same_view t' ip rl rl'" by (rule same_view_later [OF Cons.prems(2)]) (use Cons.prems(1) r in simp)
  have sort: "sorted (t' # map fst rs)" using Cons.prems(1) r by simp
  show ?case
  proof (cases "j = ip")
    case True
    with Cons.IH [OF sort same_view_allow(1) [OF view]] same_view_allow(2) [OF view] show ?thesis
      by (simp add: r split_beta)
  next
    case False
    with Cons.IH [OF sort same_view_other [OF False view]] show ?thesis by (simp add: r split_beta)
  qed
qed simp

text \<open>
  Whether the requests of a client are let through does not depend on what other
  clients ask for: the verdicts are those the client gets when it is alone.
\<close>

theorem clients_do_not_interfere:
  assumes "sorted (map fst rs)"
  shows "verdicts_of ip rs (verdicts rs rl) = verdicts (filter (\<lambda>(_, i, _). i = ip) rs) rl"
proof (cases rs)
  case (Cons r rs')
  then show ?thesis
    using assms by (intro verdicts_of_alone [of "fst r"]) (simp_all add: same_view_def)
qed simp

section \<open>Collection\<close>

lemma refill_full:
  assumes "limiter_ok t0 rl" and "bucket_ok t0 rl b" and "rlTtl rl = 600 * 10 ^ 9" and "rlBurst rl \<le> 600 * rlRps rl"
    and "rlTtl rl < t - bkSeen b"
  shows "refill t rl b = refill t rl (fresh_bucket t rl)"
proof -
  let ?s = "Seconds (t - bkLast b)"
  have s: "600 \<le> ?s" using Seconds_ge [of 600 "t - bkLast b"] assms by (simp add: bucket_ok_def)
  then have "600 * rlRps rl \<le> ?s * rlRps rl" using assms(1) by (intro mult_right_mono) (simp_all add: limiter_ok_def)
  with assms(4) have "rlBurst rl \<le> ?s * rlRps rl" by linarith
  moreover have b: "rnd64 (rlBurst rl) = rlBurst rl" "0 \<le> rlBurst rl" using assms(1) by (simp_all add: limiter_ok_def)
  ultimately have "rlBurst rl \<le> rnd64 (?s * rlRps rl)" using rnd64_mono [of "rlBurst rl"] by fastforce
  moreover have "0 \<le> bkTokens b" using assms(2) by (simp add: bucket_ok_def)
  ultimately have "rlBurst rl \<le> bkTokens b + rnd64 (?s * rlRps rl)" by linarith
  then have "rlBurst rl \<le> rnd64 (bkTokens b + rnd64 (?s * rlRps rl))"
    using rnd64_mono [of "rlBurst rl"] b by fastforce
  with s show ?thesis by (cases b) (simp add: refill_def fresh_bucket_def Let_def)
qed

lemma collect_invisible:
  assumes ok: "limiter_ok t0 rl" and le: "t0 \<le> t"
    and full: "rlTtl rl = 600 * 10 ^ 9" "rlBurst rl \<le> 600 * rlRps rl"
  shows "bucket_at t ip (collect t rl) = bucket_at t ip rl"
proof -
  have p: "refill t (collect t rl) b = refill t rl b" for b by (rule refill_params) simp_all
  have f: "fresh_bucket t (collect t rl) = fresh_bucket t rl" by (simp add: fresh_bucket_def)
  show ?thesis unfolding bucket_at_def p f
    using refill_full [OF ok _ full] ok by (auto simp: collect_lookup limiter_ok_def split: option.splits)
qed

text \<open>The two limiters agree after collection.\<close>

lemma keep_simulates:
  "sorted (t # map fst rs) \<Longrightarrow> limiter_ok t rl' \<Longrightarrow> (\<forall>ip. same_view t ip rl rl') \<Longrightarrow>
   rlTtl rl' = 600 * 10 ^ 9 \<Longrightarrow> rlBurst rl' \<le> 600 * rlRps rl' \<Longrightarrow> verdicts rs rl = keep_verdicts rs rl'"
proof (induction rs arbitrary: t rl rl')
  case (Cons r rs)
  obtain t' j c where r: "r = (t', j, c)" by (cases r)
  have le: "t \<le> t'" and sort: "sorted (t' # map fst rs)" using Cons.prems(1) r by simp_all
  have view: "same_view t' ip rl rl'" for ip using same_view_later Cons.prems(3) le by blast
  have b: "bucket_at t' j (collect t' rl) = bucket_at t' j rl'"
    using same_view_bucket [OF view] collect_invisible [OF Cons.prems(2) le Cons.prems(4,5)] by simp
  have seen: "bkSeen (bucket_at t' j rl') = t'" by (rule bucket_at_ok(2) [OF Cons.prems(2) le])
  have "same_view t' ip (fst (rl_allow t' j c rl)) (fst (keep_allow t' j c rl'))" for ip
    using view [of ip] b seen Cons.prems(2)
    by (auto simp: same_view_def rl_allow_lookup keep_allow_eq collect_lookup split: option.splits)
  with Cons.IH [OF sort keep_allow_ok [OF Cons.prems(2) le]] Cons.prems(4,5)
  have "verdicts rs (fst (rl_allow t' j c rl)) = keep_verdicts rs (fst (keep_allow t' j c rl'))" by simp
  moreover have "snd (rl_allow t' j c rl) = snd (keep_allow t' j c rl')"
    using b by (simp add: rl_allow_lookup keep_allow_eq)
  ultimately show ?case by (simp add: r split_beta)
qed simp

text \<open>
  C38 (equivalence): dropping the buckets of clients not seen for ten minutes changes no verdict,
  as long as the burst is at most what ten minutes refill (the defaults are 50 and 15000). So the
  table can be collected without giving anyone more than the configured rate.
\<close>

theorem collection_changes_no_verdict:
  assumes "sorted (map fst rs)" and "burst < 2 ^ 53" and "0 < rps" and "rps \<le> 2 ^ 53" and "burst \<le> 600 * rps"
  shows "verdicts rs (newHTTPRateLimiter rps burst) = keep_verdicts rs (newHTTPRateLimiter rps burst)"
proof (cases rs)
  case (Cons r rs')
  let ?rl = "newHTTPRateLimiter rps burst" and ?b = "if burst \<le> 0 then 50 else burst"
  have "rnd64 (of_int rps) = of_int rps" "rnd64 (of_int ?b) = of_int ?b"
    using assms(2-4) by (simp_all add: is_float64_int)
  moreover have "(of_int ?b :: rat) \<le> of_int (600 * rps)" unfolding of_int_le_iff using assms(3,5) by simp
  ultimately have "rlBurst ?rl \<le> 600 * rlRps ?rl" "rlTtl ?rl = 600 * 10 ^ 9"
    using assms(3) by (simp_all add: newHTTPRateLimiter_def)
  then show ?thesis
    using assms(1) limiter_ok_new [OF assms(2)] Cons
    by (intro keep_simulates [of "fst r"]) (simp_all add: same_view_def)
qed simp

section \<open>Witnesses\<close>

lemma sample_verdicts:
  "verdicts [(0, ''c'', 10), (0, ''c'', 10), (0, ''d'', 2)] (newHTTPRateLimiter 25 15) = [True, False, True]"
  by (simp add: rl_allow_def collect_def newHTTPRateLimiter_def fresh_bucket_def refill_def spend_def)

lemma burst_bounds_requests_witness:
  "granted ''c'' [(0, ''c'', 10), (0, ''c'', 10), (0, ''d'', 2)] [True, False, True] = 10 \<and> (10 :: rat) \<le> 15"
  using burst_bounds_requests [OF limiter_ok_new [of 15 0 25] order_refl, where rs = "[(0, ''c'', 10), (0, ''c'', 10), (0, ''d'', 2)]" and ip = "''c''"]
  by (simp add: sample_verdicts newHTTPRateLimiter_def [of 25 15] del: verdicts.simps)

lemma clients_do_not_interfere_witness:
  "verdicts [(0, ''c'', 10), (0, ''c'', 10)] (newHTTPRateLimiter 25 15) = [True, False]"
  using clients_do_not_interfere [of "[(0, ''c'', 10), (0, ''c'', 10), (0, ''d'', 2)]" "''c''" "newHTTPRateLimiter 25 15"]
  by (simp add: sample_verdicts del: verdicts.simps keep_verdicts.simps)

lemma collection_changes_no_verdict_witness:
  "keep_verdicts [(0, ''c'', 10), (0, ''c'', 10), (0, ''d'', 2)] (newHTTPRateLimiter 25 15) = [True, False, True]"
  using collection_changes_no_verdict [of "[(0, ''c'', 10), (0, ''c'', 10), (0, ''d'', 2)]" 15 25]
  by (simp add: sample_verdicts del: verdicts.simps keep_verdicts.simps)

end
