(* ===== verification/Registry.thy ===== *)
theory Registry
  imports Wallet Discovery
begin

text \<open>
  The rest of \<open>discovery.go\<close>: what a node serves and writes of its table of discovered peers, and the
  two ways nodes meet - a leader that announces itself and answers, a client that registers with it
  and polls. Theorems: the file read back is the table that was written, and after one turn the
  leader knows the client and the client every peer the leader knew.
\<close>

section \<open>What a node shows of its table\<close>

text \<open>Go lists the table in any order, the model by address.\<close>

definition discoverySnapshot :: "mesh_daemon \<Rightarrow> discovered_peer list" where
  "discoverySnapshot m = List.map_filter (fmlookup (mDiscoPeers m)) (sorted_list_of_fset (fmdom (mDiscoPeers m)))"

text \<open>The durations are numbers here; the code renders them.\<close>

record discovery_status =
  dsEnabled :: bool
  dsUDPPort :: int
  dsListenAddr :: string
  dsAnnounceEvery :: int
  dsAllowCIDR :: string
  dsPersist :: bool
  dsPersistFile :: string
  dsMaxPeers :: int
  dsLogEvery :: int
  dsLeader :: bool
  dsLeaderURL :: string
  dsPollEvery :: int
  dsPeersCount :: nat

definition discoveryStatus :: "discovery_config \<Rightarrow> mesh_daemon \<Rightarrow> discovery_status" where
  "discoveryStatus c m =
     \<lparr>dsEnabled = dcEnabled c, dsUDPPort = dcUDPPort c, dsListenAddr = dcListenAddr c,
      dsAnnounceEvery = dcAnnounceEvery c, dsAllowCIDR = dcAllowCIDR c, dsPersist = dcPersist c,
      dsPersistFile = discoveryPersistPath c, dsMaxPeers = dcMaxPeers c, dsLogEvery = dcLogEvery c,
      dsLeader = dcIsLeader c, dsLeaderURL = dcLeaderURL c, dsPollEvery = dcPollEvery c,
      dsPeersCount = length (discoverySnapshot m)\<rparr>"

datatype discovery_reply = Refused response | StatusReply discovery_status | PeersReply "discovered_peer list"

definition handleDiscoveryStatus :: "discovery_config \<Rightarrow> request \<Rightarrow> mesh_daemon \<Rightarrow> discovery_reply" where
  "handleDiscoveryStatus c rq m =
     (case requireMethod ''GET'' rq of Some r \<Rightarrow> Refused r | None \<Rightarrow> StatusReply (discoveryStatus c m))"

definition handleDiscoveryPeers :: "request \<Rightarrow> mesh_daemon \<Rightarrow> discovery_reply" where
  "handleDiscoveryPeers rq m =
     (case requireMethod ''GET'' rq of Some r \<Rightarrow> Refused r | None \<Rightarrow> PeersReply (discoverySnapshot m))"

section \<open>The file\<close>

record peers_json =
  marshalPeers :: "discovered_peer list \<Rightarrow> string"
  unmarshalPeers :: "string \<Rightarrow> discovered_peer list option"

text \<open>
  \<open>discoveryPersistAsync\<close>, which runs beside its caller and reports no error: it ignores a failure
  to make the directory, and writes nothing to the file unless the temporary one is complete.
\<close>

definition discoveryPersist :: "env \<Rightarrow> peers_json \<Rightarrow> discovery_config \<Rightarrow> mesh_daemon \<Rightarrow> files \<Rightarrow> files" where
  "discoveryPersist e j c m fs =
     (let p = path_of (discoveryPersistPath c); tmp = tmp_of p
      in case os_WriteFile e fs tmp (marshalPeers j (discoverySnapshot m)) of
           (Some _, fs1) \<Rightarrow> fs1 | (None, fs1) \<Rightarrow> snd (os_Rename e fs1 tmp p))"

definition load_persisted :: "env \<Rightarrow> peers_json \<Rightarrow> discovery_config \<Rightarrow> files \<Rightarrow> mesh_daemon \<Rightarrow> mesh_daemon" where
  "load_persisted e j c fs m = discoveryLoadPersisted e
     (case os_ReadFile e fs (path_of (discoveryPersistPath c)) of Inl _ \<Rightarrow> None | Inr raw \<Rightarrow> unmarshalPeers j raw) m"

definition persist_if :: "env \<Rightarrow> peers_json \<Rightarrow> discovery_config \<Rightarrow> mesh_daemon \<times> files \<Rightarrow> mesh_daemon \<times> files" where
  "persist_if e j c s = (case s of (m, fs) \<Rightarrow> (m, if dcPersist c then discoveryPersist e j c m fs else fs))"

definition learn_and_persist ::
  "env \<Rightarrow> peers_json \<Rightarrow> discovery_config \<Rightarrow> string \<Rightarrow> string \<Rightarrow> mesh_daemon \<times> files \<Rightarrow> mesh_daemon \<times> files" where
  "learn_and_persist e j c listen via s =
     (case s of (m, fs) \<Rightarrow>
        if trim_space listen = [] \<or> trim_space listen = mID m then s
        else persist_if e j c (discoveryLearnPeer e listen via m, fs))"

definition register_and_persist ::
  "api \<Rightarrow> env \<Rightarrow> peers_json \<Rightarrow> discovery_config \<Rightarrow> request \<Rightarrow> mesh_daemon \<times> files \<Rightarrow> (mesh_daemon \<times> files) \<times> response" where
  "register_and_persist a e j c rq s =
     (case s of (m, fs) \<Rightarrow> (case handleDiscoveryRegister a e rq m of (m1, r) \<Rightarrow>
        (if rsCode r = 200 then persist_if e j c (m1, fs) else s, r)))"

section \<open>Start\<close>

datatype discovery_role = NoDiscovery | ClientLoop | LeaderLoop

definition start_discovery ::
  "env \<Rightarrow> peers_json \<Rightarrow> mesh_config \<Rightarrow> files \<Rightarrow> mesh_daemon \<Rightarrow> discovery_config \<times> discovery_role \<times> mesh_daemon" where
  "start_discovery e j cfg fs m =
     (let c = enableDiscoveryIfConfigured cfg
      in if \<not> cfDiscoveryEnabled cfg then (c, NoDiscovery, m)
         else (c, if dcIsLeader c then LeaderLoop else ClientLoop, if dcPersist c then load_persisted e j c fs m else m))"

section \<open>The client\<close>

definition trim_right :: "char \<Rightarrow> string \<Rightarrow> string" where
  "trim_right ch s = rev (dropWhile (\<lambda>x. x = ch) (rev s))"

text \<open>
  The quoted form of \<open>fmt\<close> (\<open>%q\<close>) on ASCII text; addresses that a configuration accepts hold no
  other.
\<close>

definition fmt_q_char :: "char \<Rightarrow> string" where
  "fmt_q_char ch =
     (if ch = CHR 0x22 \<or> ch = CHR 0x5C then [CHR 0x5C, ch]
      else case map_of [(7, CHR ''a''), (8, CHR ''b''), (12, CHR ''f''), (10, CHR ''n''), (13, CHR ''r''),
          (9, CHR ''t''), (11, CHR ''v'')] (of_char ch :: nat) of
        Some x \<Rightarrow> [CHR 0x5C, x]
      | None \<Rightarrow> if (of_char ch :: nat) < 32 \<or> (of_char ch :: nat) = 127 then CHR 0x5C # CHR ''x'' # hex_byte ch else [ch])"

definition fmt_q :: "string \<Rightarrow> string" where
  "fmt_q s = [CHR 0x22] @ concat (map fmt_q_char s) @ [CHR 0x22]"

definition register_body :: "string \<Rightarrow> string" where
  "register_body addr = ''{'' @ [CHR 0x22] @ ''addr'' @ [CHR 0x22] @ '':'' @ fmt_q addr @ ''}''"

text \<open>The requests of one turn: method, URL and body.\<close>

definition client_requests :: "discovery_config \<Rightarrow> (string \<times> string \<times> string) list" where
  "client_requests c =
     (let leader = trim_right (CHR ''/'') (dcLeaderURL c)
      in if leader = [] then []
         else (if trim_space (dcListenAddr c) \<noteq> []
             then [(''POST'', leader @ ''/discovery/register'', register_body (dcListenAddr c))] else []) @
           [(''GET'', leader @ ''/discovery/peers'', [])])"

text \<open>\<open>None\<close>: the leader did not answer. An answer is what decoding it left, whatever its error.\<close>

definition client_turn :: "env \<Rightarrow> discovery_config \<Rightarrow> discovered_peer list option \<Rightarrow> mesh_daemon \<Rightarrow> mesh_daemon" where
  "client_turn e c answer m =
     (if client_requests c = [] then m
      else case answer of None \<Rightarrow> m | Some ps \<Rightarrow> if ps = [] then m else client_poll e ps m)"

text \<open>A turn against a leader that answers: it takes the registration, then lists its table.\<close>

definition request_of :: "string \<Rightarrow> string \<times> string \<times> string \<Rightarrow> request" where
  "request_of remote q = (case q of (meth, url, body) \<Rightarrow>
     \<lparr>rqMethod = meth, rqPath = url, rqQueryH = [], rqBody = body, rqRemoteAddr = remote\<rparr>)"

fun leader_answers ::
  "api \<Rightarrow> env \<Rightarrow> string \<Rightarrow> (string \<times> string \<times> string) list \<Rightarrow> mesh_daemon \<Rightarrow> mesh_daemon \<times> discovered_peer list option" where
  "leader_answers a e remote [] l = (l, None)"
| "leader_answers a e remote (q # qs) l =
     (if fst q = ''POST'' then leader_answers a e remote qs (fst (handleDiscoveryRegister a e (request_of remote q) l))
      else case handleDiscoveryPeers (request_of remote q) l of
          PeersReply ps \<Rightarrow> (l, Some ps) | _ \<Rightarrow> (l, None))"

definition meet_leader ::
  "api \<Rightarrow> env \<Rightarrow> env \<Rightarrow> discovery_config \<Rightarrow> string \<Rightarrow> mesh_daemon \<times> mesh_daemon \<Rightarrow> mesh_daemon \<times> mesh_daemon" where
  "meet_leader a el ec c remote s =
     (case s of (m, l) \<Rightarrow> (case leader_answers a el remote (client_requests c) l of (l1, answer) \<Rightarrow>
        (client_turn ec c answer m, l1)))"

section \<open>The leader\<close>

text \<open>A network that does not parse is ignored.\<close>

definition leader_network :: "(string \<Rightarrow> (nat list \<Rightarrow> bool) option) \<Rightarrow> discovery_config \<Rightarrow> (nat list \<Rightarrow> bool) option" where
  "leader_network parseCIDR c = (if dcAllowCIDR c \<noteq> [] then parseCIDR (dcAllowCIDR c) else None)"

definition announce_targets :: "discovery_config \<Rightarrow> string list" where
  "announce_targets c = [''127.0.0.1:'' @ fmt_int (dcUDPPort c), ''255.255.255.255:'' @ fmt_int (dcUDPPort c)]"

text \<open>One tick: old sightings go and the beacon is sent to this machine and to the network.\<close>

definition leader_tick ::
  "env \<Rightarrow> discovery_config \<Rightarrow> mesh_daemon \<Rightarrow> (string, int) fmap \<Rightarrow> (string, int) fmap \<times> (beacon \<times> string) list" where
  "leader_tick e c m seen = (prune_beacons (now e) seen, map (Pair (announce_beacon e c m)) (announce_targets c))"

section \<open>The table is keyed by address\<close>

definition table_wf :: "(string, discovered_peer) fmap \<Rightarrow> bool" where
  "table_wf tab \<longleftrightarrow> (\<forall>k p. fmlookup tab k = Some p \<longrightarrow> dpAddr p = k \<and> trim_space k \<noteq> [])"

lemma table_wfD: "table_wf tab \<Longrightarrow> fmlookup tab k = Some p \<Longrightarrow> dpAddr p = k" "table_wf tab \<Longrightarrow> fmlookup tab k = Some p \<Longrightarrow> trim_space k \<noteq> []"
  by (simp_all add: table_wf_def)

lemma table_wf_empty [simp]: "table_wf fmempty"
  by (simp add: table_wf_def)

lemma sighting_wf: "table_wf tab \<Longrightarrow> trim_space addr \<noteq> [] \<Longrightarrow> table_wf (sighting t addr via tab)"
  by (auto simp: table_wf_def sighting_def split: option.splits if_splits)

lemma merge_entry_wf: "table_wf tab \<Longrightarrow> table_wf (merge_entry e self p tab)"
  by (auto simp: merge_entry_def Let_def sighting_wf) (auto simp: table_wf_def split: if_splits)

lemma on_disco_sel [simp]: "mDiscoPeers (on_disco f m) = f (mDiscoPeers m)" "mID (on_disco f m) = mID m"
  by (simp_all add: on_disco_def)

lemma learned_table_wf: "table_wf (mDiscoPeers m) \<Longrightarrow> table_wf (mDiscoPeers (discoveryLearnPeer e listen via m))"
  by (simp add: discoveryLearnPeer_def Let_def sighting_wf)

lemma registered_table_wf:
  "table_wf (mDiscoPeers m) \<Longrightarrow> table_wf (mDiscoPeers (fst (handleDiscoveryRegister a e rq m)))"
  by (simp add: handleDiscoveryRegister_def Let_def sighting_wf split: option.split sum.split)

lemma polled_table_wf: "table_wf (mDiscoPeers m) \<Longrightarrow> table_wf (mDiscoPeers (client_poll e ps m))"
proof -
  have "table_wf (fold (merge_entry e self) ps tab)" if "table_wf tab" for self tab
    using that by (induction ps arbitrary: tab) (simp_all add: merge_entry_wf)
  then show "table_wf (mDiscoPeers m) \<Longrightarrow> ?thesis" by (simp add: client_poll_def)
qed

section \<open>Reading back what was written\<close>

definition dated :: "int \<Rightarrow> discovered_peer \<Rightarrow> discovered_peer" where
  "dated t p = (if dpFirstSeen p = time_zero then p\<lparr>dpFirstSeen := t\<rparr> else p)"

lemma loaded_lookup:
  assumes "table_wf T"
  shows "fmlookup (fold (\<lambda>p tab. if trim_space (dpAddr p) = [] \<or> dpAddr p = self then tab
      else fmupd (dpAddr p) (if dpFirstSeen p = time_zero then p\<lparr>dpFirstSeen := t\<rparr> else p) tab)
    (List.map_filter (fmlookup T) ks) tab) k =
   (if k \<in> set ks \<and> k \<noteq> self \<and> fmlookup T k \<noteq> None then map_option (dated t) (fmlookup T k) else fmlookup tab k)"
proof (induction ks arbitrary: tab)
  case (Cons x ks)
  show ?case
  proof (cases "fmlookup T x")
    case None
    then show ?thesis using Cons.IH by (auto simp: map_filter_simps)
  next
    case (Some p)
    note p = table_wfD [OF assms Some]
    show ?thesis unfolding map_filter_simps Some option.case fold_Cons o_apply Cons.IH
      using p Some by (auto simp: dated_def)
  qed
qed (simp add: map_filter_simps)

lemma written_table:
  assumes "io_ok e"
  shows "fmlookup (discoveryPersist e j c m fs) (path_of (discoveryPersistPath c)) =
    Some (marshalPeers j (discoverySnapshot m))"
  using assms by (simp add: discoveryPersist_def os_WriteFile_def os_Rename_def Let_def)

text \<open>
  The table of discovered peers survives a restart: a node that loads what was
  written into an empty table has every entry again but its own, each with the day it was first
  seen, or with the time of the restart where that was not known.
\<close>

theorem discovered_peers_survive_restart:
  assumes "table_wf (mDiscoPeers m)" and "io_ok e" and "io_ok e'"
    and "unmarshalPeers j (marshalPeers j (discoverySnapshot m)) = Some (discoverySnapshot m)"
    and "mDiscoPeers m0 = fmempty"
  shows "mDiscoPeers (load_persisted e' j c (discoveryPersist e j c m fs) m0) =
    fmmap (dated (now e')) (fmdrop (mID m0) (mDiscoPeers m))"
proof (rule fmap_ext)
  fix k
  have raw: "os_ReadFile e' (discoveryPersist e j c m fs) (path_of (discoveryPersistPath c)) =
      Inr (marshalPeers j (discoverySnapshot m))"
    using assms(3) by (simp add: os_ReadFile_def written_table [OF assms(2)])
  have loaded: "load_persisted e' j c (discoveryPersist e j c m fs) m0 =
      on_disco (fold (\<lambda>p tab. if trim_space (dpAddr p) = [] \<or> dpAddr p = mID m0 then tab
          else fmupd (dpAddr p) (if dpFirstSeen p = time_zero then p\<lparr>dpFirstSeen := now e'\<rparr> else p) tab)
        (discoverySnapshot m)) m0"
    by (simp add: load_persisted_def discoveryLoadPersisted_def raw assms(4))
  show "fmlookup (mDiscoPeers (load_persisted e' j c (discoveryPersist e j c m fs) m0)) k =
    fmlookup (fmmap (dated (now e')) (fmdrop (mID m0) (mDiscoPeers m))) k"
    unfolding loaded on_disco_sel discoverySnapshot_def loaded_lookup [OF assms(1)]
    by (auto simp: assms(5) fmlookup_dom_iff)
qed

section \<open>A client and its leader\<close>

lemma merge_entry_dom: "fmdom (merge_entry e self p tab) =
  (if trim_space (dpAddr p) = [] \<or> trim_space (dpAddr p) = self then fmdom tab else finsert (trim_space (dpAddr p)) (fmdom tab))"
  by (auto simp: merge_entry_def Let_def sighting_def fmdom_notI)

lemma polled_dom: "k |\<in>| fmdom (mDiscoPeers (client_poll e ps m)) \<longleftrightarrow> k |\<in>| fmdom (mDiscoPeers m) \<or>
  (k \<noteq> [] \<and> k \<noteq> mID m \<and> (\<exists>p\<in>set ps. trim_space (dpAddr p) = k))"
proof -
  have "k |\<in>| fmdom (fold (merge_entry e self) ps tab) \<longleftrightarrow> k |\<in>| fmdom tab \<or>
      (k \<noteq> [] \<and> k \<noteq> self \<and> (\<exists>p\<in>set ps. trim_space (dpAddr p) = k))" for self tab
    by (induction ps arbitrary: tab) (auto simp: merge_entry_dom)
  then show ?thesis by (simp add: client_poll_def)
qed

lemma snapshot_entries: "set (discoverySnapshot m) = {p. \<exists>k. fmlookup (mDiscoPeers m) k = Some p}"
  unfolding discoverySnapshot_def List.map_filter_def
  by (auto simp: fmlookup_dom_iff image_iff) (metis fmdomI option.sel)

lemma registration_taken:
  assumes "decAddr (apCodec a) body = Some addr" and "length body \<le> maxJSONBodyBytes" and "body \<noteq> []"
    and "CHR '':'' \<in> set (trim_space addr)"
  shows "handleDiscoveryRegister a e (request_of remote (''POST'', url, body)) l =
    (on_disco (sighting (now e) (trim_space addr) (trim_space remote)) l, reply 200 OkTrue)"
  using assms by (auto simp: handleDiscoveryRegister_def request_of_def requireMethod_def decodeJSONBody_def Let_def)

text \<open>
  One turn of a client with a leader that answers is enough to know each other: the
  leader then has the client's listen address, the client has every address in the leader's
  table but its own, and neither forgets any.
\<close>

theorem one_turn_exchanges_peers:
  assumes "meet_leader a el ec c remote (m, l) = (m', l')" and "trim_right (CHR ''/'') (dcLeaderURL c) \<noteq> []"
    and "decAddr (apCodec a) (register_body (dcListenAddr c)) = Some (dcListenAddr c)"
    and "length (register_body (dcListenAddr c)) \<le> maxJSONBodyBytes" and "CHR '':'' \<in> set (trim_space (dcListenAddr c))"
    and "table_wf (mDiscoPeers l)"
  shows "trim_space (dcListenAddr c) |\<in>| fmdom (mDiscoPeers l') \<and>
    fmdom (mDiscoPeers l) |\<subseteq>| fmdom (mDiscoPeers l') \<and> fmdom (mDiscoPeers m) |\<subseteq>| fmdom (mDiscoPeers m') \<and>
    (\<forall>k. k |\<in>| fmdom (mDiscoPeers l') \<and> trim_space k \<noteq> mID m \<longrightarrow> trim_space k |\<in>| fmdom (mDiscoPeers m'))"
proof -
  let ?addr = "trim_space (dcListenAddr c)"
  have addr: "?addr \<noteq> []" using assms(5) by auto
  have l': "l' = on_disco (sighting (now el) ?addr (trim_space remote)) l"
    and m': "m' = client_turn ec c (Some (discoverySnapshot l')) m"
    using assms(1,2) addr registration_taken [OF assms(3,4) _ assms(5)]
    by (auto simp: meet_leader_def client_requests_def Let_def handleDiscoveryPeers_def requireMethod_def
        request_of_def register_body_def)
  have wf: "table_wf (mDiscoPeers l')" using assms(6) addr by (simp add: l' sighting_wf)
  have "?addr |\<in>| fmdom (mDiscoPeers l')" by (simp add: l' sighting_def)
  then have "discoverySnapshot l' \<noteq> []" using snapshot_entries [of l'] by (fastforce simp: fmlookup_dom_iff)
  then have "m' = client_poll ec (discoverySnapshot l') m"
    using assms(2) by (simp add: m' client_turn_def client_requests_def Let_def)
  moreover have "trim_space k \<in> trim_space ` dpAddr ` set (discoverySnapshot l') \<and> trim_space k \<noteq> []"
    if "k |\<in>| fmdom (mDiscoPeers l')" for k
    using that table_wfD [OF wf] by (force simp: snapshot_entries fmlookup_dom_iff)
  ultimately have "trim_space k |\<in>| fmdom (mDiscoPeers m')"
    if "k |\<in>| fmdom (mDiscoPeers l')" "trim_space k \<noteq> mID m" for k
    using that by (fastforce simp: polled_dom)
  moreover have "fmdom (mDiscoPeers m) |\<subseteq>| fmdom (mDiscoPeers m')"
    using \<open>m' = client_poll ec (discoverySnapshot l') m\<close> by (auto simp: polled_dom)
  moreover have "fmdom (mDiscoPeers l') = finsert ?addr (fmdom (mDiscoPeers l))" by (simp add: l' sighting_def)
  ultimately show ?thesis by auto
qed

end
