(* ===== verification/Relay.thy ===== *)
theory Relay
  imports Addr
begin

text \<open>
  Routed messages over UDP (\<open>internal/p2p/transport.go\<close>). The file is excluded from the build and the
  rest of its package - the node, its cryptography and its routing table - is not in the repository:
  they are parameters here, a record each. A datagram is the record that is sent as JSON. Theorems: a
  message follows its route to the destination within its hop limit and no further; a node that
  has keys takes unencrypted messages; and on a route of more than one hop a message that is encrypted
  for its destination is dropped by the first relay.
\<close>

section \<open>Data\<close>

record mesh_message =
  mmFromID :: string
  mmToID :: string
  mmHops :: int
  mmMaxHops :: int
  mmPayload :: string
  mmReceivedAt :: int

record datagram =
  dgType :: string
  dgFromID :: string
  dgToID :: string
  dgHops :: int
  dgMaxHops :: int
  dgCiphertext :: string

record node_crypto =
  EncryptForPeer :: "string \<Rightarrow> string \<Rightarrow> (string \<times> string) option"
  DecryptFromPeer :: "string \<Rightarrow> string \<Rightarrow> string \<Rightarrow> string option"

record node =
  nID :: string
  nCrypto :: "node_crypto option"
  nRoutes :: "(string \<Rightarrow> string option) option"
  nInbox :: "mesh_message list"
  nMsgsIn :: int
  nMsgsRelay :: int

text \<open>What can go wrong between a message and the wire; \<open>udp\<close> tells which of them an address gives.\<close>

datatype send_error = EncryptFailed string | ResolveFailed string | DialFailed string | UdpWriteFailed string
  | NoRoutingTable | NoRoute string

type_synonym udp = "string \<Rightarrow> send_error option"

definition udp_up :: udp where "udp_up = (\<lambda>_. None)"

lemma udp_up: "udp_up x = None"
  by (simp add: udp_up_def)

section \<open>Operations\<close>

definition encryptForPeer :: "node \<Rightarrow> string \<Rightarrow> string \<Rightarrow> string option" where
  "encryptForPeer n toPeer plain =
     (case nCrypto n of None \<Rightarrow> Some plain
      | Some k \<Rightarrow> (case EncryptForPeer k toPeer plain of None \<Rightarrow> None
          | Some (nonce, cipher) \<Rightarrow> Some (nonce @ '':'' @ cipher)))"

definition decryptFromPeer :: "node \<Rightarrow> string \<Rightarrow> string \<Rightarrow> string option" where
  "decryptFromPeer n fromPeer data =
     (case nCrypto n of None \<Rightarrow> Some data
      | Some k \<Rightarrow>
          if CHR '':'' \<notin> set data then Some data
          else DecryptFromPeer k fromPeer (takeWhile (\<lambda>ch. ch \<noteq> CHR '':'') data)
            (tl (dropWhile (\<lambda>ch. ch \<noteq> CHR '':'') data)))"

definition messageAddrFromGossip :: "string \<Rightarrow> string" where
  "messageAddrFromGossip gossipAddr =
     (case SplitHostPort gossipAddr of Inl _ \<Rightarrow> gossipAddr
      | Inr (host, portStr) \<Rightarrow>
          (case Atoi portStr of None \<Rightarrow> gossipAddr | Some p \<Rightarrow> host @ '':'' @ fmt_int (p + 1000)))"

definition forwardMessage ::
  "udp \<Rightarrow> node \<Rightarrow> mesh_message \<Rightarrow> string \<Rightarrow> send_error + node \<times> datagram \<times> string" where
  "forwardMessage udp n msg nextHop =
     (case encryptForPeer n (mmToID msg) (mmPayload msg) of None \<Rightarrow> Inl (EncryptFailed (mmToID msg))
      | Some ciphertext \<Rightarrow>
          let wm = \<lparr>dgType = ''msg'', dgFromID = mmFromID msg, dgToID = mmToID msg, dgHops = mmHops msg,
                dgMaxHops = mmMaxHops msg, dgCiphertext = ciphertext\<rparr>;
              msgAddr = messageAddrFromGossip nextHop
          in case udp msgAddr of Some err \<Rightarrow> Inl err
             | None \<Rightarrow> Inr (n\<lparr>nMsgsRelay := nMsgsRelay n + 1\<rparr>, wm, msgAddr))"

definition addToInbox :: "mesh_message \<Rightarrow> node \<Rightarrow> node" where
  "addToInbox msg n = n\<lparr>nMsgsIn := nMsgsIn n + 1, nInbox := nInbox n @ [msg]\<rparr>"

definition hop_limit :: "int \<Rightarrow> int" where
  "hop_limit maxHops = (if maxHops \<le> 0 then 8 else maxHops)"

text \<open>The time is in seconds. The result is the node and the datagram it sends on, if it does.\<close>

definition handleIncomingMessage :: "udp \<Rightarrow> int \<Rightarrow> node \<Rightarrow> mesh_message \<Rightarrow> node \<times> (datagram \<times> string) option" where
  "handleIncomingMessage udp t n msg0 =
     (let msg = msg0\<lparr>mmMaxHops := hop_limit (mmMaxHops msg0)\<rparr>
      in if mmMaxHops msg \<le> mmHops msg then (n, None)
         else if mmToID msg = nID n then (addToInbox (msg\<lparr>mmReceivedAt := t\<rparr>) n, None)
         else case nRoutes n of None \<Rightarrow> (n, None)
           | Some routes \<Rightarrow>
               (case routes (mmToID msg) of None \<Rightarrow> (n, None)
                | Some nextHop \<Rightarrow>
                    (case forwardMessage udp n (msg\<lparr>mmHops := mmHops msg + 1\<rparr>) nextHop of
                       Inl _ \<Rightarrow> (n, None) | Inr (n', out) \<Rightarrow> (n', Some out))))"

text \<open>One datagram that decodes, in the loop of \<open>runMessageTransport\<close>.\<close>

definition receive_datagram :: "udp \<Rightarrow> int \<Rightarrow> node \<Rightarrow> datagram \<Rightarrow> node \<times> (datagram \<times> string) option" where
  "receive_datagram udp t n wm =
     (if dgType wm \<noteq> ''msg'' then (n, None)
      else case decryptFromPeer n (dgFromID wm) (dgCiphertext wm) of None \<Rightarrow> (n, None)
        | Some plain \<Rightarrow> handleIncomingMessage udp t n
            \<lparr>mmFromID = dgFromID wm, mmToID = dgToID wm, mmHops = dgHops wm, mmMaxHops = dgMaxHops wm,
             mmPayload = plain, mmReceivedAt = 0\<rparr>)"

definition SendMessage :: "udp \<Rightarrow> node \<Rightarrow> string \<Rightarrow> string \<Rightarrow> int \<Rightarrow> send_error + node \<times> datagram \<times> string" where
  "SendMessage udp n toID payload maxHops =
     (case nRoutes n of None \<Rightarrow> Inl NoRoutingTable
      | Some routes \<Rightarrow>
          (case routes toID of None \<Rightarrow> Inl (NoRoute toID)
           | Some nextHop \<Rightarrow> forwardMessage udp n
               \<lparr>mmFromID = nID n, mmToID = toID, mmHops = 0, mmMaxHops = hop_limit maxHops,
                mmPayload = payload, mmReceivedAt = 0\<rparr> nextHop))"

definition InboxSnapshot :: "node \<Rightarrow> mesh_message list" where
  "InboxSnapshot n = nInbox n"

section \<open>The network\<close>

text \<open>A datagram on its way through nodes at their message addresses, with the addresses it reaches.\<close>

lemma sent_on:
  assumes "receive_datagram udp t n wm = (n', Some (wm', addr'))"
  shows "dgHops wm < hop_limit (dgMaxHops wm)" "dgHops wm' = dgHops wm + 1"
    "dgMaxHops wm' = hop_limit (dgMaxHops wm)" "hop_limit (dgMaxHops wm') = hop_limit (dgMaxHops wm)"
  using assms
  by (auto simp: receive_datagram_def handleIncomingMessage_def forwardMessage_def hop_limit_def Let_def
      split: if_splits option.splits sum.splits prod.splits)

lemma sent_on_less:
  assumes "receive_datagram udp t n wm = (n', Some (wm', addr'))"
  shows "dgHops wm < hop_limit (dgMaxHops wm) \<and>
    hop_limit (dgMaxHops wm') - dgHops wm' < hop_limit (dgMaxHops wm) - dgHops wm"
  using sent_on [OF assms] by simp

function travel ::
  "udp \<Rightarrow> int \<Rightarrow> datagram \<Rightarrow> string \<Rightarrow> (string, node) fmap \<Rightarrow> (string, node) fmap \<times> string list" where
  "travel udp t wm addr net =
     (case fmlookup net addr of None \<Rightarrow> (net, [])
      | Some n \<Rightarrow>
          (case receive_datagram udp t n wm of
             (n', None) \<Rightarrow> (fmupd addr n' net, [addr])
           | (n', Some (wm', addr')) \<Rightarrow> map_prod id (Cons addr) (travel udp t wm' addr' (fmupd addr n' net))))"
  by pat_completeness auto
termination
  by (relation "measure (\<lambda>(udp, t, wm, addr, net). nat (hop_limit (dgMaxHops wm) - dgHops wm))")
    (auto dest!: sent_on_less [OF sym])

declare travel.simps [simp del]

section \<open>Hops\<close>

lemma travel_visits: "length (snd (travel udp t wm addr net)) \<le> nat (hop_limit (dgMaxHops wm) - dgHops wm) + 1"
proof (induction udp t wm addr net rule: travel.induct)
  case (1 udp t wm addr net)
  show ?case
  proof (cases "fmlookup net addr")
    case None
    then show ?thesis by (simp add: travel.simps)
  next
    case (Some n)
    obtain n' out where r: "receive_datagram udp t n wm = (n', out)" by fastforce
    show ?thesis
    proof (cases out)
      case None
      with Some r show ?thesis by (simp add: travel.simps)
    next
      case out: (Some x)
      obtain wm' addr' where x: "x = (wm', addr')" by fastforce
      note on = sent_on [OF r [unfolded out x]]
      from "1.IH" [OF Some r [symmetric] _ x [symmetric]] on show ?thesis
        using Some r out x by (simp add: travel.simps [of udp t wm addr net])
    qed
  qed
qed

section \<open>Delivery\<close>

inductive route_to :: "(string, node) fmap \<Rightarrow> string \<Rightarrow> string \<Rightarrow> nat \<Rightarrow> bool" for net dest where
  arrived: "fmlookup net a = Some n \<Longrightarrow> nID n = dest \<Longrightarrow> route_to net dest a 0"
| relayed: "fmlookup net a = Some n \<Longrightarrow> nID n \<noteq> dest \<Longrightarrow> nRoutes n = Some routes \<Longrightarrow> routes dest = Some hop \<Longrightarrow>
    route_to net dest (messageAddrFromGossip hop) k \<Longrightarrow> route_to net dest a (Suc k)"

definition plain_net :: "(string, node) fmap \<Rightarrow> bool" where
  "plain_net net \<longleftrightarrow> (\<forall>a n. fmlookup net a = Some n \<longrightarrow> nCrypto n = None)"

lemma route_to_relay:
  "route_to net dest b k \<Longrightarrow> fmlookup net a = Some n \<Longrightarrow>
   route_to (fmupd a (n\<lparr>nMsgsRelay := x\<rparr>) net) dest b k"
proof (induction rule: route_to.induct)
  case (arrived c n')
  then show ?case by (cases "c = a") (auto intro: route_to.arrived)
next
  case (relayed c n' routes hop k)
  then show ?case
    by (cases "c = a")
      (auto intro: route_to.relayed [of _ c n'] route_to.relayed [of "fmupd a (n'\<lparr>nMsgsRelay := x\<rparr>) net" a "n'\<lparr>nMsgsRelay := x\<rparr>"])
qed

text \<open>The message a node puts in its inbox when it is the destination.\<close>

definition delivered :: "int \<Rightarrow> datagram \<Rightarrow> string \<Rightarrow> nat \<Rightarrow> mesh_message" where
  "delivered t wm payload k = \<lparr>mmFromID = dgFromID wm, mmToID = dgToID wm, mmHops = dgHops wm + int k,
     mmMaxHops = hop_limit (dgMaxHops wm), mmPayload = payload, mmReceivedAt = t\<rparr>"

lemma receive_here:
  assumes "dgType wm = ''msg''" and "dgHops wm < hop_limit (dgMaxHops wm)" and "dgToID wm = nID n"
    and "decryptFromPeer n (dgFromID wm) (dgCiphertext wm) = Some payload"
  shows "receive_datagram udp t n wm = (addToInbox (delivered t wm payload 0) n, None)"
  using assms by (simp add: receive_datagram_def handleIncomingMessage_def Let_def delivered_def)

lemma receive_relay:
  assumes "dgType wm = ''msg''" and "dgHops wm < hop_limit (dgMaxHops wm)" and "dgToID wm \<noteq> nID n"
    and "nCrypto n = None" and "nRoutes n = Some routes" and "routes (dgToID wm) = Some hop"
    and "udp (messageAddrFromGossip hop) = None"
  shows "receive_datagram udp t n wm = (n\<lparr>nMsgsRelay := nMsgsRelay n + 1\<rparr>,
    Some (wm\<lparr>dgHops := dgHops wm + 1, dgMaxHops := hop_limit (dgMaxHops wm)\<rparr>, messageAddrFromGossip hop))"
  using assms by (cases wm) (simp add: receive_datagram_def handleIncomingMessage_def forwardMessage_def Let_def
      decryptFromPeer_def encryptForPeer_def)

lemma travel_delivers:
  assumes "route_to net (dgToID wm) a k" and "plain_net net" and "dgType wm = ''msg''"
    and "dgHops wm + int k < hop_limit (dgMaxHops wm)"
  shows "\<exists>b n n'. fmlookup net b = Some n \<and> nID n = dgToID wm \<and>
    fmlookup (fst (travel udp_up t wm a net)) b = Some n' \<and> nInbox n' = nInbox n @ [delivered t wm (dgCiphertext wm) k] \<and>
    length (snd (travel udp_up t wm a net)) = Suc k"
  using assms
proof (induction k arbitrary: a net wm rule: nat_induct)
  case 0
  from 0(1) obtain n where n: "fmlookup net a = Some n" "nID n = dgToID wm" by (cases rule: route_to.cases) auto
  have "decryptFromPeer n (dgFromID wm) (dgCiphertext wm) = Some (dgCiphertext wm)"
    using 0(2) n(1) by (simp add: decryptFromPeer_def plain_net_def)
  with 0(3,4) n(2) have "receive_datagram udp_up t n wm = (addToInbox (delivered t wm (dgCiphertext wm) 0) n, None)"
    by (intro receive_here) simp_all
  then have "travel udp_up t wm a net = (fmupd a (addToInbox (delivered t wm (dgCiphertext wm) 0) n) net, [a])"
    using n(1) by (simp add: travel.simps)
  with n show ?case by (intro exI [of _ a]) (simp add: addToInbox_def)
next
  case (Suc k)
  from Suc.prems(1) obtain n routes hop where n: "fmlookup net a = Some n" "nID n \<noteq> dgToID wm" "nRoutes n = Some routes"
    "routes (dgToID wm) = Some hop" and rest: "route_to net (dgToID wm) (messageAddrFromGossip hop) k"
    by (cases rule: route_to.cases) auto
  let ?n = "n\<lparr>nMsgsRelay := nMsgsRelay n + 1\<rparr>" and ?b = "messageAddrFromGossip hop"
  let ?wm = "wm\<lparr>dgHops := dgHops wm + 1, dgMaxHops := hop_limit (dgMaxHops wm)\<rparr>" and ?net = "fmupd a ?n net"
  have c: "nCrypto n = None" using Suc.prems(2) n(1) by (simp add: plain_net_def)
  have r: "receive_datagram udp_up t n wm = (?n, Some (?wm, ?b))"
    using Suc.prems n c by (intro receive_relay [where routes = routes]) (auto simp: udp_up)
  have lim: "hop_limit (hop_limit x) = hop_limit x" for x by (simp add: hop_limit_def)
  have "\<exists>b m m'. fmlookup ?net b = Some m \<and> nID m = dgToID ?wm \<and> fmlookup (fst (travel udp_up t ?wm ?b ?net)) b = Some m' \<and>
      nInbox m' = nInbox m @ [delivered t ?wm (dgCiphertext ?wm) k] \<and> length (snd (travel udp_up t ?wm ?b ?net)) = Suc k"
    using Suc.prems c route_to_relay [OF rest n(1)] by (intro Suc.IH) (auto simp: plain_net_def lim)
  then obtain b m m' where m: "fmlookup ?net b = Some m" "nID m = dgToID wm" "fmlookup (fst (travel udp_up t ?wm ?b ?net)) b = Some m'"
    "nInbox m' = nInbox m @ [delivered t ?wm (dgCiphertext wm) k]" "length (snd (travel udp_up t ?wm ?b ?net)) = Suc k" by auto
  have "b \<noteq> a" using m(1,2) n(2) by auto
  moreover have "delivered t ?wm (dgCiphertext wm) k = delivered t wm (dgCiphertext wm) (Suc k)"
    by (simp add: delivered_def lim)
  ultimately show ?case
    using m r n(1) by (intro exI [of _ b]) (simp add: travel.simps [of udp_up t wm a net])
qed

text \<open>
  In a mesh without encryption a message that is sent follows the routing tables to its
  destination, as long as the route has no more relays than the hop limit allows: the destination's
  inbox ends with the payload and the sender, and only the nodes on the route have seen it.
\<close>

theorem routed_message_arrives:
  assumes "SendMessage udp_up s dest payload maxHops = Inr (s', wm, addr)" and "nCrypto s = None" and "plain_net net"
    and "route_to net dest addr k" and "int k < hop_limit maxHops"
  shows "\<exists>b n n' msg. fmlookup net b = Some n \<and> nID n = dest \<and> fmlookup (fst (travel udp_up t wm addr net)) b = Some n' \<and>
    InboxSnapshot n' = InboxSnapshot n @ [msg] \<and> mmPayload msg = payload \<and> mmFromID msg = nID s \<and> mmHops msg = int k \<and>
    length (snd (travel udp_up t wm addr net)) = Suc k"
proof -
  have wm: "dgType wm = ''msg''" "dgFromID wm = nID s" "dgToID wm = dest" "dgHops wm = 0"
    "dgMaxHops wm = hop_limit maxHops" "dgCiphertext wm = payload"
    using assms(1,2) by (auto simp: SendMessage_def forwardMessage_def encryptForPeer_def Let_def split: option.splits)
  have "hop_limit (hop_limit maxHops) = hop_limit maxHops" by (simp add: hop_limit_def)
  then show ?thesis
    using travel_delivers [of net wm addr k t] assms(3-5) wm by (fastforce simp: InboxSnapshot_def delivered_def)
qed

section \<open>Keys\<close>

lemma split_nonce:
  assumes "CHR '':'' \<notin> set nonce"
  shows "takeWhile (\<lambda>ch. ch \<noteq> CHR '':'') (nonce @ CHR '':'' # cipher) = nonce"
    "dropWhile (\<lambda>ch. ch \<noteq> CHR '':'') (nonce @ CHR '':'' # cipher) = CHR '':'' # cipher"
  using assms by (induction nonce) auto

lemma sealed_roundtrip:
  assumes "nCrypto s = Some ks" and "EncryptForPeer ks dest plain = Some (nonce, cipher)" and "CHR '':'' \<notin> set nonce"
    and "nCrypto d = Some kd" and "DecryptFromPeer kd (nID s) nonce cipher = Some plain"
  shows "\<exists>data. encryptForPeer s dest plain = Some data \<and> decryptFromPeer d (nID s) data = Some plain"
  using assms by (simp add: encryptForPeer_def decryptFromPeer_def split_nonce)

text \<open>A node that has keys still takes what was sent without them.\<close>

lemma unencrypted_message_taken:
  assumes "nCrypto n = Some keys" and "CHR '':'' \<notin> set (dgCiphertext wm)" and "dgType wm = ''msg''"
    and "dgToID wm = nID n" and "dgHops wm < hop_limit (dgMaxHops wm)"
  shows "receive_datagram udp t n wm = (addToInbox (delivered t wm (dgCiphertext wm) 0) n, None)"
  using assms by (intro receive_here) (simp_all add: decryptFromPeer_def)

text \<open>
  With keys, a message goes no further than one hop: a sender encrypts for the destination, but
  every node on the way decrypts before it forwards, so the first relay - whose keys do not open what is
  encrypted for another - drops the message.
\<close>

theorem encrypted_message_stops_at_relay:
  assumes "SendMessage udp s dest payload maxHops = Inr (s', wm, addr)" and "nCrypto s = Some ks"
    and "EncryptForPeer ks dest payload = Some (nonce, cipher)" and "CHR '':'' \<notin> set nonce"
    and "fmlookup net addr = Some r" and "nCrypto r = Some kr" and "DecryptFromPeer kr (nID s) nonce cipher = None"
  shows "travel udp t wm addr net = (net, [addr])"
proof -
  have wm: "dgType wm = ''msg''" "dgFromID wm = nID s" "dgCiphertext wm = nonce @ CHR '':'' # cipher"
    using assms(1-3)
    by (auto simp: SendMessage_def forwardMessage_def encryptForPeer_def Let_def split: option.splits)
  then have "decryptFromPeer r (dgFromID wm) (dgCiphertext wm) = None"
    using assms(4,6,7) by (simp add: decryptFromPeer_def split_nonce)
  then have "receive_datagram udp t r wm = (r, None)" by (simp add: receive_datagram_def)
  moreover have "fmupd addr r net = net" using assms(5) by (intro fmap_ext) auto
  ultimately show ?thesis using assms(5) by (simp add: travel.simps)
qed

text \<open>The message address of an IPv6 gossip address loses its brackets and is no address.\<close>

lemma ipv6_message_address:
  assumes "SplitHostPort a = Inr (host, port)" and "CHR '':'' \<in> set host" and "Atoi port = Some p" and "0 \<le> p"
  shows "SplitHostPort (messageAddrFromGossip a) = Inl TooManyColons"
proof -
  let ?p = "fmt_int (p + 1000)"
  have m: "messageAddrFromGossip a = host @ CHR '':'' # ?p" using assms by (simp add: messageAddrFromGossip_def)
  have "split_last_colon (host @ CHR '':'' # ?p) = Some (host, ?p)"
    using fmt_int_port [of "p + 1000"] assms(4) by (simp add: split_last_colon_Some)
  moreover have "take 1 (host @ CHR '':'' # ?p) \<noteq> ''[''"
    using split_port_free [OF assms(1)] by (cases host) (auto simp: port_free_def)
  ultimately show ?thesis using assms(2) by (simp add: m SplitHostPort_def)
qed

end
