(* ===== verification/Blackctl.thy ===== *)
theory Blackctl
  imports Wallet Api
begin

text \<open>
  The operator's command \<open>cmd/blackctl/main.go\<close> with its flags parsed: the wallet commands and the
  requests to a node. The node is a parameter that answers requests one after the other - a status
  and a body, or no answer; \<open>node_server\<close> is the node of \<open>Api\<close> in that place. Theorems: a
  transaction the command sends reaches the mempool, and the block command never shows a block.
\<close>

section \<open>Parameters\<close>

record ctl_flags =
  flAddr :: string
  flHeight :: i64
  flWalletNew :: string
  flWalletShow :: string
  flWallet :: string
  flTo :: string
  flAmount :: i64
  flFee :: i64

text \<open>
  \<open>sscan\<close> is \<open>fmt.Sscan\<close> into a number, which leaves the variable as it was (\<open>None\<close>) on text it cannot
  read; \<open>decBalances\<close> what decoding the balances leaves in the map, an error ignored; \<open>encTx\<close> the
  JSON of a transaction.
\<close>

record ctl_lib =
  sscan :: "string \<Rightarrow> i64 option"
  decBalances :: "string \<Rightarrow> accounts"
  encTx :: "tx \<Rightarrow> string"

type_synonym 's server = "string \<Rightarrow> string \<Rightarrow> string \<Rightarrow> 's \<Rightarrow> 's \<times> (nat \<times> string) option"

datatype ctl_panic = WalletPanic wallet_error | ArgumentPanic string | SignPanic tx_error | RequestPanic

datatype ctl_result = Printed "string list" | Panics ctl_panic | UsageShown

section \<open>Commands\<close>

definition default_addr :: "string \<Rightarrow> string" where
  "default_addr envAPI = (if trim_space envAPI \<noteq> [] then trim_space envAPI else ''http://127.0.0.1:6060'')"

definition normalizeAPIBase :: "string \<Rightarrow> string" where
  "normalizeAPIBase addr =
     (let base = trim_space addr
      in if has_prefix ''http://'' base \<or> has_prefix ''https://'' base then base else ''http://'' @ base)"

definition show_address :: "wallet_error + wallet \<Rightarrow> ctl_result" where
  "show_address r = (case r of Inl err \<Rightarrow> Panics (WalletPanic err) | Inr w \<Rightarrow> Printed [wAddress w])"

definition show_wallet :: "wallet_error + wallet \<Rightarrow> ctl_result" where
  "show_wallet r = (case r of Inl err \<Rightarrow> Panics (WalletPanic err)
     | Inr w \<Rightarrow> Printed [''address: '' @ wAddress w, ''pub: '' @ wPubHex w])"

text \<open>The wallet commands, by position or by flag; \<open>None\<close>: it is none of them.\<close>

definition ctl_wallet :: "env \<Rightarrow> ctl_flags \<Rightarrow> string list \<Rightarrow> files \<Rightarrow> (files \<times> ctl_result) option" where
  "ctl_wallet e fl args fs =
     (let new = (\<lambda>p. case LoadOrCreateWallet e fs (path_of p) of (fs1, r) \<Rightarrow> (fs1, show_address r))
      in if 2 \<le> length args \<and> args ! 0 = ''wallet-new'' then Some (new (args ! 1))
         else if 2 \<le> length args \<and> args ! 0 = ''wallet-show''
         then Some (fs, show_wallet (LoadWallet e fs (path_of (args ! 1))))
         else if 2 \<le> length args \<and> args ! 0 = ''wallet-addr''
         then Some (fs, show_address (LoadWallet e fs (path_of (args ! 1))))
         else if flWalletNew fl \<noteq> [] then Some (new (flWalletNew fl))
         else if flWalletShow fl \<noteq> [] then Some (fs, show_wallet (LoadWallet e fs (path_of (flWalletShow fl))))
         else None)"

text \<open>A request whose answer is printed, after some lines of heading.\<close>

definition ctl_request :: "'s server \<Rightarrow> string \<Rightarrow> string \<Rightarrow> string \<Rightarrow> string list \<Rightarrow> 's \<Rightarrow> 's \<times> ctl_result" where
  "ctl_request srv meth url body heading s =
     (case srv meth url body s of (s1, None) \<Rightarrow> (s1, Panics RequestPanic)
      | (s1, Some (code, out)) \<Rightarrow> (s1, Printed (heading @ [out])))"

text \<open>Flags that follow the command are not parsed; the loop picks those of a payment from the arguments.\<close>

definition scan_arg :: "ctl_lib \<Rightarrow> string \<Rightarrow> string \<Rightarrow> ctl_flags \<Rightarrow> ctl_flags" where
  "scan_arg k x y fl =
     (let f1 = (if flWallet fl = [] \<and> x = ''--wallet'' then fl\<lparr>flWallet := y\<rparr> else fl);
          f2 = (if flTo f1 = [] \<and> x = ''--to'' then f1\<lparr>flTo := y\<rparr> else f1);
          f3 = (if flAmount f2 = 0 \<and> x = ''--amount''
            then f2\<lparr>flAmount := (case sscan k y of None \<Rightarrow> flAmount f2 | Some n \<Rightarrow> n)\<rparr> else f2)
      in if flFee f3 = 1 \<and> x = ''--fee'' then f3\<lparr>flFee := (case sscan k y of None \<Rightarrow> flFee f3 | Some n \<Rightarrow> n)\<rparr> else f3)"

fun scan_args :: "ctl_lib \<Rightarrow> string list \<Rightarrow> ctl_flags \<Rightarrow> ctl_flags" where
  "scan_args k (x # y # rest) fl = scan_args k (y # rest) (scan_arg k x y fl)"
| "scan_args k _ fl = fl"

definition ctl_tx :: "ctl_lib \<Rightarrow> env \<Rightarrow> 's server \<Rightarrow> string \<Rightarrow> ctl_flags \<Rightarrow> string list \<Rightarrow> files \<Rightarrow> 's \<Rightarrow> 's \<times> ctl_result" where
  "ctl_tx k e srv base fl0 args fs s =
     (let fl = scan_args k args fl0
      in if flWallet fl = [] then (s, Panics (ArgumentPanic ''missing --wallet''))
         else if flTo fl = [] then (s, Panics (ArgumentPanic ''missing --to''))
         else if sle (flAmount fl) 0 then (s, Panics (ArgumentPanic ''bad --amount''))
         else if slt (flFee fl) 0 then (s, Panics (ArgumentPanic ''bad --fee''))
         else case LoadWallet e fs (path_of (flWallet fl)) of Inl err \<Rightarrow> (s, Panics (WalletPanic err))
           | Inr w \<Rightarrow>
               (case srv ''GET'' (base @ ''/chain/balances'') [] s of (s1, None) \<Rightarrow> (s1, Panics RequestPanic)
                | (s1, Some (code, out)) \<Rightarrow>
                    let acct = getAccount (decBalances k out) (wAddress w)
                    in case SignTx e (wAddress w) (flTo fl) (flAmount fl) (Nonce acct) (flFee fl) (wPubHex w) (wPrivHex w) of
                         Inl err \<Rightarrow> (s1, Panics (SignPanic err))
                       | Inr t \<Rightarrow> ctl_request srv ''POST'' (base @ ''/chain/tx'') (encTx k t) [] s1))"

text \<open>The height to show: the flag, or the third argument.\<close>

definition block_height :: "ctl_lib \<Rightarrow> ctl_flags \<Rightarrow> string list \<Rightarrow> i64" where
  "block_height k fl args =
     (if flHeight fl = 0 \<and> 3 \<le> length args
      then (case sscan k (args ! 2) of None \<Rightarrow> flHeight fl | Some n \<Rightarrow> n) else flHeight fl)"

definition ctl_block :: "ctl_lib \<Rightarrow> 's server \<Rightarrow> string \<Rightarrow> ctl_flags \<Rightarrow> string list \<Rightarrow> 's \<Rightarrow> 's \<times> ctl_result" where
  "ctl_block k srv base fl args s =
     (let h = block_height k fl args
      in if sle h 0
         then (s, Panics (ArgumentPanic ''missing block height (use: chain block --height 1 OR chain block 1)''))
         else case srv ''GET'' (base @ ''/chain/block?height='' @ fmtInt h) [] s of
             (s1, None) \<Rightarrow> (s1, Panics RequestPanic)
           | (s1, Some (code, out)) \<Rightarrow>
               if code = 404 then ctl_request srv ''GET'' (base @ ''/chain/block/'' @ fmtInt h) [] [] s1
               else (s1, Printed [out]))"

definition ctl_chain :: "ctl_lib \<Rightarrow> env \<Rightarrow> 's server \<Rightarrow> ctl_flags \<Rightarrow> string list \<Rightarrow> files \<Rightarrow> 's \<Rightarrow> 's \<times> ctl_result" where
  "ctl_chain k e srv fl args fs s =
     (if length args < 2 \<or> args ! 0 \<noteq> ''chain'' then (s, UsageShown)
      else let cmd = args ! 1; base = normalizeAPIBase (flAddr fl)
      in if cmd = ''height'' then ctl_request srv ''GET'' (base @ ''/chain/height'') [] [] s
         else if cmd = ''status'' then ctl_request srv ''GET'' (base @ ''/chain/status'') [] [] s
         else if cmd = ''peers'' then ctl_request srv ''GET'' (base @ ''/peers'') [] [] s
         else if cmd = ''topology''
         then ctl_request srv ''GET'' (base @ ''/peers'') []
           [''BlackChain Network Topology'', ''==========================''] s
         else if cmd = ''tx'' then ctl_tx k e srv base fl args fs s
         else if cmd = ''propose'' then ctl_request srv ''POST'' (base @ ''/chain/propose'') ''{}'' [] s
         else if cmd = ''block'' then ctl_block k srv base fl args s
         else (s, UsageShown))"

definition blackctl_main ::
  "ctl_lib \<Rightarrow> env \<Rightarrow> 's server \<Rightarrow> ctl_flags \<Rightarrow> string list \<Rightarrow> files \<times> 's \<Rightarrow> (files \<times> 's) \<times> ctl_result" where
  "blackctl_main k e srv fl args st =
     (case st of (fs, s) \<Rightarrow>
        (case ctl_wallet e fl args fs of Some (fs1, r) \<Rightarrow> ((fs1, s), r)
         | None \<Rightarrow> (case ctl_chain k e srv fl args fs s of (s1, r) \<Rightarrow> ((fs, s1), r))))"

section \<open>The node at the other end\<close>

text \<open>The value of a key in a query, \<open>URL.Query().Get\<close> on text without escapes.\<close>

definition query_value :: "string \<Rightarrow> string \<Rightarrow> string" where
  "query_value key q = (case filter (\<lambda>p. takeWhile (\<lambda>ch. ch \<noteq> CHR ''='') p = key) (split_on (CHR ''&'') q) of
     [] \<Rightarrow> [] | p # _ \<Rightarrow> tl (dropWhile (\<lambda>ch. ch \<noteq> CHR ''='') p))"

definition url_request :: "string \<Rightarrow> string \<Rightarrow> string \<Rightarrow> string \<Rightarrow> string \<Rightarrow> request" where
  "url_request base remote meth url body =
     (let target = drop (length base) url
      in \<lparr>rqMethod = meth, rqPath = takeWhile (\<lambda>ch. ch \<noteq> CHR ''?'') target,
          rqQueryH = query_value ''h'' (tl (dropWhile (\<lambda>ch. ch \<noteq> CHR ''?'') target)),
          rqBody = body, rqRemoteAddr = remote\<rparr>)"

definition node_server :: "api \<Rightarrow> env \<Rightarrow> (payload \<Rightarrow> string) \<Rightarrow> string \<Rightarrow> string \<Rightarrow> mesh_daemon server" where
  "node_server a e render base remote meth url body m =
     (case serve a e (url_request base remote meth url body) m of Hangs \<Rightarrow> (m, None)
      | Answer m1 r \<Rightarrow> (m1, Some (rsCode r, render (rsPayload r))))"

section \<open>Reading a block\<close>

lemma serve_unlimited:
  assumes "\<not> has_prefix ''/debug/'' (rqPath rq)" and "\<And>ip cost. allow (apCodec a) ip cost"
  shows "serve a e rq m = route a e rq m"
  using assms by (simp add: serve_def Let_def)

lemma split_on_none: "d \<notin> set s \<Longrightarrow> split_on d s = [s]"
  by (induction s) auto

lemma block_query: "CHR ''&'' \<notin> set s \<Longrightarrow> query_value ''h'' (''height='' @ s) = []"
  "CHR ''&'' \<notin> set s \<Longrightarrow> query_value ''h'' (''h='' @ s) = s"
  by (simp_all add: query_value_def split_on_none)

lemma fmtInt_no_amp: "CHR ''&'' \<notin> set (fmtInt h)" "CHR ''?'' \<notin> set (fmtInt h)"
  using fmt_nat_digits [of "nat (- sint h)"] fmt_nat_digits [of "nat (sint h)"]
  by (auto simp: fmtInt_def fmt_int_def is_digit_def)

text \<open>The request for a block with its height under either name.\<close>

lemma block_requests:
  fixes base remote :: string and h :: i64
  assumes "\<And>ip cost. allow (apCodec a) ip cost"
  shows "node_server a e render base remote ''GET'' (base @ ''/chain/block?height='' @ fmtInt h) [] m =
      (m, Some (400, render (ApiError ''missing_height'' (Message ''missing height''))))"
    and "0 < sint h \<Longrightarrow> fmlookup (chBlocks (mChain m)) (sint h) = Some b \<Longrightarrow>
      node_server a e render base remote ''GET'' (base @ ''/chain/block?h='' @ fmtInt h) [] m = (m, Some (200, render (BlockBody b)))"
proof -
  let ?rq = "\<lambda>q. url_request base remote ''GET'' (base @ ''/chain/block?'' @ q) []"
  have rq: "rqMethod (?rq q) = ''GET''" "rqPath (?rq q) = ''/chain/block''" "rqQueryH (?rq q) = query_value ''h'' q" for q
    by (simp_all add: url_request_def Let_def)
  have serve: "serve a e (?rq q) m = Answer m (get_block (?rq q) m)" for q
    using serve_unlimited [of "?rq q" a e m] assms rq [of q]
    by (simp add: route_def Let_def guarded_def requireMethod_def has_prefix_def)
  note query = block_query [OF fmtInt_no_amp(1) [of h]]
  have "get_block (?rq (''height='' @ fmtInt h)) m = writeAPIError 400 ''missing_height'' (Message ''missing height'')"
    unfolding get_block_def rq query by simp
  then show "node_server a e render base remote ''GET'' (base @ ''/chain/block?height='' @ fmtInt h) [] m =
      (m, Some (400, render (ApiError ''missing_height'' (Message ''missing height''))))"
    using serve [of "''height='' @ fmtInt h"] by (simp add: node_server_def writeAPIError_def)
  assume h: "0 < sint h" and b: "fmlookup (chBlocks (mChain m)) (sint h) = Some b"
  have atoi: "Atoi (fmtInt h) = Some (sint h)"
    using Atoi_fmt [of "sint h"] h sint_lt [of h] by (simp add: fmtInt_def)
  then have "fmtInt h \<noteq> []" by (auto simp: Atoi_def parse_nat_def)
  with atoi b have "get_block (?rq (''h='' @ fmtInt h)) m = reply 200 (BlockBody b)"
    unfolding get_block_def rq query by simp
  then show "node_server a e render base remote ''GET'' (base @ ''/chain/block?h='' @ fmtInt h) [] m = (m, Some (200, render (BlockBody b)))"
    using serve [of "''h='' @ fmtInt h"] by (simp add: node_server_def)
qed

text \<open>
  C37 (error): \<open>blackctl chain block\<close> never shows a block. Without a positive height it panics before
  it asks. With one it asks a node (one whose limiter lets the request pass) for the height under
  a name the node does not read, and prints the node's complaint that the height is missing, which
  is not the answer on which it would try again - although the node holds the block and answers
  with it when the height comes under the name \<open>h\<close>.
\<close>

theorem block_command_shows_no_block:
  fixes base remote :: string and args :: "string list" and h :: i64
  assumes "base = normalizeAPIBase (flAddr fl)" and "srv = node_server a e render base remote"
    and "h = block_height k fl (''chain'' # ''block'' # args)" and "\<And>ip cost. allow (apCodec a) ip cost"
  shows "ctl_chain k e srv fl (''chain'' # ''block'' # args) fs m =
      (m, if 0 < sint h then Printed [render (ApiError ''missing_height'' (Message ''missing height''))]
          else Panics (ArgumentPanic ''missing block height (use: chain block --height 1 OR chain block 1)'')) \<and>
    (\<forall>b. 0 < sint h \<and> fmlookup (chBlocks (mChain m)) (sint h) = Some b \<longrightarrow>
      srv ''GET'' (base @ ''/chain/block?h='' @ fmtInt h) [] m = (m, Some (200, render (BlockBody b))))"
proof -
  have "ctl_chain k e srv fl (''chain'' # ''block'' # args) fs m = ctl_block k srv base fl (''chain'' # ''block'' # args) m"
    by (simp add: ctl_chain_def assms(1) Let_def)
  also have "\<dots> = (m, if 0 < sint h then Printed [render (ApiError ''missing_height'' (Message ''missing height''))]
          else Panics (ArgumentPanic ''missing block height (use: chain block --height 1 OR chain block 1)''))"
    using block_requests(1) [OF assms(4)] by (simp add: ctl_block_def Let_def assms(2) not_le flip: assms(3))
  finally show ?thesis using block_requests(2) [OF assms(4)] assms(2) by blast
qed

section \<open>Paying\<close>

lemma hex_decode_length: "hex_decode s = Some r \<Longrightarrow> length s = 2 * length r"
  by (induction s arbitrary: r rule: hex_decode.induct) (auto split: option.splits)

lemma SignTx_made:
  assumes "crypto_ok e" and "to \<noteq> []" "slt 0 amount" "sle 0 nonce" and "hex_decode priv = Some sk" "length sk = 64"
    and "hex_decode pub = Some (ed_public e sk)" and "AddressFromPubHex e pub = Some addr"
  shows "\<exists>t. SignTx e addr to amount nonce fee pub priv = Inr t \<and> txFrom t = addr \<and> txTo t = to \<and> txAmount t = amount \<and>
    txFee t = fee \<and> (length to \<le> 256 \<longrightarrow> \<not> fieldTooLarge t)"
proof -
  have len: "length (ed_public e sk) = 32" using crypto_okD(2) [OF assms(1,6)] .
  then have a: "addrFromPubHex e pub = Inr addr" using assms(7,8) by (simp add: addrFromPubHex_wallet)
  then have "length addr = 40" using addrFromPubHex_length [OF assms(1)] by simp
  moreover have "length (ed_sign e sk x) = 64" for x using crypto_okD(3) [OF assms(1,6)] .
  moreover have "length pub = 64" using hex_decode_length [OF assms(7)] len by simp
  ultimately show ?thesis using assms len a
    by (auto simp: SignTx_def Let_def fieldTooLarge_def not_le not_less)
qed

text \<open>The two requests of a payment, at the node.\<close>

lemma get_balances_served:
  assumes "\<And>ip cost. allow (apCodec a) ip cost"
  shows "node_server a e render base remote ''GET'' (base @ ''/chain/balances'') [] m =
    (m, Some (200, render (BalancesBody (chAccounts (mChain m)))))"
proof -
  let ?rq = "url_request base remote ''GET'' (base @ ''/chain/balances'') []"
  have rq: "rqMethod ?rq = ''GET''" "rqPath ?rq = ''/chain/balances''" by (simp_all add: url_request_def Let_def)
  have "\<not> has_prefix ''/debug/'' (rqPath ?rq)" unfolding rq(2) has_prefix_def by simp
  then have "serve a e ?rq m = Answer m (get_balances m)"
    using serve_unlimited [of ?rq a] assms rq by (simp add: route_def Let_def guarded_def requireMethod_def)
  then show ?thesis by (simp add: node_server_def get_balances_def)
qed

lemma post_tx_served:
  assumes "\<And>ip cost. allow (apCodec a) ip cost" and "decTx (apCodec a) body = Some t"
    and "length body \<le> maxJSONBodyBytes" and "body \<noteq> []" and "addTxToMempoolLocked e (mChain m) t = (c, None)"
  shows "node_server a e render base remote ''POST'' (base @ ''/chain/tx'') body m =
    (set_chain c m, Some (200, render OkTrue))"
proof -
  let ?rq = "url_request base remote ''POST'' (base @ ''/chain/tx'') body"
  have rq: "rqMethod ?rq = ''POST''" "rqPath ?rq = ''/chain/tx''" "rqBody ?rq = body"
    by (simp_all add: url_request_def Let_def)
  have "\<not> has_prefix ''/debug/'' (rqPath ?rq)" unfolding rq(2) has_prefix_def by simp
  then have "serve a e ?rq m = answer_pair (post_tx a e ?rq m)"
    using serve_unlimited [of ?rq a] assms(1) rq by (simp add: route_def Let_def guarded_def requireMethod_def)
  then show ?thesis
    using assms(2-5) rq by (simp add: node_server_def post_tx_def decodeJSONBody_def answer_pair_def)
qed

text \<open>
  C36 (functional): \<open>blackctl chain tx\<close> pays: with a wallet whose keys match, at a node whose mempool is empty and
  whose account of the sender covers amount and fee, the command - which takes the nonce from the node's
  balances - prints the node's consent, and the node holds the payment as it was asked for.
\<close>

theorem tx_command_pays:
  assumes "crypto_ok e" and srv: "srv = node_server a e render (normalizeAPIBase (flAddr fl)) remote"
    and fl: "fl' = scan_args k (''chain'' # ''tx'' # args) fl"
    and w: "flWallet fl' \<noteq> []" "LoadWallet e fs (path_of (flWallet fl')) = Inr w"
    and keys: "hex_decode (wPrivHex w) = Some sk" "length sk = 64" "hex_decode (wPubHex w) = Some (ed_public e sk)"
    and to: "flTo fl' \<noteq> []" "flTo fl' \<noteq> wAddress w" "length (flTo fl') \<le> 256"
    and amount: "slt 0 (flAmount fl')" "sle BaseFee (flFee fl')"
      "sle (flAmount fl' + flFee fl') (Balance (getAccount (chAccounts (mChain m)) (wAddress w)))"
      "sle 0 (Nonce (getAccount (chAccounts (mChain m)) (wAddress w)))"
    and empty: "chMempool (mChain m) = []" "chMempoolIDs (mChain m) = {||}" "chMempoolSenderNonce (mChain m) = fmempty"
    and json: "decBalances k (render (BalancesBody (chAccounts (mChain m)))) = chAccounts (mChain m)"
      "\<And>t. SignTx e (wAddress w) (flTo fl') (flAmount fl') (Nonce (getAccount (chAccounts (mChain m)) (wAddress w))) (flFee fl')
        (wPubHex w) (wPrivHex w) = Inr t \<Longrightarrow>
        decTx (apCodec a) (encTx k t) = Some t \<and> encTx k t \<noteq> [] \<and> length (encTx k t) \<le> maxJSONBodyBytes"
    and limit: "\<And>ip cost. allow (apCodec a) ip cost"
  shows "\<exists>m' t. ctl_chain k e srv fl (''chain'' # ''tx'' # args) fs m = (m', Printed [render OkTrue]) \<and>
    t \<in> set (chMempool (mChain m')) \<and> txFrom t = wAddress w \<and> txTo t = flTo fl' \<and>
    txAmount t = flAmount fl' \<and> txFee t = flFee fl'"
proof -
  let ?base = "normalizeAPIBase (flAddr fl)" and ?nonce = "Nonce (getAccount (chAccounts (mChain m)) (wAddress w))"
  have addr: "AddressFromPubHex e (wPubHex w) = Some (wAddress w)" using loaded_ok [OF w(2)] by (simp add: wallet_ok_def)
  obtain t where t: "SignTx e (wAddress w) (flTo fl') (flAmount fl') ?nonce (flFee fl') (wPubHex w) (wPrivHex w) = Inr t"
    and f: "txFrom t = wAddress w" "txTo t = flTo fl'" "txAmount t = flAmount fl'" "txFee t = flFee fl'" "\<not> fieldTooLarge t"
    using SignTx_made [OF assms(1) to(1) amount(1,4) keys addr] to(3) by blast
  have fee: "sle 0 (flFee fl')" using amount(2) by (simp add: BaseFee_def)
  obtain c where c: "addTxToMempoolLocked e (mChain m) t = (c, None)" "t \<in> set (chMempool c)"
    using signed_tx_admitted [OF assms(1) t keys(1,3), of "mChain m"] to(2) f amount fee empty
    by (auto simp: MaxMempoolTxs_def)
  have "ctl_chain k e srv fl (''chain'' # ''tx'' # args) fs m = ctl_tx k e srv ?base fl (''chain'' # ''tx'' # args) fs m"
    by (simp add: ctl_chain_def Let_def)
  also have "\<dots> = ctl_request srv ''POST'' (?base @ ''/chain/tx'') (encTx k t) [] m"
    unfolding ctl_tx_def fl [symmetric] Let_def srv get_balances_served [OF limit]
    using w to(1) amount(1) fee t by (simp add: json(1) not_le not_less)
  also have "\<dots> = (set_chain c m, Printed [render OkTrue])"
    using post_tx_served [OF limit _ _ _ c(1)] json(2) [OF t] by (simp add: ctl_request_def srv)
  finally show ?thesis using c(2) f by (auto simp: set_chain_def)
qed

end
