(* ===== verification/Unwired.thy ===== *)
theory Unwired
  imports Wallet Snapshot Float64 Api
begin

text \<open>
  Parts of the repository that nothing in the node calls: the handlers that hand a snapshot over
  (\<open>snapshot_http.go\<close>, with the body reader and the request ids of \<open>http_guardrails.go\<close>), two more key
  files (\<open>node_keys.go\<close>, \<open>identity.go\<close>), the identity of \<open>crypto/identity.go\<close>, the scored table of
  peers (\<open>store/peers.go\<close>) and the UDP sender of \<open>router/router.go\<close>.
\<close>

section \<open>Bodies and request ids\<close>

definition maxSnapshotBodyBytes :: nat where "maxSnapshotBodyBytes = 2097152"

text \<open>\<open>None\<close> as a body: reading it failed.\<close>

datatype read_error = ReadTooLarge nat | ReadFailed | ReadEmpty

definition readBodyBytes :: "nat \<Rightarrow> string option \<Rightarrow> read_error + string" where
  "readBodyBytes limit body =
     (case body of None \<Rightarrow> Inl ReadFailed
      | Some raw \<Rightarrow>
          if limit < length raw then Inl (ReadTooLarge limit)
          else if trim_space raw = [] then Inl ReadEmpty else Inr raw)"

text \<open>Twelve random bytes, if there are any.\<close>

definition newRequestID :: "string option \<Rightarrow> string" where
  "newRequestID random = (case random of None \<Rightarrow> ''req-fallback'' | Some b \<Rightarrow> hex_encode (take 12 b))"

definition withRequestID :: "string option \<Rightarrow> string \<Rightarrow> string" where
  "withRequestID random header = (if trim_space header = [] then newRequestID random else trim_space header)"

lemma request_id_nonempty: "(\<And>b. random = Some b \<Longrightarrow> b \<noteq> []) \<Longrightarrow> withRequestID random header \<noteq> []"
  by (cases random) (auto simp: withRequestID_def newRequestID_def hex_encode_nonempty)

section \<open>Snapshots over HTTP\<close>

datatype snapshot_reply = SnapRefused response | SnapBody string | SnapBadBody read_error | SnapRejected snapshot_error | SnapTaken bool

definition get_snapshot :: "env \<Rightarrow> request \<Rightarrow> chain \<Rightarrow> snapshot_reply" where
  "get_snapshot e rq c =
     (case requireMethod ''GET'' rq of Some r \<Rightarrow> SnapRefused r
      | None \<Rightarrow> SnapBody (marshalSnapshot e (ExportSnapshotLocked e c)))"

definition apply_snapshot :: "env \<Rightarrow> request \<Rightarrow> string option \<Rightarrow> chain \<Rightarrow> chain \<times> snapshot_reply" where
  "apply_snapshot e rq body c =
     (case requireMethod ''POST'' rq of Some r \<Rightarrow> (c, SnapRefused r)
      | None \<Rightarrow>
          (case readBodyBytes maxSnapshotBodyBytes body of Inl err \<Rightarrow> (c, SnapBadBody err)
           | Inr raw \<Rightarrow>
               (case LoadSnapshotFromBytes e c raw of
                  (c1, Inl err) \<Rightarrow> (c1, SnapRejected err) | (c1, Inr ok) \<Rightarrow> (c1, SnapTaken ok))))"

section \<open>Key files\<close>

record node_keys =
  nkPublicKey :: string
  nkPrivateKey :: string

record keys_json =
  marshalNodeKeys :: "node_keys \<Rightarrow> string"
  unmarshalNodeKeys :: "string \<Rightarrow> node_keys option"

datatype keys_error = KeysSyntax | KeysGen | KeysFile io_error | KeysEmptyDir | KeysRead io_error

text \<open>Whatever keeps the file from being read, a new key is made and written over it.\<close>

definition LoadOrCreateNodeKeys :: "keys_json \<Rightarrow> env \<Rightarrow> files \<Rightarrow> string \<Rightarrow> files \<times> (keys_error + node_keys)" where
  "LoadOrCreateNodeKeys j e fs dataDir =
     (let p = (dataDir, ''nodekey.json'')
      in case os_ReadFile e fs p of
           Inr raw \<Rightarrow> (fs, case unmarshalNodeKeys j raw of None \<Rightarrow> Inl KeysSyntax | Some k \<Rightarrow> Inr k)
         | Inl _ \<Rightarrow>
             (case gen_key e of None \<Rightarrow> (fs, Inl KeysGen)
              | Some (pub, priv) \<Rightarrow>
                  let k = \<lparr>nkPublicKey = hex_encode pub, nkPrivateKey = hex_encode priv\<rparr>
                  in if io_fails e MkdirAll (dataDir, []) then (fs, Inl (KeysFile (IOFailure MkdirAll)))
                     else case os_WriteFile e fs p (marshalNodeKeys j k) of
                         (Some err, fs1) \<Rightarrow> (fs1, Inl (KeysFile err)) | (None, fs1) \<Rightarrow> (fs1, Inr k)))"

definition DecodePrivateKey :: "string \<Rightarrow> string option" where
  "DecodePrivateKey hexkey = hex_decode hexkey"

definition DecodePublicKey :: "string \<Rightarrow> string option" where
  "DecodePublicKey hexkey = hex_decode hexkey"

record identity =
  idID :: string
  idPriv :: string
  idPub :: string

record identity_json =
  marshalIdentity :: "identity \<Rightarrow> string"
  unmarshalIdentity :: "string \<Rightarrow> identity option"

definition loadOrCreateIdentity :: "identity_json \<Rightarrow> env \<Rightarrow> files \<Rightarrow> string \<Rightarrow> files \<times> (keys_error + identity)" where
  "loadOrCreateIdentity j e fs dataDir =
     (let p = (dataDir, ''identity.json'')
      in if dataDir = [] then (fs, Inl KeysEmptyDir)
         else if os_Stat e fs p = None
         then (fs, case os_ReadFile e fs p of Inl err \<Rightarrow> Inl (KeysRead err)
             | Inr raw \<Rightarrow> (case unmarshalIdentity j raw of None \<Rightarrow> Inl KeysSyntax | Some i \<Rightarrow> Inr i))
         else case gen_key e of None \<Rightarrow> (fs, Inl KeysGen)
           | Some (pub, priv) \<Rightarrow>
               let i = \<lparr>idID = hex_encode pub, idPriv = priv, idPub = pub\<rparr>
               in if io_fails e MkdirAll (dataDir, []) then (fs, Inl (KeysFile (IOFailure MkdirAll)))
                  else case os_WriteFile e fs p (marshalIdentity j i) of
                      (Some err, fs1) \<Rightarrow> (fs1, Inl (KeysFile err)) | (None, fs1) \<Rightarrow> (fs1, Inr i))"

text \<open>The node id is the first eight bytes of the public key.\<close>

definition NewIdentity :: "env \<Rightarrow> identity option" where
  "NewIdentity e = (case gen_key e of None \<Rightarrow> None
     | Some (pub, priv) \<Rightarrow> Some \<lparr>idID = take 16 (hex_encode pub), idPriv = priv, idPub = pub\<rparr>)"

section \<open>The scored table of peers\<close>

record scored_peer =
  spID :: string
  spAddress :: string
  spLastSeen :: int
  spScore :: rat

type_synonym peer_store = "(string, scored_peer) fmap"

definition NewPeerStore :: peer_store where "NewPeerStore = fmempty"

definition Upsert :: "scored_peer \<Rightarrow> peer_store \<Rightarrow> peer_store" where
  "Upsert p ps = fmupd (spAddress p) p ps"

text \<open>Go lists the peers in any order, the model by address.\<close>

definition All :: "peer_store \<Rightarrow> scored_peer list" where
  "All ps = List.map_filter (fmlookup ps) (sorted_list_of_fset (fmdom ps))"

definition BumpScore :: "string \<Rightarrow> rat \<Rightarrow> peer_store \<Rightarrow> peer_store" where
  "BumpScore addr delta ps =
     (case fmlookup ps addr of None \<Rightarrow> ps
      | Some p \<Rightarrow> let score = rnd64 (spScore p + delta)
          in if score < - 3 then fmdrop addr ps else fmupd addr (p\<lparr>spScore := score\<rparr>) ps)"

definition PruneOlderThan :: "int \<Rightarrow> peer_store \<Rightarrow> peer_store \<times> nat" where
  "PruneOlderThan cutoff ps =
     (let old = ffilter (\<lambda>a. case fmlookup ps a of None \<Rightarrow> False | Some p \<Rightarrow> spLastSeen p < cutoff) (fmdom ps)
      in (fmdrop_fset old ps, fcard old))"

section \<open>The UDP sender\<close>

text \<open>A target that does not resolve or connect is passed over: writing to a nil connection fails quietly.\<close>

definition router_gossip :: "(string \<Rightarrow> bool) \<Rightarrow> string \<Rightarrow> string list \<Rightarrow> (string \<times> string) list" where
  "router_gossip dials data targets = map (\<lambda>t. (data, t)) (filter dials targets)"

section \<open>Lemmas\<close>

lemma node_keys_kept:
  assumes "LoadOrCreateNodeKeys j e fs d = (fs1, Inr k)" and "\<not> io_fails e ReadFile (d, ''nodekey.json'')"
    and "unmarshalNodeKeys j (marshalNodeKeys j k) = Some k"
  shows "LoadOrCreateNodeKeys j e fs1 d = (fs1, Inr k)"
proof (cases "os_ReadFile e fs (d, ''nodekey.json'')")
  case (Inr raw)
  with assms(1) show ?thesis by (auto simp: LoadOrCreateNodeKeys_def split: option.splits)
next
  case (Inl err)
  then have "fmlookup fs1 (d, ''nodekey.json'') = Some (marshalNodeKeys j k)"
    using assms(1)
    by (auto simp: LoadOrCreateNodeKeys_def os_WriteFile_def Let_def split: option.splits prod.splits if_splits)
  with assms(2,3) show ?thesis by (simp add: LoadOrCreateNodeKeys_def os_ReadFile_def)
qed

text \<open>A key file that cannot be read for a moment is overwritten with another key.\<close>

lemma unreadable_key_replaced:
  assumes "io_fails e ReadFile (d, ''nodekey.json'')" and "gen_key e = Some (pub, priv)"
    and "\<And>opr p. opr \<noteq> ReadFile \<Longrightarrow> \<not> io_fails e opr p"
  shows "fmlookup (fst (LoadOrCreateNodeKeys j e fs d)) (d, ''nodekey.json'') =
    Some (marshalNodeKeys j \<lparr>nkPublicKey = hex_encode pub, nkPrivateKey = hex_encode priv\<rparr>)"
  using assms by (simp add: LoadOrCreateNodeKeys_def os_ReadFile_def os_WriteFile_def Let_def)

lemma made_node_keys_decode:
  assumes "crypto_ok e" "gen_key_ok e" and "fmlookup fs (d, ''nodekey.json'') = None"
    and "LoadOrCreateNodeKeys j e fs d = (fs1, Inr k)"
  shows "\<exists>priv. DecodePrivateKey (nkPrivateKey k) = Some priv \<and> length priv = 64 \<and> DecodePublicKey (nkPublicKey k) = Some (ed_public e priv)"
proof -
  obtain pub priv where g: "gen_key e = Some (pub, priv)" and k: "k = \<lparr>nkPublicKey = hex_encode pub, nkPrivateKey = hex_encode priv\<rparr>"
    using assms(3,4)
    by (auto simp: LoadOrCreateNodeKeys_def os_ReadFile_def Let_def split: option.splits prod.splits if_splits)
  with assms(2) show ?thesis
    by (auto simp: gen_key_ok_def DecodePrivateKey_def DecodePublicKey_def hex_decode_encode)
qed

lemma identity_kept:
  assumes "loadOrCreateIdentity j e fs d = (fs1, Inr i)" and "io_ok e"
    and "unmarshalIdentity j (marshalIdentity j i) = Some i"
  shows "loadOrCreateIdentity j e fs1 d = (fs1, Inr i)"
proof (cases "os_Stat e fs (d, ''identity.json'') = None")
  case True
  with assms(1) show ?thesis
    by (auto simp: loadOrCreateIdentity_def Let_def split: option.splits if_splits sum.splits)
next
  case False
  then have "fmlookup fs1 (d, ''identity.json'') = Some (marshalIdentity j i)" "d \<noteq> []"
    using assms(1)
    by (auto simp: loadOrCreateIdentity_def os_WriteFile_def Let_def split: option.splits prod.splits if_splits)
  with assms(2,3) show ?thesis by (auto simp: loadOrCreateIdentity_def Let_def os_ReadFile_def os_Stat_def fmdomI)
qed

text \<open>Every peer in the store has a score of at least minus three, once it was scored, and its own address.\<close>

definition store_ok :: "peer_store \<Rightarrow> bool" where
  "store_ok ps \<longleftrightarrow> (\<forall>a p. fmlookup ps a = Some p \<longrightarrow> spAddress p = a \<and> - 3 \<le> spScore p)"

lemma store_ok_steps:
  "store_ok NewPeerStore" "store_ok ps \<Longrightarrow> - 3 \<le> spScore p \<Longrightarrow> store_ok (Upsert p ps)"
  "store_ok ps \<Longrightarrow> store_ok (BumpScore addr delta ps)" "store_ok ps \<Longrightarrow> store_ok (fst (PruneOlderThan cutoff ps))"
  by (auto simp: store_ok_def NewPeerStore_def Upsert_def BumpScore_def PruneOlderThan_def Let_def
      split: option.splits if_splits)

lemma PruneOlderThan_keeps:
  "fmlookup (fst (PruneOlderThan cutoff ps)) a = Some p \<longleftrightarrow> fmlookup ps a = Some p \<and> cutoff \<le> spLastSeen p"
  by (auto simp: PruneOlderThan_def Let_def fmlookup_dom_iff not_less split: option.splits)

section \<open>Properties\<close>

text \<open>
  A snapshot taken from one node and posted to another makes the second a copy: it has the first
  one's height, tip and accounts, no blocks and an empty mempool; a body beyond the limit changes nothing.
\<close>

theorem snapshot_handover:
  assumes "crypto_ok e" and "account_error (chAccounts c) = None"
    and "unmarshalSnapshot e (marshalSnapshot e (ExportSnapshotLocked e c)) = Some (ExportSnapshotLocked e c)"
    and "trim_space (marshalSnapshot e (ExportSnapshotLocked e c)) \<noteq> []"
    and "rqMethod rq = ''GET''" and "rqMethod rq' = ''POST''" and "get_snapshot e rq c = SnapBody raw"
    and "apply_snapshot e rq' (Some raw) c0 = (c1, reply1)"
  shows "if length raw \<le> maxSnapshotBodyBytes
    then reply1 = SnapTaken True \<and> chHeight c1 = chHeight c \<and> chTip c1 = chTip c \<and> chAccounts c1 = chAccounts c \<and>
      chBlocks c1 = fmempty \<and> chMempool c1 = []
    else c1 = c0 \<and> reply1 = SnapBadBody (ReadTooLarge maxSnapshotBodyBytes)"
proof -
  have raw: "raw = marshalSnapshot e (ExportSnapshotLocked e c)"
    using assms(5,7) by (simp add: get_snapshot_def requireMethod_def)
  obtain c' where c': "LoadSnapshotFromBytes e c0 raw = (c', Inr True)" "chHeight c' = chHeight c" "chTip c' = chTip c"
    "chAccounts c' = chAccounts c" "chBlocks c' = fmempty" "chMempool c' = []"
    using snapshot_copies [OF assms(1-4), of c0] unfolding raw by blast
  show ?thesis
    using assms(4,6,8) c' by (auto simp: apply_snapshot_def requireMethod_def readBodyBytes_def raw [symmetric] split: if_splits)
qed

end
