(* ===== verification/Transport.thy ===== *)
theory Transport
  imports Certificates Discovery
begin

text \<open>
  Connections between nodes: the TLS settings of the mesh (\<open>transport_tls.go\<close>) and of the node's own
  HTTPS clients (\<open>http_tls.go\<close>), sending one message (\<open>gossip.go\<close>), the classification of network
  errors, and the loops of the daemon that only dial, wait or stop (\<open>daemon_bridge.go\<close>,
  \<open>chain_sync.go\<close>). Theorems: a mesh with TLS is mutually authenticated, and nodes on one machine
  trust each other's HTTP certificates.
\<close>

section \<open>TLS settings\<close>

text \<open>
  A pool of trusted certificates: whether it starts from the system's, and the texts that were
  added to it.
\<close>

record cert_pool =
  poolSystem :: bool
  poolTexts :: "string list"

record tls_config =
  tcMinVersion12 :: bool
  tcSkipVerify :: bool
  tcPair :: "(string \<times> string) option"
  tcRootCAs :: "cert_pool option"
  tcClientCAs :: "cert_pool option"
  tcRequireClientCert :: bool

text \<open>\<open>Inr None\<close> is the nil configuration of a mesh without TLS.\<close>

definition tlsConfigFrom :: "tls_lib \<Rightarrow> env \<Rightarrow> files \<Rightarrow> mesh_tls option \<Rightarrow> bool \<Rightarrow> tls_error + tls_config option" where
  "tlsConfigFrom l e fs mt isServer =
     (case mt of None \<Rightarrow> Inr None
      | Some t \<Rightarrow>
          if \<not> Enabled t then Inr None
          else case validate_mesh_tls l e fs t of Some err \<Rightarrow> Inl err
            | None \<Rightarrow>
                (case (os_ReadFile e fs (path_of (CertFile t)), os_ReadFile e fs (path_of (KeyFile t))) of
                   (Inr cert, Inr key) \<Rightarrow>
                     if \<not> key_pair_loads l cert key then Inl TlsBadPair
                     else (case os_ReadFile e fs (path_of (CAFile t)) of Inl err \<Rightarrow> Inl (TlsReadCA err)
                       | Inr ca \<Rightarrow>
                           if \<not> pem_ca l ca then Inl TlsBadCA
                           else let pool = \<lparr>poolSystem = False, poolTexts = [ca]\<rparr>
                             in Inr (Some \<lparr>tcMinVersion12 = True, tcSkipVerify = False, tcPair = Some (cert, key),
                               tcRootCAs = Some pool, tcClientCAs = Some pool, tcRequireClientCert = isServer\<rparr>))
                 | _ \<Rightarrow> Inl TlsBadPair))"

text \<open>What a listener or a connection runs over: TCP as it is, or TLS with a configuration.\<close>

datatype transport = Plain | Secured tls_config

text \<open>\<open>net_fails\<close> is the failure of the network on an address, if there is one.\<close>

datatype mesh_error = TlsProblem tls_error | NetProblem string

definition over_net :: "(string \<Rightarrow> string option) \<Rightarrow> string \<Rightarrow> transport \<Rightarrow> mesh_error + transport" where
  "over_net net_fails addr tr = (case net_fails addr of None \<Rightarrow> Inr tr | Some err \<Rightarrow> Inl (NetProblem err))"

definition mesh_transport ::
  "tls_lib \<Rightarrow> env \<Rightarrow> files \<Rightarrow> (string \<Rightarrow> string option) \<Rightarrow> string \<Rightarrow> mesh_tls option \<Rightarrow> bool \<Rightarrow> mesh_error + transport" where
  "mesh_transport l e fs net_fails addr mt isServer =
     (case tlsConfigFrom l e fs mt isServer of
        Inl err \<Rightarrow> Inl (TlsProblem err)
      | Inr None \<Rightarrow> over_net net_fails addr Plain
      | Inr (Some tc) \<Rightarrow> over_net net_fails addr (Secured tc))"

definition meshListen :: "tls_lib \<Rightarrow> env \<Rightarrow> files \<Rightarrow> (string \<Rightarrow> string option) \<Rightarrow> string \<Rightarrow> mesh_tls option \<Rightarrow> mesh_error + transport" where
  "meshListen l e fs net_fails addr mt = mesh_transport l e fs net_fails addr mt True"

definition meshDialTimeout :: "tls_lib \<Rightarrow> env \<Rightarrow> files \<Rightarrow> (string \<Rightarrow> string option) \<Rightarrow> string \<Rightarrow> mesh_tls option \<Rightarrow> mesh_error + transport" where
  "meshDialTimeout l e fs net_fails addr mt = mesh_transport l e fs net_fails addr mt False"

section \<open>HTTPS clients of the node and of its command\<close>

text \<open>The value of the environment variable \<open>BLACKCHAIN_DEV_INSECURE_HTTP\<close>, compared as ASCII.\<close>

definition allowDevInsecureHTTP :: "string \<Rightarrow> bool" where
  "allowDevInsecureHTTP var = (let v = trim_space var
     in v = ''1'' \<or> map lower_char v = ''true'' \<or> map lower_char v = ''yes'')"

definition insecureInternalTLSConfig :: tls_config where
  "insecureInternalTLSConfig = \<lparr>tcMinVersion12 = True, tcSkipVerify = True, tcPair = None, tcRootCAs = None,
     tcClientCAs = None, tcRequireClientCert = False\<rparr>"

definition verifying :: "cert_pool \<Rightarrow> tls_config" where
  "verifying pool = \<lparr>tcMinVersion12 = True, tcSkipVerify = False, tcPair = None, tcRootCAs = Some pool,
     tcClientCAs = None, tcRequireClientCert = False\<rparr>"

text \<open>A CA file is added if it can be read and holds a certificate.\<close>

definition add_ca :: "tls_lib \<Rightarrow> env \<Rightarrow> files \<Rightarrow> path \<Rightarrow> cert_pool \<Rightarrow> tls_error + cert_pool" where
  "add_ca l e fs p pool =
     (case os_ReadFile e fs p of Inl err \<Rightarrow> Inl (TlsReadCA err)
      | Inr ca \<Rightarrow> if pem_ca l ca then Inr (pool\<lparr>poolTexts := poolTexts pool @ [ca]\<rparr>) else Inl TlsBadCA)"

datatype client_error = ClientTls tls_error | NoTrustRoots

text \<open>\<open>sys\<close>: whether the system's pool could be read. Making the shared authority may write its files.\<close>

definition newInternalTLSConfig ::
  "tls_lib \<Rightarrow> env \<Rightarrow> string \<Rightarrow> bool \<Rightarrow> files \<Rightarrow> string \<Rightarrow> mesh_tls option \<Rightarrow> files \<times> (client_error + tls_config)" where
  "newInternalTLSConfig l e var sys fs dataDir mt =
     (let pool = \<lparr>poolSystem = sys, poolTexts = []\<rparr>;
          done = (\<lambda>fs1 p. (fs1, case add_ca l e fs1 p pool of Inl err \<Rightarrow> Inl (ClientTls err) | Inr pool1 \<Rightarrow> Inr (verifying pool1)))
      in if allowDevInsecureHTTP var then (fs, Inr insecureInternalTLSConfig)
         else case mt of
           Some t \<Rightarrow>
             if Enabled t \<and> CAFile t \<noteq> [] then done fs (path_of (CAFile t))
             else if dataDir \<noteq> []
             then (case sharedHTTPCAPaths dataDir of (caCert, caKey) \<Rightarrow>
                 (case loadOrCreateSharedHTTPCA l e fs caCert caKey of (fs1, Inl err) \<Rightarrow> (fs1, Inl (ClientTls err))
                  | (fs1, Inr _) \<Rightarrow> done fs1 caCert))
             else (fs, Inl NoTrustRoots)
         | None \<Rightarrow>
             if dataDir \<noteq> []
             then (case sharedHTTPCAPaths dataDir of (caCert, caKey) \<Rightarrow>
                 (case loadOrCreateSharedHTTPCA l e fs caCert caKey of (fs1, Inl err) \<Rightarrow> (fs1, Inl (ClientTls err))
                  | (fs1, Inr _) \<Rightarrow> done fs1 caCert))
             else (fs, Inl NoTrustRoots))"

text \<open>The command takes the first of its CA files that loads, and none is an error.\<close>

fun first_ca :: "tls_lib \<Rightarrow> env \<Rightarrow> files \<Rightarrow> string list \<Rightarrow> cert_pool \<Rightarrow> cert_pool" where
  "first_ca l e fs [] pool = pool"
| "first_ca l e fs (p # ps) pool =
     (if p = [] then first_ca l e fs ps pool
      else case add_ca l e fs (path_of p) pool of Inr pool1 \<Rightarrow> pool1 | Inl _ \<Rightarrow> first_ca l e fs ps pool)"

definition InsecureBlackctlTLSConfig :: "tls_lib \<Rightarrow> env \<Rightarrow> string \<Rightarrow> string \<Rightarrow> bool \<Rightarrow> files \<Rightarrow> tls_config" where
  "InsecureBlackctlTLSConfig l e var caFile sys fs =
     (if allowDevInsecureHTTP var then insecureInternalTLSConfig
      else verifying (first_ca l e fs [trim_space caFile, ''tls/ca.pem'', ''/etc/blackchain/tls/ca.pem'', ''data/http_ca.pem'']
        \<lparr>poolSystem = sys, poolTexts = []\<rparr>))"

section \<open>Network errors\<close>

text \<open>A Go error by its text and by whether it is, or wraps, the end of input.\<close>

record go_error =
  errText :: string
  errIsEOF :: bool

fun contains :: "string \<Rightarrow> string \<Rightarrow> bool" where
  "contains sub [] \<longleftrightarrow> sub = []"
| "contains sub (ch # s) \<longleftrightarrow> has_prefix sub (ch # s) \<or> contains sub s"

definition isBenignJSONPeerErr :: "go_error option \<Rightarrow> bool" where
  "isBenignJSONPeerErr err = (case err of None \<Rightarrow> False
     | Some x \<Rightarrow> errIsEOF x \<or> (\<exists>sub\<in>set [''unexpected end of JSON input'', ''unexpected EOF'', ''connection reset by peer'',
         ''broken pipe'', ''context deadline exceeded'', ''i/o timeout'']. contains sub (errText x)))"

definition benignHandleIncomingErr :: "go_error option \<Rightarrow> bool" where
  "benignHandleIncomingErr err = (case err of None \<Rightarrow> False
     | Some x \<Rightarrow> errIsEOF x \<or> (\<exists>sub\<in>set [''unexpected end of JSON input'', ''unexpected EOF'', ''connection reset by peer'',
         ''broken pipe'', ''i/o timeout'']. contains sub (errText x)))"

section \<open>Loops of the daemon\<close>

text \<open>
  The gate before the sync loop: it waits, longer each time, until a peer is reachable. The states
  of the peer table that the turns see are the list.
\<close>

fun sync_gate :: "int \<Rightarrow> (mesh_daemon \<times> int) list \<Rightarrow> int list \<times> bool" where
  "sync_gate failures [] = ([], False)"
| "sync_gate failures ((m, t) # rest) =
     (if reachablePeersForSync m t \<noteq> [] then ([], True)
      else case sync_gate (failures + 1) rest of (delays, opened) \<Rightarrow> (nextRetryDelay (failures + 1) # delays, opened))"

text \<open>
  One turn of the loop that dials every peer in the table; unlike the loop of the bootstrap peers
  it asks for no back-off.
\<close>

definition dial_all :: "env \<Rightarrow> (string \<Rightarrow> bool) \<Rightarrow> mesh_daemon \<Rightarrow> mesh_daemon" where
  "dial_all e dial m =
     fold (\<lambda>addr. TouchReachable e addr (dial addr))
       (filter (\<lambda>addr. addr \<noteq> []) (map trim_space (sorted_list_of_fset (fmdom (mPeers m))))) m"

text \<open>\<open>Shutdown\<close>: once, and every later call returns what the first one found.\<close>

record shutdown_state =
  sdCalled :: bool
  sdErr :: "string option"

definition Shutdown ::
  "string option \<Rightarrow> string option \<Rightarrow> shutdown_state \<times> mesh_daemon \<Rightarrow> (shutdown_state \<times> mesh_daemon) \<times> string option" where
  "Shutdown http_err listener_err s =
     (case s of (sd, m) \<Rightarrow>
        if sdCalled sd then (s, sdErr sd)
        else let err = (case http_err of Some x \<Rightarrow> if x = ''http: Server closed'' then None else Some x | None \<Rightarrow> None);
                 err2 = (case err of Some x \<Rightarrow> Some x
                   | None \<Rightarrow> (case listener_err of None \<Rightarrow> None
                       | Some x \<Rightarrow> if contains ''use of closed network connection'' x then None else Some x))
             in ((\<lparr>sdCalled = True, sdErr = err2\<rparr>, on_status markShutdown m), err2))"

section \<open>Lemmas\<close>

lemma tlsConfigFrom_Enabled:
  assumes "Enabled t" and "tlsConfigFrom l e fs (Some t) isServer = Inr r"
  shows "\<exists>cert key ca nb na. os_ReadFile e fs (path_of (CertFile t)) = Inr cert \<and>
    os_ReadFile e fs (path_of (KeyFile t)) = Inr key \<and> key_pair_loads l cert key \<and>
    leaf_window l cert = Some (nb, na) \<and> nb \<le> now e \<and> now e \<le> na \<and>
    os_ReadFile e fs (path_of (CAFile t)) = Inr ca \<and> pem_ca l ca \<and>
    r = Some \<lparr>tcMinVersion12 = True, tcSkipVerify = False, tcPair = Some (cert, key),
      tcRootCAs = Some \<lparr>poolSystem = False, poolTexts = [ca]\<rparr>, tcClientCAs = Some \<lparr>poolSystem = False, poolTexts = [ca]\<rparr>,
      tcRequireClientCert = isServer\<rparr>"
proof -
  obtain cert key ca where f: "os_ReadFile e fs (path_of (CertFile t)) = Inr cert"
    "os_ReadFile e fs (path_of (KeyFile t)) = Inr key" "key_pair_loads l cert key"
    "os_ReadFile e fs (path_of (CAFile t)) = Inr ca" "pem_ca l ca"
    and v: "validate_mesh_tls l e fs t = None"
    and r: "r = Some \<lparr>tcMinVersion12 = True, tcSkipVerify = False, tcPair = Some (cert, key),
      tcRootCAs = Some \<lparr>poolSystem = False, poolTexts = [ca]\<rparr>, tcClientCAs = Some \<lparr>poolSystem = False, poolTexts = [ca]\<rparr>,
      tcRequireClientCert = isServer\<rparr>"
    using assms by (auto simp: tlsConfigFrom_def Let_def split: option.splits sum.splits if_splits)
  have "fmlookup fs (path_of (CertFile t)) = Some cert" using f(1) by (auto simp: os_ReadFile_def split: if_splits option.splits)
  then have "fmget [] fs (path_of (CertFile t)) = cert" by (simp add: fmget_def)
  then obtain nb na where "leaf_window l cert = Some (nb, na)" "nb \<le> now e" "now e \<le> na"
    using v assms(1) by (auto simp: validate_mesh_tls_def Let_def not_less split: option.splits if_splits)
  with f r show ?thesis by blast
qed

lemma transport_Secured:
  assumes "Enabled t" and "mesh_transport l e fs nf addr (Some t) isServer = Inr tr"
  shows "\<exists>c. tr = Secured c \<and> tlsConfigFrom l e fs (Some t) isServer = Inr (Some c)"
proof -
  have "tlsConfigFrom l e fs (Some t) isServer \<noteq> Inr None" using tlsConfigFrom_Enabled [OF assms(1)] by blast
  with assms(2) show ?thesis by (auto simp: mesh_transport_def over_net_def split: sum.splits option.splits)
qed

lemma made_authority:
  assumes "make_http_pair l e fs d host (http_cert d) (http_key d) = (fs1, Inr r)" and "io_ok e"
    and "\<And>c k. new_ca l = Some (c, k) \<Longrightarrow> ca_parses l c k"
  shows "\<exists>ca cak c k. new_leaf l host ca cak = Some (c, k) \<and> fmlookup fs1 (http_cert d) = Some c \<and>
    fmlookup fs1 (fst (sharedHTTPCAPaths d)) = Some ca \<and> fmlookup fs1 (snd (sharedHTTPCAPaths d)) = Some cak \<and> ca_parses l ca cak"
proof -
  let ?ca = "(fst (path_of d), ''http_ca.pem'')" and ?cak = "(fst (path_of d), ''http_ca.key'')"
  have n: "?ca \<noteq> ?cak" "http_cert d \<noteq> ?ca" "http_cert d \<noteq> ?cak" "http_key d \<noteq> ?ca" "http_key d \<noteq> ?cak"
    by (simp_all add: http_cert_def http_key_def)
  have p: "sharedHTTPCAPaths d = (?ca, ?cak)" by (simp add: sharedHTTPCAPaths_def Let_def)
  obtain fs0 ca cak c k where a: "loadOrCreateSharedHTTPCA l e fs ?ca ?cak = (fs0, Inr (ca, cak))"
    and leaf: "new_leaf l host ca cak = Some (c, k)"
    and fs1: "fs1 = fmupd (http_key d) k (fmupd (http_cert d) c fs0)"
    using assms(1,2) by (auto simp: make_http_pair_def p encode_file_def split: sum.splits option.splits prod.splits)
  have "fmlookup fs0 ?ca = Some ca \<and> fmlookup fs0 ?cak = Some cak \<and> ca_parses l ca cak"
    using a assms(2,3) n
    by (auto simp: loadOrCreateSharedHTTPCA_def os_ReadFile_def os_WriteFile_def split: option.splits if_splits sum.splits)
  with leaf fs1 n http_names [of d] show ?thesis by (auto simp: p)
qed

lemma same_authority: "fst (path_of d) = fst (path_of d') \<Longrightarrow> sharedHTTPCAPaths d = sharedHTTPCAPaths d'"
  by (simp add: sharedHTTPCAPaths_def)

section \<open>Properties\<close>

text \<open>
  C40 (safety): a mesh with TLS is never plain and is authenticated on both sides: what a listener runs over
  demands a client certificate, both ends verify the other against the configured authority and
  nothing else, and show a pair that fits and whose certificate is valid at that moment.
\<close>

theorem mesh_tls_is_mutual:
  assumes "Enabled t" and "meshListen l e fs nf addr (Some t) = Inr srv" and "meshDialTimeout l e fs nf' addr' (Some t) = Inr cli"
  shows "\<exists>cs cc ca cert key nb na. srv = Secured cs \<and> cli = Secured cc \<and>
    os_ReadFile e fs (path_of (CAFile t)) = Inr ca \<and> tcRequireClientCert cs \<and>
    tcClientCAs cs = Some \<lparr>poolSystem = False, poolTexts = [ca]\<rparr> \<and> tcRootCAs cc = Some \<lparr>poolSystem = False, poolTexts = [ca]\<rparr> \<and>
    tcPair cs = Some (cert, key) \<and> tcPair cc = Some (cert, key) \<and> \<not> tcSkipVerify cs \<and> \<not> tcSkipVerify cc \<and>
    key_pair_loads l cert key \<and> leaf_window l cert = Some (nb, na) \<and> nb \<le> now e \<and> now e \<le> na"
proof -
  obtain cs where s: "srv = Secured cs" "tlsConfigFrom l e fs (Some t) True = Inr (Some cs)"
    using transport_Secured [OF assms(1) assms(2) [unfolded meshListen_def]] by blast
  obtain cc where c: "cli = Secured cc" "tlsConfigFrom l e fs (Some t) False = Inr (Some cc)"
    using transport_Secured [OF assms(1) assms(3) [unfolded meshDialTimeout_def]] by blast
  from tlsConfigFrom_Enabled [OF assms(1) s(2)] tlsConfigFrom_Enabled [OF assms(1) c(2)] s(1) c(1) show ?thesis by auto
qed

text \<open>
  Nodes in neighbouring data directories trust each other without any configuration: the HTTPS
  client of one verifies servers, and trusts the authority that signed the certificate another has made.
\<close>

theorem neighbours_trust_each_other:
  assumes "own_http_pair l e fs d host = (fs1, Inr r)" and "io_ok e" and "d \<noteq> []" and "d' \<noteq> []"
    and "fmlookup fs (http_cert d) = None" and "fst (path_of d) = fst (path_of d')"
    and "\<And>c k. new_ca l = Some (c, k) \<Longrightarrow> ca_parses l c k" and "\<And>c k. ca_parses l c k \<Longrightarrow> pem_ca l c"
    and "\<not> allowDevInsecureHTTP var"
  shows "\<exists>ca cak c k. new_leaf l host ca cak = Some (c, k) \<and> fmlookup fs1 (http_cert d) = Some c \<and>
    newInternalTLSConfig l e var sys fs1 d' None = (fs1, Inr (verifying \<lparr>poolSystem = sys, poolTexts = [ca]\<rparr>))"
proof -
  have "make_http_pair l e fs d host (http_cert d) (http_key d) = (fs1, Inr r)"
    using assms(1,2,5)
    by (auto simp: own_http_pair_def http_cert_def http_key_def Let_def os_Stat_def fmdom_notI split: if_splits)
  from made_authority [OF this assms(2,7)] obtain ca cak c k where made: "new_leaf l host ca cak = Some (c, k)"
    "fmlookup fs1 (http_cert d) = Some c" "fmlookup fs1 (fst (sharedHTTPCAPaths d')) = Some ca"
    "fmlookup fs1 (snd (sharedHTTPCAPaths d')) = Some cak" "ca_parses l ca cak"
    using same_authority [OF assms(6)] by metis
  then have "newInternalTLSConfig l e var sys fs1 d' None = (fs1, Inr (verifying \<lparr>poolSystem = sys, poolTexts = [ca]\<rparr>))"
    using assms(2,4,8,9)
    by (simp add: newInternalTLSConfig_def Let_def loadOrCreateSharedHTTPCA_def os_ReadFile_def add_ca_def split_beta)
  with made show ?thesis by blast
qed

text \<open>
  Where the key of the authority is lost, the next client or server replaces the authority: what the
  old one signed is not trusted any more.
\<close>

lemma lost_key_replaces_authority:
  assumes "io_ok e" and "\<not> allowDevInsecureHTTP var" and "d \<noteq> []" and "new_ca l = Some (ca', k')" and "pem_ca l ca'"
    and "fmlookup fs (snd (sharedHTTPCAPaths d)) = None"
  shows "snd (newInternalTLSConfig l e var sys fs d None) = Inr (verifying \<lparr>poolSystem = sys, poolTexts = [ca']\<rparr>)"
  using assms by (auto simp: newInternalTLSConfig_def Let_def loadOrCreateSharedHTTPCA_def os_ReadFile_def os_WriteFile_def
      add_ca_def sharedHTTPCAPaths_def split: option.split)

lemma Shutdown_once: "Shutdown h l s = (s1, r) \<Longrightarrow> Shutdown h' l' s1 = (s1, r)"
  by (auto simp: Shutdown_def Let_def split: prod.splits if_splits)

lemma benign_errors: "benignHandleIncomingErr err \<Longrightarrow> isBenignJSONPeerErr err"
  by (auto simp: benignHandleIncomingErr_def isBenignJSONPeerErr_def split: option.splits)

lemma sync_gate_opens:
  "snd (sync_gate n states) \<longleftrightarrow> (\<exists>(m, t)\<in>set states. reachablePeersForSync m t \<noteq> [])"
  by (induction states arbitrary: n) (auto simp: split_beta, force)

lemma sync_gate_waits: "d \<in> set (fst (sync_gate n states)) \<Longrightarrow> 0 \<le> n \<Longrightarrow> syncRetryBaseDelay \<le> d \<and> d \<le> syncRetryMaxDelay"
proof (induction states arbitrary: n)
  case (Cons x states)
  have step: "syncRetryBaseDelay \<le> nextRetryDelay (n + 1) \<and> nextRetryDelay (n + 1) \<le> syncRetryMaxDelay"
    using Cons.prems(2) by (auto simp: nextRetryDelay_def backoff_defs min_def)
  obtain m t where x: "x = (m, t)" by fastforce
  show ?case
  proof (cases "reachablePeersForSync m t = []")
    case True
    then show ?thesis
      using Cons.prems step Cons.IH [of "n + 1"] by (auto simp: x split: prod.splits)
  next
    case False
    then show ?thesis using Cons.prems by (simp add: x)
  qed
qed simp

end
