(* ===== verification/Blacknetd.thy ===== *)
theory Blacknetd
  imports Startup Transport
begin

text \<open>
  The daemon's program \<open>cmd/blacknetd/main.go\<close>: its command, the choice of the data directory, the
  start, and the shutdown that a signal brings. Parsing of flags is a parameter: the values of
  \<open>--config\<close> and \<open>--data\<close>, or the code with which the flag package ends the program.
\<close>

section \<open>Operations\<close>

definition default_data :: string where "default_data = ''data/node1''"

text \<open>The two spellings of the directory in the configuration, where it can be read and decoded.\<close>

definition peekDataDirFromConfig :: "(string \<Rightarrow> (string \<times> string) option) \<Rightarrow> string option \<Rightarrow> string" where
  "peekDataDirFromConfig unmarshal content =
     (case content of None \<Rightarrow> []
      | Some raw \<Rightarrow> (case unmarshal raw of None \<Rightarrow> []
          | Some (dataDir, data_dir) \<Rightarrow> if dataDir \<noteq> [] then dataDir else data_dir))"

datatype netd_action = NetdUsage | NetdUnknown string | NetdMesh "string list"

definition netd_command :: "string list \<Rightarrow> netd_action" where
  "netd_command args =
     (case args of [] \<Rightarrow> NetdMesh []
      | a # rest \<Rightarrow>
          if a \<in> set [''-h'', ''--help'', ''help''] then NetdUsage
          else if a = ''mesh'' then NetdMesh rest
          else if take 1 a = ''-'' then NetdMesh args else NetdUnknown a)"

definition netd_data_dir :: "string \<Rightarrow> string \<Rightarrow> string" where
  "netd_data_dir flag fromCfg = (if flag = default_data \<and> fromCfg \<noteq> [] then fromCfg else flag)"

datatype netd_result = NetdExit nat | NetdFatal start_error | NetdRuns mesh_daemon mesh_config

definition blacknetd_main ::
  "host \<Rightarrow> env \<Rightarrow> (string list \<Rightarrow> nat + string \<times> string) \<Rightarrow> (string \<Rightarrow> (string \<times> string) option) \<Rightarrow>
   (string \<Rightarrow> string option) \<Rightarrow> bool + string \<Rightarrow> string list \<Rightarrow> files \<Rightarrow> files \<times> netd_result" where
  "blacknetd_main h e parse unmarshal read bootFile args fs =
     (case netd_command args of NetdUsage \<Rightarrow> (fs, NetdExit 0) | NetdUnknown a \<Rightarrow> (fs, NetdExit 2)
      | NetdMesh rest \<Rightarrow>
          (case parse rest of Inl code \<Rightarrow> (fs, NetdExit code)
           | Inr (cfgPath, dataFlag) \<Rightarrow>
               let dataDir = netd_data_dir dataFlag (peekDataDirFromConfig unmarshal (read cfgPath))
               in case StartMeshDaemon h e dataDir (read cfgPath) bootFile fs of
                    (fs1, Inl err) \<Rightarrow> (fs1, NetdFatal err) | (fs1, Inr (m, cfg)) \<Rightarrow> (fs1, NetdRuns m cfg)))"

text \<open>A signal: the daemon is shut down and the result is dropped.\<close>

definition netd_signal :: "string option \<Rightarrow> string option \<Rightarrow> mesh_daemon \<Rightarrow> mesh_daemon" where
  "netd_signal http_err listener_err m = snd (fst (Shutdown http_err listener_err (\<lparr>sdCalled = False, sdErr = None\<rparr>, m)))"

section \<open>Lemmas\<close>

lemma stopped_daemon_is_halted:
  assumes "chDaemon (mChain m) = Some d"
  shows "runtimeStateSnapshot (daemon_status (netd_signal h l m)) = (Halted, [''shutdown_initiated''], False, False)"
  using assms by (simp add: netd_signal_def Shutdown_def Let_def on_status_def daemon_status_def markShutdown_def
      runtimeStateSnapshot_def)

lemma default_data_trim: "trim_space default_data = default_data"
  by (simp add: default_data_def trim_space_def is_space_def)

section \<open>Properties\<close>

text \<open>
  Which directory a node that is started by the program keeps its chain and keys in: the flag's; the
  configuration's, where the flag has its default value, given or not; and otherwise \<open>data/node1\<close>,
  whatever the name of the node - the directory of its own name is never chosen.
\<close>

theorem program_chooses_data_dir:
  assumes "trim_space flag \<noteq> []" and "fromCfg \<noteq> [] \<Longrightarrow> trim_space fromCfg \<noteq> []"
  shows "data_dir_of (netd_data_dir flag fromCfg) cfg =
    (if flag \<noteq> default_data then trim_space flag else if fromCfg \<noteq> [] then trim_space fromCfg else ''data/node1'')"
  using assms default_data_trim by (simp add: data_dir_of_def netd_data_dir_def) (simp add: default_data_def)

end
