(* ===== verification/Network_Witnesses.thy ===== *)
theory Network_Witnesses
  imports Startup_Witnesses System_Sample RateLimit Registry Relay Blackctl Unwired Blacknetd
begin

text \<open>
  The theorems of the programs, the connections and the ways nodes meet applied to concrete
  nodes, files and messages.
\<close>

section \<open>Paying from the command line\<close>

definition ctl_library :: ctl_lib where
  "ctl_library = \<lparr>sscan = (\<lambda>s. if s = ''5'' then Some 5 else None), decBalances = (\<lambda>_. chAccounts (node_with 100)), encTx = (\<lambda>_. ''{}'')\<rparr>"

definition ctl_api :: api where
  "ctl_api = sample_api\<lparr>apCodec := (apCodec sample_api)\<lparr>decTx := \<lambda>_. Some sample_tx\<rparr>\<rparr>"

definition no_flags :: ctl_flags where
  "no_flags = \<lparr>flAddr = ''h:1'', flHeight = 0, flWalletNew = [], flWalletShow = [], flWallet = [], flTo = [], flAmount = 0, flFee = 1\<rparr>"

definition pay_args :: "string list" where
  "pay_args = [''--wallet'', ''d/wallet.json'', ''--to'', ''bob'', ''--amount'', ''5'']"

lemma scanned_flags:
  "scan_args ctl_library (''chain'' # ''tx'' # pay_args) no_flags = no_flags\<lparr>flWallet := ''d/wallet.json'', flTo := ''bob'', flAmount := 5\<rparr>"
  by (simp add: pay_args_def no_flags_def scan_arg_def ctl_library_def)

theorem tx_command_pays_witness:
  "\<exists>m' t. ctl_chain ctl_library wallet_env (node_server ctl_api wallet_env (\<lambda>_. ''ok'') (normalizeAPIBase (flAddr no_flags)) ''p:1'') no_flags
      (''chain'' # ''tx'' # pay_args) wallet_disk mesh_node = (m', Printed [''ok'']) \<and>
    t \<in> set (chMempool (mChain m')) \<and> txTo t = ''bob'' \<and> txAmount t = 5"
proof -
  let ?fl = "no_flags\<lparr>flWallet := ''d/wallet.json'', flTo := ''bob'', flAmount := 5\<rparr>"
  have chain: "mChain mesh_node = node_with 100" by (simp add: mesh_node_def)
  have w: "LoadWallet wallet_env wallet_disk (path_of (flWallet ?fl)) = Inr sample_wallet"
    by (simp add: wallet_path sample_wallet_loads)
  have limit: "allow (apCodec ctl_api) ip cost" for ip cost by (simp add: ctl_api_def sample_api_def)
  have dec: "decTx (apCodec ctl_api) (encTx ctl_library t) = Some sample_tx" "encTx ctl_library t = ''{}''" for t
    by (simp_all add: ctl_api_def ctl_library_def)
  have acc: "getAccount (chAccounts (mChain mesh_node)) (wAddress sample_wallet) = \<lparr>Balance = 100, Nonce = 0\<rparr>"
    by (simp add: chain sample_wallet_def node_with_account)
  have sign: "SignTx wallet_env (wAddress sample_wallet) (flTo ?fl) (flAmount ?fl) (Nonce (getAccount (chAccounts (mChain mesh_node)) (wAddress sample_wallet)))
      (flFee ?fl) (wPubHex sample_wallet) (wPrivHex sample_wallet) = Inr sample_tx"
    unfolding acc using sample_SignTx by (simp add: wallet_env_same sample_wallet_def no_flags_def)
  have "\<exists>m' t. ctl_chain ctl_library wallet_env (node_server ctl_api wallet_env (\<lambda>_. ''ok'') (normalizeAPIBase (flAddr no_flags)) ''p:1'') no_flags
      (''chain'' # ''tx'' # pay_args) wallet_disk mesh_node = (m', Printed [(\<lambda>_. ''ok'') OkTrue]) \<and>
    t \<in> set (chMempool (mChain m')) \<and> txFrom t = wAddress sample_wallet \<and> txTo t = flTo ?fl \<and> txAmount t = flAmount ?fl \<and> txFee t = flFee ?fl"
  proof (rule tx_command_pays [OF wallet_env_ok(1) refl scanned_flags [symmetric] _ w, where sk = sample_priv])
    show "hex_decode (wPrivHex sample_wallet) = Some sample_priv" "length sample_priv = 64"
      "hex_decode (wPubHex sample_wallet) = Some (ed_public wallet_env sample_priv)"
      using sample_keys by (simp_all add: sample_wallet_def wallet_frames)
    show "flTo ?fl \<noteq> wAddress sample_wallet" using sample_tx_shape(2) by (auto simp: sample_wallet_def)
    show "sle (flAmount ?fl + flFee ?fl) (Balance (getAccount (chAccounts (mChain mesh_node)) (wAddress sample_wallet)))"
      "sle 0 (Nonce (getAccount (chAccounts (mChain mesh_node)) (wAddress sample_wallet)))"
      unfolding acc by (simp_all add: no_flags_def)
    show "chMempool (mChain mesh_node) = []" "chMempoolIDs (mChain mesh_node) = {||}" "chMempoolSenderNonce (mChain mesh_node) = fmempty"
      unfolding chain by (simp_all add: node_with_account)
    show "decBalances ctl_library ((\<lambda>_. ''ok'') (BalancesBody (chAccounts (mChain mesh_node)))) = chAccounts (mChain mesh_node)"
      by (simp add: chain ctl_library_def)
    show "decTx (apCodec ctl_api) (encTx ctl_library t) = Some t \<and> encTx ctl_library t \<noteq> [] \<and> length (encTx ctl_library t) \<le> maxJSONBodyBytes"
      if "SignTx wallet_env (wAddress sample_wallet) (flTo ?fl) (flAmount ?fl) (Nonce (getAccount (chAccounts (mChain mesh_node)) (wAddress sample_wallet)))
        (flFee ?fl) (wPubHex sample_wallet) (wPrivHex sample_wallet) = Inr t" for t
      using that sign dec by (simp add: maxJSONBodyBytes_def)
  qed (simp_all add: no_flags_def BaseFee_def limit)
  then show ?thesis by (auto simp: no_flags_def)
qed

definition block_node :: mesh_daemon where
  "block_node = mesh_node\<lparr>mChain := (node_with 100)\<lparr>chBlocks := fmupd 5 (sample_block 100) fmempty\<rparr>\<rparr>"

definition show_payload :: "payload \<Rightarrow> string" where
  "show_payload p = (case p of ApiError code _ \<Rightarrow> code | BlockBody _ \<Rightarrow> ''a block'' | _ \<Rightarrow> ''other'')"

theorem block_command_shows_no_block_witness:
  "ctl_chain ctl_library sample_env (node_server sample_api sample_env show_payload (normalizeAPIBase (flAddr no_flags)) ''p:1'') no_flags
      [''chain'', ''block'', ''5''] fmempty block_node = (block_node, Printed [''missing_height'']) \<and>
    node_server sample_api sample_env show_payload (normalizeAPIBase (flAddr no_flags)) ''p:1'' ''GET''
      (normalizeAPIBase (flAddr no_flags) @ ''/chain/block?h='' @ fmtInt 5) [] block_node = (block_node, Some (200, ''a block''))"
proof -
  have h: "5 = block_height ctl_library no_flags (''chain'' # ''block'' # [''5''])"
    by (simp add: block_height_def no_flags_def ctl_library_def)
  have limit: "allow (apCodec sample_api) ip cost" for ip cost by (simp add: sample_api_def)
  have "sint (5 :: i64) = 5" "fmlookup (chBlocks (mChain block_node)) 5 = Some (sample_block 100)"
    by (simp_all add: block_node_def)
  with block_command_shows_no_block [OF refl refl h limit, where m = block_node and fs = fmempty and e = sample_env
      and render = show_payload and remote = "''p:1''"]
  show ?thesis by (simp add: show_payload_def)
qed

section \<open>Connections\<close>

definition mesh_tls_lib :: tls_lib where
  "mesh_tls_lib = sample_tls\<lparr>leaf_window := \<lambda>_. Some (0, 2 * 10 ^ 18)\<rparr>"

definition mesh_tls_files :: files where
  "mesh_tls_files = fmap_of_list [((''.'', ''c''), ''cert''), ((''.'', ''k''), ''key''), ((''.'', ''a''), ''ca'')]"

definition mesh_tls_section :: mesh_tls where
  "mesh_tls_section = \<lparr>Enabled = True, CertFile = ''c'', KeyFile = ''k'', CAFile = ''a''\<rparr>"

lemma mesh_tls_paths: "path_of ''c'' = (''.'', ''c'')" "path_of ''k'' = (''.'', ''k'')" "path_of ''a'' = (''.'', ''a'')"
  "trim_space ''c'' = ''c''" "trim_space ''k'' = ''k''" "trim_space ''a'' = ''a''"
  by code_simp+

lemma mesh_tls_reads:
  "os_ReadFile sample_env mesh_tls_files (''.'', ''c'') = Inr ''cert''" "os_ReadFile sample_env mesh_tls_files (''.'', ''k'') = Inr ''key''"
  "os_ReadFile sample_env mesh_tls_files (''.'', ''a'') = Inr ''ca''" "os_Stat sample_env mesh_tls_files (''.'', ''c'') = None"
  "os_Stat sample_env mesh_tls_files (''.'', ''k'') = None" "os_Stat sample_env mesh_tls_files (''.'', ''a'') = None"
  using sample_io by (simp_all add: os_ReadFile_def os_Stat_def mesh_tls_files_def)

lemma mesh_tls_valid: "validate_mesh_tls mesh_tls_lib sample_env mesh_tls_files mesh_tls_section = None"
proof -
  have "now sample_env = 1700000000 * 10 ^ 9" by (simp add: sample_env_def)
  then show ?thesis
    by (simp add: validate_mesh_tls_def validateTLSFile_def mesh_tls_section_def mesh_tls_paths mesh_tls_reads pair_loads_def
        mesh_tls_lib_def sample_tls_def Let_def)
qed

lemma mesh_tls_config:
  "\<exists>c. tlsConfigFrom mesh_tls_lib sample_env mesh_tls_files (Some mesh_tls_section) server = Inr (Some c)"
  unfolding tlsConfigFrom_def option.case mesh_tls_valid
  by (simp add: mesh_tls_section_def mesh_tls_paths mesh_tls_reads mesh_tls_lib_def sample_tls_def Let_def)

theorem mesh_tls_is_mutual_witness:
  "\<exists>cs. meshListen mesh_tls_lib sample_env mesh_tls_files (\<lambda>_. None) ''h:1'' (Some mesh_tls_section) = Inr (Secured cs) \<and>
     tcRequireClientCert cs \<and> tcClientCAs cs = Some \<lparr>poolSystem = False, poolTexts = [''ca'']\<rparr>"
proof -
  obtain c1 c2 where l: "meshListen mesh_tls_lib sample_env mesh_tls_files (\<lambda>_. None) ''h:1'' (Some mesh_tls_section) = Inr (Secured c1)"
    and d: "meshDialTimeout mesh_tls_lib sample_env mesh_tls_files (\<lambda>_. None) ''h:1'' (Some mesh_tls_section) = Inr (Secured c2)"
    using mesh_tls_config [of True] mesh_tls_config [of False]
    by (auto simp: meshListen_def meshDialTimeout_def mesh_transport_def over_net_def)
  have "Enabled mesh_tls_section" by (simp add: mesh_tls_section_def)
  from mesh_tls_is_mutual [OF this l d] l show ?thesis
    by (auto simp: mesh_tls_section_def mesh_tls_paths mesh_tls_reads)
qed

theorem neighbours_trust_each_other_witness:
  "\<exists>fs1 ca. newInternalTLSConfig sample_tls sample_env ''0'' False fs1 ''data/m'' None =
     (fs1, Inr (verifying \<lparr>poolSystem = False, poolTexts = [ca]\<rparr>))"
proof -
  have dn: "dir_name ''data/n''" by (simp add: dir_name_def is_space_def)
  obtain fs1 r where "ensureHTTPServerTLSFiles sample_tls sample_env fmempty ''data/n'' ''h'' None = (fs1, Inr r)"
    by (rule fresh_pair [of sample_env sample_tls "''data/n''"]) simp_all
  then have p: "own_http_pair sample_tls sample_env fmempty ''data/n'' ''h'' = (fs1, Inr r)"
    by (simp add: ensureHTTPServerTLSFiles_def)
  have d: "fst (path_of ''data/n'') = fst (path_of ''data/m'')" "\<not> allowDevInsecureHTTP ''0''" by code_simp+
  have "\<exists>ca cak c k. new_leaf sample_tls ''h'' ca cak = Some (c, k) \<and> fmlookup fs1 (http_cert ''data/n'') = Some c \<and>
    newInternalTLSConfig sample_tls sample_env ''0'' False fs1 ''data/m'' None =
      (fs1, Inr (verifying \<lparr>poolSystem = False, poolTexts = [ca]\<rparr>))"
    using d by (intro neighbours_trust_each_other [OF p sample_io]) (simp_all add: sample_tls_def)
  then show ?thesis by blast
qed

section \<open>Messages and peers\<close>

definition relay_net :: "(string, node) fmap" where
  "relay_net = fmap_of_list
     [(''b:2000'', \<lparr>nID = ''b'', nCrypto = None, nRoutes = Some (\<lambda>d. Some ''c:1000''), nInbox = [], nMsgsIn = 0, nMsgsRelay = 0\<rparr>),
      (''c:2000'', \<lparr>nID = ''c'', nCrypto = None, nRoutes = None, nInbox = [], nMsgsIn = 0, nMsgsRelay = 0\<rparr>)]"

definition relay_sender :: node where
  "relay_sender = \<lparr>nID = ''a'', nCrypto = None, nRoutes = Some (\<lambda>d. Some ''b:1000''), nInbox = [], nMsgsIn = 0, nMsgsRelay = 0\<rparr>"

lemma relay_addresses: "messageAddrFromGossip ''b:1000'' = ''b:2000''" "messageAddrFromGossip ''c:1000'' = ''c:2000''"
proof -
  have "digit_char 0 = CHR ''0''" "digit_char (Suc 0) = CHR ''1''" "digit_char 2 = CHR ''2''" by code_simp+
  then have n: "fmt_int 1000 = ''1000''" "fmt_int 2000 = ''2000''"
    by (simp_all add: fmt_int_def fmt_nat.simps [of 1000] fmt_nat.simps [of 100] fmt_nat.simps [of 10]
        fmt_nat.simps [of "Suc 0"] fmt_nat.simps [of 2000] fmt_nat.simps [of 200] fmt_nat.simps [of 20] fmt_nat.simps [of 2])
  have a: "Atoi ''1000'' = Some 1000" using Atoi_fmt [of 1000] by (simp add: n)
  have "SplitHostPort ''b:1000'' = Inr (''b'', ''1000'')" "SplitHostPort ''c:1000'' = Inr (''c'', ''1000'')"
    by code_simp+
  then show "messageAddrFromGossip ''b:1000'' = ''b:2000''" "messageAddrFromGossip ''c:1000'' = ''c:2000''"
    by (simp_all add: messageAddrFromGossip_def a n)
qed

theorem routed_message_arrives_witness:
  "\<exists>s' wm addr n'. SendMessage udp_up relay_sender ''c'' ''hi'' 2 = Inr (s', wm, addr) \<and>
     length (snd (travel udp_up 9 wm addr relay_net)) = 2"
proof -
  obtain s' wm where s: "SendMessage udp_up relay_sender ''c'' ''hi'' 2 = Inr (s', wm, ''b:2000'')"
    by (simp add: SendMessage_def relay_sender_def forwardMessage_def encryptForPeer_def relay_addresses udp_up)
  have r: "route_to relay_net ''c'' ''b:2000'' 1"
    unfolding One_nat_def
    by (rule route_to.relayed [where hop = "''c:1000''"])
      (auto simp: relay_net_def relay_addresses intro: route_to.arrived)
  have "plain_net relay_net" by (auto simp: plain_net_def relay_net_def split: if_splits)
  from routed_message_arrives [OF s _ this r] s show ?thesis
    by (auto simp: relay_sender_def hop_limit_def numeral_2_eq_2)
qed

definition leader_config :: discovery_config where
  "leader_config = no_discovery\<lparr>dcEnabled := True, dcListenAddr := ''c:3'', dcLeaderURL := ''http://l''\<rparr>"

theorem one_turn_exchanges_peers_witness:
  "\<exists>m' l'. meet_leader sample_api sample_env sample_env leader_config ''r:1'' (mesh_node, mesh_node) = (m', l') \<and>
     ''c:3'' |\<in>| fmdom (mDiscoPeers l') \<and> ''c:3'' |\<in>| fmdom (mDiscoPeers m')"
proof -
  obtain m' l' where m: "meet_leader sample_api sample_env sample_env leader_config ''r:1'' (mesh_node, mesh_node) = (m', l')"
    by fastforce
  have t: "trim_space ''c:3'' = ''c:3''" by (simp add: trim_space_def is_space_def)
  have k: "trim_right (CHR ''/'') (dcLeaderURL leader_config) \<noteq> []" "dcListenAddr leader_config = ''c:3''"
    by (simp_all add: leader_config_def trim_right_def)
  have b: "length (register_body ''c:3'') \<le> maxJSONBodyBytes"
    by (simp add: register_body_def fmt_q_def fmt_q_char_def maxJSONBodyBytes_def)
  have w: "table_wf (mDiscoPeers mesh_node)" "mID mesh_node = ''b:2''" by (simp_all add: mesh_node_def)
  have "decAddr (apCodec sample_api) (register_body ''c:3'') = Some ''c:3''" by (simp add: sample_api_def)
  from one_turn_exchanges_peers [OF m k(1)] this b w m show ?thesis by (auto simp: k(2) t)
qed

end
