(* ===== verification/Spec2Isabelle.thy ===== *)
theory Spec2Isabelle
  imports Witnesses Startup_Witnesses Consensus_Witnesses System_Sample Network_Witnesses
begin

text \<open>
  Verification development of the BlackChain node (Go, \<open>src/internal\<close> and \<open>src/cmd\<close>).

  \<^bold>\<open>The program.\<close> A node keeps a proof-of-authority chain with an account ledger. The chain
  (\<open>mesh/chain_core.go\<close>) validates transactions into a mempool, takes, buffers and applies
  blocks, and seals blocks of its own; every applied block is written to the data directory
  (\<open>chain_persist.go\<close>) and the state can be saved as a snapshot (\<open>chain_snapshot.go\<close>). A restart
  reads both back. The daemon around it (\<open>daemon_bridge.go\<close>) keeps a table of peers, floods
  messages among them over TCP (\<open>gossip.go\<close>, \<open>messages.go\<close>), pulls missing blocks over HTTP
  (\<open>chain_sync.go\<close>), discovers and drops peers (\<open>discovery.go\<close>, \<open>liveness.go\<close>), answers HTTP
  requests (\<open>chain_handlers.go\<close>, \<open>http_guardrails.go\<close>, \<open>http_ratelimit.go\<close>) and runs a proposer
  (\<open>proposer_native.go\<close>). Package \<open>consensus\<close> is a separate two-thirds finalizer with votes and a
  state file of its own. The programs are the daemon (\<open>cmd/blacknetd\<close>), the operator's command
  (\<open>cmd/blackctl\<close>) and a signer of transactions (\<open>cmd/signtx\<close>).

  \<^bold>\<open>State.\<close> A Go struct is a record with its fields in order (\<open>Types\<close>, \<open>State.chain\<close>,
  \<open>Status.status\<close>, \<open>Mesh.mesh_daemon\<close>, \<open>Finalizer.finalizer\<close>); a method that changes its
  receiver is a function from the record to the changed record and the method's results. Go's
  \<open>int64\<close> is a 64-bit word and wraps wherever amounts, fees, balances and nonces are computed;
  heights, which the code only compares and counts up, are integers. A Go map is a finite map;
  where Go visits a map in random order the model visits the keys in order, and the text of the
  definition says what depends on it. Errors are values: one datatype per group of error texts,
  and \<open>error + 'a\<close> or \<open>error option\<close> as result. A panic is the result \<open>None\<close> of the operation
  that can have one. The code holds the chain's lock for the whole of every operation on the
  chain modelled here, so these are atomic and their lock is not modelled. The lock of the
  daemon (\<open>meshDaemon.lock\<close>) is: \<open>Locking\<close> gives the operations that take it on a daemon with the
  state of its read-write lock, with \<open>Blocked\<close> as result where one waits for a lock that will not be
  released, and shows that alone, on a free lock, they are the atomic operations of the other
  theories; \<open>Api.route_run\<close> does the same for the HTTP handlers, and \<open>Hangs\<close> is the request that
  never gets an answer.

  \<^bold>\<open>Environment.\<close> What is not in the repository is a parameter, the record \<open>Types.env\<close>: SHA-256
  and Ed25519, the JSON reader and writer of whole structs, the clock, the names and failures of
  the file system. \<open>crypto_ok\<close> states what is documented of the primitives (a signature made with
  a key verifies under it, sizes of keys and digests), a theorem that reads a file back assumes
  that the JSON reader returns what the writer wrote, \<open>io_ok\<close> that no operation of the file system fails. Collision
  resistance is never assumed: theorems that would need it are stated about the hashed bytes.
  \<open>Gossip.wire\<close> and \<open>Api.api\<close> are the same for the answers of peers and the decoding of requests.
  \<open>Sample\<close> instantiates all of them with computable functions, so every hypothesis is seen to hold.

  \<^bold>\<open>Theories\<close> (in the order they build on each other):
  \<^item> \<open>Prelude\<close>, \<open>Codec\<close>, \<open>Runes\<close>: words, finite maps, folds; hexadecimal, decimal and JSON text with
    the locale of prefix-free writers that makes the injectivity proofs; UTF-8 and what \<open>json.Marshal\<close>
    makes of text that is not UTF-8.
  \<^item> \<open>Types\<close>, \<open>State\<close>, \<open>Status\<close>: the data, the chain with its digests (\<open>merkle_balances.go\<close>,
    \<open>state_hash.go\<close>), the operator's status.
  \<^item> \<open>TxSigning\<close> (\<open>tx_signing.go\<close>), \<open>Ledger\<close> (fees, rewards and the abstract ledger), \<open>Mempool\<close>,
    \<open>Blocks\<close> (\<open>block_signing.go\<close>, both packages), \<open>Apply\<close> (\<open>applyBlockLocked\<close>), \<open>Supply\<close>,
    \<open>Proposal\<close>, \<open>Proposer\<close> and \<open>Invariant\<close>: \<open>chain_core.go\<close>. The locale \<open>tx_store\<close> is the
    interface of the three stores transactions run over and the reason they agree.
  \<^item> \<open>Durable\<close>, \<open>Files\<close>, \<open>Replay\<close>, \<open>Interrupted\<close>, \<open>Snapshot\<close>, \<open>Identity\<close>: \<open>chain_persist.go\<close>,
    \<open>chain_snapshot.go\<close>, \<open>validator_identity.go\<close>. \<open>Durable\<close> is the file system under the durable write:
    its system calls on directory trees and inodes, and what a crash leaves of what was not synced.
  \<^item> \<open>Quorum\<close>, \<open>Votes\<close>, \<open>Finalizer\<close>: the locale of quorum rules, the votes of the mesh
    (\<open>validator_votes.go\<close>, \<open>consensus_commit.go\<close>) and package \<open>consensus\<close>.
  \<^item> \<open>Addr\<close>, \<open>Config\<close>: addresses (\<open>net.SplitHostPort\<close>, \<open>net.ParseIP\<close>, \<open>strconv\<close> as far as the code
    uses them), \<open>config.go\<close>, \<open>bootstrap.go\<close> and the startup peers.
  \<^item> \<open>Mesh\<close>, \<open>Gossip\<close>, \<open>Locking\<close>, \<open>Discovery\<close>, \<open>Api\<close>: the daemon's state with \<open>peer_touch.go\<close>, \<open>seen.go\<close>,
    \<open>reputation.go\<close>, \<open>liveness.go\<close>; messages and synchronisation; the daemon's lock; discovery and
    dialing; the HTTP interface.
  \<^item> \<open>Float64\<close>, \<open>RateLimit\<close>: 64-bit floating-point numbers by rounding, and the token bucket of
    \<open>http_ratelimit.go\<close> over them; \<open>serve_limited\<close> joins it to the HTTP interface.
  \<^item> \<open>Wallet\<close> (\<open>wallet.go\<close>, \<open>cmd/signtx\<close>), \<open>Certificates\<close> and \<open>Transport\<close> (\<open>http_tls.go\<close>,
    \<open>transport_tls.go\<close>, errors and shutdown), \<open>Startup\<close> (\<open>StartMeshDaemon\<close>), \<open>Blacknetd\<close> and
    \<open>Blackctl\<close>: the files a node makes for itself, its start, and the programs. In \<open>Blackctl\<close> the node
    of \<open>Api\<close> is the server at the other end.
  \<^item> \<open>Registry\<close> (the rest of \<open>discovery.go\<close>), \<open>Relay\<close> (\<open>p2p/transport.go\<close>), \<open>Unwired\<close> (key files, stores
    and handlers): code that the daemon does not call, or that is not built.
  \<^item> \<open>Environments\<close>, \<open>Delivery\<close>, \<open>Flood\<close>, \<open>Sync\<close>: what the network path of a block amounts to, that
    floods end, that one round of synchronisation catches up with an honest peer.
  \<^item> \<open>System\<close>, \<open>Dedup\<close> and this theory: the loops and handlers of a running daemon as steps of one
    relation \<open>daemon_step\<close> - HTTP requests, messages, the sync, proposer, announcement, dial, liveness
    and eviction loops - and the properties that span components. The discovery and promotion loops
    (\<open>Discovery\<close>, \<open>Registry\<close>) are no steps, since nothing calls \<open>enableDiscoveryIfConfigured\<close>.
    \<open>Dedup\<close> follows runs with the times of their steps.
  \<^item> \<open>Sample\<close>, \<open>Witnesses\<close>, \<open>Recovery_Witnesses\<close>, \<open>Consensus_Witnesses\<close>, \<open>Delivery_Witnesses\<close>,
    \<open>Sync_Witnesses\<close>, \<open>Startup_Witnesses\<close>, \<open>Network_Witnesses\<close>, \<open>System_Sample\<close>: one concrete node and each theorem applied to it.

  \<^bold>\<open>What the theorems show.\<close> The invariant \<open>node_wf\<close> - a hash-linked chain of signed blocks with
  increasing times, finality behind the tip, a bounded buffer, an indexed mempool - is kept by
  every operation on the chain, hence by every step of the daemon, and committed blocks are never
  replaced. An applied block changes the accounts as the abstract ledger says, and the theorem
  names the one place where the code pays the treasury differently. A refused block changes
  nothing but the block directory, a failed proposal nothing but what compaction does to the mempool.
  Canonical bytes determine all they encode, and a signature covers everything but the fee. The proposer, started from a well-formed node, commits. Blocks that arrive
  out of order end in the state of blocks applied in order. Restart, snapshot, key file and
  finalizer state read back what was written; a write is atomic wherever the machine stops, and a block
  write that was cut short stops one start. Two conflicting finalized blocks need voters of
  more than a third that signed twice. The seen table, the flood of messages and the back-off of
  a peer are bounded, and an id protects against duplicates for its time to live. A configuration that is accepted keeps the debug and administration
  endpoints off public interfaces. A first start ends with a node that can commit; what any start
  loads satisfies the invariant, as long as there is no snapshot beside the blocks, a case in which
  the node does not start. A mesh with TLS authenticates both sides. The rate limiter grants no
  more than its burst at a moment, treats clients independently, and dropping its idle buckets
  changes no verdict. The payment command leaves its payment in the node's mempool; the block
  command never shows a block.

  \<^bold>\<open>Termination and bounds.\<close> No model of the code uses fuel: the drain of the buffer, the levels
  of the Merkle tree and the doubling back-off recurse on something that shrinks. (The reader of
  JSON strings in \<open>Runes\<close>, a proof device, takes the length of its input as fuel.) A routed message of
  \<open>Relay\<close> travels as long as hops remain, which is the measure of its recursion. Loops of the
  daemon that never end by design (tickers, accept and dial loops) are modelled by one turn,
  a step of \<open>daemon_step\<close>. The constants (5000 seen ids, 256 pending transactions, 64 in a block,
  a skew of two minutes, a buffer of two heights) are those of the source.

  \<^bold>\<open>Not modelled.\<close> Sockets, the handshakes of TLS, the encoding of certificates, the parsing of
  command line flags and the texts of usage messages: calls of the standard library without logic
  of the node; where the code depends on their result, the result is a parameter. The listening
  loop of \<open>router\<close> and the log lines. Waiting times of loops (the delays of the sync gate are), and
  the sending of messages: a send is the pair of message and address. Interleavings inside
  one step of \<open>daemon_step\<close>: where the code does not hold a lock throughout, another goroutine may come in
  between (the HTTP server that starts before the replay; two deliveries of one message that
  overlap between the look at the seen table and the mark in it).
\<close>

section \<open>Properties of the whole daemon\<close>

text \<open>
  C1 (invariant): a node that starts - from whatever files it finds, as long as there is no
  snapshot among them and the blocks it loads have increasing times - has a valid identity and a
  hash-linked chain of signed blocks; and whatever it does from then on - HTTP requests, messages of
  peers, rounds of the sync loop, its own proposals, announcements, dials and liveness checks, in
  any order and at any times - this and the finality, buffer and mempool invariants stay true,
  committed blocks are never replaced, and a finalized block never changes.
\<close>

theorem started_node_keeps_history:
  assumes "crypto_ok e" and "gen_key_ok e"
    and "StartMeshDaemon h e opt cfgFile bootFile fs = (fs', Inr (m, cfg))"
    and "no_snapshot_files fs" and "times_increase (mChain m)"
    and "(daemon_step w a e)\<^sup>*\<^sup>* m m'"
  shows "has_identity e (mChain m) \<and> node_wf e (mChain m) \<and> node_wf e (mChain m') \<and> extends (mChain m) (mChain m') \<and>
    (\<forall>h b. fmlookup (chBlocks (mChain m)) h = Some b \<and> bIsFinalized b \<longrightarrow>
       fmlookup (chBlocks (mChain m')) h = Some b)"
proof -
  have m: "node_wf e (mChain m)" "has_identity e (mChain m)"
    using started_sound [OF assms(1-4)] loaded_node_wf assms(5) by blast+
  then have "node_wf e (mChain m')" "extends (mChain m) (mChain m')"
    using run_grows [OF assms(6)] by (simp_all add: grows_def)
  with m finalized_kept show ?thesis by blast
qed

text \<open>
  C11 (safety): on a node whose accepted configuration binds the HTTP interface to anything but
  a loopback address, every request to the debug endpoints, to propose a block or to change the
  peers is refused, and nothing but the counter of refusals changes.
\<close>

theorem public_node_refuses_operators:
  assumes "LoadMeshConfig k content = Inr (apConfig a)"
    and "\<not> isLoopbackHTTPListen (cfHttpListen (apConfig a))" and "privileged rq"
  shows "\<exists>m' r. serve a e rq m = Answer m' r \<and> rsCode r \<in> {403, 405, 429} \<and>
    (m' = m \<or> (\<exists>reason. m' = reject_mutation reason m))"
proof -
  have "refusal m (serve a e rq m)"
    using public_surfaces [OF assms(1,2)] assms(3)
    by (intro privileged_served) (simp_all add: debug_enabled_def admin_enabled_def)
  then show ?thesis by (simp add: refusal_def)
qed

text \<open>
  C34 (error): adding a peer at runtime is never answered if the peer is new: the handler
  touches the peer while it holds the lock that touching takes. It stays blocked with the lock,
  the peer is not added, and the daemon is stuck with it: requests for its health, its status, its peers
  and its routes, every message of a peer, every dial, the liveness loop and the sync loop
  then wait for the lock for ever.
\<close>

theorem new_peer_request_hangs:
  assumes "admin_enabled a" and "cfAllowRuntimePeerMutation (apConfig a)" and "length (rqBody rq) \<le> maxJSONBodyBytes"
    and "rqBody rq \<noteq> []" and "decAddr (apCodec a) (rqBody rq) = Some addr"
    and "validateTCPAddress (trim_space addr) = Inr n" and "n \<noteq> mID m" and "n |\<notin>| fmdom (mPeers m)"
    and "rqPath rq = ''/peers''" and "rqMethod rq = ''POST''" and "\<not> cfHttpRateLimitEnabled (apConfig a)"
  shows "serve a e rq m = Hangs \<and>
    (\<exists>g. route_run a e rq (free m) = Blocked g \<and> gdDaemon g = m \<and>
       (\<forall>e' rq'. rqMethod rq' = ''GET'' \<and> rqPath rq' \<in> {''/healthz'', ''/readyz'', ''/chain/status'', ''/peers'', ''/routes''} \<longrightarrow>
          route_run a e' rq' g = Blocked g) \<and>
       (\<forall>w e' wm. wire_type wm \<longrightarrow> incoming w e' (Some wm) g = Blocked g) \<and>
       (\<forall>e' p ok. trim_space p \<noteq> [] \<longrightarrow> touch_reachable e' p ok g = Blocked g) \<and>
       (\<forall>t. writing (liveness_tick t) g = Blocked g \<and> reading (\<lambda>m. reachablePeersForSync m t) g = Blocked g))"
proof -
  let ?g = "\<lparr>gdLock = Writing, gdDaemon = m\<rparr>"
  have ne: "trim_space addr \<noteq> []" using assms(6) by (auto simp: validateTCPAddress_def SplitHostPort_def split_last_colon_def)
  have "add_peer e n (free m) = Blocked ?g"
    using add_peer_new [OF assms(8) validated_nonempty [OF assms(6)]] .
  then have run: "route_run a e rq (free m) = Blocked ?g"
    using assms ne by (simp add: route_run_def post_peers_run_def decodeJSONBody_def)
  then have "serve a e rq m = Hangs" using assms(11) by (simp add: serve_def route_alone)
  moreover have "route_run a e' rq' ?g = Blocked ?g"
    if "rqMethod rq' = ''GET''" "rqPath rq' \<in> {''/healthz'', ''/readyz'', ''/chain/status'', ''/peers'', ''/routes''}" for e' rq'
    using that route_blocks [of ?g rq' a e'] by auto
  moreover have "incoming w e' (Some wm) ?g = Blocked ?g" if "wire_type wm" for w e' wm
    using incoming_blocks [of ?g wm w e'] that by (simp add: wire_type_def)
  moreover have "touch_reachable e' p ok ?g = Blocked ?g" if "trim_space p \<noteq> []" for e' p ok
    using that by (simp add: touch_reachable_def)
  ultimately show ?thesis using run by (intro conjI exI [of _ ?g]) auto
qed


section \<open>Witnesses\<close>

theorem started_node_keeps_history_witness:
  "\<exists>fs m cfg m'. StartMeshDaemon sample_host sample_env ''d'' (Some ''{}'') (Inl True) fmempty = (fs, Inr (m, cfg)) \<and>
     m' = sync_round sample_wire (at_time sample_env 5) m \<and> node_wf sample_env (mChain m')"
proof -
  obtain fs m cfg where st: "StartMeshDaemon sample_host sample_env ''d'' (Some ''{}'') (Inl True) fmempty = (fs, Inr (m, cfg))"
    and core: "core_fields (mChain m) = core_fields newProductionChain"
    by (rule fresh_start [OF sample_io sample_crypto sample_gen_key sample_has_key sample_machine])
  have "no_snapshot_files fmempty" by (simp add: no_snapshot_files_def)
  moreover have "times_increase (mChain m)"
    using core by (simp add: times_increase_def core_fields_def newProductionChain_def)
  moreover have "(daemon_step sample_wire sample_api sample_env)\<^sup>*\<^sup>* m (sync_round sample_wire (at_time sample_env 5) m)"
    by (rule r_into_rtranclp) (rule daemon_stepI [OF step_sync])
  ultimately show ?thesis
    using started_node_keeps_history [OF sample_crypto sample_gen_key st] st by blast
qed

theorem public_node_refuses_operators_witness:
  "\<exists>m' r. serve sample_api sample_env (sample_request ''/peers'') mesh_node = Answer m' r \<and> rsCode r \<in> {403, 405, 429}"
proof -
  have "LoadMeshConfig sample_codec (Some ''{}'') = Inr (apConfig sample_api)"
    by (simp add: sample_api_def sample_config_loads)
  moreover have "\<not> isLoopbackHTTPListen (cfHttpListen (apConfig sample_api))"
    by (simp add: sample_api_def sample_config_def)
  moreover have "privileged (sample_request ''/peers'')" by (simp add: privileged_def sample_request_def)
  ultimately show ?thesis using public_node_refuses_operators by blast
qed

theorem new_peer_request_hangs_witness:
  "serve operator_api sample_env (sample_request ''/peers'') mesh_node = Hangs \<and>
   (\<exists>g. route_run operator_api sample_env (sample_request ''/peers'') (free mesh_node) = Blocked g \<and>
      route_run operator_api sample_env ((sample_request ''/healthz'')\<lparr>rqMethod := ''GET''\<rparr>) g = Blocked g \<and>
      incoming sample_wire sample_env (Some sample_msg) g = Blocked g)"
proof -
  have adm: "admin_enabled operator_api" by (simp add: admin_enabled_def resolveHTTPSurfaceEnabled_def operator_api_def)
  have "wire_type sample_msg" by (simp add: wire_type_def sample_msg_def)
  moreover have "rqMethod ((sample_request ''/healthz'')\<lparr>rqMethod := ''GET''\<rparr>) = ''GET''"
    "rqPath ((sample_request ''/healthz'')\<lparr>rqMethod := ''GET''\<rparr>) = ''/healthz''" by (simp_all add: sample_request_def)
  ultimately show ?thesis
    using new_peer_request_hangs [OF adm, where rq = "sample_request ''/peers''" and addr = "''c:3''" and n = "''c:3''"
        and m = mesh_node and e = sample_env]
    by (force simp: operator_api_def sample_api_def sample_config_def sample_request_def maxJSONBodyBytes_def mesh_node_def)
qed


end
